(* ===== verification/Rainbow_Prelude.thy ===== *)
theory Rainbow_Prelude
  imports Main "HOL-Library.Word" "HOL-Library.AList" "HOL-Library.Sublist"
begin

text \<open>
  What every component of the model shares: the Go error values and the result type
  of fallible functions, Go's machine integers as words, the early-return loop, Go
  maps as an interface with its implementation, and the functions of the packages
  \<open>strings\<close>, \<open>slices\<close> and \<open>path/filepath\<close> that the program calls.
\<close>

named_theorems go_simps "computation rules of the Go library functions"
named_theorems result_simps "rewriting of fallible computations"

section \<open>Machine integers\<close>

type_synonym i64 = "64 word"  \<comment> \<open>\<open>int\<close>, \<open>int64\<close> and \<open>time.Duration\<close>: read with \<open>sint\<close>\<close>
type_synonym u64 = "64 word"  \<comment> \<open>\<open>uint64\<close>: read with \<open>uint\<close>\<close>

type_synonym peer_id = string \<comment> \<open>\<open>peer.ID\<close>: the bytes of a peer identifier\<close>

text \<open>Comparisons of signed 64-bit values, by their two's complement value.\<close>

definition slt :: "i64 \<Rightarrow> i64 \<Rightarrow> bool" where
  "slt a b \<longleftrightarrow> sint a < sint b"

definition sle :: "i64 \<Rightarrow> i64 \<Rightarrow> bool" where
  "sle a b \<longleftrightarrow> sint a \<le> sint b"

lemma sint_bounds_i64: "- (2 ^ 63) \<le> sint (a :: i64)" "sint (a :: i64) < 2 ^ 63"
  using sint_ge [of a] sint_lt [of a] by simp_all

lemma sint_i64_of_int: "- (2 ^ 63) \<le> n \<Longrightarrow> n < 2 ^ 63 \<Longrightarrow> sint (word_of_int n :: i64) = n"
  by (simp add: signed_of_int signed_take_bit_int_eq_self)

lemma sint_minus_i64:
  assumes "- (2 ^ 63) \<le> sint a - sint b" and "sint a - sint b < 2 ^ 63"
  shows "sint (a - b :: i64) = sint a - sint b"
proof -
  have "a - b = word_of_int (sint a - sint b)" by simp
  then show ?thesis using assms by (simp only: sint_i64_of_int)
qed

lemma sint_plus_i64:
  assumes "- (2 ^ 63) \<le> sint a + sint b" and "sint a + sint b < 2 ^ 63"
  shows "sint (a + b :: i64) = sint a + sint b"
proof -
  have "a + b = word_of_int (sint a + sint b)" by simp
  then show ?thesis using assms by (simp only: sint_i64_of_int)
qed

text \<open>
  Division of signed integers truncates towards zero. A zero divisor panics in Go, so a
  caller has to exclude it before it uses this function.
\<close>

definition go_div :: "i64 \<Rightarrow> i64 \<Rightarrow> i64" where
  "go_div a b = word_of_int (sgn (sint a) * sgn (sint b) * (\<bar>sint a\<bar> div \<bar>sint b\<bar>))"

lemma sint_go_div_nonneg:
  assumes "0 \<le> sint a" and "0 < sint b"
  shows "sint (go_div a b) = sint a div sint b"
proof -
  have le: "sint a div sint b \<le> sint a"
    using zdiv_mono2 [of "sint a" 1 "sint b"] assms by simp
  have "0 \<le> sint a div sint b" using assms by (simp add: pos_imp_zdiv_nonneg_iff)
  moreover have "sgn (sint a) * sgn (sint b) * (\<bar>sint a\<bar> div \<bar>sint b\<bar>) = sint a div sint b"
    using assms by (auto simp: sgn_if)
  ultimately show ?thesis
    using le sint_bounds_i64(2) [of a] unfolding go_div_def by (simp add: sint_i64_of_int)
qed

text \<open>A computation that returns, or panics.\<close>

datatype 'a outcome = Ret 'a | Panic

section \<open>Errors and results\<close>

text \<open>
  \<open>Err\<close> is an error made by \<open>errors.New\<close> or \<open>fmt.Errorf\<close>, or one a library call
  returned; \<open>Wrap p e\<close> is \<open>fmt.Errorf("p%w", e)\<close>. The sentinels the program tests
  for have constructors of their own.
\<close>

datatype error =
    Err string
  | Wrap string error
  | OsNotExist string
  | OsExist string
  | HttpServerClosed
  | CtxErr string
  | NumError string string  \<comment> \<open>\<open>strconv.NumError\<close>: the input and the reason\<close>

type_synonym 'a result = "error + 'a"

text \<open>\<open>errors.Is(err, target)\<close> looks through the wrapped errors.\<close>

fun errors_is_not_exist :: "error \<Rightarrow> bool" where
  "errors_is_not_exist (OsNotExist s) = True"
| "errors_is_not_exist (Wrap p e) = errors_is_not_exist e"
| "errors_is_not_exist _ = False"

fun errors_is_exist :: "error \<Rightarrow> bool" where
  "errors_is_exist (OsExist s) = True"
| "errors_is_exist (Wrap p e) = errors_is_exist e"
| "errors_is_exist _ = False"

fun errors_is_server_closed :: "error \<Rightarrow> bool" where
  "errors_is_server_closed HttpServerClosed = True"
| "errors_is_server_closed (Wrap p e) = errors_is_server_closed e"
| "errors_is_server_closed _ = False"

text \<open>\<open>os.IsNotExist\<close> does not look through wrapped errors.\<close>

fun os_IsNotExist :: "error \<Rightarrow> bool" where
  "os_IsNotExist (OsNotExist s) = True"
| "os_IsNotExist _ = False"

text \<open>The Go loop \<open>for x in xs { y, err := f(x); if err != nil { return err }; append }\<close>.\<close>

fun res_map :: "('a \<Rightarrow> 'b result) \<Rightarrow> 'a list \<Rightarrow> 'b list result" where
  "res_map f [] = Inr []"
| "res_map f (x # xs) =
     (case f x of
        Inl e \<Rightarrow> Inl e
      | Inr y \<Rightarrow> (case res_map f xs of Inl e \<Rightarrow> Inl e | Inr ys \<Rightarrow> Inr (y # ys)))"

lemma res_map_Inr_iff [result_simps]:
  "res_map f xs = Inr ys \<longleftrightarrow> map f xs = map Inr ys"
proof (induction xs arbitrary: ys)
  case Nil
  then show ?case by auto
next
  case (Cons x xs)
  show ?case
  proof (cases "res_map f xs")
    case (Inl e)
    then have "map f xs \<noteq> map Inr zs" for zs using Cons.IH [of zs] by simp
    with Inl show ?thesis by (cases ys) (auto split: sum.splits)
  next
    case (Inr zs)
    then have "map f xs = map Inr zs" using Cons.IH [of zs] by simp
    with Inr show ?thesis
      by (cases ys) (auto split: sum.splits dest: inj_map_eq_map [OF inj_Inr, THEN iffD1])
  qed
qed

lemma res_map_length: "res_map f xs = Inr ys \<Longrightarrow> length ys = length xs"
  by (metis length_map res_map_Inr_iff)

lemma res_map_Inl_iff [result_simps]:
  "res_map f xs = Inl e \<longleftrightarrow>
     (\<exists>i < length xs. f (xs ! i) = Inl e \<and> (\<forall>j < i. \<exists>y. f (xs ! j) = Inr y))"
proof (induction xs)
  case Nil
  then show ?case by simp
next
  case (Cons x xs)
  show ?case
  proof (cases "f x")
    case (Inl e')
    have "(\<exists>i < length (x # xs). f ((x # xs) ! i) = Inl e \<and> (\<forall>j < i. \<exists>y. f ((x # xs) ! j) = Inr y))
      \<longleftrightarrow> e' = e" (is "?L \<longleftrightarrow> _")
    proof
      assume ?L
      then obtain i where i: "f ((x # xs) ! i) = Inl e" "\<forall>j < i. \<exists>y. f ((x # xs) ! j) = Inr y"
        by blast
      then have "i = 0" using Inl by (metis Inl_Inr_False gr0I nth_Cons_0)
      with i(1) Inl show "e' = e" by simp
    next
      assume "e' = e"
      then show ?L using Inl by (intro exI [of _ 0]) simp
    qed
    with Inl show ?thesis by simp
  next
    case (Inr y)
    have "(\<exists>i < length (x # xs). f ((x # xs) ! i) = Inl e \<and> (\<forall>j < i. \<exists>y. f ((x # xs) ! j) = Inr y))
      \<longleftrightarrow> (\<exists>i < length xs. f (xs ! i) = Inl e \<and> (\<forall>j < i. \<exists>y. f (xs ! j) = Inr y))"
      using Inr by (simp add: Ex_less_Suc2 All_less_Suc2)
    with Inr Cons.IH show ?thesis by (auto split: sum.splits)
  qed
qed

lemma res_map_cong [fundef_cong]:
  "xs = ys \<Longrightarrow> (\<And>x. x \<in> set ys \<Longrightarrow> f x = g x) \<Longrightarrow> res_map f xs = res_map g ys"
  by (induction xs arbitrary: ys) (auto split: sum.splits)

section \<open>Go maps\<close>

text \<open>
  The interface the program uses of a Go map: the empty map, the store \<open>m[k] = v\<close>, the
  two-valued read \<open>v, ok := m[k]\<close> and the keys a \<open>range\<close> visits.
\<close>

locale go_map =
  fixes mk :: "'m"
    and store :: "'k \<Rightarrow> 'v \<Rightarrow> 'm \<Rightarrow> 'm"
    and lookup :: "'m \<Rightarrow> 'k \<Rightarrow> 'v option"
    and keys :: "'m \<Rightarrow> 'k set"
  assumes lookup_mk: "lookup mk k = None"
    and lookup_store: "lookup (store k v m) k' = (if k' = k then Some v else lookup m k')"
    and keys_lookup: "k \<in> keys m \<longleftrightarrow> lookup m k \<noteq> None"
begin

text \<open>A loop that stores one entry per element: the last element for a key wins.\<close>

lemma lookup_fold_store:
  "lookup (fold (\<lambda>x. store (f x) (g x)) xs m) k =
     (case find (\<lambda>x. f x = k) (rev xs) of Some x \<Rightarrow> Some (g x) | None \<Rightarrow> lookup m k)"
  by (induction xs rule: rev_induct) (auto simp: lookup_store)

lemma lookup_fold_store_notin:
  "k \<notin> f ` set xs \<Longrightarrow> lookup (fold (\<lambda>x. store (f x) (g x)) xs m) k = lookup m k"
  by (auto simp: lookup_fold_store find_None_iff split: option.split)
     (metis (mono_tags, lifting) find_Some_iff image_eqI nth_mem set_rev)

lemma lookup_fold_store_in:
  assumes "k \<in> f ` set xs"
  shows "\<exists>x \<in> set xs. f x = k \<and> lookup (fold (\<lambda>x. store (f x) (g x)) xs m) k = Some (g x)"
proof -
  from assms have "find (\<lambda>x. f x = k) (rev xs) \<noteq> None" by (auto simp: find_None_iff)
  then obtain x where x: "find (\<lambda>x. f x = k) (rev xs) = Some x" by blast
  then have "f x = k" "x \<in> set xs"
    by (auto simp: find_Some_iff) (metis nth_mem set_rev length_rev)
  with x show ?thesis by (auto simp: lookup_fold_store)
qed

lemma keys_fold_store:
  "keys (fold (\<lambda>x. store (f x) (g x)) xs m) = f ` set xs \<union> keys m"
proof (intro set_eqI)
  fix k
  show "k \<in> keys (fold (\<lambda>x. store (f x) (g x)) xs m) \<longleftrightarrow> k \<in> f ` set xs \<union> keys m"
  proof (cases "k \<in> f ` set xs")
    case True
    then show ?thesis using lookup_fold_store_in [OF True, of g m] by (auto simp: keys_lookup)
  next
    case False
    then show ?thesis by (simp add: keys_lookup lookup_fold_store_notin)
  qed
qed

end

text \<open>
  The implementation the model uses: an association list with distinct keys. The order
  of its entries stands for the order in which a \<open>range\<close> loop would visit them.
\<close>

type_synonym ('k, 'v) gomap = "('k \<times> 'v) list"

definition gomap_empty :: "('k, 'v) gomap" where
  "gomap_empty = []"

definition gomap_set :: "'k \<Rightarrow> 'v \<Rightarrow> ('k, 'v) gomap \<Rightarrow> ('k, 'v) gomap" where
  "gomap_set k v m = AList.update k v m"

definition gomap_get :: "('k, 'v) gomap \<Rightarrow> 'k \<Rightarrow> 'v option" where
  "gomap_get m k = map_of m k"

definition gomap_keys :: "('k, 'v) gomap \<Rightarrow> 'k set" where
  "gomap_keys m = fst ` set m"

interpretation gm: go_map gomap_empty gomap_set gomap_get gomap_keys
proof unfold_locales
  show "gomap_get gomap_empty k = None" for k :: 'a
    by (simp add: gomap_get_def gomap_empty_def)
  show "gomap_get (gomap_set k v m) k' = (if k' = k then Some v else gomap_get m k')"
    for k k' :: 'a and v :: 'b and m
    by (simp add: gomap_get_def gomap_set_def update_conv')
  show "k \<in> gomap_keys m \<longleftrightarrow> gomap_get m k \<noteq> None" for k :: 'a and m :: "('a, 'b) gomap"
    by (simp add: gomap_get_def gomap_keys_def map_of_eq_None_iff)
qed

lemma gomap_distinct [simp]:
  "distinct (map fst m) \<Longrightarrow> distinct (map fst (gomap_set k v m))"
  by (simp add: gomap_set_def distinct_update)

section \<open>The library's string and slice functions\<close>

text \<open>Go strings are byte strings: a \<open>string\<close> of HOL with one \<open>char\<close> per byte.\<close>

definition has_prefix :: "string \<Rightarrow> string \<Rightarrow> bool" where
  "has_prefix s p \<longleftrightarrow> take (length p) s = p"

definition has_suffix :: "string \<Rightarrow> string \<Rightarrow> bool" where
  "has_suffix s p \<longleftrightarrow> length p \<le> length s \<and> drop (length s - length p) s = p"

lemma has_prefix_iff [go_simps]: "has_prefix s p \<longleftrightarrow> (\<exists>t. s = p @ t)"
  by (metis append_eq_conv_conj append_take_drop_id has_prefix_def)

lemma has_suffix_iff [go_simps]: "has_suffix s p \<longleftrightarrow> (\<exists>t. s = t @ p)"
proof
  assume "has_suffix s p"
  then show "\<exists>t. s = t @ p"
    by (metis append_take_drop_id has_suffix_def)
qed (auto simp: has_suffix_def)

text \<open>\<open>strings.Split(s, sep)\<close> for a separator of one byte: never empty.\<close>

fun split_on :: "char \<Rightarrow> string \<Rightarrow> string list" where
  "split_on c [] = [[]]"
| "split_on c (x # xs) =
     (if x = c then [] # split_on c xs
      else (case split_on c xs of [] \<Rightarrow> [[x]] | y # ys \<Rightarrow> (x # y) # ys))"

lemma split_on_nonempty [simp]: "split_on c s \<noteq> []"
  by (induction s) (auto split: list.splits)

text \<open>\<open>strings.SplitN(s, sep, 2)\<close>: one part without a separator, two parts with one.\<close>

definition split_n2 :: "char \<Rightarrow> string \<Rightarrow> string list" where
  "split_n2 c s =
     (if c \<in> set s then [takeWhile (\<lambda>x. x \<noteq> c) s, tl (dropWhile (\<lambda>x. x \<noteq> c) s)] else [s])"

text \<open>\<open>strings.Join(xs, sep)\<close>.\<close>

fun join_with :: "string \<Rightarrow> string list \<Rightarrow> string" where
  "join_with sep [] = []"
| "join_with sep [x] = x"
| "join_with sep (x # y # ys) = x @ sep @ join_with sep (y # ys)"

lemma join_split: "join_with [c] (split_on c s) = s"
proof (induction s)
  case Nil
  then show ?case by simp
next
  case (Cons x xs)
  then show ?case
    by (cases "split_on c xs"; cases "tl (split_on c xs)") (auto split: list.splits)
qed

lemma split_on_no_sep: "x \<in> set (split_on c s) \<Longrightarrow> c \<notin> set x"
  by (induction s arbitrary: x) (auto split: if_splits list.splits)

text \<open>
  \<open>strings.TrimSpace\<close>: the UTF-8 encodings of the runes with \<open>unicode.IsSpace\<close>, removed
  from both ends.
\<close>

definition space_seqs :: "string list" where
  "space_seqs =
     map (map char_of)
       ([[9], [10], [11], [12], [13], [32], [0xC2, 0x85], [0xC2, 0xA0], [0xE1, 0x9A, 0x80]]
        @ map (\<lambda>b. [0xE2, 0x80, b]) [0x80, 0x81, 0x82, 0x83, 0x84, 0x85, 0x86, 0x87, 0x88, 0x89, 0x8A,
                                     0xA8, 0xA9, 0xAF]
        @ [[0xE2, 0x81, 0x9F], [0xE3, 0x80, 0x80 :: nat]])"

function trim_prefixes :: "string list \<Rightarrow> string \<Rightarrow> string" where
  "trim_prefixes ws s =
     (case find (\<lambda>w. w \<noteq> [] \<and> take (length w) s = w) ws of
        None \<Rightarrow> s
      | Some w \<Rightarrow> trim_prefixes ws (drop (length w) s))"
  by pat_completeness auto
termination
  by (relation "measure (\<lambda>(ws, s). length s)")
     (auto simp: find_Some_iff, metis append_take_drop_id length_greater_0_conv self_append_conv2
        drop_eq_Nil diff_less length_drop take_eq_Nil)

declare trim_prefixes.simps [simp del]

definition trim_space :: "string \<Rightarrow> string" where
  "trim_space s =
     rev (trim_prefixes (map rev space_seqs) (rev (trim_prefixes space_seqs s)))"

text \<open>\<open>slices.DeleteFunc(xs, del)\<close> keeps the elements for which \<open>del\<close> is false, in order.\<close>

definition delete_func :: "('a \<Rightarrow> bool) \<Rightarrow> 'a list \<Rightarrow> 'a list" where
  "delete_func del xs = filter (\<lambda>x. \<not> del x) xs"

end
