(* ===== verification/Go_Text.thy ===== *)
theory Go_Text
  imports Rainbow_Prelude
begin

text \<open>
  Decimal numbers, quoting and file paths as the Go standard library handles them: \<open>%d\<close>,
  \<open>%q\<close>, \<open>strconv.Atoi\<close>, \<open>filepath.Clean\<close>, \<open>Join\<close>, \<open>Base\<close> and \<open>Abs\<close> (on Unix),
  \<open>strings.Replace\<close> with a limit of one, and the files of the process.
\<close>

section \<open>Decimal numbers\<close>

definition digit_char :: "nat \<Rightarrow> char" where
  "digit_char d = char_of (48 + d)"

definition is_digit :: "char \<Rightarrow> bool" where
  "is_digit c \<longleftrightarrow> 48 \<le> (of_char c :: nat) \<and> (of_char c :: nat) \<le> 57"

definition digit_val :: "char \<Rightarrow> nat" where
  "digit_val c = of_char c - 48"

fun dec_nat :: "nat \<Rightarrow> string" where
  "dec_nat n = (if n < 10 then [digit_char n] else dec_nat (n div 10) @ [digit_char (n mod 10)])"

declare dec_nat.simps [simp del]

definition dec_int :: "int \<Rightarrow> string" where
  "dec_int n = (if n < 0 then ''-'' @ dec_nat (nat (- n)) else dec_nat (nat n))"

definition parse_digits :: "string \<Rightarrow> nat" where
  "parse_digits s = foldl (\<lambda>n c. 10 * n + digit_val c) 0 s"

lemma digit_char_digit: "d < 10 \<Longrightarrow> is_digit (digit_char d) \<and> digit_val (digit_char d) = d"
  by (simp add: is_digit_def digit_char_def digit_val_def)

lemma dec_nat_digits: "c \<in> set (dec_nat n) \<Longrightarrow> is_digit c"
proof (induction n rule: dec_nat.induct)
  case (1 n)
  then show ?case
    by (subst (asm) dec_nat.simps) (auto split: if_splits simp: digit_char_digit)
qed

lemma dec_nat_nonempty [simp]: "dec_nat n \<noteq> []"
  by (subst dec_nat.simps) simp

lemma parse_dec_nat [go_simps]: "parse_digits (dec_nat n) = n"
proof (induction n rule: dec_nat.induct)
  case (1 n)
  then show ?case
    by (subst dec_nat.simps) (auto simp: parse_digits_def digit_char_digit)
qed

lemma dec_nat_inject: "dec_nat m = dec_nat n \<longleftrightarrow> m = n"
  by (metis parse_dec_nat)

lemma minus_not_digit: "\<not> is_digit (CHR ''-'')"
  by (simp add: is_digit_def)

lemma dec_int_inject: "dec_int m = dec_int n \<longleftrightarrow> m = n"
proof -
  have ne: "''-'' @ dec_nat a \<noteq> dec_nat b" for a b
    using dec_nat_digits [of "CHR ''-''" b] minus_not_digit by (auto dest: sym)
  then show ?thesis
    by (auto simp: dec_int_def dec_nat_inject dest: sym)
qed

text \<open>
  \<open>strconv.Atoi\<close>: an optional sign and digits; not a number, or out of the range of
  \<open>int\<close>, is an error.
\<close>

definition strconv_Atoi :: "string \<Rightarrow> i64 result" where
  "strconv_Atoi s =
     (let neg = (take 1 s = ''-'');
          ds = (if take 1 s = ''-'' \<or> take 1 s = ''+'' then tl s else s);
          n = (if neg then - int (parse_digits ds) else int (parse_digits ds))
      in if ds = [] \<or> (\<exists>c \<in> set ds. \<not> is_digit c) then Inl (NumError s ''invalid syntax'')
         else if - (2 ^ 63) \<le> n \<and> n < 2 ^ 63 then Inr (word_of_int n)
         else Inl (NumError s ''value out of range''))"

lemma take1_dec_nat: "take 1 (dec_nat n) \<noteq> ''-''" "take 1 (dec_nat n) \<noteq> ''+''"
proof -
  have "is_digit (hd (dec_nat n))" by (intro dec_nat_digits [of _ n] hd_in_set) simp
  then show "take 1 (dec_nat n) \<noteq> ''-''" "take 1 (dec_nat n) \<noteq> ''+''"
    by (cases "dec_nat n"; simp add: is_digit_def; auto)+
qed

lemma Atoi_dec_int:
  assumes "- (2 ^ 63) \<le> n" and "n < 2 ^ 63"
  shows "strconv_Atoi (dec_int n) = Inr (word_of_int n)"
proof (cases "n < 0")
  case True
  then show ?thesis
    using assms dec_nat_digits
    by (auto simp: strconv_Atoi_def dec_int_def Let_def parse_dec_nat)
next
  case False
  then show ?thesis
    using assms dec_nat_digits [of _ "nat n"] take1_dec_nat [of "nat n"]
    by (auto simp: strconv_Atoi_def dec_int_def Let_def parse_dec_nat)
qed

section \<open>Quoted strings\<close>

text \<open>\<open>%q\<close>, that is \<open>strconv.Quote\<close>, on a string of printable characters and control
  characters; a byte from 128 on is taken to be part of a printable character and stays.\<close>

definition hex_digit :: "nat \<Rightarrow> char" where
  "hex_digit d = char_of (if d < 10 then 48 + d else 87 + d)"

definition quote_char :: "char \<Rightarrow> string" where
  "quote_char c =
     (let n = of_char c :: nat in
      if n = 34 \<or> n = 92 then [CHR 0x5C, c]
      else if n = 7 then [CHR 0x5C, CHR ''a''] else if n = 8 then [CHR 0x5C, CHR ''b'']
      else if n = 12 then [CHR 0x5C, CHR ''f''] else if n = 10 then [CHR 0x5C, CHR ''n'']
      else if n = 13 then [CHR 0x5C, CHR ''r''] else if n = 9 then [CHR 0x5C, CHR ''t'']
      else if n = 11 then [CHR 0x5C, CHR ''v'']
      else if n < 32 \<or> n = 127 then [CHR 0x5C, CHR ''x'', hex_digit (n div 16), hex_digit (n mod 16)]
      else [c])"

definition go_quote :: "string \<Rightarrow> string" where
  "go_quote s = [CHR 0x22] @ concat (map quote_char s) @ [CHR 0x22]"

section \<open>Replacing the first occurrence\<close>

text \<open>\<open>strings.Replace(s, old, new, 1)\<close> for a non-empty \<open>old\<close>.\<close>

fun replace_first :: "string \<Rightarrow> string \<Rightarrow> string \<Rightarrow> string" where
  "replace_first old new [] = []"
| "replace_first old new (c # s) =
     (if has_prefix (c # s) old then new @ drop (length old) (c # s)
      else c # replace_first old new s)"

lemma replace_first_at:
  assumes "old \<noteq> []" and "\<And>k. k < length pre \<Longrightarrow> \<not> has_prefix (drop k (pre @ old @ post)) old"
  shows "replace_first old new (pre @ old @ post) = pre @ new @ post"
  using assms(2)
proof (induction pre)
  case Nil
  then show ?case using assms(1) by (cases old) (auto simp: has_prefix_def)
next
  case (Cons c pre)
  have "\<not> has_prefix (c # pre @ old @ post) old" using Cons.prems [of 0] by simp
  moreover have "replace_first old new (pre @ old @ post) = pre @ new @ post"
    using Cons.prems [of "Suc _"] by (intro Cons.IH) simp
  ultimately show ?case by simp
qed

section \<open>Paths\<close>

text \<open>\<open>filepath.Clean\<close>: the components are kept on a stack, last first.\<close>

fun clean_step :: "bool \<Rightarrow> string \<Rightarrow> string list \<Rightarrow> string list" where
  "clean_step rooted x st =
     (if x = [] \<or> x = ''.'' then st
      else if x = ''..'' then
        (case st of
           t # ts \<Rightarrow> if t \<noteq> ''..'' then ts else x # st
         | [] \<Rightarrow> if rooted then [] else [x])
      else x # st)"

definition filepath_Clean :: "string \<Rightarrow> string" where
  "filepath_Clean p =
     (let rooted = (take 1 p = ''/'');
          st = fold (clean_step rooted) (split_on (CHR ''/'') p) [];
          out = (if rooted then ''/'' else []) @ join_with ''/'' (rev st)
      in if out = [] then ''.'' else out)"

text \<open>\<open>filepath.Join\<close> ignores empty elements and cleans the result.\<close>

definition filepath_Join :: "string list \<Rightarrow> string" where
  "filepath_Join xs =
     (let ys = filter (\<lambda>x. x \<noteq> []) xs in if ys = [] then [] else filepath_Clean (join_with ''/'' ys))"

definition filepath_Base :: "string \<Rightarrow> string" where
  "filepath_Base p =
     (if p = [] then ''.''
      else let q = rev (dropWhile (\<lambda>c. c = CHR ''/'') (rev p))
           in if q = [] then ''/'' else last (split_on (CHR ''/'') q))"

text \<open>\<open>filepath.Abs\<close>: a relative path is joined to the working directory, which may be unknown.\<close>

definition filepath_Abs :: "string result \<Rightarrow> string \<Rightarrow> string result" where
  "filepath_Abs getwd p =
     (if take 1 p = ''/'' then Inr (filepath_Clean p)
      else case getwd of Inl e \<Rightarrow> Inl e | Inr wd \<Rightarrow> Inr (filepath_Join [wd, p]))"

text \<open>A name that is a single plain component stays the last component of a joined path.\<close>

definition plain_name :: "string \<Rightarrow> bool" where
  "plain_name n \<longleftrightarrow> n \<noteq> [] \<and> n \<noteq> ''.'' \<and> n \<noteq> ''..'' \<and> CHR ''/'' \<notin> set n"

lemma split_on_noin: "c \<notin> set s \<Longrightarrow> split_on c s = [s]"
  by (induction s) auto

lemma split_on_append_sep: "split_on c (s @ c # t) = split_on c s @ split_on c t"
  by (induction s) (auto split: list.splits)

lemma join_with_snoc:
  "xs \<noteq> [] \<Longrightarrow> join_with sep (xs @ [y]) = join_with sep xs @ sep @ y"
  by (induction sep xs rule: join_with.induct) auto

lemma clean_join_plain:
  assumes "plain_name n"
  shows "\<exists>pre. filepath_Join [d, n] = pre @ n \<and> (pre = [] \<or> last pre = CHR ''/'')"
proof (cases "d = []")
  case True
  have "split_on (CHR ''/'') n = [n]" using assms by (simp add: plain_name_def split_on_noin)
  moreover have "take 1 n \<noteq> ''/''" using assms by (cases n) (auto simp: plain_name_def)
  ultimately show ?thesis
    using True assms by (simp add: filepath_Join_def filepath_Clean_def Let_def plain_name_def)
next
  case False
  let ?r = "take 1 d = ''/''"
  define st where "st = fold (clean_step ?r) (split_on (CHR ''/'') d) []"
  have s: "split_on (CHR ''/'') (d @ CHR ''/'' # n) = split_on (CHR ''/'') d @ [n]"
    using assms by (simp add: split_on_append_sep plain_name_def split_on_noin)
  have t: "take 1 (d @ CHR ''/'' # n) = take 1 d" using False by (cases d) auto
  have f: "fold (clean_step ?r) (split_on (CHR ''/'') d @ [n]) [] = n # st"
    using assms by (simp add: plain_name_def st_def)
  have ne: "join_with ''/'' (rev (n # st)) \<noteq> []"
    using assms join_with_snoc [of "rev st" "''/''" n] by (cases st) (auto simp: plain_name_def)
  have "filepath_Join [d, n] = filepath_Clean (d @ CHR ''/'' # n)"
    using False assms by (simp add: filepath_Join_def plain_name_def)
  also have "\<dots> = (if ?r then ''/'' else []) @ join_with ''/'' (rev (n # st))"
    using ne unfolding filepath_Clean_def Let_def s t f by simp
  finally have j: "filepath_Join [d, n] = (if ?r then ''/'' else []) @ join_with ''/'' (rev (n # st))" .
  show ?thesis
  proof (cases st)
    case Nil
    then show ?thesis using j by auto
  next
    case (Cons y ys)
    then have "join_with ''/'' (rev (n # st)) = (join_with ''/'' (rev st) @ ''/'') @ n"
      using join_with_snoc [of "rev st" "''/''" n] by simp
    then show ?thesis using j by (intro exI [of _ "_ @ _ @ ''/''"]) auto
  qed
qed

lemma last_component_unique:
  assumes "pre @ n = pre' @ m" and "CHR ''/'' \<notin> set n" and "CHR ''/'' \<notin> set m"
    and "pre = [] \<or> last pre = CHR ''/''" and "pre' = [] \<or> last pre' = CHR ''/''"
  shows "n = m"
proof -
  have shorter: "n = m" if h: "pre @ n = pre' @ m" "CHR ''/'' \<notin> set m" "length pre' \<le> length pre"
    "pre = [] \<or> last pre = CHR ''/''" for n m pre pre' :: string
  proof -
    obtain us where us: "pre = pre' @ us" "us @ n = m"
      using h(1,3) by (auto simp: append_eq_append_conv2)
    then show ?thesis using h(2,4) by (cases us rule: rev_cases) auto
  qed
  show ?thesis
    using shorter [of pre n pre' m] shorter [of pre' m pre n] assms
    by (metis nat_le_linear)
qed

lemma join_plain_inject:
  assumes "plain_name n" and "plain_name m" and "filepath_Join [d, n] = filepath_Join [d', m]"
  shows "n = m"
proof -
  obtain pre where "filepath_Join [d, n] = pre @ n" "pre = [] \<or> last pre = CHR ''/''"
    using clean_join_plain [OF assms(1)] by blast
  moreover obtain pre' where "filepath_Join [d', m] = pre' @ m" "pre' = [] \<or> last pre' = CHR ''/''"
    using clean_join_plain [OF assms(2)] by blast
  ultimately show ?thesis
    using assms last_component_unique [of pre n pre' m] by (simp add: plain_name_def)
qed

section \<open>Files\<close>

text \<open>What reading a path returns, and the permissions of the files written.\<close>

record fs_state =
  fs_read :: "string \<Rightarrow> string result"
  fs_perm :: "string \<Rightarrow> nat option"

text \<open>\<open>os.WriteFile\<close>: the parameter says which writes fail.\<close>

definition os_WriteFile ::
  "(string \<Rightarrow> error option) \<Rightarrow> string \<Rightarrow> string \<Rightarrow> nat \<Rightarrow> fs_state \<Rightarrow> fs_state \<times> error option" where
  "os_WriteFile write_error path data perm fs =
     (case write_error path of
        Some e \<Rightarrow> (fs, Some e)
      | None \<Rightarrow>
          (fs\<lparr>fs_read := (fs_read fs)(path := Inr data),
              fs_perm := (fs_perm fs)(path \<mapsto> perm)\<rparr>, None))"

end
