(* ===== verification/Keys.thy ===== *)
theory Keys
  imports Go_Text
begin

text \<open>
  Peer identities (\<open>keys.go\<close>; \<open>loadOrInitPeerKey\<close> of \<open>setup.go\<close>; \<open>replaceRainbowSeedWithPeer\<close>
  of \<open>main.go\<close>): deriving a key from a base58 seed and an index, the peer IDs of the other
  instances of the same seed, the key file, and the \<open>/p2p/rainbow-seed/N\<close> placeholder in a
  peering address. The cryptography is the record \<open>crypto_lib\<close>: base58, the HKDF-SHA256
  reader, Ed25519 keys and peer IDs. Keys and byte strings are strings of bytes.
\<close>

type_synonym bytes = string
type_synonym priv_key = string

record crypto_lib =
  base58_Encode :: "bytes \<Rightarrow> string"
  base58_Decode :: "string \<Rightarrow> bytes result"
  hkdf_sha256_read :: "bytes \<Rightarrow> bytes \<Rightarrow> nat \<Rightarrow> bytes result"
  ed25519_from_seed :: "bytes \<Rightarrow> priv_key result"
  IDFromPublicKey_of :: "priv_key \<Rightarrow> peer_id result"  \<comment> \<open>\<open>IDFromPublicKey(priv.GetPublic())\<close>\<close>
  IDFromPrivateKey :: "priv_key \<Rightarrow> peer_id result"
  ID_String :: "peer_id \<Rightarrow> string"
  GenerateEd25519Key :: "priv_key result"
  MarshalPrivateKey :: "priv_key \<Rightarrow> bytes result"
  UnmarshalPrivateKey :: "bytes \<Rightarrow> priv_key result"

section \<open>Seeds and derived keys\<close>

definition seedBytes :: nat where
  "seedBytes = 32"

text \<open>\<open>rand_read n\<close> is \<open>io.ReadFull(crand.Reader, bs)\<close> for a buffer of \<open>n\<close> bytes.\<close>

definition newSeed :: "crypto_lib \<Rightarrow> (nat \<Rightarrow> bytes result) \<Rightarrow> string result" where
  "newSeed lib rand_read =
     (case rand_read seedBytes of
        Inl err \<Rightarrow> Inl err
      | Inr bs \<Rightarrow> Inr (base58_Encode lib bs))"

definition deriveKeyInfo :: "i64 \<Rightarrow> bytes" where
  "deriveKeyInfo index = ''rainbow-'' @ dec_int (sint index)"

definition deriveKey :: "crypto_lib \<Rightarrow> string \<Rightarrow> bytes \<Rightarrow> priv_key result" where
  "deriveKey lib b58secret info =
     (case base58_Decode lib b58secret of
        Inl err \<Rightarrow> Inl err
      | Inr secret \<Rightarrow>
          if length secret < seedBytes then Inl (Err ''derivation seed is too short'')
          else (case hkdf_sha256_read lib secret info 32 of
                  Inl err \<Rightarrow> Inl err
                | Inr keySeed \<Rightarrow> ed25519_from_seed lib keySeed))"

definition derivePeerID :: "crypto_lib \<Rightarrow> string \<Rightarrow> i64 \<Rightarrow> peer_id result" where
  "derivePeerID lib seed i =
     (case deriveKey lib seed (deriveKeyInfo i) of
        Inl err \<Rightarrow> Inl err
      | Inr peerPriv \<Rightarrow> IDFromPrivateKey lib peerPriv)"

text \<open>
  The loop \<open>for i := 0; i <= maxIndex; i++\<close>. The counter is an \<open>int\<close>, so for the largest
  \<open>maxIndex\<close> the guard never fails: the result is \<open>None\<close> where the loop does not end.
\<close>

partial_function (option) derive_loop ::
  "crypto_lib \<Rightarrow> string \<Rightarrow> i64 \<Rightarrow> i64 \<Rightarrow> i64 \<Rightarrow> peer_id list \<Rightarrow> peer_id list result option" where
  "derive_loop lib seed ourIndex maxIndex i peerIDs =
     (if sle i maxIndex then
        if i = ourIndex then derive_loop lib seed ourIndex maxIndex (i + 1) peerIDs
        else (case derivePeerID lib seed i of
                Inl err \<Rightarrow> Some (Inl err)
              | Inr pid \<Rightarrow> derive_loop lib seed ourIndex maxIndex (i + 1) (peerIDs @ [pid]))
      else Some (Inr peerIDs))"

definition derivePeerIDs ::
  "crypto_lib \<Rightarrow> string \<Rightarrow> i64 \<Rightarrow> i64 \<Rightarrow> peer_id list result option" where
  "derivePeerIDs lib seed ourIndex maxIndex = derive_loop lib seed ourIndex maxIndex 0 []"

section \<open>The key file\<close>

text \<open>Reads the key file, or makes a key and writes it with permissions 0600.\<close>

definition loadOrInitPeerKey ::
  "crypto_lib \<Rightarrow> (string \<Rightarrow> error option) \<Rightarrow> string \<Rightarrow> fs_state \<Rightarrow> fs_state \<times> priv_key result" where
  "loadOrInitPeerKey lib write_error kf fs =
     (case fs_read fs kf of
        Inl err \<Rightarrow>
          if \<not> os_IsNotExist err then (fs, Inl err)
          else (case GenerateEd25519Key lib of
                  Inl err \<Rightarrow> (fs, Inl err)
                | Inr k \<Rightarrow>
                    (case MarshalPrivateKey lib k of
                       Inl err \<Rightarrow> (fs, Inl err)
                     | Inr data \<Rightarrow>
                         (case os_WriteFile write_error kf data 384 fs of
                            (fs', Some err) \<Rightarrow> (fs', Inl err)
                          | (fs', None) \<Rightarrow> (fs', Inr k))))
      | Inr data \<Rightarrow> (fs, UnmarshalPrivateKey lib data))"

section \<open>The seed placeholder of peering addresses\<close>

definition rainbow_seed_prefix :: string where
  "rainbow_seed_prefix = ''/p2p/rainbow-seed/''"

text \<open>\<open>rainbowSeedRegex\<close> at the start of a string: the prefix and one or more digits, as many
  as there are; the digits are the submatch.\<close>

definition seed_match_here :: "string \<Rightarrow> string option" where
  "seed_match_here s =
     (if has_prefix s rainbow_seed_prefix then
        (let ds = takeWhile is_digit (drop (length rainbow_seed_prefix) s)
         in if ds = [] then None else Some ds)
      else None)"

text \<open>\<open>FindStringSubmatch\<close>: the leftmost match and its submatch.\<close>

fun find_seed_submatch :: "string \<Rightarrow> (string \<times> string) option" where
  "find_seed_submatch [] = None"
| "find_seed_submatch (c # s) =
     (case seed_match_here (c # s) of
        Some ds \<Rightarrow> Some (rainbow_seed_prefix @ ds, ds)
      | None \<Rightarrow> find_seed_submatch s)"

definition rainbowSeedRegex_MatchString :: "string \<Rightarrow> bool" where
  "rainbowSeedRegex_MatchString s \<longleftrightarrow> find_seed_submatch s \<noteq> None"

definition replaceRainbowSeedWithPeer :: "crypto_lib \<Rightarrow> string \<Rightarrow> string \<Rightarrow> string result" where
  "replaceRainbowSeedWithPeer lib addr seed =
     (case find_seed_submatch addr of
        None \<Rightarrow> Inr addr
      | Some (m0, m1) \<Rightarrow>
          (case strconv_Atoi m1 of
             Inl err \<Rightarrow> Inl err
           | Inr index \<Rightarrow>
               (case deriveKey lib seed (deriveKeyInfo index) of
                  Inl err \<Rightarrow> Inl err
                | Inr priv \<Rightarrow>
                    (case IDFromPublicKey_of lib priv of
                       Inl err \<Rightarrow> Inl err
                     | Inr pid \<Rightarrow> Inr (replace_first m0 (''/p2p/'' @ ID_String lib pid) addr)))))"

section \<open>Lemmas\<close>

lemma deriveKeyInfo_inject: "deriveKeyInfo i = deriveKeyInfo j \<longleftrightarrow> i = j"
  by (metis deriveKeyInfo_def dec_int_inject same_append_eq signed_word_eqI)

text \<open>The placeholder: what a match says of the address.\<close>

lemma seed_match_here_Some:
  "seed_match_here s = Some ds \<longleftrightarrow>
     ds \<noteq> [] \<and> (\<forall>c \<in> set ds. is_digit c) \<and>
     (\<exists>post. s = rainbow_seed_prefix @ ds @ post \<and> (post = [] \<or> \<not> is_digit (hd post)))"
proof
  assume "seed_match_here s = Some ds"
  then obtain t where s: "s = rainbow_seed_prefix @ t" and ds: "ds = takeWhile is_digit t" "ds \<noteq> []"
    by (auto simp: seed_match_here_def has_prefix_iff Let_def split: if_splits)
  then have "t = ds @ dropWhile is_digit t" by simp
  moreover have "dropWhile is_digit t = [] \<or> \<not> is_digit (hd (dropWhile is_digit t))"
    using hd_dropWhile by blast
  ultimately show "ds \<noteq> [] \<and> (\<forall>c \<in> set ds. is_digit c) \<and>
     (\<exists>post. s = rainbow_seed_prefix @ ds @ post \<and> (post = [] \<or> \<not> is_digit (hd post)))"
    using s ds set_takeWhileD by (metis (no_types))
next
  assume "ds \<noteq> [] \<and> (\<forall>c \<in> set ds. is_digit c) \<and>
     (\<exists>post. s = rainbow_seed_prefix @ ds @ post \<and> (post = [] \<or> \<not> is_digit (hd post)))"
  then obtain post where "ds \<noteq> []" "\<forall>c \<in> set ds. is_digit c"
    "s = rainbow_seed_prefix @ ds @ post" "post = [] \<or> \<not> is_digit (hd post)" by blast
  then have "takeWhile is_digit (ds @ post) = ds" by (cases post) (simp_all add: takeWhile_tail)
  with \<open>ds \<noteq> []\<close> show "seed_match_here s = Some ds"
    unfolding \<open>s = rainbow_seed_prefix @ ds @ post\<close>
    by (simp add: seed_match_here_def has_prefix_iff Let_def)
qed

lemma find_seed_submatch_Some:
  assumes "find_seed_submatch s = Some (m0, m1)"
  shows "\<exists>pre post. s = pre @ rainbow_seed_prefix @ m1 @ post \<and> m0 = rainbow_seed_prefix @ m1 \<and>
      m1 \<noteq> [] \<and> (\<forall>c \<in> set m1. is_digit c) \<and> (post = [] \<or> \<not> is_digit (hd post)) \<and>
      (\<forall>k < length pre. seed_match_here (drop k s) = None)"
  using assms
proof (induction s rule: find_seed_submatch.induct)
  case 1
  then show ?case by simp
next
  case (2 c s)
  show ?case
  proof (cases "seed_match_here (c # s)")
    case None
    then have "find_seed_submatch s = Some (m0, m1)" using "2.prems" by simp
    from "2.IH" [OF None this] obtain pre post where h: "s = pre @ rainbow_seed_prefix @ m1 @ post"
      "m0 = rainbow_seed_prefix @ m1" "m1 \<noteq> []" "\<forall>c \<in> set m1. is_digit c"
      "post = [] \<or> \<not> is_digit (hd post)" "\<forall>k < length pre. seed_match_here (drop k s) = None"
      by blast
    have "\<forall>k < length (c # pre). seed_match_here (drop k (c # s)) = None"
      using None h(6) by (simp add: All_less_Suc2)
    with h show ?thesis by (intro exI [of _ "c # pre"] exI [of _ post]) auto
  next
    case (Some ds)
    then have "m0 = rainbow_seed_prefix @ m1" and [simp]: "ds = m1" using "2.prems" by auto
    moreover from Some obtain post where "c # s = rainbow_seed_prefix @ m1 @ post"
      "m1 \<noteq> []" "\<forall>x \<in> set m1. is_digit x" "post = [] \<or> \<not> is_digit (hd post)"
      by (auto simp: seed_match_here_Some)
    ultimately show ?thesis by (intro exI [of _ "[]"] exI [of _ post]) simp
  qed
qed

text \<open>An instance of the cryptography for the concrete instances below: the key is the text of the
  seed and the index, and every codec is the identity.\<close>

definition example_crypto :: crypto_lib where
  "example_crypto = \<lparr>base58_Encode = id, base58_Decode = Inr,
     hkdf_sha256_read = (\<lambda>secret info n. Inr (secret @ info)), ed25519_from_seed = Inr,
     IDFromPublicKey_of = Inr, IDFromPrivateKey = Inr, ID_String = id,
     GenerateEd25519Key = Inr ''k'', MarshalPrivateKey = Inr, UnmarshalPrivateKey = Inr\<rparr>"

definition example_seed :: string where
  "example_seed = ''0123456789abcdef0123456789abcdef''"

lemma example_derivePeerID:
  "derivePeerID example_crypto example_seed i = Inr (example_seed @ deriveKeyInfo i)"
  by (simp add: derivePeerID_def deriveKey_def example_crypto_def example_seed_def seedBytes_def)

text \<open>A longer occurrence of the matched text is itself a match, so the first occurrence is
  where the regular expression matched.\<close>

lemma prefix_is_match:
  assumes "has_prefix s (rainbow_seed_prefix @ ds)" and "ds \<noteq> []" "\<forall>c \<in> set ds. is_digit c"
  shows "seed_match_here s \<noteq> None"
proof -
  obtain t where s: "s = rainbow_seed_prefix @ ds @ t"
    using assms(1) by (auto simp: has_prefix_iff)
  have "takeWhile is_digit (ds @ t) \<noteq> []" using assms(2,3) by (cases ds) auto
  then show ?thesis unfolding s by (simp add: seed_match_here_def has_prefix_iff Let_def)
qed

text \<open>The loop over the indexes, up to a bound that the counter can pass.\<close>

definition other_indexes :: "i64 \<Rightarrow> int \<Rightarrow> int \<Rightarrow> i64 list" where
  "other_indexes ourIndex from_i to_i = filter (\<lambda>i. i \<noteq> ourIndex) (map word_of_int [from_i..to_i])"

lemma other_indexes_step:
  assumes "sint i \<le> m"
  shows "other_indexes ourIndex (sint i) m =
    (if i = ourIndex then [] else [i]) @ other_indexes ourIndex (sint i + 1) m"
  using assms by (simp add: other_indexes_def upto_rec1)

lemma derive_loop_eq:
  assumes "0 \<le> sint i" "sint i \<le> sint maxIndex + 1" "sint maxIndex < 2 ^ 63 - 1"
  shows "derive_loop lib seed ourIndex maxIndex i acc =
    Some (case res_map (derivePeerID lib seed) (other_indexes ourIndex (sint i) (sint maxIndex)) of
            Inl e \<Rightarrow> Inl e
          | Inr ys \<Rightarrow> Inr (acc @ ys))"
  using assms
proof (induction "nat (sint maxIndex + 1 - sint i)" arbitrary: i acc)
  case 0
  then have "\<not> sle i maxIndex" "other_indexes ourIndex (sint i) (sint maxIndex) = []"
    by (auto simp: sle_def other_indexes_def)
  then show ?case by (simp add: derive_loop.simps)
next
  case (Suc n)
  then have le: "sint i \<le> sint maxIndex" by linarith
  have i1: "sint (i + 1) = sint i + 1"
    using le Suc.prems sint_plus_i64 [of i 1] by simp
  have IH: "derive_loop lib seed ourIndex maxIndex (i + 1) acc' =
    Some (case res_map (derivePeerID lib seed) (other_indexes ourIndex (sint i + 1) (sint maxIndex)) of
            Inl e \<Rightarrow> Inl e
          | Inr ys \<Rightarrow> Inr (acc' @ ys))" for acc'
    using Suc.hyps(1) [of "i + 1" acc'] Suc.hyps(2) Suc.prems le by (simp add: i1)
  have "sle i maxIndex" using le by (simp add: sle_def)
  then show ?case
  proof (cases "i = ourIndex")
    case True
    then show ?thesis
      using \<open>sle i maxIndex\<close> IH [of acc] other_indexes_step [OF le, of ourIndex]
      by (subst derive_loop.simps) simp
  next
    case False
    then show ?thesis
      using \<open>sle i maxIndex\<close> IH other_indexes_step [OF le, of ourIndex]
      by (subst derive_loop.simps) (simp split: sum.split)
  qed
qed

text \<open>C23: For every largest index but the largest \<open>int\<close>, the derivation of the peer IDs
  ends, and its result is that of deriving the IDs of the indexes \<open>0..maxIndex\<close> without
  our own, in order, up to the first error.\<close>

theorem derivePeerIDs_terminates:
  assumes "0 \<le> sint maxIndex" and "sint maxIndex < 2 ^ 63 - 1"
  shows "derivePeerIDs lib seed ourIndex maxIndex =
    Some (res_map (derivePeerID lib seed) (other_indexes ourIndex 0 (sint maxIndex)))"
  using derive_loop_eq [of 0 maxIndex lib seed ourIndex "[]"] assms
  by (auto simp: derivePeerIDs_def split: sum.splits)

theorem derivePeerIDs_terminates_witness:
  "derivePeerIDs example_crypto example_seed 1 3 =
     Some (res_map (derivePeerID example_crypto example_seed) (other_indexes 1 0 3))"
  using derivePeerIDs_terminates [of 3 example_crypto example_seed 1] by simp

lemma other_indexes_not_ours: "ourIndex \<notin> set (other_indexes ourIndex a b)"
  by (simp add: other_indexes_def)

lemma derive_loop_small_result:
  assumes "0 \<le> sint maxIndex" "sint maxIndex < 2 ^ 63 - 1"
    and "derivePeerIDs lib seed ourIndex maxIndex = Some (Inr pids)"
  shows "map (derivePeerID lib seed) (other_indexes ourIndex 0 (sint maxIndex)) = map Inr pids"
  using derive_loop_eq [of 0 maxIndex lib seed ourIndex "[]"] assms
  by (auto simp: derivePeerIDs_def result_simps split: sum.splits)

text \<open>C10: The instance never peers with itself: when different indexes of the seed give different
  peer IDs, the derived list does not hold the ID of our own index, and it holds that of
  every other index up to the bound.\<close>

theorem derivePeerIDs_excludes_own:
  assumes "0 \<le> sint maxIndex" "sint maxIndex < 2 ^ 63 - 1"
    and "derivePeerIDs lib seed ourIndex maxIndex = Some (Inr pids)"
    and "derivePeerID lib seed ourIndex = Inr own"
    and "\<And>i j pid. derivePeerID lib seed i = Inr pid \<Longrightarrow> derivePeerID lib seed j = Inr pid \<Longrightarrow> i = j"
  shows "own \<notin> set pids \<and>
    (\<forall>j. 0 \<le> sint j \<and> sint j \<le> sint maxIndex \<and> j \<noteq> ourIndex \<longrightarrow>
       (\<exists>pid \<in> set pids. derivePeerID lib seed j = Inr pid))"
proof -
  note m = derive_loop_small_result [OF assms(1-3)]
  have "(Inr own :: peer_id result) \<notin> set (map Inr pids)"
  proof
    assume "(Inr own :: peer_id result) \<in> set (map Inr pids)"
    then have "Inr own \<in> derivePeerID lib seed ` set (other_indexes ourIndex 0 (sint maxIndex))"
      by (simp only: m [symmetric] set_map)
    then show False using assms(4,5) other_indexes_not_ours by fastforce
  qed
  then have "own \<notin> set pids" by (metis image_eqI set_map)
  moreover have "\<exists>pid \<in> set pids. derivePeerID lib seed j = Inr pid"
    if "0 \<le> sint j" "sint j \<le> sint maxIndex" "j \<noteq> ourIndex" for j
  proof -
    have "j \<in> word_of_int ` {0..sint maxIndex}"
      using that by (intro image_eqI [of _ _ "sint j"]) simp_all
    then have "j \<in> set (other_indexes ourIndex 0 (sint maxIndex))"
      using that by (simp add: other_indexes_def)
    then have "derivePeerID lib seed j \<in> set (map Inr pids)" using m by (metis image_eqI set_map)
    then show ?thesis by auto
  qed
  ultimately show ?thesis by blast
qed

theorem derivePeerIDs_excludes_own_witness:
  "\<exists>pids. derivePeerIDs example_crypto example_seed 1 2 = Some (Inr pids) \<and>
     example_seed @ deriveKeyInfo 1 \<notin> set pids"
proof -
  define pids where "pids = [example_seed @ deriveKeyInfo 0, example_seed @ deriveKeyInfo 2]"
  have r: "derivePeerIDs example_crypto example_seed 1 2 = Some (Inr pids)"
    using derive_loop_eq [of 0 2 example_crypto example_seed 1 "[]"]
    by (simp add: derivePeerIDs_def other_indexes_def upto_rec1 example_derivePeerID pids_def)
  have "example_seed @ deriveKeyInfo 1 \<notin> set pids"
    using derivePeerIDs_excludes_own [of 2 example_crypto example_seed 1 pids
        "example_seed @ deriveKeyInfo 1", OF _ _ r]
    by (simp add: example_derivePeerID deriveKeyInfo_inject)
  with r show ?thesis by blast
qed

text \<open>C26: A placeholder is replaced where the regular expression matched it and nowhere else: the
  address is split into the text before the leftmost match, the match and the rest, and
  only the match is exchanged for the peer ID of the index it names.\<close>

theorem seed_placeholder_replaced_in_place:
  assumes "find_seed_submatch addr = Some (m0, m1)"
    and "replaceRainbowSeedWithPeer lib addr seed = Inr out"
  shows "\<exists>pre post i k pid.
      addr = pre @ ''/p2p/rainbow-seed/'' @ m1 @ post \<and>
      out = pre @ ''/p2p/'' @ ID_String lib pid @ post \<and>
      strconv_Atoi m1 = Inr i \<and> deriveKey lib seed (deriveKeyInfo i) = Inr k \<and>
      IDFromPublicKey_of lib k = Inr pid \<and>
      (post = [] \<or> \<not> is_digit (hd post)) \<and>
      (\<forall>n < length pre. seed_match_here (drop n addr) = None)"
proof -
  obtain pre post where s: "addr = pre @ rainbow_seed_prefix @ m1 @ post"
    "m0 = rainbow_seed_prefix @ m1" "m1 \<noteq> []" "\<forall>c \<in> set m1. is_digit c"
    "post = [] \<or> \<not> is_digit (hd post)" "\<forall>n < length pre. seed_match_here (drop n addr) = None"
    using find_seed_submatch_Some [OF assms(1)] by blast
  then have "addr = pre @ m0 @ post" by simp
  note m = this s(2-6)
  have "\<not> has_prefix (drop n (pre @ m0 @ post)) m0" if "n < length pre" for n
    using prefix_is_match [of _ m1] m that by metis
  then have at: "replace_first m0 new addr = pre @ new @ post" for new
    using replace_first_at [of m0 pre post new] m(1-3) by simp
  obtain i k pid where r: "strconv_Atoi m1 = Inr i" "deriveKey lib seed (deriveKeyInfo i) = Inr k"
    "IDFromPublicKey_of lib k = Inr pid" "out = replace_first m0 (''/p2p/'' @ ID_String lib pid) addr"
    using assms by (auto simp: replaceRainbowSeedWithPeer_def split: sum.splits)
  have "out = pre @ ''/p2p/'' @ ID_String lib pid @ post"
    unfolding r(4) by (simp only: at append_assoc)
  with s r(1-3) show ?thesis unfolding rainbow_seed_prefix_def by blast
qed

theorem seed_placeholder_replaced_in_place_witness:
  "\<exists>out pre post. replaceRainbowSeedWithPeer example_crypto ''/dns/a/p2p/rainbow-seed/7'' example_seed
       = Inr out \<and>
     ''/dns/a/p2p/rainbow-seed/7'' = pre @ ''/p2p/rainbow-seed/'' @ ''7'' @ post"
proof -
  have f: "find_seed_submatch ''/dns/a/p2p/rainbow-seed/7'' = Some (''/p2p/rainbow-seed/7'', ''7'')"
    by code_simp
  have "strconv_Atoi ''7'' = Inr 7" by code_simp
  with f obtain out where
    o: "replaceRainbowSeedWithPeer example_crypto ''/dns/a/p2p/rainbow-seed/7'' example_seed = Inr out"
    by (simp add: replaceRainbowSeedWithPeer_def deriveKey_def example_crypto_def
        example_seed_def seedBytes_def del: find_seed_submatch.simps)
  from seed_placeholder_replaced_in_place [OF f o] o show ?thesis by blast
qed



text \<open>A generated seed can be used: with a random source that fills the buffer and a base58
  codec that decodes what it encoded, deriving a key from a new seed never fails for the
  seed's length; it is the key expansion of the random bytes.\<close>

lemma new_seed_derives:
  assumes "newSeed lib rand_read = Inr seed"
    and "\<And>n bs. rand_read n = Inr bs \<Longrightarrow> length bs = n"
    and "\<And>bs. base58_Decode lib (base58_Encode lib bs) = Inr bs"
  shows "\<exists>bs. rand_read 32 = Inr bs \<and>
    deriveKey lib seed (deriveKeyInfo i) =
      (case hkdf_sha256_read lib bs (''rainbow-'' @ dec_int (sint i)) 32 of
         Inl e \<Rightarrow> Inl e
       | Inr keySeed \<Rightarrow> ed25519_from_seed lib keySeed)"
proof -
  obtain bs where bs: "rand_read 32 = Inr bs" "seed = base58_Encode lib bs"
    using assms(1) by (auto simp: newSeed_def seedBytes_def split: sum.splits)
  with assms(2) have "length bs = 32" by blast
  with bs assms(3) show ?thesis
    by (simp add: deriveKey_def deriveKeyInfo_def seedBytes_def split: sum.split)
qed

lemma new_seed_derives_witness:
  "\<exists>bs. length bs = 32 \<and>
    deriveKey example_crypto (replicate 32 CHR ''a'') (deriveKeyInfo 4) =
      hkdf_sha256_read example_crypto bs (''rainbow-'' @ dec_int (sint (4 :: i64))) 32"
  using new_seed_derives [of example_crypto "\<lambda>n. Inr (replicate n CHR ''a'')"
      "replicate 32 CHR ''a''" 4]
  by (auto simp: newSeed_def seedBytes_def example_crypto_def)

end
