(* ===== verification/Go_Float64.thy ===== *)
theory Go_Float64
  imports Complex_Main Rainbow_Prelude
begin

text \<open>
  Go's \<open>float64\<close>, as far as the program computes with it: conversion of an integer,
  multiplication, addition and conversion back. A finite value is \<open>mant * 2 ^ expo\<close>; the
  operations round to the nearest value with 53 significant bits, ties to even, as IEEE
  754 does. Infinities and NaN are one value \<open>NonFinite\<close>: the program only converts
  such a value to an integer, and the Go specification leaves the result of converting a
  value that does not fit to the implementation. That result is a parameter (\<open>oob\<close>).
  The program multiplies integers by constants, so no operand of a multiplication
  is small enough for a subnormal result.
\<close>

datatype f64 = F64 (mant: int) (expo: int) | NonFinite

fun bit_len :: "nat \<Rightarrow> nat" where
  "bit_len n = (if n = 0 then 0 else Suc (bit_len (n div 2)))"

declare bit_len.simps [simp del]

lemma bit_len_0 [simp]: "bit_len 0 = 0"
  by (simp add: bit_len.simps)

text \<open>\<open>m / 2 ^ k\<close> rounded to the nearest integer, ties to even.\<close>

definition rne_shift :: "nat \<Rightarrow> nat \<Rightarrow> nat" where
  "rne_shift m k =
     (let q = m div 2 ^ k; r = m mod 2 ^ k
      in if 2 ^ k < 2 * r \<or> (2 * r = 2 ^ k \<and> odd q) then q + 1 else q)"

definition f64_round :: "int \<Rightarrow> int \<Rightarrow> f64" where
  "f64_round m e =
     (let k = bit_len (nat \<bar>m\<bar>) - 53;
          q = rne_shift (nat \<bar>m\<bar>) k
      in if q \<noteq> 0 \<and> 1024 < int (bit_len q) + (e + int k) then NonFinite
         else F64 (sgn m * int q) (e + int k))"

definition f64_of_int :: "int \<Rightarrow> f64" where
  "f64_of_int n = f64_round n 0"

instantiation f64 :: times
begin

fun times_f64 :: "f64 \<Rightarrow> f64 \<Rightarrow> f64" where
  "times_f64 (F64 m1 e1) (F64 m2 e2) = f64_round (m1 * m2) (e1 + e2)"
| "times_f64 _ _ = NonFinite"

instance ..

end

text \<open>The sum, rounded once; a zero of either sign is the same value here.\<close>

instantiation f64 :: plus
begin

fun plus_f64 :: "f64 \<Rightarrow> f64 \<Rightarrow> f64" where
  "plus_f64 (F64 m1 e1) (F64 m2 e2) =
     (let e = min e1 e2 in f64_round (m1 * 2 ^ nat (e1 - e) + m2 * 2 ^ nat (e2 - e)) e)"
| "plus_f64 _ _ = NonFinite"

instance ..

end

text \<open>The integer part, towards zero.\<close>

fun f64_trunc :: "f64 \<Rightarrow> int option" where
  "f64_trunc (F64 m e) =
     Some (if 0 \<le> e then m * 2 ^ nat e else sgn m * (\<bar>m\<bar> div 2 ^ nat (- e)))"
| "f64_trunc NonFinite = None"

text \<open>\<open>uint64(f)\<close> and \<open>int(f)\<close>.\<close>

definition u64_of_f64 :: "(f64 \<Rightarrow> u64) \<Rightarrow> f64 \<Rightarrow> u64" where
  "u64_of_f64 oob f =
     (case f64_trunc f of
        Some n \<Rightarrow> if 0 \<le> n \<and> n < 2 ^ 64 then word_of_int n else oob f
      | None \<Rightarrow> oob f)"

definition i64_of_f64 :: "(f64 \<Rightarrow> i64) \<Rightarrow> f64 \<Rightarrow> i64" where
  "i64_of_f64 oob f =
     (case f64_trunc f of
        Some n \<Rightarrow> if - (2 ^ 63) \<le> n \<and> n < 2 ^ 63 then word_of_int n else oob f
      | None \<Rightarrow> oob f)"

text \<open>The constants \<open>0.85\<close> and \<open>0.75\<close>, as the compiler rounds them.\<close>

definition f64_085 :: f64 where
  "f64_085 = F64 7656119366529843 (- 53)"

definition f64_075 :: f64 where
  "f64_075 = F64 3 (- 2)"

text \<open>The equations that evaluate float arithmetic on numerals.\<close>

lemmas f64_eval =
  f64_of_int_def f64_round_def bit_len.simps rne_shift_def Let_def f64_085_def f64_075_def
  u64_of_f64_def i64_of_f64_def

section \<open>Rounding error\<close>

definition f64_val :: "f64 \<Rightarrow> real" where
  "f64_val f = (case f of F64 m e \<Rightarrow> real_of_int m * 2 powi e | NonFinite \<Rightarrow> 0)"

lemma bit_len_lt: "n < 2 ^ bit_len n"
proof (induction n rule: bit_len.induct)
  case (1 n)
  show ?case
  proof (cases "n = 0")
    case False
    with 1 have "n div 2 < 2 ^ bit_len (n div 2)" by simp
    then have "n < 2 * 2 ^ bit_len (n div 2)" by linarith
    with False show ?thesis by (subst bit_len.simps) simp
  qed simp
qed

lemma bit_len_ge: "n \<noteq> 0 \<Longrightarrow> 2 ^ bit_len n \<le> 2 * n"
proof (induction n rule: bit_len.induct)
  case (1 n)
  show ?case
  proof (cases "n div 2 = 0")
    case True
    with "1.prems" have "n = 1" by simp
    then show ?thesis by (simp add: bit_len.simps)
  next
    case False
    with 1 have "2 ^ bit_len (n div 2) \<le> 2 * (n div 2)" by simp
    also have "\<dots> \<le> n" by simp
    finally show ?thesis using "1.prems" by (subst bit_len.simps) simp
  qed
qed

lemma bit_len_le_iff: "bit_len n \<le> k \<longleftrightarrow> n < 2 ^ k"
proof
  assume "bit_len n \<le> k"
  then have "(2::nat) ^ bit_len n \<le> 2 ^ k" by simp
  with bit_len_lt [of n] show "n < 2 ^ k" by linarith
next
  assume lt: "n < 2 ^ k"
  show "bit_len n \<le> k"
  proof (cases "n = 0")
    case True
    then show ?thesis by (simp add: bit_len.simps)
  next
    case False
    then have "2 ^ bit_len n < (2::nat) ^ Suc k" using lt bit_len_ge [of n] by simp
    then have "bit_len n < Suc k" by (simp only: power_strict_increasing_iff)
    then show ?thesis by simp
  qed
qed

lemma rne_shift_0 [simp]: "rne_shift m 0 = m"
  by (simp add: rne_shift_def)

lemma rne_shift_zero [simp]: "rne_shift 0 k = 0"
  by (simp add: rne_shift_def)

lemma rne_shift_bounds:
  "2 * (rne_shift m k * 2 ^ k) \<le> 2 * m + 2 ^ k"
  "2 * m \<le> 2 * (rne_shift m k * 2 ^ k) + 2 ^ k"
proof -
  define P Q R where "P = (2::nat) ^ k" and "Q = m div 2 ^ k" and "R = m mod 2 ^ k"
  have m: "m = Q * P + R" and r: "R < P"
    unfolding P_def Q_def R_def by (simp_all only: div_mult_mod_eq) simp
  have s: "rne_shift m k = (if P < 2 * R \<or> (2 * R = P \<and> odd Q) then Q + 1 else Q)"
    by (simp add: rne_shift_def Let_def P_def Q_def R_def)
  show "2 * (rne_shift m k * 2 ^ k) \<le> 2 * m + 2 ^ k"
    unfolding s P_def [symmetric] using m r by (auto simp: algebra_simps)
  show "2 * m \<le> 2 * (rne_shift m k * 2 ^ k) + 2 ^ k"
    unfolding s P_def [symmetric] using m r by (auto simp: algebra_simps)
qed

lemma half_ulp_arith:
  fixes P R m :: nat
  assumes "2 ^ 52 * P \<le> m"
  shows "2 * R \<le> 2 * m + P \<Longrightarrow> 2 ^ 53 * R \<le> (2 ^ 53 + 1) * m"
    and "2 * m \<le> 2 * R + P \<Longrightarrow> (2 ^ 53 - 1) * m \<le> 2 ^ 53 * R"
  using assms by simp_all

text \<open>One rounding moves a value by at most \<open>2 ^ -53\<close> of itself.\<close>

lemma rne_shift_rel:
  assumes "k = bit_len m - 53"
  shows "2 ^ 53 * (rne_shift m k * 2 ^ k) \<le> (2 ^ 53 + 1) * m"
    and "(2 ^ 53 - 1) * m \<le> 2 ^ 53 * (rne_shift m k * 2 ^ k)"
proof -
  have hk: "2 ^ 52 * 2 ^ k \<le> m \<or> k = 0"
  proof (cases "k = 0")
    case False
    then have "m \<noteq> 0" and b: "bit_len m = k + 53"
      using assms by (auto intro: ccontr)
    with bit_len_ge [of m] have "2 ^ (k + 53) \<le> 2 * m" by simp
    then show ?thesis by (simp add: power_add)
  qed simp
  show "2 ^ 53 * (rne_shift m k * 2 ^ k) \<le> (2 ^ 53 + 1) * m"
  proof (cases "k = 0")
    case False
    with hk show ?thesis by (intro half_ulp_arith(1) [OF _ rne_shift_bounds(1)]) simp
  qed simp
  show "(2 ^ 53 - 1) * m \<le> 2 ^ 53 * (rne_shift m k * 2 ^ k)"
  proof (cases "k = 0")
    case False
    with hk show ?thesis by (intro half_ulp_arith(2) [OF _ rne_shift_bounds(2)]) simp
  qed simp
qed

lemma f64_round_nonneg:
  assumes "f64_round m e = F64 q e'" and "0 \<le> m"
  shows "0 \<le> q"
    and "2 ^ 53 * f64_val (F64 q e') \<le> (2 ^ 53 + 1) * (real_of_int m * 2 powi e)"
    and "(2 ^ 53 - 1) * (real_of_int m * 2 powi e) \<le> 2 ^ 53 * f64_val (F64 q e')"
proof -
  define k where "k = bit_len (nat m) - 53"
  define r where "r = rne_shift (nat m) k"
  have q: "q = int r" and e': "e' = e + int k"
    using assms
    by (auto simp: f64_round_def Let_def k_def r_def sgn_if split: if_splits)
  show "0 \<le> q" using q by simp
  have v: "f64_val (F64 q e') = real (r * 2 ^ k) * 2 powi e"
    by (simp add: f64_val_def q e' power_int_add)
  have m: "real_of_int m = real (nat m)" using assms(2) by simp
  have p: "(0::real) \<le> 2 powi e" by simp
  have "real (2 ^ 53 * (r * 2 ^ k)) \<le> real ((2 ^ 53 + 1) * nat m)"
    using rne_shift_rel(1) [OF k_def] unfolding r_def by (simp only: of_nat_le_iff)
  then have "2 ^ 53 * real (r * 2 ^ k) \<le> (2 ^ 53 + 1) * real (nat m)" by simp
  from mult_right_mono [OF this p]
  show "2 ^ 53 * f64_val (F64 q e') \<le> (2 ^ 53 + 1) * (real_of_int m * 2 powi e)"
    unfolding v m by (simp only: mult.assoc)
  have "real ((2 ^ 53 - 1) * nat m) \<le> real (2 ^ 53 * (r * 2 ^ k))"
    using rne_shift_rel(2) [OF k_def] unfolding r_def by (simp only: of_nat_le_iff)
  then have "(2 ^ 53 - 1) * real (nat m) \<le> 2 ^ 53 * real (r * 2 ^ k)" by simp
  from mult_right_mono [OF this p]
  show "(2 ^ 53 - 1) * (real_of_int m * 2 powi e) \<le> 2 ^ 53 * f64_val (F64 q e')"
    unfolding v m by (simp only: mult.assoc)
qed

lemma f64_trunc_le:
  assumes "0 \<le> m"
  shows "\<exists>n. f64_trunc (F64 m e) = Some n \<and> 0 \<le> n \<and> real_of_int n \<le> f64_val (F64 m e)
      \<and> f64_val (F64 m e) < real_of_int n + 1"
proof (cases "0 \<le> e")
  case True
  then obtain j where "e = int j" using nonneg_int_cases by blast
  then show ?thesis using assms by (simp add: f64_val_def)
next
  case False
  then obtain j where j: "e = - int j" by (metis int_cases2 of_nat_0_le_iff)
  have v: "f64_val (F64 m e) = real_of_int m / 2 ^ j"
    by (simp add: f64_val_def j power_int_minus divide_inverse)
  have "real_of_int (m div 2 ^ j) \<le> real_of_int m / 2 ^ j"
    by (metis floor_divide_of_int_eq of_int_floor_le of_int_numeral of_int_power)
  moreover have "real_of_int m / 2 ^ j < real_of_int (m div 2 ^ j) + 1"
    by (metis floor_divide_of_int_eq of_int_numeral of_int_power real_of_int_floor_add_one_gt)
  moreover have "0 \<le> m div 2 ^ j" using assms by (simp add: pos_imp_zdiv_nonneg_iff)
  ultimately show ?thesis using assms False v j by (auto simp: sgn_if)
qed

section \<open>Scaling an integer by a constant below one\<close>

lemma rne_shift_le: "rne_shift m k \<le> Suc m"
proof -
  have "m div 2 ^ k \<le> m" by (rule div_le_dividend)
  then have "m div 2 ^ k + 1 \<le> Suc m" "m div 2 ^ k \<le> Suc m" by linarith+
  then show ?thesis unfolding rne_shift_def Let_def by (simp only: split: if_split) simp
qed

lemma f64_round_finite:
  assumes "\<bar>m\<bar> < 2 ^ 200" and "e \<le> 500"
  shows "\<exists>q e'. f64_round m e = F64 q e'"
proof -
  define k where "k = bit_len (nat \<bar>m\<bar>) - 53"
  have a: "nat \<bar>m\<bar> < 2 ^ 200" using assms(1) by (simp add: nat_less_iff)
  then have "k \<le> 200" using bit_len_le_iff [of "nat \<bar>m\<bar>" 200] unfolding k_def by linarith
  moreover have "rne_shift (nat \<bar>m\<bar>) k < 2 ^ 201"
    using rne_shift_le [of "nat \<bar>m\<bar>" k] a by simp
  then have "bit_len (rne_shift (nat \<bar>m\<bar>) k) \<le> 201" by (simp only: bit_len_le_iff)
  ultimately show ?thesis
    using assms(2) unfolding f64_round_def Let_def k_def [symmetric] by auto
qed

lemma f64_scale_le:
  assumes "0 \<le> n" "0 \<le> cm" "f64_val (F64 cm ce) \<le> 9 / 10"
    and "f64_of_int n * F64 cm ce = F64 q e"
  shows "0 \<le> q" and "f64_val (F64 q e) \<le> real_of_int n"
proof -
  obtain m0 e0 where f: "f64_of_int n = F64 m0 e0"
    using assms(4) by (cases "f64_of_int n") auto
  have r1: "0 \<le> m0" "2 ^ 53 * f64_val (F64 m0 e0) \<le> (2 ^ 53 + 1) * real_of_int n"
    using f64_round_nonneg(1,2) [of n 0 m0 e0] f assms(1) by (simp_all add: f64_of_int_def)
  have r2: "f64_round (m0 * cm) (e0 + ce) = F64 q e" using assms(4) f by simp
  have nn: "0 \<le> m0 * cm" using r1(1) assms(2) by simp
  show "0 \<le> q" by (rule f64_round_nonneg(1) [OF r2 nn])
  have v: "real_of_int (m0 * cm) * 2 powi (e0 + ce) = f64_val (F64 m0 e0) * f64_val (F64 cm ce)"
    by (simp add: f64_val_def power_int_add algebra_simps)
  have pos: "0 \<le> f64_val (F64 m0 e0)" using r1(1) by (simp add: f64_val_def)
  have "2 ^ 53 * f64_val (F64 q e)
      \<le> (2 ^ 53 + 1) * (f64_val (F64 m0 e0) * f64_val (F64 cm ce))"
    using f64_round_nonneg(2) [OF r2 nn] unfolding v .
  also have "\<dots> \<le> (2 ^ 53 + 1) * (f64_val (F64 m0 e0) * (9 / 10))"
    using assms(3) pos by (intro mult_left_mono) auto
  finally have "2 ^ 53 * f64_val (F64 q e) \<le> (2 ^ 53 + 1) * (f64_val (F64 m0 e0) * (9 / 10))" .
  moreover have "0 \<le> real_of_int n" using assms(1) by simp
  ultimately show "f64_val (F64 q e) \<le> real_of_int n" using r1(2) by simp
qed

lemma f64_scale_trunc:
  assumes "0 \<le> n" "n < 2 ^ 64" "0 \<le> cm" "cm < 2 ^ 53" "ce \<le> 0"
    and "f64_val (F64 cm ce) \<le> 9 / 10"
  shows "\<exists>r. f64_trunc (f64_of_int n * F64 cm ce) = Some r \<and> 0 \<le> r \<and> r \<le> n"
proof -
  obtain m0 e0 where f: "f64_of_int n = F64 m0 e0"
    using f64_round_finite [of n 0] assms(1,2) by (auto simp: f64_of_int_def)
  define k where "k = bit_len (nat \<bar>n\<bar>) - 53"
  have m0: "m0 = sgn n * int (rne_shift (nat \<bar>n\<bar>) k)" and e0: "e0 = int k"
    using f by (auto simp: f64_of_int_def f64_round_def Let_def k_def split: if_splits)
  have "nat \<bar>n\<bar> < 2 ^ 64" using assms(1,2) by (simp add: nat_less_iff)
  then have k: "k \<le> 11" using bit_len_le_iff [of "nat \<bar>n\<bar>" 64] unfolding k_def by linarith
  have "rne_shift (nat \<bar>n\<bar>) k \<le> 2 ^ 64"
    using rne_shift_le [of "nat \<bar>n\<bar>" k] \<open>nat \<bar>n\<bar> < 2 ^ 64\<close> by simp
  then have "\<bar>m0\<bar> \<le> 2 ^ 64" using m0 assms(1) by (auto simp: sgn_if)
  then have "\<bar>m0 * cm\<bar> \<le> 2 ^ 64 * 2 ^ 53"
    unfolding abs_mult using assms(3,4) by (intro mult_mono) auto
  then have "\<bar>m0 * cm\<bar> < 2 ^ 200" by simp
  moreover have "e0 + ce \<le> 500" using e0 k assms(5) by simp
  ultimately obtain q e where p: "f64_of_int n * F64 cm ce = F64 q e"
    using f64_round_finite f by force
  note s = f64_scale_le [OF assms(1,3,6) p]
  obtain r where r: "f64_trunc (F64 q e) = Some r" "0 \<le> r" "real_of_int r \<le> f64_val (F64 q e)"
    using f64_trunc_le [OF s(1)] by blast
  with s(2) have "real_of_int r \<le> real_of_int n" by linarith
  then have "r \<le> n" by (simp only: of_int_le_iff)
  with p r show ?thesis by simp
qed

lemma f64_val_neg: "f64_val (F64 m (- int j)) = real_of_int m / 2 ^ j"
  by (simp add: f64_val_def power_int_minus divide_inverse)

lemma f64_085_val: "f64_val f64_085 \<le> 9 / 10"
  unfolding f64_085_def using f64_val_neg [of 7656119366529843 53] by simp

lemma f64_075_val: "f64_val f64_075 \<le> 9 / 10"
  unfolding f64_075_def using f64_val_neg [of 3 2] by simp

lemmas f64_scale_085 =
  f64_scale_trunc [where cm = 7656119366529843 and ce = "- 53", folded f64_085_def,
    OF _ _ _ _ _ f64_085_val, simplified]

lemmas f64_scale_075 =
  f64_scale_trunc [where cm = 3 and ce = "- 2", folded f64_075_def,
    OF _ _ _ _ _ f64_075_val, simplified]

text \<open>Integers below \<open>2 ^ 53\<close> are exact, and so is counting up to there.\<close>

lemma f64_of_int_exact:
  assumes "\<bar>n\<bar> < 2 ^ 53"
  shows "f64_of_int n = F64 n 0"
proof -
  have "nat \<bar>n\<bar> < 2 ^ 53" using assms by (simp add: nat_less_iff)
  then have b: "bit_len (nat \<bar>n\<bar>) \<le> 53" by (simp only: bit_len_le_iff)
  then have "bit_len (nat \<bar>n\<bar>) - 53 = 0" "\<not> 1024 < int (bit_len (nat \<bar>n\<bar>))" by simp_all
  then show ?thesis by (simp add: f64_of_int_def f64_round_def Let_def sgn_mult_abs)
qed

lemma f64_count_up:
  assumes "\<bar>n\<bar> < 2 ^ 53"
  shows "f64_of_int n + f64_of_int 1 = f64_of_int (n + 1)"
  by (simp add: f64_of_int_exact [OF assms] f64_of_int_exact f64_of_int_def [of "n + 1"])

end
