(* ===== verification/Node_Config.thy ===== *)
theory Node_Config
  imports Go_Float64
begin

text \<open>
  The configuration of the daemon (\<open>setup.go\<close> lines 66-83 and 104-202, \<open>autoconf.go\<close> lines
  13-30): the string enumerations, the \<open>AutoConfConfig\<close> and the \<open>Config\<close> struct with the
  fields of the source, in its order. Durations are nanoseconds in a signed 64-bit word.
\<close>

section \<open>Peers and multiaddresses\<close>

text \<open>
  A multiaddress is its list of components; the protocol codes the program tells apart
  have constructors of their own.
\<close>

datatype proto = P_IP4 | P_IP6 | P_IP6ZONE | P_DNS | P_DNS4 | P_DNS6 | P_DNSADDR | P_OTHER string

record component =
  comp_proto :: proto
  comp_value :: string

type_synonym multiaddr = "component list"

record AddrInfo =
  ai_ID :: peer_id
  ai_Addrs :: "multiaddr list"

section \<open>Enumerations and constants\<close>

type_synonym DHTRouting = string
type_synonym RemoteBackendMode = string

definition DHTAccelerated :: DHTRouting where "DHTAccelerated = ''accelerated''"
definition DHTStandard :: DHTRouting where "DHTStandard = ''standard''"
definition DHTOff :: DHTRouting where "DHTOff = ''off''"

definition RemoteBackendBlock :: RemoteBackendMode where "RemoteBackendBlock = ''block''"
definition RemoteBackendCAR :: RemoteBackendMode where "RemoteBackendCAR = ''car''"

lemmas dht_routing_defs = DHTAccelerated_def DHTStandard_def DHTOff_def
lemmas backend_mode_defs = RemoteBackendBlock_def RemoteBackendCAR_def

definition httpRouterGatewayProtocol :: string where
  "httpRouterGatewayProtocol = ''transport-ipfs-gateway-http''"

definition httpRoutersFilterProtocols :: "string list" where
  "httpRoutersFilterProtocols = [''unknown'', ''transport-bitswap'']"

text \<open>\<open>time.Second\<close> and \<open>time.Minute\<close>.\<close>

definition second :: i64 where "second = 1000000000"
definition minute :: i64 where "minute = 60 * second"

section \<open>The configuration record\<close>

record AutoConfConfig =
  ac_Enabled :: bool
  ac_URL :: string
  ac_RefreshInterval :: i64
  ac_CacheDir :: string

text \<open>The DNSLink resolver of the configuration: the library's default or one built from a map.\<close>

datatype dns_resolver = DefaultResolver | CustomResolver "(string, string) gomap"

record Config =
  DataDir :: string
  BlockstoreType :: string
  ListenAddrs :: "string list"
  AnnounceAddrs :: "string list"
  ConnMgrLow :: i64
  ConnMgrHi :: i64
  ConnMgrGrace :: i64
  InMemBlockCache :: i64
  MaxMemory :: u64
  MaxFD :: i64
  GatewayDomains :: "string list"
  SubdomainGatewayDomains :: "string list"
  TrustlessGatewayDomains :: "string list"
  DNSLinkGatewayDomains :: "string list"
  RoutingV1Endpoints :: "string list"
  RoutingV1FilterProtocols :: "string list"
  HTTPRoutersTimeout :: i64
  RoutingTimeout :: i64
  RoutingIgnoreProviders :: "peer_id list"
  DHTRouting :: DHTRouting
  DHTSharedHost :: bool
  IpnsMaxCacheTTL :: i64
  Bitswap :: bool
  DNSLinkResolver :: "dns_resolver option"
  BitswapWantHaveReplaceSize :: i64
  BitswapEnableDuplicateBlockStats :: bool
  DenylistSubs :: "string list"
  Peering :: "AddrInfo list"
  PeeringSharedCache :: bool
  Seed :: string
  SeedIndex :: i64
  SeedPeering :: bool
  SeedPeeringMaxIndex :: i64
  RemoteBackends :: "string list"
  RemoteBackendsIPNS :: bool
  RemoteBackendMode :: RemoteBackendMode
  GCInterval :: i64
  GCThreshold :: f64
  TracingAuthToken :: string
  disableMetrics :: bool
  BytesPerSync :: i64
  DisableWAL :: bool
  L0CompactionThreshold :: i64
  L0StopWritesThreshold :: i64
  LBaseMaxBytes :: i64
  MemTableSize :: u64
  MemTableStopWritesThreshold :: i64
  WALBytesPerSync :: i64
  MaxConcurrentCompactions :: i64
  WALMinSyncInterval :: i64
  RoutingMaxRequests :: i64
  RoutingMaxProviders :: i64
  RoutingMaxTimeout :: i64
  HTTPRetrievalEnable :: bool
  HTTPRetrievalAllowlist :: "string list"
  HTTPRetrievalDenylist :: "string list"
  HTTPRetrievalWorkers :: i64
  HTTPRetrievalMaxDontHaveErrors :: i64
  HTTPRetrievalMetricsLabelsForEndpoints :: "string list"
  AutoConf :: AutoConfConfig
  Bootstrap :: "string list"
  MaxConcurrentRequests :: i64
  RetrievalTimeout :: i64
  MaxRequestDuration :: i64
  MaxRangeRequestFileSize :: i64
  MaxDeserializedResponseSize :: i64
  MaxUnixFSDAGResponseSize :: i64
  DiagnosticServiceURL :: string

text \<open>The zero value of the struct, from which composite literals start.\<close>

definition zero_Config :: Config where
  "zero_Config = \<lparr>
      DataDir = [], BlockstoreType = [], ListenAddrs = [], AnnounceAddrs = [], ConnMgrLow = 0,
      ConnMgrHi = 0, ConnMgrGrace = 0, InMemBlockCache = 0, MaxMemory = 0, MaxFD = 0,
      GatewayDomains = [], SubdomainGatewayDomains = [], TrustlessGatewayDomains = [],
      DNSLinkGatewayDomains = [], RoutingV1Endpoints = [], RoutingV1FilterProtocols = [],
      HTTPRoutersTimeout = 0, RoutingTimeout = 0, RoutingIgnoreProviders = [], DHTRouting = [],
      DHTSharedHost = False, IpnsMaxCacheTTL = 0, Bitswap = False, DNSLinkResolver = None,
      BitswapWantHaveReplaceSize = 0, BitswapEnableDuplicateBlockStats = False,
      DenylistSubs = [], Peering = [], PeeringSharedCache = False, Seed = [], SeedIndex = 0,
      SeedPeering = False, SeedPeeringMaxIndex = 0, RemoteBackends = [],
      RemoteBackendsIPNS = False, RemoteBackendMode = [], GCInterval = 0, GCThreshold = F64 0 0,
      TracingAuthToken = [], disableMetrics = False, BytesPerSync = 0, DisableWAL = False,
      L0CompactionThreshold = 0, L0StopWritesThreshold = 0, LBaseMaxBytes = 0, MemTableSize = 0,
      MemTableStopWritesThreshold = 0, WALBytesPerSync = 0, MaxConcurrentCompactions = 0,
      WALMinSyncInterval = 0, RoutingMaxRequests = 0, RoutingMaxProviders = 0,
      RoutingMaxTimeout = 0, HTTPRetrievalEnable = False, HTTPRetrievalAllowlist = [],
      HTTPRetrievalDenylist = [], HTTPRetrievalWorkers = 0, HTTPRetrievalMaxDontHaveErrors = 0,
      HTTPRetrievalMetricsLabelsForEndpoints = [],
      AutoConf = \<lparr>ac_Enabled = False, ac_URL = [], ac_RefreshInterval = 0, ac_CacheDir = []\<rparr>,
      Bootstrap = [], MaxConcurrentRequests = 0, RetrievalTimeout = 0, MaxRequestDuration = 0,
      MaxRangeRequestFileSize = 0, MaxDeserializedResponseSize = 0,
      MaxUnixFSDAGResponseSize = 0, DiagnosticServiceURL = []\<rparr>"

end
