(* ===== verification/Datastore.thy ===== *)
theory Datastore
  imports Node_Config Go_Text
begin

text \<open>
  The node's datastore (\<open>setup.go\<close>, \<open>setupDatastore\<close> and \<open>getPebbleOpts\<close>): which of the three
  libraries is opened, in which directory and with which options. The libraries are
  parameters: badger's default options and, per datastore, whether it can be opened.
\<close>

section \<open>Options\<close>

text \<open>\<open>pebble.Options\<close>, the fields the program sets; a function-valued field that is not set is
  \<open>None\<close>, otherwise the value its closure returns.\<close>

record PebbleOptions =
  po_BytesPerSync :: i64
  po_DisableWAL :: bool
  po_FormatMajorVersion :: string
  po_L0CompactionThreshold :: i64
  po_L0StopWritesThreshold :: i64
  po_LBaseMaxBytes :: i64
  po_MemTableSize :: u64
  po_MemTableStopWritesThreshold :: i64
  po_WALBytesPerSync :: i64
  po_CompactionConcurrencyRange :: "(i64 \<times> i64) option"
  po_WALMinSyncInterval :: "i64 option"

datatype compression = None_compression | Snappy | ZSTD

record BadgerOptions =
  bo_Dir :: string
  bo_CompactL0OnClose :: bool
  bo_ValueThreshold :: i64
  bo_BlockCacheSize :: i64
  bo_Compression :: compression
  bo_DetectConflicts :: bool
  bo_MemTableSize :: i64
  bo_NumMemtables :: i64
  bo_IndexCacheSize :: i64

record Badger4Options =
  b4_GcDiscardRatio :: f64
  b4_GcInterval :: i64
  b4_GcSleep :: i64
  b4_Options :: BadgerOptions

text \<open>An open datastore, by the call that opened it.\<close>

datatype datastore =
    FlatfsDS string i64 bool  \<comment> \<open>path, \<open>NextToLast(n)\<close>, sync\<close>
  | PebbleDS string i64 PebbleOptions  \<comment> \<open>path, cache size, options\<close>
  | BadgerDS string Badger4Options

record datastore_lib =
  badger_DefaultOptions :: "string \<Rightarrow> BadgerOptions"
  open_error :: "datastore \<Rightarrow> error option"

definition open_ds :: "datastore_lib \<Rightarrow> datastore \<Rightarrow> datastore result" where
  "open_ds lib ds = (case open_error lib ds of Some e \<Rightarrow> Inl e | None \<Rightarrow> Inr ds)"

section \<open>Opening the datastore\<close>

definition getPebbleOpts :: "Config \<Rightarrow> PebbleOptions" where
  "getPebbleOpts cfg =
     (let opts = \<lparr>po_BytesPerSync = BytesPerSync cfg, po_DisableWAL = DisableWAL cfg,
            po_FormatMajorVersion = ''FormatNewest'',
            po_L0CompactionThreshold = L0CompactionThreshold cfg,
            po_L0StopWritesThreshold = L0StopWritesThreshold cfg,
            po_LBaseMaxBytes = LBaseMaxBytes cfg,
            po_MemTableSize = MemTableSize cfg,
            po_MemTableStopWritesThreshold = MemTableStopWritesThreshold cfg,
            po_WALBytesPerSync = WALBytesPerSync cfg,
            po_CompactionConcurrencyRange = None, po_WALMinSyncInterval = None\<rparr>;
          opts = (if MaxConcurrentCompactions cfg \<noteq> 0
                  then opts\<lparr>po_CompactionConcurrencyRange := Some (1, MaxConcurrentCompactions cfg)\<rparr>
                  else opts);
          opts = (if WALMinSyncInterval cfg \<noteq> 0
                  then opts\<lparr>po_WALMinSyncInterval := Some (WALMinSyncInterval cfg)\<rparr>
                  else opts)
      in opts)"

text \<open>The constant \<open>0.3\<close>, as the compiler rounds it.\<close>

definition f64_03 :: f64 where
  "f64_03 = F64 5404319552844595 (- 54)"

definition badger_opts :: "datastore_lib \<Rightarrow> Config \<Rightarrow> BadgerOptions" where
  "badger_opts lib cfg =
     (let badgerOpts = (badger_DefaultOptions lib [])
            \<lparr>bo_CompactL0OnClose := False,
             bo_ValueThreshold := 256,
             bo_BlockCacheSize := InMemBlockCache cfg\<rparr>;
          badgerOpts = (if bo_BlockCacheSize badgerOpts = 0
            then badgerOpts\<lparr>bo_Compression := None_compression\<rparr>
            else badgerOpts\<lparr>bo_Compression := Snappy\<rparr>)
      in badgerOpts\<lparr>bo_DetectConflicts := False,
           bo_MemTableSize := push_bit 20 64,
           bo_NumMemtables := 5,
           bo_IndexCacheSize := 0\<rparr>)"

definition setupDatastore :: "datastore_lib \<Rightarrow> Config \<Rightarrow> datastore result" where
  "setupDatastore lib cfg =
     (if BlockstoreType cfg = ''flatfs'' then
        open_ds lib (FlatfsDS (filepath_Join [DataDir cfg, ''flatfs'']) 3 False)
      else if BlockstoreType cfg = ''pebble'' then
        open_ds lib (PebbleDS (filepath_Join [DataDir cfg, ''pebbleds'']) (InMemBlockCache cfg)
          (getPebbleOpts cfg))
      else if BlockstoreType cfg = ''badger'' then
        open_ds lib (BadgerDS (filepath_Join [DataDir cfg, ''badger4''])
          \<lparr>b4_GcDiscardRatio = f64_03, b4_GcInterval = 20 * minute, b4_GcSleep = 10 * second,
           b4_Options = badger_opts lib cfg\<rparr>)
      else Inl (Err (''unsupported blockstore type: '' @ BlockstoreType cfg)))"

section \<open>Properties\<close>

fun ds_path :: "datastore \<Rightarrow> string" where
  "ds_path (FlatfsDS p n s) = p"
| "ds_path (PebbleDS p c opts) = p"
| "ds_path (BadgerDS p opts) = p"

lemma open_ds_Inr [simp]: "open_ds lib ds = Inr ds' \<longleftrightarrow> open_error lib ds = None \<and> ds' = ds"
  by (auto simp: open_ds_def split: option.split)

text \<open>The name of the directory under the data directory, per type.\<close>

definition ds_dir_name :: "string \<Rightarrow> string" where
  "ds_dir_name ty = (if ty = ''flatfs'' then ''flatfs'' else if ty = ''pebble'' then ''pebbleds'' else ''badger4'')"

lemma setupDatastore_path:
  assumes "setupDatastore lib cfg = Inr ds"
  shows "ds_path ds = filepath_Join [DataDir cfg, ds_dir_name (BlockstoreType cfg)]"
    and "BlockstoreType cfg \<in> {''flatfs'', ''pebble'', ''badger''}"
  using assms by (auto simp: setupDatastore_def ds_dir_name_def split: if_splits)

lemma ds_dir_name_plain: "plain_name (ds_dir_name ty)"
  by (auto simp: ds_dir_name_def plain_name_def)

text \<open>C36: The three kinds of datastore never share a directory: whatever the data directories,
  two configurations of different blockstore types that both open a datastore open them
  at different paths, so switching the type cannot make one library open another's files.\<close>

theorem datastore_dirs_disjoint:
  assumes "setupDatastore lib cfg = Inr ds" and "setupDatastore lib' cfg' = Inr ds'"
    and "BlockstoreType cfg \<noteq> BlockstoreType cfg'"
  shows "ds_path ds \<noteq> ds_path ds'"
proof
  assume "ds_path ds = ds_path ds'"
  then have "ds_dir_name (BlockstoreType cfg) = ds_dir_name (BlockstoreType cfg')"
    using setupDatastore_path(1) [OF assms(1)] setupDatastore_path(1) [OF assms(2)]
      join_plain_inject ds_dir_name_plain by metis
  then show False
    using setupDatastore_path(2) [OF assms(1)] setupDatastore_path(2) [OF assms(2)] assms(3)
    by (auto simp: ds_dir_name_def)
qed

definition example_datastore_lib :: datastore_lib where
  "example_datastore_lib =
     \<lparr>badger_DefaultOptions = (\<lambda>dir. \<lparr>bo_Dir = dir, bo_CompactL0OnClose = False,
        bo_ValueThreshold = 1048576, bo_BlockCacheSize = 268435456, bo_Compression = Snappy,
        bo_DetectConflicts = True, bo_MemTableSize = 67108864, bo_NumMemtables = 5,
        bo_IndexCacheSize = 0\<rparr>),
      open_error = (\<lambda>_. None)\<rparr>"

theorem datastore_dirs_disjoint_witness:
  "\<exists>ds ds'.
     setupDatastore example_datastore_lib
       (zero_Config\<lparr>DataDir := ''/data'', BlockstoreType := ''flatfs''\<rparr>) = Inr ds \<and>
     setupDatastore example_datastore_lib
       (zero_Config\<lparr>DataDir := ''/data'', BlockstoreType := ''pebble''\<rparr>) = Inr ds' \<and>
     ds_path ds \<noteq> ds_path ds'"
proof -
  obtain ds where ds: "setupDatastore example_datastore_lib
      (zero_Config\<lparr>DataDir := ''/data'', BlockstoreType := ''flatfs''\<rparr>) = Inr ds"
    by (simp add: setupDatastore_def example_datastore_lib_def)
  obtain ds' where ds': "setupDatastore example_datastore_lib
      (zero_Config\<lparr>DataDir := ''/data'', BlockstoreType := ''pebble''\<rparr>) = Inr ds'"
    by (simp add: setupDatastore_def example_datastore_lib_def)
  from datastore_dirs_disjoint [OF ds ds'] ds ds' show ?thesis by auto
qed

lemma badger_opts_fields:
  "bo_Compression (badger_opts lib cfg) = (if InMemBlockCache cfg = 0 then None_compression else Snappy)"
  "bo_BlockCacheSize (badger_opts lib cfg) = InMemBlockCache cfg"
  "sint (bo_MemTableSize (badger_opts lib cfg)) = 67108864"
  by (simp_all add: badger_opts_def Let_def)

lemma badger_gc_interval: "sint (20 * minute) = 1200000000000"
  by (simp add: minute_def second_def)

lemma getPebbleOpts_fields:
  "po_WALBytesPerSync (getPebbleOpts cfg) = WALBytesPerSync cfg"
  "po_CompactionConcurrencyRange (getPebbleOpts cfg) =
     (if MaxConcurrentCompactions cfg = 0 then None else Some (1, MaxConcurrentCompactions cfg))"
  "po_WALMinSyncInterval (getPebbleOpts cfg) =
     (if WALMinSyncInterval cfg = 0 then None else Some (WALMinSyncInterval cfg))"
  by (simp_all add: getPebbleOpts_def Let_def)

text \<open>The options of the opened datastore follow the configuration on every branch: badger
  compresses exactly when it has a block cache to decompress into, pebble gets the cache
  size and the two closures exactly when they are configured, and a type that is none of
  the three is refused with its name.\<close>

lemma datastore_options_follow_config:
  "case setupDatastore lib cfg of
     Inr (BadgerDS p opts) \<Rightarrow>
       (bo_Compression (b4_Options opts) = None_compression \<longleftrightarrow> InMemBlockCache cfg = 0) \<and>
       bo_BlockCacheSize (b4_Options opts) = InMemBlockCache cfg \<and>
       sint (bo_MemTableSize (b4_Options opts)) = 64 * 2 ^ 20 \<and>
       sint (b4_GcInterval opts) = 20 * 60 * 10 ^ 9
   | Inr (PebbleDS p cache opts) \<Rightarrow>
       cache = InMemBlockCache cfg \<and>
       po_WALBytesPerSync opts = WALBytesPerSync cfg \<and>
       po_CompactionConcurrencyRange opts =
         (if MaxConcurrentCompactions cfg = 0 then None else Some (1, MaxConcurrentCompactions cfg)) \<and>
       po_WALMinSyncInterval opts =
         (if WALMinSyncInterval cfg = 0 then None else Some (WALMinSyncInterval cfg))
   | Inr (FlatfsDS p n sync) \<Rightarrow> n = 3 \<and> \<not> sync
   | Inl e \<Rightarrow>
       e = Err (''unsupported blockstore type: '' @ BlockstoreType cfg) \<or>
       (\<exists>ds. open_error lib ds = Some e)"
proof (cases "setupDatastore lib cfg")
  case (Inl e)
  then show ?thesis by (auto simp: setupDatastore_def open_ds_def split: if_splits option.splits)
next
  case (Inr ds)
  then consider p where "ds = FlatfsDS p 3 False"
    | p where "ds = PebbleDS p (InMemBlockCache cfg) (getPebbleOpts cfg)"
    | p where "ds = BadgerDS p \<lparr>b4_GcDiscardRatio = f64_03, b4_GcInterval = 20 * minute,
        b4_GcSleep = 10 * second, b4_Options = badger_opts lib cfg\<rparr>"
    by (auto simp: setupDatastore_def split: if_splits)
  then show ?thesis
    by cases (simp_all add: Inr getPebbleOpts_fields badger_opts_fields badger_gc_interval)
qed

end
