(* ===== verification/Cli.thy ===== *)
theory Cli
  imports Keys Datastore
begin

text \<open>
  The command line of the daemon (\<open>main.go\<close>): the declared flags with their defaults and
  environment variables, the actions that check them, the \<open>gen-seed\<close> command, the identity
  and the peers read at start-up, and the configuration built from the flags. The parsed
  flags are the record \<open>cli_ctx\<close>, one lookup function per type, as \<open>cli.Context\<close> has them.
\<close>

section \<open>The declared flags\<close>

definition hour :: i64 where "hour = 60 * minute"

datatype flag_value =
    VString string
  | VBool bool
  | VInt i64
  | VInt64 i64
  | VUint64 u64
  | VFloat64 f64
  | VDuration i64
  | VStringSlice "string list"

datatype flag = Flag (fl_Name: string) (fl_Value: flag_value) (fl_EnvVar: string)

definition flags_identity :: "flag list" where
  "flags_identity = [
      Flag ''datadir'' (VString []) ''RAINBOW_DATADIR'',
      Flag ''autoconf'' (VBool True) ''RAINBOW_AUTOCONF'',
      Flag ''autoconf-url''
        (VString ''https://conf.ipfs-mainnet.org/autoconf.json'')
        ''RAINBOW_AUTOCONF_URL'',
      Flag ''autoconf-refresh'' (VDuration (24 * hour)) ''RAINBOW_AUTOCONF_REFRESH'',
      Flag ''seed'' (VString []) ''RAINBOW_SEED'',
      Flag ''seed-index'' (VInt (- 1)) ''RAINBOW_SEED_INDEX'',
      Flag ''seed-peering'' (VBool False) ''RAINBOW_SEED_PEERING'',
      Flag ''seed-peering-max-index'' (VInt 100) ''RAINBOW_SEED_PEERING_MAX_INDEX'']"

definition flags_gateway :: "flag list" where
  "flags_gateway = [
      Flag ''gateway-domains'' (VStringSlice []) ''RAINBOW_GATEWAY_DOMAINS'',
      Flag ''subdomain-gateway-domains'' (VStringSlice []) ''RAINBOW_SUBDOMAIN_GATEWAY_DOMAINS'',
      Flag ''trustless-gateway-domains'' (VStringSlice []) ''RAINBOW_TRUSTLESS_GATEWAY_DOMAINS'',
      Flag ''gateway-listen-address''
        (VString ''127.0.0.1:8090'')
        ''RAINBOW_GATEWAY_LISTEN_ADDRESS'',
      Flag ''ctl-listen-address'' (VString ''127.0.0.1:8091'') ''RAINBOW_CTL_LISTEN_ADDRESS'',
      Flag ''gc-interval'' (VDuration (minute * 60)) ''RAINBOW_GC_INTERVAL'',
      Flag ''gc-threshold'' (VFloat64 f64_03) ''RAINBOW_GC_THRESHOLD'',
      Flag ''libp2p'' (VBool True) ''RAINBOW_LIBP2P'',
      Flag ''libp2p-connmgr-low'' (VInt 100) ''RAINBOW_LIBP2P_CONNMGR_LOW'',
      Flag ''libp2p-connmgr-high'' (VInt 3000) ''RAINBOW_LIBP2P_CONNMGR_HIGH'',
      Flag ''libp2p-connmgr-grace'' (VDuration minute) ''RAINBOW_LIBP2P_CONNMGR_GRACE_PERIOD'',
      Flag ''inmem-block-cache'' (VInt (push_bit 30 1)) ''RAINBOW_INMEM_BLOCK_CACHE'',
      Flag ''libp2p-max-memory'' (VUint64 0) ''RAINBOW_LIBP2P_MAX_MEMORY'',
      Flag ''libp2p-max-fd'' (VUint64 0) ''RAINBOW_LIBP2P_MAX_FD'',
      Flag ''http-routers'' (VStringSlice [''auto'']) ''RAINBOW_HTTP_ROUTERS'']"

definition flags_routing :: "flag list" where
  "flags_routing = [
      Flag ''http-routers-filter-protocols''
        (VStringSlice httpRoutersFilterProtocols)
        ''RAINBOW_HTTP_ROUTERS_FILTER_PROTOCOLS'',
      Flag ''dht-routing'' (VString ''accelerated'') ''RAINBOW_DHT_ROUTING'',
      Flag ''dht-shared-host'' (VBool False) ''RAINBOW_DHT_SHARED_HOST'',
      Flag ''bootstrap'' (VString ''auto'') ''RAINBOW_BOOTSTRAP'',
      Flag ''denylists'' (VStringSlice []) ''RAINBOW_DENYLISTS'',
      Flag ''peering'' (VStringSlice []) ''RAINBOW_PEERING'',
      Flag ''peering-shared-cache'' (VBool False) ''RAINBOW_PEERING_SHARED_CACHE'',
      Flag ''blockstore'' (VString ''flatfs'') ''RAINBOW_BLOCKSTORE'',
      Flag ''ipns-max-cache-ttl'' (VDuration 0) ''RAINBOW_IPNS_MAX_CACHE_TTL'',
      Flag ''bitswap'' (VBool True) ''RAINBOW_BITSWAP'',
      Flag ''bitswap-wanthave-replace-size'' (VInt 1024) ''BITSWAP_WANTHAVE_REPLACE_SIZE'',
      Flag ''bitswap-enable-duplicate-block-stats''
        (VBool False)
        ''BITSWAP_ENABLE_DUPLICATE_BLOCK_STATS'',
      Flag ''remote-backends'' (VStringSlice []) ''RAINBOW_REMOTE_BACKENDS'',
      Flag ''remote-backends-ipns'' (VBool True) ''RAINBOW_REMOTE_BACKENDS_IPNS'',
      Flag ''remote-backends-mode'' (VString ''block'') ''RAINBOW_REMOTE_BACKENDS_MODE'',
      Flag ''libp2p-listen-addrs''
        (VStringSlice [''/ip4/0.0.0.0/tcp/4001'', ''/ip4/0.0.0.0/udp/4001/quic-v1'', ''/ip4/0.0.0.0/udp/4001/quic-v1/webtransport'', ''/ip6/::/tcp/4001'', ''/ip6/::/udp/4001/quic-v1'', ''/ip6/::/udp/4001/quic-v1/webtransport''])
        ''RAINBOW_LIBP2P_LISTEN_ADDRS'']"

definition flags_storage :: "flag list" where
  "flags_storage = [
      Flag ''tracing-auth'' (VString []) ''RAINBOW_TRACING_AUTH'',
      Flag ''sampling-fraction'' (VFloat64 (F64 0 0)) ''RAINBOW_SAMPLING_FRACTION'',
      Flag ''pebble-bytes-per-sync'' (VInt 0) ''PEBBLE_BYTES_PER_SYNC'',
      Flag ''pebble-disable-wal'' (VBool False) ''PEBBLE_DISABLE_WAL'',
      Flag ''pebble-l0-compaction-threshold'' (VInt 0) ''PEBBLE_L0_COMPACTION_THRESHOLD'',
      Flag ''pebble-l0-stop-writes-threshold'' (VInt 0) ''PEBBLE_L0_STOP_WRITES_THRESHOLD'',
      Flag ''pebble-lbase-max-bytes'' (VInt64 0) ''PEBBLE_LBASE_MAX_BYTES'',
      Flag ''pebble-mem-table-size'' (VUint64 0) ''PEBBLE_MEM_TABLE_SIZE'',
      Flag ''pebble-mem-table-stop-writes-threshold''
        (VInt 0)
        ''PEBBLE_MEM_TABLE_STOP_WRITES_THRESHOLD'',
      Flag ''pebble-wal-bytes-per-sync'' (VInt 0) ''PEBBLE_WAL_BYTES_PER_SYNC'',
      Flag ''pebble-max-concurrent-compactions'' (VInt 0) ''PEBBLE_MAX_CONCURRENT_COMPACTIONS'',
      Flag ''pebble-wal-min-sync-interval'' (VDuration 0) ''PEBBLE_WAL_MIN_SYNC_INTERVAL'']"

definition flags_limits :: "flag list" where
  "flags_limits = [
      Flag ''routing-max-requests'' (VInt 16) ''ROUTING_MAX_REQUESTS'',
      Flag ''routing-max-providers'' (VInt 0) ''ROUTING_MAX_PROVIDERS'',
      Flag ''routing-max-timeout'' (VDuration (10 * second)) ''ROUTING_MAX_TIMEOUT'',
      Flag ''http-routers-timeout'' (VDuration (30 * second)) ''RAINBOW_HTTP_ROUTERS_TIMEOUT'',
      Flag ''routing-timeout'' (VDuration (30 * second)) ''RAINBOW_ROUTING_TIMEOUT'',
      Flag ''routing-ignore-providers'' (VStringSlice []) ''ROUTING_IGNORE_PROVIDERS'',
      Flag ''http-retrieval-enable'' (VBool True) ''RAINBOW_HTTP_RETRIEVAL_ENABLE'',
      Flag ''http-retrieval-allowlist'' (VStringSlice []) ''RAINBOW_HTTP_RETRIEVAL_ALLOWLIST'',
      Flag ''http-retrieval-denylist'' (VStringSlice []) ''RAINBOW_HTTP_RETRIEVAL_DENYLIST'',
      Flag ''http-retrieval-workers'' (VInt 32) ''RAINBOW_HTTP_RETRIEVAL_WORKERS'',
      Flag ''http-retrieval-metrics-labels-for-endpoints''
        (VStringSlice [])
        ''RAINBOW_HTTP_RETRIEVAL_METRICS_LABELS_FOR_ENDPOINTS'',
      Flag ''http-retrieval-max-dont-have-errors''
        (VInt 100)
        ''RAINBOW_HTTP_RETRIEVAL_MAX_DONT_HAVE_ERRORS'',
      Flag ''max-concurrent-requests'' (VInt 4096) ''RAINBOW_MAX_CONCURRENT_REQUESTS'',
      Flag ''retrieval-timeout'' (VDuration (30 * second)) ''RAINBOW_RETRIEVAL_TIMEOUT'',
      Flag ''max-request-duration'' (VDuration hour) ''RAINBOW_MAX_REQUEST_DURATION'',
      Flag ''max-range-request-file-size''
        (VInt64 5368709120)
        ''RAINBOW_MAX_RANGE_REQUEST_FILE_SIZE'',
      Flag ''max-deserialized-response-size'' (VInt64 0) ''RAINBOW_MAX_DESERIALIZED_RESPONSE_SIZE'',
      Flag ''max-unixfs-dag-response-size'' (VInt64 0) ''RAINBOW_MAX_UNIXFS_DAG_RESPONSE_SIZE'',
      Flag ''diagnostic-service-url''
        (VString ''https://check.ipfs.network'')
        ''RAINBOW_DIAGNOSTIC_SERVICE_URL'',
      Flag ''dnslink-resolvers'' (VStringSlice [''. : auto'']) ''RAINBOW_DNSLINK_RESOLVERS'',
      Flag ''dnslink-gateway-domains'' (VStringSlice []) ''RAINBOW_DNSLINK_GATEWAY_DOMAINS'']"

definition app_Flags :: "flag list" where
  "app_Flags = flags_identity @ flags_gateway @ flags_routing @ flags_storage @ flags_limits"

section \<open>The parsed flags\<close>

record cli_ctx =
  c_String :: "string \<Rightarrow> string"
  c_Bool :: "string \<Rightarrow> bool"
  c_Int :: "string \<Rightarrow> i64"
  c_Int64 :: "string \<Rightarrow> i64"
  c_Uint64 :: "string \<Rightarrow> u64"
  c_Float64 :: "string \<Rightarrow> f64"
  c_Duration :: "string \<Rightarrow> i64"
  c_StringSlice :: "string \<Rightarrow> string list"
  c_IsSet :: "string \<Rightarrow> bool"

text \<open>What the library documents of a name that no flag has: every lookup returns the zero value.\<close>

definition undeclared_zero :: "cli_ctx \<Rightarrow> bool" where
  "undeclared_zero cctx \<longleftrightarrow> (\<forall>name. name \<notin> set (map fl_Name app_Flags) \<longrightarrow>
     c_String cctx name = [] \<and> \<not> c_Bool cctx name \<and> c_Int cctx name = 0 \<and> c_Int64 cctx name = 0 \<and>
     c_Uint64 cctx name = 0 \<and> c_Duration cctx name = 0 \<and> c_StringSlice cctx name = [] \<and>
     \<not> c_IsSet cctx name)"

text \<open>The context when nothing is set: every lookup returns the declared default. An integer lookup
  reads the text of the flag's value, so it works across the integer types.\<close>

fun lookup_flag :: "flag list \<Rightarrow> string \<Rightarrow> flag_value option" where
  "lookup_flag [] name = None"
| "lookup_flag (f # fs) name = (if fl_Name f = name then Some (fl_Value f) else lookup_flag fs name)"

definition int_value :: "flag_value option \<Rightarrow> i64" where
  "int_value v = (case v of
     Some (VInt n) \<Rightarrow> n | Some (VInt64 n) \<Rightarrow> n | Some (VUint64 n) \<Rightarrow> if uint n < 2 ^ 63 then n else 0 | _ \<Rightarrow> 0)"

definition default_cctx :: cli_ctx where
  "default_cctx =
     \<lparr>c_String = (\<lambda>name. case lookup_flag app_Flags name of Some (VString s) \<Rightarrow> s | _ \<Rightarrow> []),
      c_Bool = (\<lambda>name. case lookup_flag app_Flags name of Some (VBool b) \<Rightarrow> b | _ \<Rightarrow> False),
      c_Int = (\<lambda>name. int_value (lookup_flag app_Flags name)),
      c_Int64 = (\<lambda>name. int_value (lookup_flag app_Flags name)),
      c_Uint64 = (\<lambda>name. case lookup_flag app_Flags name of Some (VUint64 n) \<Rightarrow> n | _ \<Rightarrow> 0),
      c_Float64 = (\<lambda>name. case lookup_flag app_Flags name of Some (VFloat64 x) \<Rightarrow> x | _ \<Rightarrow> F64 0 0),
      c_Duration = (\<lambda>name. case lookup_flag app_Flags name of Some (VDuration d) \<Rightarrow> d | _ \<Rightarrow> 0),
      c_StringSlice = (\<lambda>name. case lookup_flag app_Flags name of Some (VStringSlice xs) \<Rightarrow> xs | _ \<Rightarrow> []),
      c_IsSet = (\<lambda>name. False)\<rparr>"

section \<open>The actions of the flags\<close>

definition seed_peering_action :: "cli_ctx \<Rightarrow> bool \<Rightarrow> error option" where
  "seed_peering_action ctx b =
     (if \<not> b then None
      else if \<not> c_IsSet ctx ''seed'' \<or> \<not> c_IsSet ctx ''seed-index'' then
        Some (Err ''--seed and --seed-index must be explicitly defined when --seed-peering is enabled'')
      else None)"

definition dht_routing_action :: "string \<Rightarrow> error option" where
  "dht_routing_action s =
     (if s \<in> {DHTAccelerated, DHTStandard, DHTOff} then None
      else Some (Err (concat [''invalid value for --dht-routing: use '', [CHR 0x27], ''accelerated'', [CHR 0x27],
        '', '', [CHR 0x27], ''standard'', [CHR 0x27], '' or '', [CHR 0x27], ''off'', [CHR 0x27]])))"

definition remote_backends_mode_action :: "string \<Rightarrow> error option" where
  "remote_backends_mode_action s =
     (if s \<in> {RemoteBackendBlock, RemoteBackendCAR} then None
      else Some (Err (concat [''invalid value for --remote-backend-mode: use '', [CHR 0x27], ''block'', [CHR 0x27],
        '' or '', [CHR 0x27], ''car'', [CHR 0x27]])))"

text \<open>The actions of the flags that are set run in the order of the flags, before the app's own.\<close>

definition flag_actions :: "cli_ctx \<Rightarrow> error option" where
  "flag_actions ctx =
     (case (if c_IsSet ctx ''seed-peering'' then seed_peering_action ctx (c_Bool ctx ''seed-peering'') else None) of
        Some e \<Rightarrow> Some e
      | None \<Rightarrow>
          (case (if c_IsSet ctx ''dht-routing'' then dht_routing_action (c_String ctx ''dht-routing'') else None) of
             Some e \<Rightarrow> Some e
           | None \<Rightarrow>
               (if c_IsSet ctx ''remote-backends-mode''
                then remote_backends_mode_action (c_String ctx ''remote-backends-mode'') else None)))"

text \<open>The command \<open>gen-seed\<close>: the line printed, or the error.\<close>

definition gen_seed_action :: "crypto_lib \<Rightarrow> (nat \<Rightarrow> bytes result) \<Rightarrow> string result" where
  "gen_seed_action lib rand_read =
     (case newSeed lib rand_read of Inl err \<Rightarrow> Inl err | Inr seed \<Rightarrow> Inr (seed @ [char_of (10 :: nat)]))"

section \<open>Modes, identity and peers\<close>

text \<open>Remote backends switch libp2p, Bitswap and the DHT off.\<close>

record modes =
  md_libp2p :: bool
  md_bitswap :: bool
  md_dhtRouting :: DHTRouting
  md_seedPeering :: bool
  md_remoteBackends :: "string list"

definition read_modes :: "cli_ctx \<Rightarrow> modes" where
  "read_modes cctx =
     (let m = \<lparr>md_libp2p = c_Bool cctx ''libp2p'', md_bitswap = c_Bool cctx ''bitswap'',
            md_dhtRouting = c_String cctx ''dht-routing'',
            md_seedPeering = c_Bool cctx ''seed-peering'',
            md_remoteBackends = c_StringSlice cctx ''remote-backends''\<rparr>
      in if md_remoteBackends m \<noteq> []
         then m\<lparr>md_libp2p := False, md_bitswap := False, md_dhtRouting := DHTOff\<rparr>
         else m)"

record main_lib =
  ml_crypto :: crypto_lib
  ml_Getenv :: "string \<Rightarrow> string"
  ml_write_error :: "string \<Rightarrow> error option"
  ml_AddrInfoFromString :: "string \<Rightarrow> AddrInfo result"
  ml_peer_Decode :: "string \<Rightarrow> peer_id result"

definition secrets_dir :: "main_lib \<Rightarrow> string \<Rightarrow> string" where
  "secrets_dir lib ddir =
     (let credDir = ml_Getenv lib ''CREDENTIALS_DIRECTORY''
      in if 0 < length credDir then credDir else ddir)"

definition read_seed :: "cli_ctx \<Rightarrow> string \<Rightarrow> fs_state \<Rightarrow> string result" where
  "read_seed cctx secretsDir fs =
     (case fs_read fs (filepath_Join [secretsDir, ''seed'']) of
        Inl err \<Rightarrow>
          if errors_is_not_exist err then Inr (c_String cctx ''seed'')
          else Inl (Wrap ''error reading seed credentials: '' err)
      | Inr bs \<Rightarrow> Inr (trim_space bs))"

definition has_seed :: "string \<Rightarrow> i64 \<Rightarrow> bool" where
  "has_seed seed index \<longleftrightarrow> 0 < length seed \<and> sle 0 index"

definition load_key ::
  "main_lib \<Rightarrow> string \<Rightarrow> string \<Rightarrow> i64 \<Rightarrow> fs_state \<Rightarrow> fs_state \<times> priv_key result" where
  "load_key lib secretsDir seed index fs =
     (if has_seed seed index then (fs, deriveKey (ml_crypto lib) seed (deriveKeyInfo index))
      else loadOrInitPeerKey (ml_crypto lib) (ml_write_error lib)
             (filepath_Join [secretsDir, ''libp2p.key'']) fs)"

definition peering_addr :: "main_lib \<Rightarrow> string \<Rightarrow> i64 \<Rightarrow> string \<Rightarrow> AddrInfo result" where
  "peering_addr lib seed index maStr =
     (case (if has_seed seed index then replaceRainbowSeedWithPeer (ml_crypto lib) maStr seed
            else if rainbowSeedRegex_MatchString maStr then
              Inl (Err (''unable to peer with '' @ go_quote maStr @
                '' without defining --seed-index of this instance first''))
            else Inr maStr) of
        Inl err \<Rightarrow> Inl err
      | Inr maStr' \<Rightarrow> ml_AddrInfoFromString lib maStr')"

record identity =
  id_seed :: string
  id_index :: i64
  id_priv :: "priv_key option"
  id_peering :: "AddrInfo list"

definition load_identity ::
  "main_lib \<Rightarrow> cli_ctx \<Rightarrow> modes \<Rightarrow> fs_state \<Rightarrow> fs_state \<times> identity result" where
  "load_identity lib cctx m fs =
     (if \<not> md_libp2p m then
        (fs, Inr \<lparr>id_seed = [], id_index = 0, id_priv = None, id_peering = []\<rparr>)
      else
        (let secretsDir = secrets_dir lib (c_String cctx ''datadir'') in
         case read_seed cctx secretsDir fs of
           Inl err \<Rightarrow> (fs, Inl err)
         | Inr seed \<Rightarrow>
             (let index = c_Int cctx ''seed-index'' in
              case load_key lib secretsDir seed index fs of
                (fs1, Inl err) \<Rightarrow> (fs1, Inl err)
              | (fs1, Inr priv) \<Rightarrow>
                  (case res_map (peering_addr lib seed index) (c_StringSlice cctx ''peering'') of
                     Inl err \<Rightarrow> (fs1, Inl err)
                   | Inr addrs \<Rightarrow>
                       (fs1, Inr \<lparr>id_seed = seed, id_index = index, id_priv = Some priv,
                         id_peering = addrs\<rparr>)))))"

section \<open>The configuration\<close>

definition ignored_providers :: "main_lib \<Rightarrow> cli_ctx \<Rightarrow> peer_id list result" where
  "ignored_providers lib cctx =
     res_map (\<lambda>pstr. case ml_peer_Decode lib pstr of
         Inl err \<Rightarrow> Inl (Wrap ''error parsing peer in routing-ignore-providers: '' err)
       | Inr pid \<Rightarrow> Inr pid) (c_StringSlice cctx ''routing-ignore-providers'')"

definition non_empty :: "string list \<Rightarrow> string list" where
  "non_empty = delete_func (\<lambda>s. s = [])"

definition router_filter_protocols :: "cli_ctx \<Rightarrow> string list" where
  "router_filter_protocols cctx =
     (let routerFilterProtocols = c_StringSlice cctx ''http-routers-filter-protocols''
      in if c_Bool cctx ''http-retrieval-enable''
         then routerFilterProtocols @ [httpRouterGatewayProtocol] else routerFilterProtocols)"

definition max_dont_have_errors :: "cli_ctx \<Rightarrow> i64" where
  "max_dont_have_errors cctx =
     (let n = c_Int cctx ''http-retrieval-max-dont-have-errors'' in if n = 0 then 100 else n)"

definition build_config :: "cli_ctx \<Rightarrow> modes \<Rightarrow> identity \<Rightarrow> peer_id list \<Rightarrow> Config" where
  "build_config cctx m ident routingIgnoreProviders =
    (let ddir = c_String cctx ''datadir'' in
     zero_Config\<lparr>
      DataDir := ddir,
      BlockstoreType := c_String cctx ''blockstore'',
      GatewayDomains := c_StringSlice cctx ''gateway-domains'',
      SubdomainGatewayDomains := c_StringSlice cctx ''subdomain-gateway-domains'',
      TrustlessGatewayDomains := c_StringSlice cctx ''trustless-gateway-domains'',
      DNSLinkGatewayDomains := non_empty (c_StringSlice cctx ''dnslink-gateway-domains''),
      ConnMgrLow := c_Int cctx ''libp2p-connmgr-low'',
      ConnMgrHi := c_Int cctx ''libp2p-connmgr-high'',
      ConnMgrGrace := c_Duration cctx ''libp2p-connmgr-grace'',
      MaxMemory := c_Uint64 cctx ''libp2p-max-memory'',
      MaxFD := c_Int cctx ''libp2p-max-fd'',
      InMemBlockCache := c_Int64 cctx ''inmem-block-cache'',
      RoutingV1Endpoints := c_StringSlice cctx ''http-routers'',
      RoutingV1FilterProtocols := router_filter_protocols cctx,
      HTTPRoutersTimeout := c_Duration cctx ''http-routers-timeout'',
      RoutingTimeout := c_Duration cctx ''routing-timeout'',
      DHTRouting := md_dhtRouting m,
      DHTSharedHost := c_Bool cctx ''dht-shared-host'',
      Bitswap := md_bitswap m,
      BitswapWantHaveReplaceSize := c_Int cctx ''bitswap-wanthave-replace-size'',
      BitswapEnableDuplicateBlockStats := c_Bool cctx ''bitswap-enable-duplicate-block-stats'',
      IpnsMaxCacheTTL := c_Duration cctx ''ipns-max-cache-ttl'',
      DenylistSubs := c_StringSlice cctx ''denylists'',
      Peering := id_peering ident,
      PeeringSharedCache := c_Bool cctx ''peering-shared-cache'',
      Seed := id_seed ident,
      SeedIndex := id_index ident,
      SeedPeering := md_seedPeering m,
      SeedPeeringMaxIndex := c_Int cctx ''seed-peering-max-index'',
      RemoteBackends := md_remoteBackends m,
      RemoteBackendsIPNS := c_Bool cctx ''remote-backends-ipns'',
      RemoteBackendMode := c_String cctx ''remote-backends-mode'',
      GCInterval := c_Duration cctx ''gc-interval'',
      GCThreshold := c_Float64 cctx ''gc-threshold'',
      ListenAddrs := c_StringSlice cctx ''libp2p-listen-addrs'',
      TracingAuthToken := c_String cctx ''tracing-auth'',
      Bootstrap := [c_String cctx ''bootstrap''],
      AutoConf := \<lparr>ac_Enabled = c_Bool cctx ''autoconf'', ac_URL = c_String cctx ''autoconf-url'',
        ac_RefreshInterval = c_Duration cctx ''autoconf-refresh'',
        ac_CacheDir = filepath_Join [ddir, ''.autoconf-cache'']\<rparr>,
      BytesPerSync := c_Int cctx ''pebble-bytes-per-sync'',
      DisableWAL := c_Bool cctx ''pebble-disable-wal'',
      L0CompactionThreshold := c_Int cctx ''pebble-l0-compaction-threshold'',
      L0StopWritesThreshold := c_Int cctx ''pebble-l0-stop-writes-threshold'',
      LBaseMaxBytes := c_Int64 cctx ''pebble-lbase-max-bytes'',
      MemTableSize := c_Uint64 cctx ''pebble-mem-table-size'',
      MemTableStopWritesThreshold := c_Int cctx ''pebble-mem-table-stop-writes-threshold'',
      WALBytesPerSync := c_Int cctx ''pebble-wal-Bytes-per-sync'',
      MaxConcurrentCompactions := c_Int cctx ''pebble-max-concurrent-compactions'',
      WALMinSyncInterval := second * c_Int cctx ''pebble-wal-min-sync-interval-sec'',
      RoutingMaxRequests := c_Int cctx ''routing-max-requests'',
      RoutingMaxProviders := c_Int cctx ''routing-max-providers'',
      RoutingMaxTimeout := c_Duration cctx ''routing-max-timeout'',
      RoutingIgnoreProviders := routingIgnoreProviders,
      HTTPRetrievalEnable := c_Bool cctx ''http-retrieval-enable'',
      HTTPRetrievalAllowlist := non_empty (c_StringSlice cctx ''http-retrieval-allowlist''),
      HTTPRetrievalDenylist := non_empty (c_StringSlice cctx ''http-retrieval-denylist''),
      HTTPRetrievalWorkers := c_Int cctx ''http-retrieval-workers'',
      HTTPRetrievalMaxDontHaveErrors := max_dont_have_errors cctx,
      HTTPRetrievalMetricsLabelsForEndpoints :=
        non_empty (c_StringSlice cctx ''http-retrieval-metrics-labels-for-endpoints''),
      MaxConcurrentRequests := c_Int cctx ''max-concurrent-requests'',
      RetrievalTimeout := c_Duration cctx ''retrieval-timeout'',
      MaxRequestDuration := c_Duration cctx ''max-request-duration'',
      MaxRangeRequestFileSize := c_Int64 cctx ''max-range-request-file-size'',
      MaxDeserializedResponseSize := c_Int64 cctx ''max-deserialized-response-size'',
      MaxUnixFSDAGResponseSize := c_Int64 cctx ''max-unixfs-dag-response-size'',
      DiagnosticServiceURL := c_String cctx ''diagnostic-service-url''\<rparr>)"

text \<open>The first part of the app's action: modes, identity, configuration.\<close>

definition read_config ::
  "main_lib \<Rightarrow> cli_ctx \<Rightarrow> fs_state \<Rightarrow> fs_state \<times> (modes \<times> identity \<times> Config) result" where
  "read_config lib cctx fs =
     (let m = read_modes cctx in
      case load_identity lib cctx m fs of
        (fs1, Inl err) \<Rightarrow> (fs1, Inl err)
      | (fs1, Inr ident) \<Rightarrow>
          (case ignored_providers lib cctx of
             Inl err \<Rightarrow> (fs1, Inl err)
           | Inr ignored \<Rightarrow> (fs1, Inr (m, ident, build_config cctx m ident ignored))))"

section \<open>Properties\<close>

lemma app_Flags_names [simp]:
  "''pebble-wal-Bytes-per-sync'' \<notin> set (map fl_Name app_Flags)"
  "''pebble-wal-min-sync-interval-sec'' \<notin> set (map fl_Name app_Flags)"
  by code_simp+

text \<open>The flag table is unambiguous: no two flags have the same name or are set by the same
  environment variable.\<close>

lemma flags_unambiguous:
  "distinct (map fl_Name app_Flags) \<and> distinct (map fl_EnvVar app_Flags)"
  by code_simp

lemma build_config_fields:
  "Bitswap (build_config cctx m ident ign) = md_bitswap m"
  "DHTRouting (build_config cctx m ident ign) = md_dhtRouting m"
  "RemoteBackends (build_config cctx m ident ign) = md_remoteBackends m"
  "RemoteBackendMode (build_config cctx m ident ign) = c_String cctx ''remote-backends-mode''"
  "Peering (build_config cctx m ident ign) = id_peering ident"
  "Seed (build_config cctx m ident ign) = id_seed ident"
  "Bootstrap (build_config cctx m ident ign) = [c_String cctx ''bootstrap'']"
  "AutoConf (build_config cctx m ident ign) =
     \<lparr>ac_Enabled = c_Bool cctx ''autoconf'', ac_URL = c_String cctx ''autoconf-url'',
      ac_RefreshInterval = c_Duration cctx ''autoconf-refresh'',
      ac_CacheDir = filepath_Join [c_String cctx ''datadir'', ''.autoconf-cache'']\<rparr>"
  "WALBytesPerSync (build_config cctx m ident ign) = c_Int cctx ''pebble-wal-Bytes-per-sync''"
  "WALMinSyncInterval (build_config cctx m ident ign) =
     second * c_Int cctx ''pebble-wal-min-sync-interval-sec''"
  by (simp_all add: build_config_def Let_def)

text \<open>C32: Two options of the pebble blockstore never take effect: whatever the flags say, the
  configuration has the write-ahead log's sync settings at zero, because they are read under
  names that no flag has, although the flags themselves are declared.\<close>

theorem pebble_wal_options_ignored:
  assumes "undeclared_zero cctx"
  shows "WALBytesPerSync (build_config cctx m ident ign) = 0 \<and>
    WALMinSyncInterval (build_config cctx m ident ign) = 0 \<and>
    Flag ''pebble-wal-bytes-per-sync'' (VInt 0) ''PEBBLE_WAL_BYTES_PER_SYNC'' \<in> set app_Flags \<and>
    Flag ''pebble-wal-min-sync-interval'' (VDuration 0) ''PEBBLE_WAL_MIN_SYNC_INTERVAL'' \<in> set app_Flags"
proof -
  have "c_Int cctx ''pebble-wal-Bytes-per-sync'' = 0" "c_Int cctx ''pebble-wal-min-sync-interval-sec'' = 0"
    using assms app_Flags_names unfolding undeclared_zero_def by blast+
  moreover have "Flag ''pebble-wal-bytes-per-sync'' (VInt 0) ''PEBBLE_WAL_BYTES_PER_SYNC'' \<in> set flags_storage"
    "Flag ''pebble-wal-min-sync-interval'' (VDuration 0) ''PEBBLE_WAL_MIN_SYNC_INTERVAL'' \<in> set flags_storage"
    by (simp_all only: flags_storage_def list.set insert_iff simp_thms)
  ultimately show ?thesis unfolding build_config_fields app_Flags_def by simp
qed

lemma lookup_flag_None: "name \<notin> set (map fl_Name fs) \<Longrightarrow> lookup_flag fs name = None"
  by (induction fs) auto

lemma default_cctx_undeclared: "undeclared_zero default_cctx"
  by (simp add: undeclared_zero_def default_cctx_def lookup_flag_None int_value_def del: list.set_map)

theorem pebble_wal_options_ignored_witness:
  "WALBytesPerSync (build_config (default_cctx\<lparr>c_Int := (c_Int default_cctx)(''pebble-wal-bytes-per-sync'' := 4096)\<rparr>)
     (read_modes default_cctx) \<lparr>id_seed = [], id_index = 0, id_priv = None, id_peering = []\<rparr> []) = 0"
proof -
  let ?c = "default_cctx\<lparr>c_Int := (c_Int default_cctx)(''pebble-wal-bytes-per-sync'' := 4096)\<rparr>"
  have d: "''pebble-wal-bytes-per-sync'' \<in> set (map fl_Name app_Flags)" by code_simp
  have "undeclared_zero ?c"
    unfolding undeclared_zero_def
  proof (intro allI impI)
    fix nm assume n: "nm \<notin> set (map fl_Name app_Flags)"
    with d have "nm \<noteq> ''pebble-wal-bytes-per-sync''" by blast
    with default_cctx_undeclared [unfolded undeclared_zero_def, rule_format, OF n]
    show "c_String ?c nm = [] \<and> \<not> c_Bool ?c nm \<and> c_Int ?c nm = 0 \<and> c_Int64 ?c nm = 0 \<and>
      c_Uint64 ?c nm = 0 \<and> c_Duration ?c nm = 0 \<and> c_StringSlice ?c nm = [] \<and> \<not> c_IsSet ?c nm"
      by simp
  qed
  from pebble_wal_options_ignored [OF this] show ?thesis by blast
qed


definition example_main_lib :: main_lib where
  "example_main_lib =
     \<lparr>ml_crypto = example_crypto, ml_Getenv = (\<lambda>v. []), ml_write_error = (\<lambda>p. None),
      ml_AddrInfoFromString = (\<lambda>s. Inr \<lparr>ai_ID = s, ai_Addrs = []\<rparr>), ml_peer_Decode = (\<lambda>s. Inr s)\<rparr>"

definition empty_fs :: fs_state where
  "empty_fs = \<lparr>fs_read = (\<lambda>p. Inl (OsNotExist p)), fs_perm = (\<lambda>p. None)\<rparr>"

definition example_seed_cctx :: cli_ctx where
  "example_seed_cctx = default_cctx\<lparr>c_String := (\<lambda>name. if name = ''seed'' then example_seed else []),
     c_Int := (\<lambda>name. 3), c_StringSlice := (\<lambda>name. [])\<rparr>"

definition example_modes :: modes where
  "example_modes = \<lparr>md_libp2p = True, md_bitswap = True, md_dhtRouting = ''off'', md_seedPeering = False,
     md_remoteBackends = []\<rparr>"


end
