(* ===== verification/Autoconf.thy ===== *)
theory Autoconf
  imports Node_Config Go_Text
begin

text \<open>
  The autoconf subsystem (\<open>autoconf.go\<close>): which routing systems are native, the expansion of
  the \<open>auto\<close> placeholder in the bootstrap peers, the DNS resolvers and the HTTP routers, and
  the autoconf client. The expansion itself is done by boxo's autoconf library, a
  parameter with its data \<open>'d\<close>; the program decides what is expanded, and what happens
  to a placeholder when autoconf is disabled.
\<close>

record autoconf_client =
  cl_CacheDir :: string
  cl_UserAgent :: string
  cl_CacheSize :: i64
  cl_Timeout :: i64
  cl_URL :: string
  cl_RefreshInterval :: i64

record 'd autoconf_lib =
  AutoPlaceholder :: string
  SystemAminoDHT :: string
  DefaultRefreshInterval :: i64
  DefaultCacheSize :: i64
  DefaultTimeout :: i64
  MainnetAutoConfURL :: string
  RoutingV1ProvidersPath :: string
  RoutingV1PeersPath :: string
  RoutingV1IPNSPath :: string
  ExpandBootstrapPeers :: "string list \<Rightarrow> 'd option \<Rightarrow> string list \<Rightarrow> string list"
  ExpandDNSResolvers :: "(string, string) gomap \<Rightarrow> 'd option \<Rightarrow> (string, string) gomap"
  ExpandDelegatedEndpoints ::
    "string list \<Rightarrow> 'd option \<Rightarrow> string list \<Rightarrow> string list \<Rightarrow> string list"
  NewClient_error :: "autoconf_client \<Rightarrow> error option"

section \<open>Native systems\<close>

definition getNativeSystems :: "'d autoconf_lib \<Rightarrow> string \<Rightarrow> string list" where
  "getNativeSystems lib routingType =
     (if routingType \<in> {''dht'', ''accelerated'', ''standard'', ''auto''} then [SystemAminoDHT lib]
      else if routingType \<in> {''off'', ''none'', ''custom''} then []
      else [])"

definition getRoutingType :: "DHTRouting \<Rightarrow> string" where
  "getRoutingType dhtRouting =
     (if dhtRouting = DHTOff then ''off''
      else if dhtRouting = DHTStandard then ''standard''
      else if dhtRouting = DHTAccelerated then ''accelerated''
      else ''auto'')"

section \<open>Expanding the placeholder\<close>

definition autoconfDisabledError :: "string \<Rightarrow> string \<Rightarrow> string \<Rightarrow> error" where
  "autoconfDisabledError configType envVar flag =
     Err (concat [[CHR 0x27], ''auto'', [CHR 0x27], '' placeholder found in '', configType,
       '' but autoconf is disabled. Set explicit '', configType, '' with '', envVar, '' or '', flag,
       '', or re-enable autoconf''])"

definition bootstrap_list :: "string \<Rightarrow> string list" where
  "bootstrap_list bootstrapStr = map trim_space (split_on (CHR '','') bootstrapStr)"

definition expandAutoBootstrap ::
  "'d autoconf_lib \<Rightarrow> string \<Rightarrow> Config \<Rightarrow> 'd option \<Rightarrow> string list result" where
  "expandAutoBootstrap lib bootstrapStr cfg autoConfData =
     (if bootstrapStr = [] then Inr []
      else
        (let bootstrapList = bootstrap_list bootstrapStr
         in if \<not> ac_Enabled (AutoConf cfg) then
              (if AutoPlaceholder lib \<in> set bootstrapList
               then Inl (autoconfDisabledError ''bootstrap peers'' ''RAINBOW_BOOTSTRAP'' ''--bootstrap'')
               else Inr bootstrapList)
            else
              (let routingType = getRoutingType (DHTRouting cfg);
                   nativeSystems = getNativeSystems lib routingType
               in Inr (ExpandBootstrapPeers lib bootstrapList autoConfData nativeSystems))))"

text \<open>The map of the resolvers: \<open>domain:url\<close>, the last entry for a domain wins, an entry without a
  colon is skipped.\<close>

definition add_resolver :: "string \<Rightarrow> (string, string) gomap \<Rightarrow> (string, string) gomap" where
  "add_resolver resolver m =
     (case split_n2 (CHR '':'') resolver of
        [p0, p1] \<Rightarrow> gomap_set (trim_space p0) (trim_space p1) m
      | _ \<Rightarrow> m)"

definition resolvers_map :: "string list \<Rightarrow> (string, string) gomap" where
  "resolvers_map resolversList = fold add_resolver resolversList gomap_empty"

definition expandAutoDNSResolvers ::
  "'d autoconf_lib \<Rightarrow> string list \<Rightarrow> Config \<Rightarrow> 'd option \<Rightarrow> (string, string) gomap result" where
  "expandAutoDNSResolvers lib resolversList cfg autoConfData =
     (let resolversMap = resolvers_map resolversList
      in if \<not> ac_Enabled (AutoConf cfg) then
           (if \<exists>url \<in> set (map snd resolversMap). url = AutoPlaceholder lib
            then Inl (autoconfDisabledError ''DNS resolvers'' ''RAINBOW_DNSLINK_RESOLVERS''
                   ''--dnslink-resolvers'')
            else Inr resolversMap)
         else Inr (ExpandDNSResolvers lib resolversMap autoConfData))"

definition expandAutoHTTPRouters ::
  "'d autoconf_lib \<Rightarrow> string list \<Rightarrow> Config \<Rightarrow> 'd option \<Rightarrow> string list result" where
  "expandAutoHTTPRouters lib routers cfg autoConfData =
     (if \<not> ac_Enabled (AutoConf cfg) then
        (if AutoPlaceholder lib \<in> set routers
         then Inl (autoconfDisabledError ''HTTP routers'' ''RAINBOW_HTTP_ROUTERS'' ''--http-routers'')
         else Inr routers)
      else
        (let routingType = getRoutingType (DHTRouting cfg);
             nativeSystems = getNativeSystems lib routingType
         in Inr (ExpandDelegatedEndpoints lib routers autoConfData nativeSystems
              [RoutingV1ProvidersPath lib, RoutingV1PeersPath lib, RoutingV1IPNSPath lib])))"

section \<open>The client\<close>

definition createAutoConfClient ::
  "'d autoconf_lib \<Rightarrow> string \<Rightarrow> AutoConfConfig \<Rightarrow> autoconf_client result" where
  "createAutoConfClient lib version config =
     (let config = (if ac_CacheDir config = []
                    then config\<lparr>ac_CacheDir := filepath_Join [''.'', ''.autoconf-cache'']\<rparr> else config);
          config = (if ac_RefreshInterval config = 0
                    then config\<lparr>ac_RefreshInterval := DefaultRefreshInterval lib\<rparr> else config);
          config = (if ac_URL config = []
                    then config\<lparr>ac_URL := MainnetAutoConfURL lib\<rparr> else config);
          client = \<lparr>cl_CacheDir = ac_CacheDir config, cl_UserAgent = ''rainbow/'' @ version,
            cl_CacheSize = DefaultCacheSize lib, cl_Timeout = DefaultTimeout lib,
            cl_URL = ac_URL config, cl_RefreshInterval = ac_RefreshInterval config\<rparr>
      in case NewClient_error lib client of Some e \<Rightarrow> Inl e | None \<Rightarrow> Inr client)"

section \<open>The contract of the three expansions\<close>

text \<open>
  What the start-up code relies on: with autoconf disabled the input is only parsed, and
  refused when a placeholder is in it; with autoconf enabled the library decides.
\<close>

locale auto_expansion =
  fixes expand :: "Config \<Rightarrow> 'd option \<Rightarrow> 'a \<Rightarrow> 'b result"
    and parse :: "'a \<Rightarrow> 'b"
    and entries :: "'b \<Rightarrow> string list"
    and placeholder :: string
    and library :: "Config \<Rightarrow> 'd option \<Rightarrow> 'a \<Rightarrow> 'b"
  assumes disabled_refuse: "\<not> ac_Enabled (AutoConf cfg) \<Longrightarrow> placeholder \<in> set (entries (parse x)) \<Longrightarrow>
      \<exists>e. expand cfg d x = Inl e"
    and disabled_parse: "\<not> ac_Enabled (AutoConf cfg) \<Longrightarrow> placeholder \<notin> set (entries (parse x)) \<Longrightarrow>
      expand cfg d x = Inr (parse x)"
    and enabled: "ac_Enabled (AutoConf cfg) \<Longrightarrow> expand cfg d x = Inr (library cfg d x)"
begin

lemma no_placeholder_left:
  assumes "\<not> ac_Enabled (AutoConf cfg)" and "expand cfg d x = Inr y"
  shows "y = parse x" and "placeholder \<notin> set (entries y)"
  using assms disabled_refuse [OF assms(1)] disabled_parse [OF assms(1)]
  by (metis Inl_Inr_False sum.inject(2))+

lemma refused_iff:
  "(\<exists>e. expand cfg d x = Inl e) \<longleftrightarrow>
     \<not> ac_Enabled (AutoConf cfg) \<and> placeholder \<in> set (entries (parse x))"
  using disabled_refuse disabled_parse enabled by (metis Inl_Inr_False)

end

text \<open>The placeholder is a non-empty string, so an empty bootstrap string holds none.\<close>

definition native_of :: "'d autoconf_lib \<Rightarrow> Config \<Rightarrow> string list" where
  "native_of lib cfg = getNativeSystems lib (getRoutingType (DHTRouting cfg))"

interpretation boot: auto_expansion
  "\<lambda>cfg d s. expandAutoBootstrap lib s cfg d"
  "\<lambda>s. if s = [] then [] else bootstrap_list s"
  "\<lambda>ys. ys" "AutoPlaceholder lib"
  "\<lambda>cfg d s. if s = [] then []
             else ExpandBootstrapPeers lib (bootstrap_list s) d (native_of lib cfg)"
  for lib :: "'d autoconf_lib"
  by unfold_locales (auto simp: expandAutoBootstrap_def native_of_def Let_def split: if_splits)

interpretation dns: auto_expansion
  "\<lambda>cfg d rs. expandAutoDNSResolvers lib rs cfg d" resolvers_map "map snd" "AutoPlaceholder lib"
  "\<lambda>cfg d rs. ExpandDNSResolvers lib (resolvers_map rs) d"
  for lib :: "'d autoconf_lib"
  by unfold_locales (auto simp: expandAutoDNSResolvers_def Let_def)

interpretation rtr: auto_expansion
  "\<lambda>cfg d rs. expandAutoHTTPRouters lib rs cfg d" "\<lambda>rs. rs" "\<lambda>rs. rs" "AutoPlaceholder lib"
  "\<lambda>cfg d rs. ExpandDelegatedEndpoints lib rs d (native_of lib cfg)
     [RoutingV1ProvidersPath lib, RoutingV1PeersPath lib, RoutingV1IPNSPath lib]"
  for lib :: "'d autoconf_lib"
  by unfold_locales (auto simp: expandAutoHTTPRouters_def native_of_def Let_def)

section \<open>Properties\<close>

text \<open>C29: With autoconf disabled no placeholder gets through: each of the three expansions fails
  when its input holds one, and otherwise returns the parsed input, in which there is none.\<close>

theorem disabled_autoconf_rejects_auto:
  assumes "\<not> ac_Enabled (AutoConf cfg)"
  shows "(case expandAutoBootstrap lib s cfg d of
       Inl e \<Rightarrow> s \<noteq> [] \<and> AutoPlaceholder lib \<in> set (bootstrap_list s)
     | Inr ys \<Rightarrow> ys = (if s = [] then [] else bootstrap_list s) \<and> AutoPlaceholder lib \<notin> set ys) \<and>
    (case expandAutoHTTPRouters lib rs cfg d of
       Inl e \<Rightarrow> AutoPlaceholder lib \<in> set rs
     | Inr ys \<Rightarrow> ys = rs \<and> AutoPlaceholder lib \<notin> set ys) \<and>
    (case expandAutoDNSResolvers lib ds cfg d of
       Inl e \<Rightarrow> AutoPlaceholder lib \<in> set (map snd (resolvers_map ds))
     | Inr m \<Rightarrow> m = resolvers_map ds \<and> AutoPlaceholder lib \<notin> set (map snd m))"
  using boot.refused_iff [of lib s cfg d] boot.no_placeholder_left [OF assms, of lib s d]
    rtr.refused_iff [of lib rs cfg d] rtr.no_placeholder_left [OF assms, of lib rs d]
    dns.refused_iff [of lib ds cfg d] dns.no_placeholder_left [OF assms, of lib ds d]
  by (auto split: sum.split if_splits)

definition example_autoconf_lib :: "unit autoconf_lib" where
  "example_autoconf_lib =
     \<lparr>AutoPlaceholder = ''auto'', SystemAminoDHT = ''AminoDHT'', DefaultRefreshInterval = 86400,
      DefaultCacheSize = 3, DefaultTimeout = 5, MainnetAutoConfURL = ''https://conf'',
      RoutingV1ProvidersPath = ''/providers'', RoutingV1PeersPath = ''/peers'',
      RoutingV1IPNSPath = ''/ipns'',
      ExpandBootstrapPeers = (\<lambda>xs d n. filter (\<lambda>x. x \<noteq> ''auto'') xs),
      ExpandDNSResolvers = (\<lambda>m d. filter (\<lambda>(k, v). v \<noteq> ''auto'') m),
      ExpandDelegatedEndpoints = (\<lambda>xs d n ps. filter (\<lambda>x. x \<noteq> ''auto'') xs),
      NewClient_error = (\<lambda>_. None)\<rparr>"

theorem disabled_autoconf_rejects_auto_witness:
  "(\<exists>e. expandAutoHTTPRouters example_autoconf_lib [''a'', ''auto''] zero_Config None = Inl e) \<and>
   expandAutoHTTPRouters example_autoconf_lib [''a''] zero_Config None = Inr [''a'']"
proof -
  have d: "\<not> ac_Enabled (AutoConf zero_Config)" by (simp add: zero_Config_def)
  note p = disabled_autoconf_rejects_auto [OF d, where lib = example_autoconf_lib and s = "[]" and d = None
      and ds = "[]"]
  from p [where rs = "[''a'', ''auto'']"] p [where rs = "[''a'']"] show ?thesis
    by (auto simp: example_autoconf_lib_def split: sum.splits)
qed

text \<open>The entries of the resolver list that are read as \<open>domain:url\<close>.\<close>

definition parse_resolver :: "string \<Rightarrow> (string \<times> string) option" where
  "parse_resolver r =
     (if CHR '':'' \<in> set r
      then Some (trim_space (takeWhile (\<lambda>x. x \<noteq> CHR '':'') r),
                 trim_space (tl (dropWhile (\<lambda>x. x \<noteq> CHR '':'') r)))
      else None)"

lemma add_resolver_parse:
  "add_resolver r m = (case parse_resolver r of Some (d, u) \<Rightarrow> gomap_set d u m | None \<Rightarrow> m)"
  by (simp add: add_resolver_def parse_resolver_def split_n2_def)

lemma resolvers_map_fold:
  "fold add_resolver rs m =
     fold (\<lambda>p. gomap_set (fst p) (snd p)) (List.map_filter parse_resolver rs) m"
  by (induction rs arbitrary: m)
     (auto simp: add_resolver_parse map_filter_simps split: option.split)

lemma find_map_of: "map_of xs k = map_option snd (find (\<lambda>p. fst p = k) xs)"
  by (induction xs) auto

text \<open>C30: The DNS resolver of a domain is the URL of the last list entry for it: entries are split
  at their first colon, so the colons of a URL are kept, and entries without a colon are
  skipped.\<close>

theorem resolver_of_domain:
  "gomap_get (resolvers_map rs) domain =
     map_of (rev (List.map_filter parse_resolver rs)) domain"
  unfolding resolvers_map_def resolvers_map_fold gm.lookup_fold_store
  by (simp add: gm.lookup_mk find_map_of split: option.split)

text \<open>With autoconf enabled every expansion returns, and the library is told that the Amino DHT
  is native exactly when the DHT is not switched off.\<close>

lemma enabled_autoconf_expands:
  assumes "ac_Enabled (AutoConf cfg)"
  shows "\<exists>native. (native = [SystemAminoDHT lib] \<longleftrightarrow> DHTRouting cfg \<noteq> DHTOff) \<and>
    (DHTRouting cfg = DHTOff \<longrightarrow> native = []) \<and>
    expandAutoBootstrap lib s cfg d =
      Inr (if s = [] then [] else ExpandBootstrapPeers lib (bootstrap_list s) d native) \<and>
    expandAutoHTTPRouters lib rs cfg d =
      Inr (ExpandDelegatedEndpoints lib rs d native
        [RoutingV1ProvidersPath lib, RoutingV1PeersPath lib, RoutingV1IPNSPath lib]) \<and>
    expandAutoDNSResolvers lib ds cfg d = Inr (ExpandDNSResolvers lib (resolvers_map ds) d)"
  using boot.enabled [OF assms, of lib s d] rtr.enabled [OF assms, of lib rs d]
    dns.enabled [OF assms, of lib ds d]
  by (intro exI [of _ "native_of lib cfg"])
     (auto simp: native_of_def getNativeSystems_def getRoutingType_def)

lemma enabled_autoconf_expands_witness:
  "expandAutoHTTPRouters example_autoconf_lib [''a'', ''auto'']
     (zero_Config\<lparr>AutoConf := \<lparr>ac_Enabled = True, ac_URL = [], ac_RefreshInterval = 0, ac_CacheDir = []\<rparr>\<rparr>)
     None = Inr [''a'']"
  using enabled_autoconf_expands [of "zero_Config\<lparr>AutoConf :=
      \<lparr>ac_Enabled = True, ac_URL = [], ac_RefreshInterval = 0, ac_CacheDir = []\<rparr>\<rparr>",
      where lib = example_autoconf_lib and s = "[]" and d = None and rs = "[''a'', ''auto'']"
        and ds = "[]"]
  by (auto simp: example_autoconf_lib_def)

end
