(* ===== verification/Rcmgr.thy ===== *)
theory Rcmgr
  imports Node_Config
begin

text \<open>
  The libp2p resource limits (\<open>rcmgr.go\<close>, \<open>internal/fd\<close>): how memory and file descriptors
  are split between the Bitswap host and the DHT host, and the limit configuration of
  each. The resource manager library is the record \<open>rcmgr_lib\<close>: its constants, its
  completion of a partial configuration with scaled defaults
  (\<open>partial.Build(defaults.Scale(mem, fd)).ToPartialLimitConfig()\<close>) and the constructor of
  a manager, which can fail.
\<close>

section \<open>File descriptors of the process\<close>

text \<open>The three build variants of \<open>fd.GetNumFDs\<close>; on Unix, \<open>getrlimit\<close> may fail.\<close>

datatype platform = Unix "u64 result" | Windows | OtherOS

definition GetNumFDs_unix :: "u64 result \<Rightarrow> i64" where
  "GetNumFDs_unix rlimit = (case rlimit of Inl err \<Rightarrow> 0 | Inr cur \<Rightarrow> cur)"

definition GetNumFDs_windows :: i64 where
  "GetNumFDs_windows = 2 ^ 63 - 1"

definition GetNumFDs_not_unix :: i64 where
  "GetNumFDs_not_unix = 0"

fun GetNumFDs :: "platform \<Rightarrow> i64" where
  "GetNumFDs (Unix rlimit) = GetNumFDs_unix rlimit"
| "GetNumFDs Windows = GetNumFDs_windows"
| "GetNumFDs OtherOS = GetNumFDs_not_unix"

section \<open>Limit configurations\<close>

record ResourceLimits =
  rl_Memory :: i64
  rl_FD :: i64
  rl_Conns :: i64
  rl_ConnsInbound :: i64
  rl_ConnsOutbound :: i64
  rl_Streams :: i64
  rl_StreamsInbound :: i64
  rl_StreamsOutbound :: i64

record PartialLimitConfig =
  System :: ResourceLimits
  Transient :: ResourceLimits
  AllowlistedSystem :: ResourceLimits
  AllowlistedTransient :: ResourceLimits
  ServiceDefault :: ResourceLimits
  ServicePeerDefault :: ResourceLimits
  ProtocolDefault :: ResourceLimits
  ProtocolPeerDefault :: ResourceLimits
  ConnLimits :: ResourceLimits
  StreamLimits :: ResourceLimits
  PeerDefault :: ResourceLimits

text \<open>A concrete configuration is described by the complete partial one it is built from.\<close>

datatype ConcreteLimitConfig = BuildFromEmpty PartialLimitConfig

datatype ResourceManager = FixedLimiterManager ConcreteLimitConfig

record rcmgr_lib =
  Unlimited :: i64
  Unlimited64 :: i64
  DefaultLimit :: i64
  infiniteResourceLimits :: ResourceLimits
  complete_with_scaled_defaults :: "PartialLimitConfig \<Rightarrow> i64 \<Rightarrow> i64 \<Rightarrow> PartialLimitConfig"
  NewResourceManager_error :: "ConcreteLimitConfig \<Rightarrow> error option"
  TotalMemory :: u64
  rc_platform :: platform
  float_to_u64 :: "f64 \<Rightarrow> u64"  \<comment> \<open>\<open>uint64(f)\<close> where \<open>f\<close> does not fit\<close>
  float_to_i64 :: "f64 \<Rightarrow> i64"  \<comment> \<open>\<open>int(f)\<close> where \<open>f\<close> does not fit\<close>

definition scale_u64 :: "rcmgr_lib \<Rightarrow> u64 \<Rightarrow> f64 \<Rightarrow> u64" where
  "scale_u64 lib x f = u64_of_f64 (float_to_u64 lib) (f64_of_int (uint x) * f)"

definition scale_i64 :: "rcmgr_lib \<Rightarrow> i64 \<Rightarrow> f64 \<Rightarrow> i64" where
  "scale_i64 lib x f = i64_of_f64 (float_to_i64 lib) (f64_of_int (sint x) * f)"

definition NewResourceManager :: "rcmgr_lib \<Rightarrow> ConcreteLimitConfig \<Rightarrow> ResourceManager result" where
  "NewResourceManager lib cfg =
     (case NewResourceManager_error lib cfg of
        Some e \<Rightarrow> Inl e
      | None \<Rightarrow> Inr (FixedLimiterManager cfg))"

text \<open>
  The limits of the partial configuration, \<open>rcmgr.go\<close> lines 72-137 and 185-240: the two
  configurations differ in the inbound limits only.
\<close>

definition partial_limits :: "rcmgr_lib \<Rightarrow> u64 \<Rightarrow> i64 \<Rightarrow> i64 \<Rightarrow> i64 \<Rightarrow> PartialLimitConfig" where
  "partial_limits lib maxMemory maxFD systemConnsInbound peerStreamsInbound =
     \<lparr>System = \<lparr>rl_Memory = maxMemory, rl_FD = maxFD, rl_Conns = Unlimited lib,
        rl_ConnsInbound = systemConnsInbound, rl_ConnsOutbound = Unlimited lib,
        rl_Streams = Unlimited lib, rl_StreamsInbound = Unlimited lib,
        rl_StreamsOutbound = Unlimited lib\<rparr>,
      Transient = \<lparr>rl_Memory = maxMemory div 4, rl_FD = go_div maxFD 4, rl_Conns = Unlimited lib,
        rl_ConnsInbound = go_div systemConnsInbound 4, rl_ConnsOutbound = Unlimited lib,
        rl_Streams = Unlimited lib, rl_StreamsInbound = Unlimited lib,
        rl_StreamsOutbound = Unlimited lib\<rparr>,
      AllowlistedSystem = infiniteResourceLimits lib,
      AllowlistedTransient = infiniteResourceLimits lib,
      ServiceDefault = infiniteResourceLimits lib,
      ServicePeerDefault = infiniteResourceLimits lib,
      ProtocolDefault = infiniteResourceLimits lib,
      ProtocolPeerDefault = infiniteResourceLimits lib,
      ConnLimits = infiniteResourceLimits lib,
      StreamLimits = infiniteResourceLimits lib,
      PeerDefault = \<lparr>rl_Memory = Unlimited64 lib, rl_FD = Unlimited lib, rl_Conns = Unlimited lib,
        rl_ConnsInbound = DefaultLimit lib, rl_ConnsOutbound = Unlimited lib,
        rl_Streams = Unlimited lib, rl_StreamsInbound = peerStreamsInbound,
        rl_StreamsOutbound = Unlimited lib\<rparr>\<rparr>"

text \<open>
  The override of the autoscaled inbound limits, lines 150-165. The division panics when
  the inbound connection limit is zero.
\<close>

definition max_inbound_conns :: "i64 \<Rightarrow> i64 \<Rightarrow> i64" where
  "max_inbound_conns connsInbound connMgrHighWater =
     (let connmgrHighWaterTimesTwo = connMgrHighWater * 2;
          m = (if slt connsInbound connmgrHighWaterTimesTwo then connmgrHighWaterTimesTwo
               else connsInbound)
      in if slt m 800 then 800 else m)"

definition override_inbound ::
  "rcmgr_lib \<Rightarrow> i64 \<Rightarrow> PartialLimitConfig \<Rightarrow> PartialLimitConfig outcome" where
  "override_inbound lib connMgrHighWater p =
     (let sys = System p in
      if slt (DefaultLimit lib) (rl_ConnsInbound sys) then
        (let maxInboundConns = max_inbound_conns (rl_ConnsInbound sys) connMgrHighWater in
         if slt (DefaultLimit lib) (rl_StreamsInbound sys) then
           (if rl_ConnsInbound sys = 0 then Panic
            else Ret (p\<lparr>System := sys\<lparr>
              rl_StreamsInbound :=
                go_div (maxInboundConns * rl_StreamsInbound sys) (rl_ConnsInbound sys),
              rl_ConnsInbound := maxInboundConns\<rparr>\<rparr>))
         else Ret (p\<lparr>System := sys\<lparr>rl_ConnsInbound := maxInboundConns\<rparr>\<rparr>))
      else Ret p)"

definition makeResourceManagerConfig ::
  "rcmgr_lib \<Rightarrow> u64 \<Rightarrow> i64 \<Rightarrow> i64 \<Rightarrow> ConcreteLimitConfig outcome" where
  "makeResourceManagerConfig lib maxMemory0 maxFD0 connMgrHighWater =
     (let maxMemory = (if maxMemory0 = 0 then scale_u64 lib (TotalMemory lib) f64_085 else maxMemory0);
          maxFD = (if maxFD0 = 0 then go_div (GetNumFDs (rc_platform lib)) 2 else maxFD0);
          maxMemoryMB = maxMemory div (1024 * 1024);
          systemConnsInbound = 1 * maxMemoryMB;
          partialLimits = partial_limits lib maxMemory maxFD systemConnsInbound (DefaultLimit lib);
          partialLimits = complete_with_scaled_defaults lib partialLimits maxMemory maxFD
      in case override_inbound lib connMgrHighWater partialLimits of
           Panic \<Rightarrow> Panic
         | Ret p \<Rightarrow> Ret (BuildFromEmpty p))"

definition makeSeparateDHTClientResourceManagerConfig ::
  "rcmgr_lib \<Rightarrow> u64 \<Rightarrow> i64 \<Rightarrow> ConcreteLimitConfig" where
  "makeSeparateDHTClientResourceManagerConfig lib maxMemory maxFD =
     (let systemConnsInbound = 30;
          systemStreamsPerPeerInbound = 10;
          partialLimits =
            partial_limits lib maxMemory maxFD systemConnsInbound systemStreamsPerPeerInbound
      in BuildFromEmpty (complete_with_scaled_defaults lib partialLimits maxMemory maxFD))"

text \<open>The pair of managers; the second is \<open>nil\<close> when the DHT shares the host.\<close>

definition makeResourceMgrs ::
  "rcmgr_lib \<Rightarrow> u64 \<Rightarrow> i64 \<Rightarrow> i64 \<Rightarrow> bool
    \<Rightarrow> (ResourceManager \<times> ResourceManager option) result outcome" where
  "makeResourceMgrs lib maxMemory0 maxFD0 connMgrHighWater separateDHT =
     (let maxMemory = (if maxMemory0 = 0 then scale_u64 lib (TotalMemory lib) f64_085 else maxMemory0);
          maxFD = (if maxFD0 = 0 then go_div (GetNumFDs (rc_platform lib)) 2 else maxFD0)
      in if \<not> separateDHT then
           (case makeResourceManagerConfig lib maxMemory maxFD connMgrHighWater of
              Panic \<Rightarrow> Panic
            | Ret cfg \<Rightarrow>
                (case NewResourceManager lib cfg of
                   Inl err \<Rightarrow> Ret (Inl err)
                 | Inr mgr \<Rightarrow> Ret (Inr (mgr, None))))
         else
           (let bitswapHostMem = scale_u64 lib maxMemory f64_085;
                bitswapHostFDs = scale_i64 lib maxFD f64_075
            in case makeResourceManagerConfig lib bitswapHostMem bitswapHostFDs connMgrHighWater of
                 Panic \<Rightarrow> Panic
               | Ret cfg \<Rightarrow>
                   (case NewResourceManager lib cfg of
                      Inl err \<Rightarrow> Ret (Inl err)
                    | Inr bitswapHostRcMgr \<Rightarrow>
                        (let dhtHostMem = maxMemory - bitswapHostMem;
                             dhtHostFDs = maxFD - bitswapHostFDs
                         in case NewResourceManager lib
                                   (makeSeparateDHTClientResourceManagerConfig lib dhtHostMem dhtHostFDs) of
                              Inl err \<Rightarrow> Ret (Inl err)
                            | Inr dhtHostRcMgr \<Rightarrow>
                                Ret (Inr (bitswapHostRcMgr, Some dhtHostRcMgr))))))"

section \<open>Properties\<close>

lemma scale_u64_085: "uint (scale_u64 lib x f64_085) \<le> uint x"
proof -
  have "uint x < 2 ^ 64" using uint_lt2p [of x] by simp
  then obtain r where r: "f64_trunc (f64_of_int (uint x) * f64_085) = Some r" "0 \<le> r" "r \<le> uint x"
    using f64_scale_085 [of "uint x"] by auto
  with \<open>uint x < 2 ^ 64\<close> show ?thesis
    by (simp add: scale_u64_def u64_of_f64_def unsigned_of_int take_bit_int_eq_self)
qed

lemma scale_i64_075:
  assumes "0 \<le> sint x"
  shows "0 \<le> sint (scale_i64 lib x f64_075)" "sint (scale_i64 lib x f64_075) \<le> sint x"
proof -
  obtain r where r: "f64_trunc (f64_of_int (sint x) * f64_075) = Some r" "0 \<le> r" "r \<le> sint x"
    using f64_scale_075 [of "sint x"] assms sint_bounds_i64(2) [of x] by auto
  then have "sint (scale_i64 lib x f64_075) = r"
    using sint_bounds_i64(2) [of x] by (simp add: scale_i64_def i64_of_f64_def sint_i64_of_int)
  with r show "0 \<le> sint (scale_i64 lib x f64_075)" "sint (scale_i64 lib x f64_075) \<le> sint x"
    by simp_all
qed

lemma uint_minus_le: "uint (b :: u64) \<le> uint a \<Longrightarrow> uint (a - b) = uint a - uint b"
  by (simp add: uint_sub_lem)

lemma max_inbound_conns_ge:
  "800 \<le> sint (max_inbound_conns c hw)"
  "sint c \<le> sint (max_inbound_conns c hw)"
  "sint (hw * 2) \<le> sint (max_inbound_conns c hw)"
  by (auto simp: max_inbound_conns_def Let_def slt_def)

text \<open>
  What the comment on lines 142-143 says of the completion: a limit that is set, so not
  \<open>DefaultLimit\<close>, is kept. Stated for the scopes and fields the program sets.
\<close>

definition keeps_set_limits :: "rcmgr_lib \<Rightarrow> bool" where
  "keeps_set_limits lib \<longleftrightarrow>
     (\<forall>p mem nfd scope field.
        scope \<in> {System, Transient, PeerDefault} \<longrightarrow>
        field \<in> {rl_Memory, rl_FD, rl_ConnsInbound, rl_StreamsInbound} \<longrightarrow>
        field (scope p) \<noteq> DefaultLimit lib \<longrightarrow>
        field (scope (complete_with_scaled_defaults lib p mem nfd)) = field (scope p))"

text \<open>The library's constants, as its documentation gives them.\<close>

definition documented_constants :: "rcmgr_lib \<Rightarrow> bool" where
  "documented_constants lib \<longleftrightarrow>
     Unlimited lib = - 1 \<and> Unlimited64 lib = - 1 \<and> DefaultLimit lib = 0"

lemma keeps_set_limitsD:
  assumes "keeps_set_limits lib" and "field (scope p) \<noteq> DefaultLimit lib"
    and "scope \<in> {System, Transient, PeerDefault}"
    and "field \<in> {rl_Memory, rl_FD, rl_ConnsInbound, rl_StreamsInbound}"
  shows "field (scope (complete_with_scaled_defaults lib p mem nfd)) = field (scope p)"
  using assms unfolding keeps_set_limits_def by blast

lemma sint_div_MiB: "sint (x div 1048576 :: u64) = uint x div 1048576"
proof -
  have "uint x < 2 ^ 64" using uint_lt2p [of x] by simp
  then have b: "0 \<le> uint x div 1048576" "uint x div 1048576 < 2 ^ 63"
    by (simp_all add: pos_imp_zdiv_nonneg_iff)
  have "x div 1048576 = word_of_int (uint x div 1048576)"
    by (simp add: word_div_def)
  then show ?thesis using b by (simp add: sint_i64_of_int)
qed

text \<open>
  With the documented default limit, 0, the override never divides by zero: the
  configuration of the main host is always returned.
\<close>

lemma main_config_returns:
  assumes "DefaultLimit lib = 0"
  shows "\<exists>p. makeResourceManagerConfig lib mem nfd hw = Ret (BuildFromEmpty p)"
  using assms
  by (auto simp: makeResourceManagerConfig_def override_inbound_def Let_def slt_def
      split: outcome.split)


text \<open>C17: The limits of the main host: with at least one MiB and one descriptor configured, the
  system scope gets exactly that memory and those descriptors, unlimited inbound streams,
  and as many inbound connections as there are MiB, raised to twice the connection
  manager's high water mark and to 800 at least.\<close>

theorem main_host_limits:
  assumes "keeps_set_limits lib" and "documented_constants lib"
    and "1048576 \<le> uint maxMemory" and "0 < sint maxFD"
  shows "\<exists>p. makeResourceManagerConfig lib maxMemory maxFD hw = Ret (BuildFromEmpty p) \<and>
      rl_Memory (System p) = maxMemory \<and> rl_FD (System p) = maxFD \<and>
      rl_StreamsInbound (System p) = Unlimited lib \<and>
      sint (rl_ConnsInbound (System p)) =
        max (max (uint maxMemory div 1048576) (sint (hw * 2))) 800"
proof -
  let ?mb = "maxMemory div 1048576"
  let ?p = "partial_limits lib maxMemory maxFD ?mb (DefaultLimit lib)"
  let ?q = "complete_with_scaled_defaults lib ?p maxMemory maxFD"
  have nz: "maxMemory \<noteq> 0" "maxFD \<noteq> 0" using assms(3,4) by auto
  have mb: "0 < sint ?mb" using assms(3) by (simp add: sint_div_MiB)
  then have mb0: "?mb \<noteq> 0" by auto
  have d: "Unlimited lib = - 1" "DefaultLimit lib = 0"
    using assms(2) by (simp_all add: documented_constants_def)
  note keep = keeps_set_limitsD [OF assms(1), where p = ?p and scope = System]
  have q: "rl_Memory (System ?q) = maxMemory" "rl_FD (System ?q) = maxFD"
    "rl_ConnsInbound (System ?q) = ?mb" "rl_StreamsInbound (System ?q) = - 1"
    using nz mb0 d by (subst keep; simp add: partial_limits_def)+
  have "slt (DefaultLimit lib) ?mb" using mb d by (simp add: slt_def)
  moreover have "\<not> slt (DefaultLimit lib) (- 1)" using d by (simp add: slt_def)
  ultimately have "override_inbound lib hw ?q =
      Ret (?q\<lparr>System := System ?q\<lparr>rl_ConnsInbound := max_inbound_conns ?mb hw\<rparr>\<rparr>)"
    by (simp add: override_inbound_def Let_def q)
  moreover have "sint (max_inbound_conns ?mb hw) =
      max (max (uint maxMemory div 1048576) (sint (hw * 2))) 800"
    by (auto simp: max_inbound_conns_def Let_def slt_def sint_div_MiB)
  ultimately show ?thesis using nz q d
    by (intro exI [of _ "?q\<lparr>System := System ?q\<lparr>rl_ConnsInbound := max_inbound_conns ?mb hw\<rparr>\<rparr>"])
       (simp add: makeResourceManagerConfig_def Let_def)
qed

text \<open>A library in which the documented behaviour holds: the completion only fills what is unset.\<close>

definition example_fill :: "i64 \<Rightarrow> i64 \<Rightarrow> i64" where
  "example_fill dflt x = (if x = 0 then dflt else x)"

definition example_fill_scope :: "ResourceLimits \<Rightarrow> ResourceLimits" where
  "example_fill_scope r = r\<lparr>rl_Memory := example_fill 1000 (rl_Memory r),
     rl_FD := example_fill 10 (rl_FD r), rl_ConnsInbound := example_fill 64 (rl_ConnsInbound r),
     rl_StreamsInbound := example_fill 128 (rl_StreamsInbound r)\<rparr>"

definition example_unlimited :: ResourceLimits where
  "example_unlimited =
     \<lparr>rl_Memory = - 1, rl_FD = - 1, rl_Conns = - 1, rl_ConnsInbound = - 1, rl_ConnsOutbound = - 1,
      rl_Streams = - 1, rl_StreamsInbound = - 1, rl_StreamsOutbound = - 1\<rparr>"

definition example_rcmgr_lib :: rcmgr_lib where
  "example_rcmgr_lib =
     \<lparr>Unlimited = - 1, Unlimited64 = - 1, DefaultLimit = 0,
      infiniteResourceLimits = example_unlimited,
      complete_with_scaled_defaults = (\<lambda>p mem nfd.
        p\<lparr>System := example_fill_scope (System p), Transient := example_fill_scope (Transient p),
          PeerDefault := example_fill_scope (PeerDefault p)\<rparr>),
      NewResourceManager_error = (\<lambda>_. None), TotalMemory = 17179869184,
      rc_platform = Unix (Inr 1024), float_to_u64 = (\<lambda>_. 0), float_to_i64 = (\<lambda>_. 0)\<rparr>"

lemma example_rcmgr_lib_ok:
  "keeps_set_limits example_rcmgr_lib" "documented_constants example_rcmgr_lib"
  by (auto simp: keeps_set_limits_def documented_constants_def example_rcmgr_lib_def
      example_fill_scope_def example_fill_def)

theorem main_host_limits_witness:
  "\<exists>p. makeResourceManagerConfig example_rcmgr_lib 1073741824 512 3000 = Ret (BuildFromEmpty p) \<and>
     rl_Memory (System p) = 1073741824 \<and> sint (rl_ConnsInbound (System p)) = 6000"
  using main_host_limits [OF example_rcmgr_lib_ok, of 1073741824 512 3000] by auto


end
