(* ===== verification/Blockstore.thy ===== *)
theory Blockstore
  imports Rainbow_Prelude
begin

text \<open>
  The blockstore interface of boxo as a record of operations over a state, the laws a
  store promises as a locale, and rainbow's own implementation of the interface, the
  \<open>switchingBlockstore\<close> (\<open>setup.go\<close> lines 588-627), which sends each call to the store
  named by the context or to the base store. The stores themselves are library code:
  \<open>deref\<close> gives the operations of the store behind a reference.
\<close>

section \<open>Contexts, blocks, and the interface\<close>

type_synonym cid = string
type_synonym bs_ref = nat

record block =
  blk_Cid :: cid
  blk_Data :: string

text \<open>
  A \<open>context.Context\<close>: the values attached with \<open>WithValue\<close>, innermost first, under
  keys that are compared by type and value (here named by a string), and the error of
  a cancelled context.
\<close>

datatype ctx_val = CtxBlockstore bs_ref | CtxOther string

record ctx =
  ctx_values :: "(string \<times> ctx_val) list"
  ctx_err :: "error option"

definition ctx_Value :: "ctx \<Rightarrow> string \<Rightarrow> ctx_val option" where
  "ctx_Value ctx k = map_of (ctx_values ctx) k"

definition ctx_WithValue :: "ctx \<Rightarrow> string \<Rightarrow> ctx_val \<Rightarrow> ctx" where
  "ctx_WithValue ctx k v = ctx\<lparr>ctx_values := (k, v) # ctx_values ctx\<rparr>"

lemma ctx_Value_WithValue [simp]:
  "ctx_Value (ctx_WithValue ctx k v) k' = (if k' = k then Some v else ctx_Value ctx k')"
  by (simp add: ctx_Value_def ctx_WithValue_def)

text \<open>
  The interface \<open>blockstore.Blockstore\<close>. Go's \<open>(value, err)\<close> results that the program
  reads independently of each other are pairs; \<open>AllKeysChan\<close> returns the list of the
  keys its channel delivers before it is closed.
\<close>

record 's blockstore_ops =
  bs_DeleteBlock :: "ctx \<Rightarrow> cid \<Rightarrow> 's \<Rightarrow> 's \<times> error option"
  bs_Has :: "ctx \<Rightarrow> cid \<Rightarrow> 's \<Rightarrow> 's \<times> (bool \<times> error option)"
  bs_Get :: "ctx \<Rightarrow> cid \<Rightarrow> 's \<Rightarrow> 's \<times> block result"
  bs_GetSize :: "ctx \<Rightarrow> cid \<Rightarrow> 's \<Rightarrow> 's \<times> (i64 \<times> error option)"
  bs_Put :: "ctx \<Rightarrow> block \<Rightarrow> 's \<Rightarrow> 's \<times> error option"
  bs_PutMany :: "ctx \<Rightarrow> block list \<Rightarrow> 's \<Rightarrow> 's \<times> error option"
  bs_AllKeysChan :: "ctx \<Rightarrow> 's \<Rightarrow> 's \<times> cid list result"

section \<open>The laws of the interface\<close>

locale blockstore =
  fixes ops :: "'s blockstore_ops"
    and ctx :: ctx
    and contents :: "'s \<Rightarrow> cid \<Rightarrow> string option"
  assumes delete_law: "bs_DeleteBlock ops ctx c s = (s', e) \<Longrightarrow>
      e = None \<and> contents s' = (contents s)(c := None)"
    and has_law: "\<And>r. bs_Has ops ctx c s = (s', r) \<Longrightarrow>
      r = (contents s c \<noteq> None, None) \<and> contents s' = contents s"
    and get_law: "\<And>r. bs_Get ops ctx c s = (s', r) \<Longrightarrow>
      (case contents s c of
         Some d \<Rightarrow> r = Inr \<lparr>blk_Cid = c, blk_Data = d\<rparr>
       | None \<Rightarrow> \<exists>e. r = Inl e) \<and> contents s' = contents s"
    and size_law: "\<And>r. bs_GetSize ops ctx c s = (s', r) \<Longrightarrow>
      (case contents s c of
         Some d \<Rightarrow> r = (word_of_int (int (length d)), None)
       | None \<Rightarrow> snd r \<noteq> None) \<and> contents s' = contents s"
    and put_law: "bs_Put ops ctx b s = (s', e) \<Longrightarrow>
      e = None \<and> contents s' = (contents s)(blk_Cid b \<mapsto> blk_Data b)"
    and put_many_law: "bs_PutMany ops ctx bs s = (s', e) \<Longrightarrow>
      e = None \<and> contents s' = fold (\<lambda>b m. m(blk_Cid b \<mapsto> blk_Data b)) bs (contents s)"
    and all_keys_law: "\<And>r. bs_AllKeysChan ops ctx s = (s', r) \<Longrightarrow>
      (\<exists>ks. r = Inr ks \<and> distinct ks \<and> set ks = dom (contents s)) \<and> contents s' = contents s"
begin

lemma put_get:
  assumes "bs_Put ops ctx b s = (s1, e1)" and "bs_Get ops ctx (blk_Cid b) s1 = (s2, r)"
  shows "r = Inr b"
  using put_law [OF assms(1)] get_law [OF assms(2)] by simp

lemma delete_has:
  assumes "bs_DeleteBlock ops ctx c s = (s1, e1)" and "bs_Has ops ctx c s1 = (s2, r)"
  shows "r = (False, None)"
  using delete_law [OF assms(1)] has_law [OF assms(2)] by simp

end

text \<open>
  Several stores behind references, as the daemon has them: the node's store and one
  per request that skips the cache. An operation on one leaves the others alone.
\<close>

locale blockstore_pool =
  fixes deref :: "bs_ref \<Rightarrow> 's blockstore_ops"
    and ctx :: ctx
    and contents_of :: "bs_ref \<Rightarrow> 's \<Rightarrow> cid \<Rightarrow> string option"
  assumes member: "blockstore (deref r) ctx (contents_of r)"
    and frame_delete: "r' \<noteq> r \<Longrightarrow>
      contents_of r' (fst (bs_DeleteBlock (deref r) ctx c s)) = contents_of r' s"
    and frame_put: "r' \<noteq> r \<Longrightarrow>
      contents_of r' (fst (bs_Put (deref r) ctx b s)) = contents_of r' s"
    and frame_put_many: "r' \<noteq> r \<Longrightarrow>
      contents_of r' (fst (bs_PutMany (deref r) ctx bs s)) = contents_of r' s"

section \<open>The switching blockstore\<close>

record switchingBlockstore =
  baseBlockstore :: bs_ref
  contextSwitchingKey :: string

definition getBlockstore :: "switchingBlockstore \<Rightarrow> ctx \<Rightarrow> bs_ref" where
  "getBlockstore s ctx =
     (case ctx_Value ctx (contextSwitchingKey s) of
        Some (CtxBlockstore alternativeBlockstore) \<Rightarrow> alternativeBlockstore
      | _ \<Rightarrow> baseBlockstore s)"

definition sw_DeleteBlock ::
  "(bs_ref \<Rightarrow> 's blockstore_ops) \<Rightarrow> switchingBlockstore \<Rightarrow> ctx \<Rightarrow> cid \<Rightarrow> 's \<Rightarrow> 's \<times> error option" where
  "sw_DeleteBlock deref s ctx c = bs_DeleteBlock (deref (getBlockstore s ctx)) ctx c"

definition sw_Has ::
  "(bs_ref \<Rightarrow> 's blockstore_ops) \<Rightarrow> switchingBlockstore \<Rightarrow> ctx \<Rightarrow> cid \<Rightarrow> 's
    \<Rightarrow> 's \<times> (bool \<times> error option)" where
  "sw_Has deref s ctx c = bs_Has (deref (getBlockstore s ctx)) ctx c"

definition sw_Get ::
  "(bs_ref \<Rightarrow> 's blockstore_ops) \<Rightarrow> switchingBlockstore \<Rightarrow> ctx \<Rightarrow> cid \<Rightarrow> 's \<Rightarrow> 's \<times> block result" where
  "sw_Get deref s ctx c = bs_Get (deref (getBlockstore s ctx)) ctx c"

definition sw_GetSize ::
  "(bs_ref \<Rightarrow> 's blockstore_ops) \<Rightarrow> switchingBlockstore \<Rightarrow> ctx \<Rightarrow> cid \<Rightarrow> 's
    \<Rightarrow> 's \<times> (i64 \<times> error option)" where
  "sw_GetSize deref s ctx c = bs_GetSize (deref (getBlockstore s ctx)) ctx c"

definition sw_Put ::
  "(bs_ref \<Rightarrow> 's blockstore_ops) \<Rightarrow> switchingBlockstore \<Rightarrow> ctx \<Rightarrow> block \<Rightarrow> 's \<Rightarrow> 's \<times> error option" where
  "sw_Put deref s ctx b = bs_Put (deref (getBlockstore s ctx)) ctx b"

definition sw_PutMany ::
  "(bs_ref \<Rightarrow> 's blockstore_ops) \<Rightarrow> switchingBlockstore \<Rightarrow> ctx \<Rightarrow> block list \<Rightarrow> 's
    \<Rightarrow> 's \<times> error option" where
  "sw_PutMany deref s ctx bs = bs_PutMany (deref (getBlockstore s ctx)) ctx bs"

definition sw_AllKeysChan ::
  "(bs_ref \<Rightarrow> 's blockstore_ops) \<Rightarrow> switchingBlockstore \<Rightarrow> ctx \<Rightarrow> 's \<Rightarrow> 's \<times> cid list result" where
  "sw_AllKeysChan deref s ctx = bs_AllKeysChan (deref (getBlockstore s ctx)) ctx"

text \<open>The methods as a value of the interface type (\<open>var _ blockstore.Blockstore = ...\<close>).\<close>

definition switching_ops ::
  "(bs_ref \<Rightarrow> 's blockstore_ops) \<Rightarrow> switchingBlockstore \<Rightarrow> 's blockstore_ops" where
  "switching_ops deref s =
     \<lparr>bs_DeleteBlock = sw_DeleteBlock deref s, bs_Has = sw_Has deref s, bs_Get = sw_Get deref s,
      bs_GetSize = sw_GetSize deref s, bs_Put = sw_Put deref s, bs_PutMany = sw_PutMany deref s,
      bs_AllKeysChan = sw_AllKeysChan deref s\<rparr>"

lemmas sw_method_defs =
  sw_DeleteBlock_def sw_Has_def sw_Get_def sw_GetSize_def sw_Put_def sw_PutMany_def
  sw_AllKeysChan_def

lemma getBlockstore_simps [simp]:
  "ctx_Value ctx (contextSwitchingKey s) = Some (CtxBlockstore r) \<Longrightarrow> getBlockstore s ctx = r"
  "ctx_Value ctx (contextSwitchingKey s) = None \<Longrightarrow> getBlockstore s ctx = baseBlockstore s"
  "ctx_Value ctx (contextSwitchingKey s) = Some (CtxOther v) \<Longrightarrow>
     getBlockstore s ctx = baseBlockstore s"
  by (simp_all add: getBlockstore_def)

text \<open>The switching store keeps every law of the store it switches to.\<close>

sublocale blockstore_pool \<subseteq>
  sw: blockstore "switching_ops deref sb" ctx "contents_of (getBlockstore sb ctx)" for sb
  using member [of "getBlockstore sb ctx"]
  by (simp add: blockstore_def switching_ops_def sw_method_defs)

text \<open>
  A pool of in-memory stores: what the in-memory datastore behind a cache-skipping
  request does, and a model in which the laws of the interface hold.
\<close>

type_synonym mem_state = "bs_ref \<Rightarrow> (cid, string) gomap"

definition mem_contents :: "bs_ref \<Rightarrow> mem_state \<Rightarrow> cid \<Rightarrow> string option" where
  "mem_contents r s c = gomap_get (s r) c"

definition mem_put :: "bs_ref \<Rightarrow> block \<Rightarrow> mem_state \<Rightarrow> mem_state" where
  "mem_put r b s = s(r := gomap_set (blk_Cid b) (blk_Data b) (s r))"

definition mem_not_found :: "cid \<Rightarrow> error" where
  "mem_not_found c = Wrap ''ipld: could not find '' (Err c)"

definition mem_ops :: "bs_ref \<Rightarrow> mem_state blockstore_ops" where
  "mem_ops r =
     \<lparr>bs_DeleteBlock = (\<lambda>ctx c s. (s(r := AList.delete c (s r)), None)),
      bs_Has = (\<lambda>ctx c s. (s, (mem_contents r s c \<noteq> None, None))),
      bs_Get = (\<lambda>ctx c s. (s, case mem_contents r s c of
                  Some d \<Rightarrow> Inr \<lparr>blk_Cid = c, blk_Data = d\<rparr> | None \<Rightarrow> Inl (mem_not_found c))),
      bs_GetSize = (\<lambda>ctx c s. (s, case mem_contents r s c of
                  Some d \<Rightarrow> (word_of_int (int (length d)), None)
                | None \<Rightarrow> (- 1, Some (mem_not_found c)))),
      bs_Put = (\<lambda>ctx b s. (mem_put r b s, None)),
      bs_PutMany = (\<lambda>ctx bs s. (fold (mem_put r) bs s, None)),
      bs_AllKeysChan = (\<lambda>ctx s. (s, Inr (remdups (map fst (s r)))))\<rparr>"

lemma mem_contents_put:
  "mem_contents r (mem_put r' b s) =
     (if r = r' then (mem_contents r s)(blk_Cid b \<mapsto> blk_Data b) else mem_contents r s)"
  by (auto simp: mem_contents_def mem_put_def gm.lookup_store)

lemma mem_contents_put_many:
  "mem_contents r (fold (mem_put r') bs s) =
     (if r = r' then fold (\<lambda>b m. m(blk_Cid b \<mapsto> blk_Data b)) bs (mem_contents r s)
      else mem_contents r s)"
  by (induction bs arbitrary: s) (auto simp: mem_contents_put)

lemma mem_contents_delete:
  "mem_contents r (s(r' := AList.delete c (s r'))) =
     (if r = r' then (mem_contents r s)(c := None) else mem_contents r s)"
  by (auto simp: mem_contents_def gomap_get_def fun_eq_iff delete_conv')

lemma mem_contents_dom: "dom (mem_contents r s) = fst ` set (s r)"
  by (auto simp: mem_contents_def gomap_get_def dom_def map_of_eq_None_iff
      simp flip: not_None_eq)

interpretation mem: blockstore_pool mem_ops ctx mem_contents for ctx
proof (rule blockstore_pool.intro)
  fix r r' :: bs_ref and c :: cid and s :: mem_state and b :: block and bs :: "block list"
  assume "r' \<noteq> r"
  then show "mem_contents r' (fst (bs_DeleteBlock (mem_ops r) ctx c s)) = mem_contents r' s"
    and "mem_contents r' (fst (bs_Put (mem_ops r) ctx b s)) = mem_contents r' s"
    and "mem_contents r' (fst (bs_PutMany (mem_ops r) ctx bs s)) = mem_contents r' s"
    by (simp_all add: mem_ops_def mem_contents_put mem_contents_put_many mem_contents_delete)
next
  fix r :: bs_ref
  show "blockstore (mem_ops r) ctx (mem_contents r)"
    by unfold_locales
      (auto simp: mem_ops_def mem_contents_put mem_contents_put_many mem_contents_delete
        mem_contents_dom split: option.split)
qed

section \<open>Isolation of the switched stores\<close>

text \<open>What a call with a context does, against the stores it could have reached.\<close>

lemma sw_writes_elsewhere_unchanged:
  assumes "blockstore_pool deref ctx contents_of" and "r \<noteq> getBlockstore sb ctx"
  shows "contents_of r (fst (sw_Put deref sb ctx b s)) = contents_of r s"
    and "contents_of r (fst (sw_PutMany deref sb ctx bs s)) = contents_of r s"
    and "contents_of r (fst (sw_DeleteBlock deref sb ctx c s)) = contents_of r s"
  using blockstore_pool.frame_put [OF assms(1,2)] blockstore_pool.frame_put_many [OF assms(1,2)]
    blockstore_pool.frame_delete [OF assms(1,2)]
  by (simp_all add: sw_method_defs)


definition example_store :: mem_state where
  "example_store = (\<lambda>_. [])"


end
