(* ===== verification/Node.thy ===== *)
theory Node
  imports Rcmgr Keys Datastore Blockstore
begin

text \<open>
  The objects the daemon is assembled from, and the \<open>Node\<close> struct (\<open>setup.go\<close> lines 90-102).
  An object of a library is described by the constructor call that made it, with its
  arguments: two descriptions are equal when the program made the same call. What the
  objects do is library code; the components that call them take that as a parameter.
\<close>

section \<open>Hosts\<close>

datatype libp2p_option =
    NATPortMap
  | ConnectionManager i64 i64 i64  \<comment> \<open>low, high, grace period\<close>
  | Identity priv_key
  | UserAgent string
  | BandwidthReporter
  | DefaultTransports
  | DefaultMuxers
  | OptResourceManager "ResourceManager option"
  | EnableHolePunching
  | DefaultListenAddrs
  | NoListenAddrs
  | ListenAddrStrings "string list"
  | AddrsFactory "multiaddr list"
  | RoutingCallback

text \<open>The program makes hosts at two places; the hosts of different places are different objects.\<close>

datatype host_site = MainSite | DHTSite
datatype host = LibP2PHost host_site "libp2p_option list"

section \<open>Routers\<close>

datatype dht_option =
    DhtDatastore datastore
  | DhtBootstrapPeers "AddrInfo list"
  | DhtModeClient
  | DhtValidator "(string \<times> string) list" host  \<comment> \<open>the validators; the host of the key book\<close>
  | DhtBucketSize i64

record http_transport =
  ht_MaxIdleConns :: i64
  ht_MaxConnsPerHost :: i64
  ht_MaxIdleConnsPerHost :: i64
  ht_IdleConnTimeout :: i64
  ht_DialContext :: string
  ht_ForceAttemptHTTP2 :: bool

record rv1_client =
  rc_BaseURL :: string
  rc_UserAgent :: string
  rc_Timeout :: i64
  rc_LimitBytes :: i64
  rc_AuthorizationBearerToken :: string
  rc_Transport :: http_transport
  rc_ProtocolFilter :: "string list"
  rc_StreamResultsRequired :: bool
  rc_DisabledLocalFiltering :: bool

datatype router =
    NullRouter
  | Compose (cmp_ValueStore: "router option") (cmp_PeerRouting: "router option")
      (cmp_ContentRouting: "router option")
  | HTTPContentRouter rv1_client
  | ComposableParallel "parallel_router list"
  | IpfsDHT host "dht_option list"
  | FullRT host string "dht_option list"
  | BundledDHT router router  \<comment> \<open>standard, fullRT\<close>
  | RemoteValueStore "string list"
and parallel_router =
  ParallelRouter (pr_Timeout: i64) (pr_Router: router) (pr_ExecuteAfter: i64)
    (pr_DoNotWaitForSearchValue: bool) (pr_IgnoreError: bool)

section \<open>Blocks, exchanges and names\<close>

datatype blockstore_val =
    RemoteBlockstore "string list"
  | NewBlockstore datastore bool bool  \<comment> \<open>\<open>NoPrefix\<close>, \<open>WriteThrough\<close>\<close>
  | SwitchingBlockstore blockstore_val string
  | IdStore blockstore_val

datatype bitswap_host = PlainHost host | MergingHost host host  \<comment> \<open>host, host of \<open>dhtAddrs\<close>\<close>

record http_net =
  hn_Host :: host
  hn_Workers :: i64
  hn_MaxDontHaveErrors :: i64
  hn_Allowlist :: "string list"
  hn_Denylist :: "string list"
  hn_UserAgent :: string
  hn_MetricsLabels :: "string list"

datatype bitswap_net =
    BsNet bitswap_host
  | NetworkRouter host bitswap_net http_net  \<comment> \<open>the host of the peerstore\<close>

record provider_query_manager =
  pqm_Network :: bitswap_net
  pqm_Routing :: router
  pqm_MaxInProcessRequests :: i64
  pqm_MaxProviders :: i64
  pqm_MaxTimeout :: i64
  pqm_IgnoreProviders :: "peer_id list"

datatype bsclient_option =
    RebroadcastDelay i64
  | ProviderSearchDelay i64
  | WithDefaultProviderQueryManager bool
  | WithoutDuplicatedBlockStats

datatype bitswap_option =
    WithClientOption bsclient_option
  | WithPeerBlockRequestFilter "peer_id \<Rightarrow> cid \<Rightarrow> bool"
  | SetSendDontHaves bool
  | WithWantHaveReplaceSize i64

datatype exchange =
    OfflineExchange blockstore_val
  | BitswapClient bitswap_net provider_query_manager blockstore_val "bsclient_option list"
  | BitswapClientServer bitswap_net provider_query_manager blockstore_val "bitswap_option list"
  | NoNotifyExchange exchange

datatype blocker = Blocker "string list"

datatype block_service =
    BlockService blockstore_val exchange bool  \<comment> \<open>\<open>WriteThrough\<close>\<close>
  | WrapBlockService block_service blocker

datatype http_subscriber = HTTPSubscriber (sub_URL: string) (sub_Path: string) (sub_Interval: i64)

datatype resolver = BasicResolver block_service | WrapResolver resolver blocker

datatype name_system =
    NameSystem router "dns_resolver option" "i64 option"  \<comment> \<open>value store, DNS, \<open>MaxCacheTTL\<close>\<close>
  | WrapNameSystem name_system blocker

section \<open>The node\<close>

text \<open>A nil interface field is \<open>None\<close>.\<close>

record Node =
  nd_ns :: "name_system option"
  nd_vs :: "router option"
  nd_dataDir :: string
  nd_bsrv :: "block_service option"
  nd_denylistSubs :: "http_subscriber list"
  nd_host :: "host option"
  nd_datastore :: "datastore option"
  nd_blockstore :: "blockstore_val option"
  nd_resolver :: "resolver option"

definition zero_Node :: Node where
  "zero_Node = \<lparr>nd_ns = None, nd_vs = None, nd_dataDir = [], nd_bsrv = None, nd_denylistSubs = [],
     nd_host = None, nd_datastore = None, nd_blockstore = None, nd_resolver = None\<rparr>"

end
