(* ===== verification/Routing.thy ===== *)
theory Routing
  imports Node
begin

text \<open>
  The routing systems of the node (\<open>setup_routing.go\<close>): the delegated HTTP routers and their
  capabilities, the DHT client and the host it runs on, how they are composed into one
  router, the separate DHT of seed peering, and the bundled DHT that switches to the
  accelerated client once that is ready. Library calls are described by their arguments
  (theory \<open>Node\<close>); whether a call fails is a parameter.
\<close>

record EndpointCapabilities =
  cap_Providers :: bool
  cap_Peers :: bool
  cap_IPNSGet :: bool
  cap_IPNSPut :: bool

record routing_lib =
  rt_AutoPlaceholder :: string
  rt_AddrInfoFromString :: "string \<Rightarrow> AddrInfo result"
  rt_GroupByKnownCapabilities ::
    "string list \<Rightarrow> bool \<Rightarrow> bool \<Rightarrow> (string \<times> EndpointCapabilities) list result"
  rt_IsEmpty :: "EndpointCapabilities \<Rightarrow> bool"
  rt_client_New_error :: "rv1_client \<Rightarrow> error option"
  rt_view_Register_error :: "error option"
  rt_DefaultBootstrapPeers :: "AddrInfo list"
  rt_libp2p_New_error :: "host \<Rightarrow> error option"
  rt_dht_New_error :: "router \<Rightarrow> error option"
  rt_NewRemoteValueStore_error :: "string list \<Rightarrow> error option"
  rt_DefaultPrefix :: string
  rt_buildVersion :: string

section \<open>Delegated routers\<close>

text \<open>The options of the client: those of the call in \<open>setupDelegatedRouting\<close>, with the HTTP
  client's timeout and response limit. The user agent is added in front of them.\<close>

definition delegatedHTTPContentRouterWithCapabilities ::
  "routing_lib \<Rightarrow> string \<Rightarrow> EndpointCapabilities \<Rightarrow> rv1_client \<Rightarrow> router result" where
  "delegatedHTTPContentRouterWithCapabilities lib baseURL capabilities rv1Opts =
     (let cli = rv1Opts\<lparr>rc_BaseURL := baseURL, rc_UserAgent := ''rainbow/'' @ rt_buildVersion lib\<rparr>
      in case rt_client_New_error lib cli of
           Some err \<Rightarrow> Inl err
         | None \<Rightarrow>
             (let cr = HTTPContentRouter cli
              in case rt_view_Register_error lib of
                   Some err \<Rightarrow> Inl (Wrap ''registering HTTP delegated routing views: '' err)
                 | None \<Rightarrow>
                     Inr (Compose (if cap_IPNSGet capabilities then Some cr else None)
                                  (if cap_Peers capabilities then Some cr else None)
                                  (if cap_Providers capabilities then Some cr else None))))"

definition http_timeout :: "Config \<Rightarrow> i64" where
  "http_timeout cfg = (if HTTPRoutersTimeout cfg = 0 then 30 * second else HTTPRoutersTimeout cfg)"

definition rv1_opts :: "Config \<Rightarrow> rv1_client" where
  "rv1_opts cfg =
     \<lparr>rc_BaseURL = [], rc_UserAgent = [], rc_Timeout = http_timeout cfg, rc_LimitBytes = push_bit 20 1,
      rc_AuthorizationBearerToken = [],
      rc_Transport =
        \<lparr>ht_MaxIdleConns = 1000, ht_MaxConnsPerHost = 100, ht_MaxIdleConnsPerHost = 100,
         ht_IdleConnTimeout = 90 * second, ht_DialContext = ''dialWithCachedDNS'',
         ht_ForceAttemptHTTP2 = True\<rparr>,
      rc_ProtocolFilter = RoutingV1FilterProtocols cfg, rc_StreamResultsRequired = True,
      rc_DisabledLocalFiltering = False\<rparr>"

text \<open>The loop over the grouped endpoints, in the order the \<open>range\<close> visits them.\<close>

fun delegated_loop ::
  "routing_lib \<Rightarrow> Config \<Rightarrow> router list \<Rightarrow> (string \<times> EndpointCapabilities) list \<Rightarrow> router list result" where
  "delegated_loop lib cfg delegatedRouters [] = Inr delegatedRouters"
| "delegated_loop lib cfg delegatedRouters ((baseURL, capabilities) # gs) =
     (if rt_IsEmpty lib capabilities then delegated_loop lib cfg delegatedRouters gs
      else case delegatedHTTPContentRouterWithCapabilities lib baseURL capabilities (rv1_opts cfg) of
             Inl err \<Rightarrow> Inl err
           | Inr delegatedRouter \<Rightarrow>
               delegated_loop lib cfg (delegatedRouters @ [delegatedRouter]) gs)"

definition setupDelegatedRouting :: "routing_lib \<Rightarrow> Config \<Rightarrow> router list result" where
  "setupDelegatedRouting lib cfg =
     (case rt_GroupByKnownCapabilities lib (RoutingV1Endpoints cfg) True False of
        Inl err \<Rightarrow> Inl err
      | Inr groupedEndpoints \<Rightarrow> delegated_loop lib cfg [] groupedEndpoints)"

section \<open>The DHT\<close>

fun parse_bootstrap_loop :: "routing_lib \<Rightarrow> AddrInfo list \<Rightarrow> string list \<Rightarrow> AddrInfo list" where
  "parse_bootstrap_loop lib bootstrapPeers [] = bootstrapPeers"
| "parse_bootstrap_loop lib bootstrapPeers (peerStr # ps) =
     (if peerStr = [] then parse_bootstrap_loop lib bootstrapPeers ps
      else if peerStr = rt_AutoPlaceholder lib then parse_bootstrap_loop lib bootstrapPeers ps
      else case rt_AddrInfoFromString lib peerStr of
             Inl err \<Rightarrow> parse_bootstrap_loop lib bootstrapPeers ps
           | Inr ai \<Rightarrow> parse_bootstrap_loop lib (bootstrapPeers @ [ai]) ps)"

text \<open>The second argument of the source only decides about a log line. The error is always nil.\<close>

definition parseBootstrapPeers :: "routing_lib \<Rightarrow> string list \<Rightarrow> bool \<Rightarrow> AddrInfo list result" where
  "parseBootstrapPeers lib peers warnOnAuto = Inr (parse_bootstrap_loop lib [] peers)"

definition libp2p_New :: "routing_lib \<Rightarrow> host \<Rightarrow> host result" where
  "libp2p_New lib h = (case rt_libp2p_New_error lib h of Some e \<Rightarrow> Inl e | None \<Rightarrow> Inr h)"

definition dht_New :: "routing_lib \<Rightarrow> router \<Rightarrow> router result" where
  "dht_New lib r = (case rt_dht_New_error lib r of Some e \<Rightarrow> Inl e | None \<Rightarrow> Inr r)"

text \<open>The DHT's own host, and the DHT clients on a host.\<close>

definition dht_host_opts :: "routing_lib \<Rightarrow> ResourceManager option \<Rightarrow> libp2p_option list" where
  "dht_host_opts lib dhtRcMgr =
     [UserAgent (''rainbow/'' @ rt_buildVersion lib), NoListenAddrs, BandwidthReporter,
      DefaultTransports, DefaultMuxers, OptResourceManager dhtRcMgr]"

definition dht_validators :: "host \<Rightarrow> dht_option" where
  "dht_validators h = DhtValidator [(''pk'', ''PublicKeyValidator''), (''ipns'', ''Validator'')] h"

definition setup_dht_clients ::
  "routing_lib \<Rightarrow> Config \<Rightarrow> host \<Rightarrow> host \<Rightarrow> datastore \<Rightarrow> AddrInfo list
    \<Rightarrow> (router option \<times> host option) result" where
  "setup_dht_clients lib cfg h dhtHost ds bootstrapPeers =
     (case dht_New lib (IpfsDHT dhtHost
              [DhtDatastore ds, DhtBootstrapPeers bootstrapPeers, DhtModeClient]) of
        Inl err \<Rightarrow> Inl err
      | Inr standardClient \<Rightarrow>
          if DHTRouting cfg = DHTStandard then Inr (Some standardClient, Some dhtHost)
          else if DHTRouting cfg = DHTAccelerated then
            (case dht_New lib (FullRT dhtHost (rt_DefaultPrefix lib)
                     [dht_validators h, DhtDatastore ds, DhtBootstrapPeers bootstrapPeers,
                      DhtBucketSize 20]) of
               Inl err \<Rightarrow> Inl err
             | Inr fullRTClient \<Rightarrow> Inr (Some (BundledDHT standardClient fullRTClient), Some dhtHost))
          else Inl (Err (''unknown DHTRouting option: '' @ go_quote (DHTRouting cfg))))"

definition setupDHTRouting ::
  "routing_lib \<Rightarrow> Config \<Rightarrow> host \<Rightarrow> datastore \<Rightarrow> ResourceManager option
    \<Rightarrow> (router option \<times> host option) result" where
  "setupDHTRouting lib cfg h ds dhtRcMgr =
     (if DHTRouting cfg = DHTOff then Inr (None, None)
      else
        (case parseBootstrapPeers lib (Bootstrap cfg) True of
           Inl err \<Rightarrow> Inl err
         | Inr bootstrapPeers \<Rightarrow>
             if bootstrapPeers = [] \<and> \<not> SeedPeering cfg then
               Inl (Err ''no valid bootstrap peers configured - provide bootstrap peers or enable autoconf'')
             else
               (let bootstrapPeers =
                      (if bootstrapPeers = [] then rt_DefaultBootstrapPeers lib else bootstrapPeers)
                in if DHTSharedHost cfg then setup_dht_clients lib cfg h h ds bootstrapPeers
                   else
                     (case libp2p_New lib (LibP2PHost DHTSite (dht_host_opts lib dhtRcMgr)) of
                        Inl err \<Rightarrow> Inl err
                      | Inr dhtHost \<Rightarrow> setup_dht_clients lib cfg h dhtHost ds bootstrapPeers))))"

section \<open>Composition\<close>

definition routing_timeout :: "Config \<Rightarrow> i64" where
  "routing_timeout cfg = (if RoutingTimeout cfg = 0 then 30 * second else RoutingTimeout cfg)"

definition setupCompositeRouting :: "router list \<Rightarrow> router option \<Rightarrow> Config \<Rightarrow> router" where
  "setupCompositeRouting delegatedRouters dht cfg =
     (case (delegatedRouters, dht) of
        ([], Some d) \<Rightarrow> d
      | _ \<Rightarrow>
          (let routers =
                 (case dht of
                    Some d \<Rightarrow> [ParallelRouter 0 d 0 True False]
                  | None \<Rightarrow> []) @
                 map (\<lambda>routingV1Router. ParallelRouter (routing_timeout cfg) routingV1Router 0 True True)
                   delegatedRouters
           in if routers \<noteq> [] then ComposableParallel routers else NullRouter))"

definition remote_value_store :: "routing_lib \<Rightarrow> Config \<Rightarrow> router result" where
  "remote_value_store lib cfg =
     (case rt_NewRemoteValueStore_error lib (RemoteBackends cfg) of
        Some err \<Rightarrow> Inl err
      | None \<Rightarrow> Inr (Compose (Some (RemoteValueStore (RemoteBackends cfg))) None None))"

text \<open>The DHT of seed peering, on the main host.\<close>

definition seed_dht :: "routing_lib \<Rightarrow> Config \<Rightarrow> host \<Rightarrow> datastore \<Rightarrow> router result" where
  "seed_dht lib cfg h ds =
     (case parseBootstrapPeers lib (Bootstrap cfg) False of
        Inl err \<Rightarrow> Inl err
      | Inr seedBootstrapPeers \<Rightarrow>
          dht_New lib (IpfsDHT h ([DhtDatastore ds, DhtModeClient] @
            (if seedBootstrapPeers \<noteq> [] then [DhtBootstrapPeers seedBootstrapPeers]
             else [DhtBootstrapPeers (rt_DefaultBootstrapPeers lib)]))))"

text \<open>The result: content routing, peer routing, value store, DHT host.\<close>

definition setupRouting ::
  "routing_lib \<Rightarrow> Config \<Rightarrow> host \<Rightarrow> datastore \<Rightarrow> ResourceManager option
    \<Rightarrow> (router \<times> router \<times> router \<times> host option) result" where
  "setupRouting lib cfg h ds dhtRcMgr =
     (case setupDelegatedRouting lib cfg of
        Inl err \<Rightarrow> Inl err
      | Inr delegatedRouters \<Rightarrow>
          (case setupDHTRouting lib cfg h ds dhtRcMgr of
             Inl err \<Rightarrow> Inl err
           | Inr (dhtRouter, dhtHost) \<Rightarrow>
               (let router = setupCompositeRouting delegatedRouters dhtRouter cfg in
                case (if RemoteBackends cfg \<noteq> [] \<and> RemoteBackendsIPNS cfg
                      then (case remote_value_store lib cfg of
                              Inl err \<Rightarrow> Inl err
                            | Inr remote \<Rightarrow>
                                Inr (setupCompositeRouting (delegatedRouters @ [remote]) dhtRouter cfg))
                      else Inr router) of
                  Inl err \<Rightarrow> Inl err
                | Inr vs \<Rightarrow>
                    (case (if SeedPeering cfg \<and> (\<not> DHTSharedHost cfg \<or> dhtRouter = None)
                           then seed_dht lib cfg h ds else Inr router) of
                       Inl err \<Rightarrow> Inl err
                     | Inr pr \<Rightarrow> Inr (router, pr, vs, dhtHost)))))"

definition setupRoutingNoLibp2p :: "routing_lib \<Rightarrow> Config \<Rightarrow> router result" where
  "setupRoutingNoLibp2p lib cfg =
     (case setupDelegatedRouting lib cfg of
        Inl err \<Rightarrow> Inl err
      | Inr delegatedRouters \<Rightarrow>
          (case (if RemoteBackends cfg \<noteq> [] \<and> RemoteBackendsIPNS cfg
                 then (case remote_value_store lib cfg of
                         Inl err \<Rightarrow> Inl err
                       | Inr remote \<Rightarrow> Inr (delegatedRouters @ [remote]))
                 else Inr delegatedRouters) of
             Inl err \<Rightarrow> Inl err
           | Inr routers \<Rightarrow> Inr (setupCompositeRouting routers None cfg)))"

section \<open>Lemmas\<close>

lemma parse_bootstrap_loop_eq:
  "parse_bootstrap_loop lib acc peers = acc @ List.map_filter (\<lambda>p.
     if p = [] \<or> p = rt_AutoPlaceholder lib then None
     else case rt_AddrInfoFromString lib p of Inl e \<Rightarrow> None | Inr ai \<Rightarrow> Some ai) peers"
  by (induction peers arbitrary: acc) (auto simp: map_filter_simps split: sum.split)

lemma delegated_loop_eq:
  "delegated_loop lib cfg acc gs =
     (case res_map (\<lambda>(u, c). delegatedHTTPContentRouterWithCapabilities lib u c (rv1_opts cfg))
             (filter (\<lambda>(u, c). \<not> rt_IsEmpty lib c) gs) of
        Inl e \<Rightarrow> Inl e
      | Inr rs \<Rightarrow> Inr (acc @ rs))"
  by (induction lib cfg acc gs rule: delegated_loop.induct) (auto split: sum.split)

lemma dht_New_Inr [simp]: "dht_New lib r = Inr r' \<longleftrightarrow> rt_dht_New_error lib r = None \<and> r' = r"
  by (auto simp: dht_New_def split: option.split)

lemma libp2p_New_Inr [simp]:
  "libp2p_New lib h = Inr h' \<longleftrightarrow> rt_libp2p_New_error lib h = None \<and> h' = h"
  by (auto simp: libp2p_New_def split: option.split)

section \<open>Properties\<close>

text \<open>Bootstrap peers are read in order; empty entries, placeholders and entries that are not
  peer addresses are skipped, and nothing of it is an error.\<close>

lemma bootstrap_peers_parsed:
  "parseBootstrapPeers lib peers w = Inr (List.map_filter (\<lambda>p.
     if p = [] \<or> p = rt_AutoPlaceholder lib then None
     else case rt_AddrInfoFromString lib p of Inl e \<Rightarrow> None | Inr ai \<Rightarrow> Some ai) peers)"
  by (simp add: parseBootstrapPeers_def parse_bootstrap_loop_eq)

lemma http_timeout_nonzero: "http_timeout cfg \<noteq> 0"
  by (simp add: http_timeout_def second_def)

text \<open>What a composed router has to offer for an endpoint: exactly the capabilities, through a
  client of the endpoint with the configured filter and a timeout.\<close>

definition serves_endpoint :: "Config \<Rightarrow> string \<times> EndpointCapabilities \<Rightarrow> router \<Rightarrow> bool" where
  "serves_endpoint cfg e r \<longleftrightarrow>
     (\<exists>cli. r = Compose (if cap_IPNSGet (snd e) then Some (HTTPContentRouter cli) else None)
        (if cap_Peers (snd e) then Some (HTTPContentRouter cli) else None)
        (if cap_Providers (snd e) then Some (HTTPContentRouter cli) else None) \<and>
      rc_BaseURL cli = fst e \<and> rc_ProtocolFilter cli = RoutingV1FilterProtocols cfg \<and>
      rc_Timeout cli \<noteq> 0)"

lemma delegated_router_serves:
  "delegatedHTTPContentRouterWithCapabilities lib u c (rv1_opts cfg) = Inr r \<Longrightarrow>
     serves_endpoint cfg (u, c) r"
  by (auto simp: delegatedHTTPContentRouterWithCapabilities_def serves_endpoint_def Let_def
      rv1_opts_def http_timeout_nonzero split: option.splits)

lemma map_Inr_list_all2:
  assumes "map f xs = map Inr ys" and "\<And>x y. f x = Inr y \<Longrightarrow> P x y"
  shows "list_all2 P xs ys"
  using assms by (induction xs arbitrary: ys) (auto simp: Cons_eq_map_conv)

text \<open>C18: Delegated routing makes one router per group of endpoints that has a capability, in the
  order of the groups; when the grouping returns no publishing capability, none of them
  is idle: each answers values, peers or providers, exactly those the endpoint is known
  for, with the configured protocol filter and a timeout that is not zero.\<close>

theorem delegated_routers_match_capabilities:
  assumes "setupDelegatedRouting lib cfg = Inr rs"
    and "rt_GroupByKnownCapabilities lib (RoutingV1Endpoints cfg) True False = Inr groups"
    and "\<forall>c. rt_IsEmpty lib c \<longleftrightarrow>
        \<not> cap_Providers c \<and> \<not> cap_Peers c \<and> \<not> cap_IPNSGet c \<and> \<not> cap_IPNSPut c"
    and "\<forall>g \<in> set groups. \<not> cap_IPNSPut (snd g)"
  shows "list_all2 (serves_endpoint cfg)
      (filter (\<lambda>(u, c). cap_Providers c \<or> cap_Peers c \<or> cap_IPNSGet c) groups) rs \<and>
    Compose None None None \<notin> set rs"
proof -
  have f: "filter (\<lambda>(u, c). \<not> rt_IsEmpty lib c) groups =
      filter (\<lambda>(u, c). cap_Providers c \<or> cap_Peers c \<or> cap_IPNSGet c) groups" (is "_ = ?fs")
    using assms(3,4) by (intro filter_cong) auto
  have "map (\<lambda>(u, c). delegatedHTTPContentRouterWithCapabilities lib u c (rv1_opts cfg)) ?fs = map Inr rs"
    using assms(1) unfolding setupDelegatedRouting_def assms(2) sum.case delegated_loop_eq f
    by (simp add: result_simps split: sum.splits)
  then have l: "list_all2 (serves_endpoint cfg) ?fs rs"
    by (rule map_Inr_list_all2) (auto dest: delegated_router_serves)
  have "Compose None None None \<notin> set rs"
  proof
    assume "Compose None None None \<in> set rs"
    then obtain i where "i < length rs" "rs ! i = Compose None None None" by (metis in_set_conv_nth)
    then have "serves_endpoint cfg (?fs ! i) (Compose None None None)" "?fs ! i \<in> set ?fs"
      using list_all2_nthD2 [OF l, of i] list_all2_lengthD [OF l] nth_mem [of i ?fs] by simp_all
    then show False by (auto simp: serves_endpoint_def split: if_splits)
  qed
  with l show ?thesis by simp
qed

text \<open>A library for the concrete instances: endpoints are grouped by themselves, one with no
  capability, and every call succeeds.\<close>

definition example_caps :: EndpointCapabilities where
  "example_caps = \<lparr>cap_Providers = True, cap_Peers = False, cap_IPNSGet = True, cap_IPNSPut = False\<rparr>"

definition example_no_caps :: EndpointCapabilities where
  "example_no_caps = \<lparr>cap_Providers = False, cap_Peers = False, cap_IPNSGet = False, cap_IPNSPut = False\<rparr>"

definition example_routing_lib :: routing_lib where
  "example_routing_lib =
     \<lparr>rt_AutoPlaceholder = ''auto'',
      rt_AddrInfoFromString = (\<lambda>s. Inr \<lparr>ai_ID = s, ai_Addrs = []\<rparr>),
      rt_GroupByKnownCapabilities = (\<lambda>us r w. Inr [(''u'', example_caps), (''v'', example_no_caps)]),
      rt_IsEmpty = (\<lambda>c. \<not> cap_Providers c \<and> \<not> cap_Peers c \<and> \<not> cap_IPNSGet c \<and> \<not> cap_IPNSPut c),
      rt_client_New_error = (\<lambda>_. None), rt_view_Register_error = None,
      rt_DefaultBootstrapPeers = [\<lparr>ai_ID = ''b'', ai_Addrs = []\<rparr>],
      rt_libp2p_New_error = (\<lambda>_. None), rt_dht_New_error = (\<lambda>_. None),
      rt_NewRemoteValueStore_error = (\<lambda>_. None), rt_DefaultPrefix = ''/ipfs'',
      rt_buildVersion = ''v1''\<rparr>"

lemma example_delegated:
  "\<exists>r. setupDelegatedRouting example_routing_lib cfg = Inr [r]"
  by (simp add: setupDelegatedRouting_def example_routing_lib_def example_caps_def
      example_no_caps_def delegatedHTTPContentRouterWithCapabilities_def Let_def)

theorem delegated_routers_match_capabilities_witness:
  "\<exists>r. setupDelegatedRouting example_routing_lib zero_Config = Inr [r] \<and>
     serves_endpoint zero_Config (''u'', example_caps) r"
proof -
  obtain r where r: "setupDelegatedRouting example_routing_lib zero_Config = Inr [r]"
    using example_delegated by blast
  have g: "rt_GroupByKnownCapabilities example_routing_lib (RoutingV1Endpoints zero_Config) True False =
      Inr [(''u'', example_caps), (''v'', example_no_caps)]"
    by (simp add: example_routing_lib_def)
  from delegated_routers_match_capabilities [OF r g] r show ?thesis
    by (auto simp: example_routing_lib_def example_caps_def example_no_caps_def)
qed

lemma routing_timeout_nonzero: "routing_timeout cfg \<noteq> 0"
  by (simp add: routing_timeout_def second_def)

text \<open>C20: The composed router asks everything it is given: with nothing it is the null router, with
  the DHT alone it is the DHT itself, and otherwise it asks the DHT, if there is one, and
  then every delegated router, in parallel and without delay; a delegated router may
  fail and has a timeout that is not zero, only the DHT's errors count.\<close>

theorem composite_asks_every_router:
  "(case setupCompositeRouting delegatedRouters dht cfg of
      ComposableParallel prs \<Rightarrow>
        dht = Some (ComposableParallel prs) \<and> delegatedRouters = [] \<or>
        map pr_Router prs = (case dht of Some d \<Rightarrow> [d] | None \<Rightarrow> []) @ delegatedRouters \<and>
        map pr_ExecuteAfter prs = replicate (length prs) 0 \<and>
        map (\<lambda>r. (pr_IgnoreError r, pr_Timeout r \<noteq> 0)) prs =
          (case dht of Some d \<Rightarrow> [(False, False)] | None \<Rightarrow> []) @
          replicate (length delegatedRouters) (True, True)
    | r \<Rightarrow> delegatedRouters = [] \<and> r = (case dht of Some d \<Rightarrow> d | None \<Rightarrow> NullRouter))"
proof (cases delegatedRouters)
  case Nil
  then show ?thesis
    by (auto simp: setupCompositeRouting_def Let_def split: option.split router.splits)
next
  case (Cons r rs)
  then show ?thesis
    by (cases dht)
       (auto simp: setupCompositeRouting_def Let_def comp_def map_replicate_const
          routing_timeout_nonzero)
qed

lemma pr_Router_size [termination_simp]:
  "p \<in> set prs \<Longrightarrow> size (pr_Router p) < Suc (size_list size prs)"
proof (induction prs)
  case (Cons q prs)
  then show ?case by (cases q) auto
qed simp

text \<open>Which host the DHT clients of a router run on.\<close>

fun dht_runs_on :: "host \<Rightarrow> router \<Rightarrow> bool" where
  "dht_runs_on h (IpfsDHT h' opts) = (h' = h)"
| "dht_runs_on h (BundledDHT (IpfsDHT h1 o1) (FullRT h2 p o2)) = (h1 = h \<and> h2 = h)"
| "dht_runs_on h (ComposableParallel prs) = (\<exists>p \<in> set prs. dht_runs_on h (pr_Router p))"
| "dht_runs_on h _ = False"

lemma setup_dht_clients_on:
  assumes "setup_dht_clients lib cfg h dhtHost ds bs = Inr (r, dh)"
  shows "dh = Some dhtHost \<and> (\<exists>d. r = Some d \<and> dht_runs_on dhtHost d)"
  using assms by (auto simp: setup_dht_clients_def split: sum.splits if_splits)

lemma setupDHTRouting_host:
  assumes "setupDHTRouting lib cfg h ds mgr = Inr (r, dh)"
  shows "if DHTRouting cfg = DHTOff then r = None \<and> dh = None
    else \<exists>d dhtHost. r = Some d \<and> dh = Some dhtHost \<and> dht_runs_on dhtHost d \<and>
      dhtHost = (if DHTSharedHost cfg then h else LibP2PHost DHTSite (dht_host_opts lib mgr))"
proof (cases "DHTRouting cfg = DHTOff")
  case True
  then show ?thesis using assms by (simp add: setupDHTRouting_def)
next
  case False
  then obtain bs where "setup_dht_clients lib cfg h
      (if DHTSharedHost cfg then h else LibP2PHost DHTSite (dht_host_opts lib mgr)) ds bs = Inr (r, dh)"
    using assms
    by (auto simp: setupDHTRouting_def parseBootstrapPeers_def Let_def split: if_splits sum.splits)
  from setup_dht_clients_on [OF this] False show ?thesis by auto
qed

text \<open>The DHT runs where it is configured to: switched off there is neither a DHT nor a host for
  it, with the shared host all its clients run on the main host, and otherwise on a host
  of their own that does not listen and is limited by the DHT's resource manager.\<close>

lemma dht_runs_on_its_host:
  assumes "setupDHTRouting lib cfg h ds mgr = Inr (r, dh)"
  shows "(DHTRouting cfg = DHTOff \<longrightarrow> r = None \<and> dh = None) \<and>
    (DHTRouting cfg \<noteq> DHTOff \<longrightarrow> (\<exists>d. r = Some d \<and>
       (if DHTSharedHost cfg then dh = Some h \<and> dht_runs_on h d
        else \<exists>opts. dh = Some (LibP2PHost DHTSite opts) \<and> dht_runs_on (LibP2PHost DHTSite opts) d \<and>
          NoListenAddrs \<in> set opts \<and> OptResourceManager mgr \<in> set opts)))"
  using setupDHTRouting_host [OF assms]
  by (cases "DHTSharedHost cfg") (auto simp: dht_host_opts_def)

definition example_dht_config :: Config where
  "example_dht_config = zero_Config\<lparr>DHTRouting := ''accelerated'', Bootstrap := [''p''],
     SeedPeering := True\<rparr>"

definition example_host :: host where
  "example_host = LibP2PHost MainSite []"

lemma example_setupDHTRouting:
  "\<exists>d dh. setupDHTRouting example_routing_lib example_dht_config example_host ds mgr = Inr (Some d, Some dh)"
  by (simp add: setupDHTRouting_def setup_dht_clients_def parseBootstrapPeers_def Let_def
      example_routing_lib_def example_dht_config_def dht_New_def libp2p_New_def dht_routing_defs
      zero_Config_def)

lemma dht_runs_on_its_host_witness:
  "\<exists>d opts. setupDHTRouting example_routing_lib example_dht_config example_host
      (FlatfsDS ''/d'' 3 False) None = Inr (Some d, Some (LibP2PHost DHTSite opts)) \<and>
     dht_runs_on (LibP2PHost DHTSite opts) d \<and> NoListenAddrs \<in> set opts"
proof -
  obtain d dh where r: "setupDHTRouting example_routing_lib example_dht_config example_host
      (FlatfsDS ''/d'' 3 False) None = Inr (Some d, Some dh)"
    using example_setupDHTRouting by blast
  have "DHTRouting example_dht_config \<noteq> DHTOff" "\<not> DHTSharedHost example_dht_config"
    by (simp_all add: example_dht_config_def zero_Config_def dht_routing_defs)
  with dht_runs_on_its_host [OF r] r show ?thesis by auto
qed

lemma composite_runs_on:
  assumes "dht_runs_on h d"
  shows "dht_runs_on h (setupCompositeRouting rs (Some d) cfg)"
  using assms by (cases rs) (simp_all add: setupCompositeRouting_def Let_def)

lemma setupRouting_parts:
  assumes "setupRouting lib cfg h ds mgr = Inr (cr, pr, vs, dh)"
  shows "\<exists>rs dht. setupDelegatedRouting lib cfg = Inr rs \<and>
    setupDHTRouting lib cfg h ds mgr = Inr (dht, dh) \<and>
    cr = setupCompositeRouting rs dht cfg \<and>
    (if RemoteBackends cfg \<noteq> [] \<and> RemoteBackendsIPNS cfg
     then vs = setupCompositeRouting
            (rs @ [Compose (Some (RemoteValueStore (RemoteBackends cfg))) None None]) dht cfg
     else vs = cr) \<and>
    (if SeedPeering cfg \<and> (\<not> DHTSharedHost cfg \<or> dht = None)
     then \<exists>opts. pr = IpfsDHT h opts else pr = cr)"
  using assms
  by (auto simp: setupRouting_def remote_value_store_def seed_dht_def parseBootstrapPeers_def Let_def
      split: sum.splits if_splits option.splits prod.splits)

text \<open>C19: Peers of the same seed can be found: with seed peering, whatever the DHT settings, the
  peer routing of the main host has a DHT client that runs on that host; without it,
  peers are found by the same router as content.\<close>

theorem seed_peering_has_dht_on_main_host:
  assumes "setupRouting lib cfg h ds mgr = Inr (cr, pr, vs, dh)"
  shows "if SeedPeering cfg then dht_runs_on h pr else pr = cr"
proof (cases "SeedPeering cfg")
  case True
  obtain rs dht where p: "setupDHTRouting lib cfg h ds mgr = Inr (dht, dh)"
    "cr = setupCompositeRouting rs dht cfg"
    "if SeedPeering cfg \<and> (\<not> DHTSharedHost cfg \<or> dht = None)
     then \<exists>opts. pr = IpfsDHT h opts else pr = cr"
    using setupRouting_parts [OF assms] by blast
  show ?thesis
  proof (cases "\<not> DHTSharedHost cfg \<or> dht = None")
    case True
    with p(3) \<open>SeedPeering cfg\<close> show ?thesis by auto
  next
    case False
    then obtain d where "dht = Some d" "dht_runs_on h d"
      using setupDHTRouting_host [OF p(1)] by (auto split: if_splits)
    with False p(2,3) \<open>SeedPeering cfg\<close> composite_runs_on show ?thesis by auto
  qed
next
  case False
  with setupRouting_parts [OF assms] show ?thesis by auto
qed

lemma example_setupRouting:
  "\<exists>cr pr vs dh. setupRouting example_routing_lib example_dht_config example_host
     (FlatfsDS ''/d'' 3 False) None = Inr (cr, pr, vs, dh)"
proof -
  obtain rs where rs: "setupDelegatedRouting example_routing_lib example_dht_config = Inr rs"
    using example_delegated by blast
  obtain d dh where dht: "setupDHTRouting example_routing_lib example_dht_config example_host
      (FlatfsDS ''/d'' 3 False) None = Inr (Some d, Some dh)"
    using example_setupDHTRouting by blast
  have "RemoteBackends example_dht_config = []" "rt_dht_New_error example_routing_lib r = None" for r
    by (simp_all add: example_dht_config_def zero_Config_def example_routing_lib_def)
  with rs dht show ?thesis
    by (simp add: setupRouting_def seed_dht_def parseBootstrapPeers_def dht_New_def Let_def)
qed

theorem seed_peering_has_dht_on_main_host_witness:
  "\<exists>cr pr vs dh. setupRouting example_routing_lib example_dht_config example_host
     (FlatfsDS ''/d'' 3 False) None = Inr (cr, pr, vs, dh) \<and> dht_runs_on example_host pr"
proof -
  obtain cr pr vs dh where r: "setupRouting example_routing_lib example_dht_config example_host
      (FlatfsDS ''/d'' 3 False) None = Inr (cr, pr, vs, dh)"
    using example_setupRouting by blast
  have "SeedPeering example_dht_config" by (simp add: example_dht_config_def)
  with seed_peering_has_dht_on_main_host [OF r] r show ?thesis by auto
qed

text \<open>A value store that also asks the remote backends, whose errors it ignores.\<close>

definition asks_remote :: "string list \<Rightarrow> router \<Rightarrow> bool" where
  "asks_remote backends r \<longleftrightarrow> (case r of
     ComposableParallel prs \<Rightarrow>
       (\<exists>p \<in> set prs. pr_Router p = Compose (Some (RemoteValueStore backends)) None None \<and>
          pr_IgnoreError p)
   | _ \<Rightarrow> False)"

lemma composite_asks_remote:
  "asks_remote bs (setupCompositeRouting (rs @ [Compose (Some (RemoteValueStore bs)) None None]) dht cfg)"
  by (cases rs; cases dht) (auto simp: setupCompositeRouting_def asks_remote_def Let_def)

text \<open>IPNS records are fetched from the remote backends exactly when there are backends and the
  option is on, with libp2p and without it: the value store then asks them beside
  everything the content router asks; otherwise it is the content router, or the delegated
  routers alone.\<close>

lemma remote_ipns_value_store:
  assumes "setupRouting lib cfg h ds mgr = Inr (cr, pr, vs, dh)"
    and "setupRoutingNoLibp2p lib cfg = Inr vs'"
  shows "if RemoteBackends cfg \<noteq> [] \<and> RemoteBackendsIPNS cfg
    then asks_remote (RemoteBackends cfg) vs \<and> asks_remote (RemoteBackends cfg) vs'
    else vs = cr \<and> (\<exists>rs. setupDelegatedRouting lib cfg = Inr rs \<and>
      vs' = setupCompositeRouting rs None cfg)"
proof (cases "RemoteBackends cfg \<noteq> [] \<and> RemoteBackendsIPNS cfg")
  case True
  then have "asks_remote (RemoteBackends cfg) vs"
    using setupRouting_parts [OF assms(1)] composite_asks_remote by auto
  moreover have "asks_remote (RemoteBackends cfg) vs'"
    using assms(2) True composite_asks_remote
    by (auto simp: setupRoutingNoLibp2p_def remote_value_store_def split: sum.splits option.splits)
  ultimately show ?thesis using True by simp
next
  case False
  then have "vs = cr" using setupRouting_parts [OF assms(1)] by auto
  moreover have "\<exists>rs. setupDelegatedRouting lib cfg = Inr rs \<and> vs' = setupCompositeRouting rs None cfg"
    using assms(2) unfolding setupRoutingNoLibp2p_def if_not_P [OF False]
    by (auto split: sum.splits)
  ultimately show ?thesis unfolding if_not_P [OF False] by simp
qed

lemma remote_ipns_value_store_witness:
  "\<exists>vs. setupRoutingNoLibp2p example_routing_lib
       (example_dht_config\<lparr>RemoteBackends := [''r''], RemoteBackendsIPNS := True\<rparr>) = Inr vs \<and>
     asks_remote [''r''] vs"
proof -
  let ?cfg = "example_dht_config\<lparr>RemoteBackends := [''r''], RemoteBackendsIPNS := True\<rparr>"
  obtain rs where rs: "setupDelegatedRouting example_routing_lib ?cfg = Inr rs"
    using example_delegated by blast
  have e: "rt_NewRemoteValueStore_error example_routing_lib b = None"
    "rt_dht_New_error example_routing_lib r = None"
    "rt_libp2p_New_error example_routing_lib h = None" for b r h
    by (simp_all add: example_routing_lib_def)
  have "\<exists>d dh. setupDHTRouting example_routing_lib ?cfg example_host ds None = Inr (Some d, Some dh)" for ds
    by (simp add: setupDHTRouting_def setup_dht_clients_def parseBootstrapPeers_def Let_def
        example_routing_lib_def example_dht_config_def dht_New_def libp2p_New_def dht_routing_defs
        zero_Config_def)
  then obtain d dh where d: "setupDHTRouting example_routing_lib ?cfg example_host
      (FlatfsDS ''/d'' 3 False) None = Inr (Some d, Some dh)" by blast
  have "\<exists>cr pr vs dh. setupRouting example_routing_lib ?cfg example_host
      (FlatfsDS ''/d'' 3 False) None = Inr (cr, pr, vs, dh)"
    using rs d by (simp add: setupRouting_def remote_value_store_def seed_dht_def
        parseBootstrapPeers_def dht_New_def e Let_def)
  then obtain cr pr vs dh where r: "setupRouting example_routing_lib ?cfg example_host
      (FlatfsDS ''/d'' 3 False) None = Inr (cr, pr, vs, dh)" by blast
  obtain vs' where v: "setupRoutingNoLibp2p example_routing_lib ?cfg = Inr vs'"
    using rs by (auto simp: setupRoutingNoLibp2p_def remote_value_store_def e)
  from remote_ipns_value_store [OF r v] v show ?thesis by auto
qed

section \<open>The bundled DHT\<close>

text \<open>
  \<open>routing.Routing\<close> as a record of operations over a state, and \<open>bundledDHT\<close>: each call asks
  anew whether the accelerated client is ready. \<open>Bootstrap\<close> always goes to the standard
  client. The operations of the two clients are library code.
\<close>

record 's routing_ops =
  ro_Provide :: "ctx \<Rightarrow> cid \<Rightarrow> bool \<Rightarrow> 's \<Rightarrow> 's \<times> error option"
  ro_FindProvidersAsync :: "ctx \<Rightarrow> cid \<Rightarrow> i64 \<Rightarrow> 's \<Rightarrow> 's \<times> AddrInfo list"
  ro_FindPeer :: "ctx \<Rightarrow> peer_id \<Rightarrow> 's \<Rightarrow> 's \<times> AddrInfo result"
  ro_PutValue :: "ctx \<Rightarrow> string \<Rightarrow> string \<Rightarrow> string list \<Rightarrow> 's \<Rightarrow> 's \<times> error option"
  ro_GetValue :: "ctx \<Rightarrow> string \<Rightarrow> string list \<Rightarrow> 's \<Rightarrow> 's \<times> string result"
  ro_SearchValue :: "ctx \<Rightarrow> string \<Rightarrow> string list \<Rightarrow> 's \<Rightarrow> 's \<times> string list result"
  ro_Bootstrap :: "ctx \<Rightarrow> 's \<Rightarrow> 's \<times> error option"

record 's bundledDHT =
  bd_standard :: "'s routing_ops"
  bd_fullRT :: "'s routing_ops"
  bd_Ready :: "'s \<Rightarrow> bool"

definition getDHT :: "'s bundledDHT \<Rightarrow> 's \<Rightarrow> 's routing_ops" where
  "getDHT b s = (if bd_Ready b s then bd_fullRT b else bd_standard b)"

definition bd_Provide :: "'s bundledDHT \<Rightarrow> ctx \<Rightarrow> cid \<Rightarrow> bool \<Rightarrow> 's \<Rightarrow> 's \<times> error option" where
  "bd_Provide b ctx c brdcst s = ro_Provide (getDHT b s) ctx c brdcst s"

definition bd_FindProvidersAsync :: "'s bundledDHT \<Rightarrow> ctx \<Rightarrow> cid \<Rightarrow> i64 \<Rightarrow> 's \<Rightarrow> 's \<times> AddrInfo list" where
  "bd_FindProvidersAsync b ctx c i s = ro_FindProvidersAsync (getDHT b s) ctx c i s"

definition bd_FindPeer :: "'s bundledDHT \<Rightarrow> ctx \<Rightarrow> peer_id \<Rightarrow> 's \<Rightarrow> 's \<times> AddrInfo result" where
  "bd_FindPeer b ctx p s = ro_FindPeer (getDHT b s) ctx p s"

definition bd_PutValue ::
  "'s bundledDHT \<Rightarrow> ctx \<Rightarrow> string \<Rightarrow> string \<Rightarrow> string list \<Rightarrow> 's \<Rightarrow> 's \<times> error option" where
  "bd_PutValue b ctx k v opts s = ro_PutValue (getDHT b s) ctx k v opts s"

definition bd_GetValue :: "'s bundledDHT \<Rightarrow> ctx \<Rightarrow> string \<Rightarrow> string list \<Rightarrow> 's \<Rightarrow> 's \<times> string result" where
  "bd_GetValue b ctx k opts s = ro_GetValue (getDHT b s) ctx k opts s"

definition bd_SearchValue ::
  "'s bundledDHT \<Rightarrow> ctx \<Rightarrow> string \<Rightarrow> string list \<Rightarrow> 's \<Rightarrow> 's \<times> string list result" where
  "bd_SearchValue b ctx k opts s = ro_SearchValue (getDHT b s) ctx k opts s"

definition bd_Bootstrap :: "'s bundledDHT \<Rightarrow> ctx \<Rightarrow> 's \<Rightarrow> 's \<times> error option" where
  "bd_Bootstrap b ctx s = ro_Bootstrap (bd_standard b) ctx s"

definition bundled_ops :: "'s bundledDHT \<Rightarrow> 's routing_ops" where
  "bundled_ops b = \<lparr>ro_Provide = bd_Provide b, ro_FindProvidersAsync = bd_FindProvidersAsync b,
     ro_FindPeer = bd_FindPeer b, ro_PutValue = bd_PutValue b, ro_GetValue = bd_GetValue b,
     ro_SearchValue = bd_SearchValue b, ro_Bootstrap = bd_Bootstrap b\<rparr>"

lemmas bd_method_defs =
  bd_Provide_def bd_FindProvidersAsync_def bd_FindPeer_def bd_PutValue_def bd_GetValue_def
  bd_SearchValue_def bd_Bootstrap_def

text \<open>
  What a caller relies on: a peer that was found is the one asked for, a value that is
  returned or found is valid for its key, and only valid values are accepted.
\<close>

locale dht_client =
  fixes ops :: "'s routing_ops" and valid :: "string \<Rightarrow> string \<Rightarrow> bool"
  assumes find_peer_law: "\<And>s'. ro_FindPeer ops ctx p s = (s', Inr ai) \<Longrightarrow> ai_ID ai = p"
    and get_value_law: "\<And>s' v. ro_GetValue ops ctx k opts s = (s', Inr v) \<Longrightarrow> valid k v"
    and search_value_law:
      "\<And>s' vs. ro_SearchValue ops ctx k opts s = (s', Inr vs) \<Longrightarrow> \<forall>v \<in> set vs. valid k v"
    and put_value_law: "\<And>s'. \<not> valid k v \<Longrightarrow> ro_PutValue ops ctx k v opts s = (s', e) \<Longrightarrow> e \<noteq> None"
begin

lemma put_then_get_valid:
  assumes "ro_PutValue ops ctx k v opts s = (s1, None)"
    and "ro_GetValue ops ctx k opts s1 = (s2, Inr v')"
  shows "valid k v \<and> valid k v'"
  using put_value_law [OF _ assms(1)] get_value_law [OF assms(2)] by blast

end

locale dht_bundle =
  std: dht_client "bd_standard b" valid + full: dht_client "bd_fullRT b" valid
  for b :: "'s bundledDHT" and valid :: "string \<Rightarrow> string \<Rightarrow> bool"

text \<open>The bundle is a client, whenever each of its clients is one, however readiness changes.\<close>

sublocale dht_bundle \<subseteq> bundled: dht_client "bundled_ops b" valid
proof unfold_locales
  fix ctx p s s' ai
  assume "ro_FindPeer (bundled_ops b) ctx p s = (s', Inr ai)"
  then show "ai_ID ai = p"
    using std.find_peer_law full.find_peer_law
    by (auto simp: bundled_ops_def bd_method_defs getDHT_def split: if_splits)
next
  fix ctx k opts s s' v
  assume "ro_GetValue (bundled_ops b) ctx k opts s = (s', Inr v)"
  then show "valid k v"
    using std.get_value_law full.get_value_law
    by (auto simp: bundled_ops_def bd_method_defs getDHT_def split: if_splits)
next
  fix ctx k opts s s' vs
  assume "ro_SearchValue (bundled_ops b) ctx k opts s = (s', Inr vs)"
  then show "\<forall>v \<in> set vs. valid k v"
    using std.search_value_law full.search_value_law
    by (auto simp: bundled_ops_def bd_method_defs getDHT_def split: if_splits)
next
  fix ctx k v opts s s' and e :: "error option"
  assume "\<not> valid k v" "ro_PutValue (bundled_ops b) ctx k v opts s = (s', e)"
  then show "e \<noteq> None"
    using std.put_value_law full.put_value_law
    by (auto simp: bundled_ops_def bd_method_defs getDHT_def split: if_splits)
qed

context dht_bundle
begin

lemma bundled_is_client: "dht_client (bundled_ops b) valid"
  by (rule bundled.dht_client_axioms)

end

text \<open>A client over a table of values and peers that checks what it stores and returns, and the
  bundle of two such clients, of which the accelerated one is ready once a value is stored.\<close>

record table_state =
  tb_values :: "(string, string) gomap"
  tb_peers :: "(peer_id, multiaddr list) gomap"

definition table_ops :: "(string \<Rightarrow> string \<Rightarrow> bool) \<Rightarrow> table_state routing_ops" where
  "table_ops valid =
     \<lparr>ro_Provide = (\<lambda>ctx c b s. (s, None)), ro_FindProvidersAsync = (\<lambda>ctx c i s. (s, [])),
      ro_FindPeer = (\<lambda>ctx p s. (s, case gomap_get (tb_peers s) p of
         Some as \<Rightarrow> Inr \<lparr>ai_ID = p, ai_Addrs = as\<rparr> | None \<Rightarrow> Inl (Err ''routing: not found''))),
      ro_PutValue = (\<lambda>ctx k v opts s. if valid k v
         then (s\<lparr>tb_values := gomap_set k v (tb_values s)\<rparr>, None) else (s, Some (Err ''invalid record''))),
      ro_GetValue = (\<lambda>ctx k opts s. (s, case gomap_get (tb_values s) k of
         Some v \<Rightarrow> if valid k v then Inr v else Inl (Err ''invalid record'')
       | None \<Rightarrow> Inl (Err ''routing: not found''))),
      ro_SearchValue = (\<lambda>ctx k opts s. (s, Inr (filter (valid k)
         (case gomap_get (tb_values s) k of Some v \<Rightarrow> [v] | None \<Rightarrow> [])))),
      ro_Bootstrap = (\<lambda>ctx s. (s, None))\<rparr>"

definition table_bundle :: "(string \<Rightarrow> string \<Rightarrow> bool) \<Rightarrow> table_state bundledDHT" where
  "table_bundle valid = \<lparr>bd_standard = table_ops valid, bd_fullRT = table_ops valid,
     bd_Ready = (\<lambda>s. tb_values s \<noteq> [])\<rparr>"

lemma table_ops_dht_client: "dht_client (table_ops valid) valid"
  by (standard) (auto simp: table_ops_def split: option.splits if_splits)

interpretation tab: dht_bundle "table_bundle valid" valid for valid
  using table_ops_dht_client by (simp add: dht_bundle_def table_bundle_def)



end
