(* ===== verification/Bitswap.thy ===== *)
theory Bitswap
  imports Node
begin

text \<open>
  The Bitswap exchange (\<open>setup_bitswap.go\<close>): the host that copies addresses the DHT learned
  into the main host's peerstore before it dials, the choice between a client and a
  client with a server for peered nodes, and the exchange that does not announce new blocks.
  Parameters: \<open>manet.IsPublicAddr\<close>, the address books and the dialling of a host over a state
  \<open>'s\<close>, and whether the provider query manager can be made.
\<close>

section \<open>Merging the peerstores\<close>

record 's connect_lib =
  co_IsPublicAddr :: "multiaddr \<Rightarrow> bool"
  co_TempAddrTTL :: i64
  co_dht_Addrs :: "peer_id \<Rightarrow> 's \<Rightarrow> multiaddr list"  \<comment> \<open>\<open>h.dhtAddrs.Addrs\<close>\<close>
  co_AddAddrs :: "peer_id \<Rightarrow> multiaddr list \<Rightarrow> i64 \<Rightarrow> 's \<Rightarrow> 's"  \<comment> \<open>\<open>h.Host.Peerstore().AddAddrs\<close>\<close>
  co_Connect :: "ctx \<Rightarrow> AddrInfo \<Rightarrow> 's \<Rightarrow> 's \<times> error option"  \<comment> \<open>\<open>h.Host.Connect\<close>\<close>

definition isUndialableMergedAddr :: "'s connect_lib \<Rightarrow> multiaddr \<Rightarrow> bool" where
  "isUndialableMergedAddr lib a =
     (case a of
        [] \<Rightarrow> True
      | c # cs \<Rightarrow>
          if comp_proto c \<in> {P_IP4, P_IP6, P_IP6ZONE, P_DNS, P_DNS4, P_DNS6, P_DNSADDR}
          then \<not> co_IsPublicAddr lib a
          else False)"

definition Connect :: "'s connect_lib \<Rightarrow> ctx \<Rightarrow> AddrInfo \<Rightarrow> 's \<Rightarrow> 's \<times> error option" where
  "Connect lib ctx peerInfo s =
     (let dialable = delete_func (isUndialableMergedAddr lib) (co_dht_Addrs lib (ai_ID peerInfo) s);
          s1 = (if dialable \<noteq> [] then co_AddAddrs lib (ai_ID peerInfo) dialable (co_TempAddrTTL lib) s else s)
      in co_Connect lib ctx peerInfo s1)"

text \<open>The interface of an address book: what is added is found, and nothing else changes.\<close>

locale addr_book =
  fixes addrs :: "peer_id \<Rightarrow> 's \<Rightarrow> multiaddr list"
    and add :: "peer_id \<Rightarrow> multiaddr list \<Rightarrow> i64 \<Rightarrow> 's \<Rightarrow> 's"
  assumes addrs_add: "set (addrs p (add q as ttl s)) =
      (if p = q then set (addrs p s) \<union> set as else set (addrs p s))"
begin

lemma add_if_nonempty:
  "set (addrs p (if as \<noteq> [] then add q as ttl s else s)) =
     (if p = q then set (addrs p s) \<union> set as else set (addrs p s))"
  by (simp add: addrs_add)

end

text \<open>An address book as a map from peers to addresses; two of them are the two hosts' books.\<close>

record books =
  main_book :: "peer_id \<Rightarrow> multiaddr list"
  dht_book :: "peer_id \<Rightarrow> multiaddr list"

definition main_addrs :: "peer_id \<Rightarrow> books \<Rightarrow> multiaddr list" where
  "main_addrs p s = main_book s p"

definition main_add :: "peer_id \<Rightarrow> multiaddr list \<Rightarrow> i64 \<Rightarrow> books \<Rightarrow> books" where
  "main_add p as ttl s = s\<lparr>main_book := (main_book s)(p := main_book s p @ as)\<rparr>"

interpretation mainbook: addr_book main_addrs main_add
  by unfold_locales (auto simp: main_addrs_def main_add_def)

section \<open>The exchange\<close>

record bitswap_lib =
  bw_buildVersion :: string
  bw_pqm_error :: "provider_query_manager \<Rightarrow> error option"

definition clientOpts :: "Config \<Rightarrow> bsclient_option list" where
  "clientOpts cfg =
     [RebroadcastDelay (10 * second), ProviderSearchDelay (1 * second),
      WithDefaultProviderQueryManager False] @
     (if \<not> BitswapEnableDuplicateBlockStats cfg then [WithoutDuplicatedBlockStats] else [])"

text \<open>The set of peers whose requests are answered, a map to the empty struct in the source.\<close>

definition safelist :: "Config \<Rightarrow> (peer_id, unit) gomap" where
  "safelist cfg = fold (\<lambda>a. gomap_set (ai_ID a) ()) (Peering cfg) gomap_empty"

definition peerBlockRequestFilter :: "Config \<Rightarrow> peer_id \<Rightarrow> cid \<Rightarrow> bool" where
  "peerBlockRequestFilter cfg p c = (case gomap_get (safelist cfg) p of Some _ \<Rightarrow> True | None \<Rightarrow> False)"

definition exchange_net :: "bitswap_lib \<Rightarrow> Config \<Rightarrow> host \<Rightarrow> host option \<Rightarrow> bitswap_net" where
  "exchange_net lib cfg h dhtAddrs =
     (let bitswapHost = (case dhtAddrs of None \<Rightarrow> PlainHost h | Some d \<Rightarrow> MergingHost h d);
          bn = BsNet bitswapHost
      in if HTTPRetrievalEnable cfg then
           (let htnet = \<lparr>hn_Host = h, hn_Workers = HTTPRetrievalWorkers cfg,
                  hn_MaxDontHaveErrors = HTTPRetrievalMaxDontHaveErrors cfg,
                  hn_Allowlist = HTTPRetrievalAllowlist cfg, hn_Denylist = HTTPRetrievalDenylist cfg,
                  hn_UserAgent = ''rainbow/'' @ bw_buildVersion lib,
                  hn_MetricsLabels = HTTPRetrievalMetricsLabelsForEndpoints cfg\<rparr>
            in NetworkRouter h bn htnet)
         else bn)"

text \<open>\<open>dhtAddrs\<close> is the host whose peerstore is passed, \<open>None\<close> for the nil interface.\<close>

definition setupBitswapExchange ::
  "bitswap_lib \<Rightarrow> Config \<Rightarrow> host \<Rightarrow> host option \<Rightarrow> router \<Rightarrow> blockstore_val \<Rightarrow> exchange outcome" where
  "setupBitswapExchange lib cfg h dhtAddrs cr bstore =
     (let exnet = exchange_net lib cfg h dhtAddrs;
          pqm = \<lparr>pqm_Network = exnet, pqm_Routing = cr,
            pqm_MaxInProcessRequests = RoutingMaxRequests cfg,
            pqm_MaxProviders = RoutingMaxProviders cfg, pqm_MaxTimeout = RoutingMaxTimeout cfg,
            pqm_IgnoreProviders = RoutingIgnoreProviders cfg\<rparr>
      in case bw_pqm_error lib pqm of
           Some err \<Rightarrow> Panic
         | None \<Rightarrow>
             if PeeringSharedCache cfg \<and> Peering cfg \<noteq> [] then
               (let opts = map WithClientOption (clientOpts cfg);
                    opts = opts @ [WithPeerBlockRequestFilter (peerBlockRequestFilter cfg),
                      SetSendDontHaves False,
                      WithWantHaveReplaceSize (BitswapWantHaveReplaceSize cfg)]
                in Ret (NoNotifyExchange (BitswapClientServer exnet pqm bstore opts)))
             else Ret (BitswapClient exnet pqm bstore (clientOpts cfg)))"

text \<open>\<open>NotifyNewBlocks\<close> of an exchange; the one of the library is a parameter.\<close>

fun NotifyNewBlocks ::
  "(exchange \<Rightarrow> ctx \<Rightarrow> block list \<Rightarrow> 's \<Rightarrow> 's \<times> error option)
    \<Rightarrow> exchange \<Rightarrow> ctx \<Rightarrow> block list \<Rightarrow> 's \<Rightarrow> 's \<times> error option" where
  "NotifyNewBlocks lib (NoNotifyExchange e) ctx blocks s = (s, None)"
| "NotifyNewBlocks lib e ctx blocks s = lib e ctx blocks s"

section \<open>Properties\<close>

text \<open>An address that is rooted in an IP address or a DNS name, so that its reach is known.\<close>

definition classifiable :: "multiaddr \<Rightarrow> bool" where
  "classifiable a \<longleftrightarrow> a \<noteq> [] \<and>
     comp_proto (hd a) \<in> {P_IP4, P_IP6, P_IP6ZONE, P_DNS, P_DNS4, P_DNS6, P_DNSADDR}"

lemma undialable_iff:
  "isUndialableMergedAddr lib a \<longleftrightarrow> a = [] \<or> classifiable a \<and> \<not> co_IsPublicAddr lib a"
  by (cases a) (simp_all add: isUndialableMergedAddr_def classifiable_def)

text \<open>C21: Before a peer is dialled, the main host's address book gains exactly the addresses the DHT
  host knows for that peer and that can be dialled: not empty, and public wherever the
  address tells; a private or loopback address is never copied, a relay address always
  is, and the addresses of other peers stay as they are.\<close>

theorem connect_merges_dialable_addrs:
  assumes "addr_book addrs (co_AddAddrs lib)"
  shows "\<exists>s1. Connect lib ctx peerInfo s = co_Connect lib ctx peerInfo s1 \<and>
    set (addrs (ai_ID peerInfo) s1) = set (addrs (ai_ID peerInfo) s) \<union>
      {a \<in> set (co_dht_Addrs lib (ai_ID peerInfo) s). a \<noteq> [] \<and> (classifiable a \<longrightarrow> co_IsPublicAddr lib a)} \<and>
    (\<forall>q. q \<noteq> ai_ID peerInfo \<longrightarrow> set (addrs q s1) = set (addrs q s))"
proof -
  let ?d = "delete_func (isUndialableMergedAddr lib) (co_dht_Addrs lib (ai_ID peerInfo) s)"
  have "set ?d = {a \<in> set (co_dht_Addrs lib (ai_ID peerInfo) s).
      a \<noteq> [] \<and> (classifiable a \<longrightarrow> co_IsPublicAddr lib a)}"
    by (auto simp: delete_func_def undialable_iff)
  then show ?thesis
    using addr_book.add_if_nonempty [OF assms, of _ ?d "ai_ID peerInfo" "co_TempAddrTTL lib" s]
    by (intro exI [of _ "if ?d \<noteq> [] then co_AddAddrs lib (ai_ID peerInfo) ?d (co_TempAddrTTL lib) s else s"])
       (simp add: Connect_def)
qed

definition example_connect_lib :: "books connect_lib" where
  "example_connect_lib = \<lparr>co_IsPublicAddr = (\<lambda>a. comp_value (hd a) \<noteq> ''127.0.0.1''),
     co_TempAddrTTL = 120000000000, co_dht_Addrs = (\<lambda>p s. dht_book s p), co_AddAddrs = main_add,
     co_Connect = (\<lambda>ctx peerInfo s. (s, None))\<rparr>"

definition example_books :: books where
  "example_books = \<lparr>main_book = (\<lambda>_. []),
     dht_book = (\<lambda>_. [[\<lparr>comp_proto = P_IP4, comp_value = ''127.0.0.1''\<rparr>],
       [\<lparr>comp_proto = P_IP4, comp_value = ''1.2.3.4''\<rparr>], []])\<rparr>"

theorem connect_merges_dialable_addrs_witness:
  "\<exists>s1. Connect example_connect_lib \<lparr>ctx_values = [], ctx_err = None\<rparr> \<lparr>ai_ID = ''p'', ai_Addrs = []\<rparr> example_books = (s1, None) \<and>
     set (main_addrs ''p'' s1) = {[\<lparr>comp_proto = P_IP4, comp_value = ''1.2.3.4''\<rparr>]}"
proof -
  have "addr_book main_addrs (co_AddAddrs example_connect_lib)"
    by (simp add: example_connect_lib_def mainbook.addr_book_axioms)
  from connect_merges_dialable_addrs [OF this, where ctx = "\<lparr>ctx_values = [], ctx_err = None\<rparr>" and s = example_books
      and peerInfo = "\<lparr>ai_ID = ''p'', ai_Addrs = []\<rparr>"]
  obtain s1 where c: "Connect example_connect_lib \<lparr>ctx_values = [], ctx_err = None\<rparr> \<lparr>ai_ID = ''p'', ai_Addrs = []\<rparr> example_books =
      co_Connect example_connect_lib \<lparr>ctx_values = [], ctx_err = None\<rparr> \<lparr>ai_ID = ''p'', ai_Addrs = []\<rparr> s1"
    and m: "set (main_addrs ''p'' s1) = set (main_addrs ''p'' example_books) \<union>
      {a \<in> set (co_dht_Addrs example_connect_lib ''p'' example_books).
         a \<noteq> [] \<and> (classifiable a \<longrightarrow> co_IsPublicAddr example_connect_lib a)}"
    by (metis AddrInfo.select_convs(1))
  have "{a \<in> set (co_dht_Addrs example_connect_lib ''p'' example_books).
         a \<noteq> [] \<and> (classifiable a \<longrightarrow> co_IsPublicAddr example_connect_lib a)} =
      {[\<lparr>comp_proto = P_IP4, comp_value = ''1.2.3.4''\<rparr>]}"
    by (auto simp: example_connect_lib_def example_books_def classifiable_def)
  moreover have "main_addrs ''p'' example_books = []"
    by (simp add: main_addrs_def example_books_def)
  ultimately show ?thesis
    using c m by (intro exI [of _ s1]) (simp add: example_connect_lib_def)
qed

lemma safelist_iff: "peerBlockRequestFilter cfg p c \<longleftrightarrow> p \<in> ai_ID ` set (Peering cfg)"
proof -
  have "gomap_get (safelist cfg) p \<noteq> None \<longleftrightarrow> p \<in> gomap_keys (safelist cfg)"
    by (simp add: gm.keys_lookup)
  also have "\<dots> \<longleftrightarrow> p \<in> ai_ID ` set (Peering cfg)"
    using gm.keys_fold_store [of ai_ID "\<lambda>a. ()" "Peering cfg" gomap_empty]
    by (simp add: safelist_def) (simp add: gomap_keys_def gomap_empty_def)
  finally show ?thesis by (auto simp: peerBlockRequestFilter_def split: option.split)
qed

text \<open>C7: Blocks are served to peered nodes only: a Bitswap server runs exactly when the shared cache
  is on and peers are configured, its filter lets a request through exactly when it comes
  from one of these peers, it does not announce blocks, and in every other case the
  node is a client without a server.\<close>

theorem bitswap_serves_peers_only:
  assumes "setupBitswapExchange lib cfg h dhtAddrs cr bstore = Ret ex"
  shows "if PeeringSharedCache cfg \<and> Peering cfg \<noteq> []
    then \<exists>net pqm opts filt. ex = NoNotifyExchange (BitswapClientServer net pqm bstore opts) \<and>
      (\<forall>filt'. WithPeerBlockRequestFilter filt' \<in> set opts \<longleftrightarrow> filt' = filt) \<and>
      (\<forall>p c. filt p c \<longleftrightarrow> (\<exists>a \<in> set (Peering cfg). ai_ID a = p)) \<and>
      (\<forall>notify ctx blocks (s :: 's). NotifyNewBlocks notify ex ctx blocks s = (s, None))
    else \<exists>net pqm opts. ex = BitswapClient net pqm bstore opts"
proof (cases "PeeringSharedCache cfg \<and> Peering cfg \<noteq> []")
  case True
  then obtain net pqm where "ex = NoNotifyExchange (BitswapClientServer net pqm bstore
      (map WithClientOption (clientOpts cfg) @ [WithPeerBlockRequestFilter (peerBlockRequestFilter cfg),
         SetSendDontHaves False, WithWantHaveReplaceSize (BitswapWantHaveReplaceSize cfg)]))"
    using assms by (auto simp: setupBitswapExchange_def Let_def split: option.splits)
  moreover have "WithPeerBlockRequestFilter f \<notin> set (map WithClientOption (clientOpts cfg))" for f
    by auto
  moreover have "peerBlockRequestFilter cfg p c \<longleftrightarrow> (\<exists>a \<in> set (Peering cfg). ai_ID a = p)" for p c
    by (auto simp: safelist_iff)
  ultimately show ?thesis
    unfolding if_P [OF True]
    by (intro exI [of _ net] exI [of _ pqm] exI [of _ "_ @ _"] exI [of _ "peerBlockRequestFilter cfg"]
        conjI) auto
next
  case False
  then show ?thesis
    using assms unfolding if_not_P [OF False]
    by (auto simp: setupBitswapExchange_def Let_def split: option.splits if_splits)
qed

definition example_bitswap_lib :: bitswap_lib where
  "example_bitswap_lib = \<lparr>bw_buildVersion = ''v1'', bw_pqm_error = (\<lambda>_. None)\<rparr>"

theorem bitswap_serves_peers_only_witness:
  "\<exists>net pqm opts filt. setupBitswapExchange example_bitswap_lib
      (zero_Config\<lparr>PeeringSharedCache := True, Peering := [\<lparr>ai_ID = ''p'', ai_Addrs = []\<rparr>]\<rparr>)
      (LibP2PHost MainSite []) None NullRouter (RemoteBlockstore []) =
        Ret (NoNotifyExchange (BitswapClientServer net pqm (RemoteBlockstore []) opts)) \<and>
     WithPeerBlockRequestFilter filt \<in> set opts \<and> filt ''p'' ''c'' \<and> \<not> filt ''q'' ''c''"
proof -
  let ?cfg = "zero_Config\<lparr>PeeringSharedCache := True, Peering := [\<lparr>ai_ID = ''p'', ai_Addrs = []\<rparr>]\<rparr>"
  obtain ex where e: "setupBitswapExchange example_bitswap_lib ?cfg (LibP2PHost MainSite []) None
      NullRouter (RemoteBlockstore []) = Ret ex"
    by (simp add: setupBitswapExchange_def example_bitswap_lib_def Let_def)
  have on: "PeeringSharedCache ?cfg \<and> Peering ?cfg \<noteq> []" by simp
  from bitswap_serves_peers_only [OF e, where ?'s = unit, unfolded if_P [OF on]]
  obtain net pqm opts filt where
    "ex = NoNotifyExchange (BitswapClientServer net pqm (RemoteBlockstore []) opts)"
    "\<forall>filt'. WithPeerBlockRequestFilter filt' \<in> set opts \<longleftrightarrow> filt' = filt"
    "\<forall>p c. filt p c \<longleftrightarrow> (\<exists>a \<in> set (Peering ?cfg). ai_ID a = p)"
    by (elim exE conjE) (rule that)
  then show ?thesis using e by (intro exI [of _ net] exI [of _ pqm] exI [of _ opts] exI [of _ filt]) simp
qed

end
