(* ===== verification/Gc.thy ===== *)
theory Gc
  imports Node
begin

text \<open>
  Garbage collection (\<open>gc.go\<close>): deleting blocks until enough bytes are gone, and the check of
  the disk that decides how many that is. Parameters: the operations of the node's
  blockstore over a state \<open>'s\<close>, badger's own collector, the disk usage, and \<open>ctx_done\<close>, which
  gives for the \<open>n\<close>-th \<open>select\<close> of the loop the error of a context that is done and was
  picked (\<open>None\<close>: the select received from the channel of keys).
\<close>

record 's gc_lib =
  gl_ops :: "blockstore_val \<Rightarrow> 's blockstore_ops"
  gl_CollectGarbage :: "ctx \<Rightarrow> 's \<Rightarrow> 's \<times> error option"
  gl_disk_Usage :: "string \<Rightarrow> (u64 \<times> u64) result"  \<comment> \<open>\<open>Total\<close>, \<open>Free\<close>\<close>
  gl_float_to_u64 :: "f64 \<Rightarrow> u64"

section \<open>The operations\<close>

text \<open>The loop \<open>deleteBlocks\<close>. The size counts as 0 or -1 as the store returned it, also when
  it returned an error.\<close>

fun gc_loop ::
  "'s blockstore_ops \<Rightarrow> ctx \<Rightarrow> (nat \<Rightarrow> error option) \<Rightarrow> nat \<Rightarrow> cid list \<Rightarrow> i64 \<Rightarrow> 's
    \<Rightarrow> 's \<times> error option" where
  "gc_loop ops ctx ctx_done n keys todelete s =
     (if \<not> slt 0 todelete then (s, None)
      else case ctx_done n of
        Some e \<Rightarrow> (s, Some e)
      | None \<Rightarrow>
          (case keys of
             [] \<Rightarrow> (s, None)
           | k # ks \<Rightarrow>
               (case bs_GetSize ops ctx k s of
                  (s1, (sz, err)) \<Rightarrow>
                    (case bs_DeleteBlock ops ctx k s1 of
                       (s2, Some err) \<Rightarrow> (s2, Some err)
                     | (s2, None) \<Rightarrow> gc_loop ops ctx ctx_done (n + 1) ks (todelete - sz) s2))))"

declare gc_loop.simps [simp del]

definition GC ::
  "'s gc_lib \<Rightarrow> Node \<Rightarrow> ctx \<Rightarrow> (nat \<Rightarrow> error option) \<Rightarrow> i64 \<Rightarrow> 's \<Rightarrow> 's \<times> error option" where
  "GC lib nd ctx ctx_done todelete s =
     (case nd_blockstore nd of
        None \<Rightarrow> (s, None)
      | Some bs \<Rightarrow>
          (case bs_AllKeysChan (gl_ops lib bs) ctx s of
             (s1, Inl err) \<Rightarrow> (s1, Some err)
           | (s1, Inr keys) \<Rightarrow>
               (case gc_loop (gl_ops lib bs) ctx ctx_done 0 keys todelete s1 of
                  (s2, Some err) \<Rightarrow> (s2, Some err)
                | (s2, None) \<Rightarrow>
                    (case nd_datastore nd of
                       Some (BadgerDS p opts) \<Rightarrow> gl_CollectGarbage lib ctx s2
                     | _ \<Rightarrow> (s2, None)))))"

definition periodicGC ::
  "'s gc_lib \<Rightarrow> Node \<Rightarrow> ctx \<Rightarrow> (nat \<Rightarrow> error option) \<Rightarrow> f64 \<Rightarrow> 's \<Rightarrow> 's \<times> error option" where
  "periodicGC lib nd ctx ctx_done threshold s =
     (case gl_disk_Usage lib (nd_dataDir nd) of
        Inl err \<Rightarrow> (s, Some err)
      | Inr (statTotal, statFree) \<Rightarrow>
          (let minFreeBytes = u64_of_f64 (gl_float_to_u64 lib) (f64_of_int (uint statTotal) * threshold)
           in if minFreeBytes < statFree then (s, None)
              else
                (let bytesToFree = minFreeBytes - statFree
                 in if bytesToFree \<le> 0 then (s, None)
                    else GC lib nd ctx ctx_done bytesToFree s)))"

section \<open>What the loop deletes, for a store that keeps its laws\<close>

text \<open>The bytes held under a list of keys.\<close>

definition bytes_of :: "(cid \<Rightarrow> string option) \<Rightarrow> cid list \<Rightarrow> int" where
  "bytes_of m ks = sum_list (map (\<lambda>k. int (length (the (m k)))) ks)"

lemma bytes_of_simps [simp]:
  "bytes_of m [] = 0"
  "bytes_of m (k # ks) = int (length (the (m k))) + bytes_of m ks"
  by (simp_all add: bytes_of_def)

lemma bytes_of_upd: "k \<notin> set ks \<Longrightarrow> bytes_of (m(k := v)) ks = bytes_of m ks"
  by (induction ks) auto

context blockstore
begin

lemma gc_loop_step:
  assumes "slt 0 todelete" and "ctx_done n = None" and "contents s k = Some d"
  shows "\<exists>s2. contents s2 = (contents s)(k := None) \<and>
    gc_loop ops ctx ctx_done n (k # ks) todelete s =
      gc_loop ops ctx ctx_done (n + 1) ks (todelete - word_of_int (int (length d))) s2"
proof -
  obtain s1 sz e where g: "bs_GetSize ops ctx k s = (s1, (sz, e))"
    by (metis prod.exhaust)
  obtain s2 e2 where d: "bs_DeleteBlock ops ctx k s1 = (s2, e2)" by fastforce
  have "sz = word_of_int (int (length d))" "contents s1 = contents s"
    using size_law [OF g] assms(3) by simp_all
  moreover have "e2 = None" "contents s2 = (contents s1)(k := None)"
    using delete_law [OF d] by simp_all
  ultimately show ?thesis
    using assms(1,2) by (intro exI [of _ s2], subst gc_loop.simps) (simp add: g d)
qed

lemma gc_loop_prefix:
  assumes "gc_loop ops ctx ctx_done n ks todelete s = (s', e)"
    and "distinct ks" and "set ks \<subseteq> dom (contents s)"
    and "\<And>k d. contents s k = Some d \<Longrightarrow> length d < 2 ^ 63"
  shows "\<exists>m \<le> length ks. contents s' = contents s |` (- set (take m ks)) \<and>
      (\<forall>j < m. bytes_of (contents s) (take j ks) < sint todelete) \<and>
      (case e of None \<Rightarrow> m = length ks \<or> sint todelete \<le> bytes_of (contents s) (take m ks)
       | Some err \<Rightarrow> ctx_done (n + m) = Some err)"
  using assms
proof (induction ks arbitrary: n todelete s)
  case Nil
  then show ?case
    by (subst (asm) gc_loop.simps) (auto simp: slt_def split: if_splits option.splits)
next
  case (Cons k ks)
  show ?case
  proof (cases "slt 0 todelete \<and> ctx_done n = None")
    case False
    with Cons.prems(1) show ?thesis
      by (intro exI [of _ 0], subst (asm) gc_loop.simps)
         (auto simp: slt_def restrict_map_def split: if_splits option.splits, metis+)
  next
    case True
    obtain d where d: "contents s k = Some d" using Cons.prems(3) by auto
    from gc_loop_step [OF _ _ d, of todelete ctx_done n ks] True obtain s2 where
      s2: "contents s2 = (contents s)(k := None)" and
      "gc_loop ops ctx ctx_done (n + 1) ks (todelete - word_of_int (int (length d))) s2 = (s', e)"
      using Cons.prems(1) by auto
    moreover have "set ks \<subseteq> dom (contents s2)" "distinct ks" "k \<notin> set ks"
      using Cons.prems(2,3) by (auto simp: s2)
    moreover have "length d' < 2 ^ 63" if "contents s2 k' = Some d'" for k' d'
      using that Cons.prems(4) by (auto simp: s2 split: if_splits)
    ultimately obtain m where m: "m \<le> length ks" "contents s' = contents s2 |` (- set (take m ks))"
      "\<forall>j < m. bytes_of (contents s2) (take j ks) < sint (todelete - word_of_int (int (length d)))"
      "case e of None \<Rightarrow> m = length ks \<or>
          sint (todelete - word_of_int (int (length d))) \<le> bytes_of (contents s2) (take m ks)
       | Some err \<Rightarrow> ctx_done (n + 1 + m) = Some err"
      using Cons.IH by blast
    have t: "0 < sint todelete" using True by (simp add: slt_def)
    have "sint (word_of_int (int (length d)) :: i64) = int (length d)"
      using Cons.prems(4) [OF d] by (intro sint_i64_of_int) simp_all
    then have w: "sint (todelete - word_of_int (int (length d))) = sint todelete - int (length d)"
      using t sint_bounds_i64(2) [of todelete] Cons.prems(4) [OF d] by (subst sint_minus_i64) simp_all
    have b: "bytes_of (contents s2) (take j ks) = bytes_of (contents s) (take j ks)" for j
      unfolding s2 using \<open>k \<notin> set ks\<close> by (intro bytes_of_upd) (meson in_set_takeD)
    have r: "contents s' = contents s |` (- set (take (Suc m) (k # ks)))"
      by (auto simp: m(2) s2 restrict_map_def fun_eq_iff)
    have lt: "bytes_of (contents s) (take j (k # ks)) < sint todelete" if "j < Suc m" for j
      using that m(3) [unfolded w b] t by (cases j) (auto simp: d)
    show ?thesis
      using m(1) m(4) [unfolded w b] r lt
      by (intro exI [of _ "Suc m"]) (auto simp: d split: option.splits)
  qed
qed

end

lemma sint_eq_uint_i64: "uint (x :: i64) < 2 ^ 63 \<Longrightarrow> sint x = uint x"
  using sint_i64_of_int [of "uint x"] by (simp add: order_trans [OF _ uint_ge_0])

text \<open>The whole collection, for the operations the node's blockstore has.\<close>

lemma GC_deletes_prefix:
  assumes "nd_blockstore nd = Some b" and "blockstore (gl_ops lib b) ctx contents"
    and "\<forall>k d. contents s k = Some d \<longrightarrow> length d < 2 ^ 63"
    and "\<forall>t. contents (fst (gl_CollectGarbage lib ctx t)) = contents t"
    and "GC lib nd ctx ctx_done todelete s = (s', e)"
  shows "\<exists>deleted. distinct deleted \<and> set deleted \<subseteq> dom (contents s) \<and>
      contents s' = contents s |` (- set deleted) \<and>
      (\<forall>j < length deleted. bytes_of (contents s) (take j deleted) < sint todelete) \<and>
      (e = None \<longrightarrow> sint todelete \<le> bytes_of (contents s) deleted \<or> contents s' = Map.empty) \<and>
      (e \<noteq> None \<longrightarrow> (\<exists>n. ctx_done n = e) \<or> (\<exists>t. snd (gl_CollectGarbage lib ctx t) = e))"
proof -
  note bs = assms(2)
  obtain s1 r where ak: "bs_AllKeysChan (gl_ops lib b) ctx s = (s1, r)" by fastforce
  obtain keys where keys: "r = Inr keys" "distinct keys" "set keys = dom (contents s)"
    and c1: "contents s1 = contents s"
    using blockstore.all_keys_law [OF bs ak] by auto
  obtain s2 e2 where gl: "gc_loop (gl_ops lib b) ctx ctx_done 0 keys todelete s1 = (s2, e2)"
    by fastforce
  obtain m where m: "m \<le> length keys" "contents s2 = contents s |` (- set (take m keys))"
    "\<forall>j < m. bytes_of (contents s) (take j keys) < sint todelete"
    "case e2 of None \<Rightarrow> m = length keys \<or> sint todelete \<le> bytes_of (contents s) (take m keys)
     | Some err \<Rightarrow> ctx_done m = Some err"
    using blockstore.gc_loop_prefix [OF bs gl, unfolded c1 add_0] keys assms(3) by blast
  have r: "(s', e) = (case e2 of Some err \<Rightarrow> (s2, Some err)
      | None \<Rightarrow> (case nd_datastore nd of
           Some (BadgerDS p opts) \<Rightarrow> gl_CollectGarbage lib ctx s2 | _ \<Rightarrow> (s2, None)))"
    using assms(5) by (simp add: GC_def assms(1) ak keys(1) gl split: option.splits)
  have c: "contents s' = contents s2"
    using r assms(4) by (auto split: option.splits datastore.splits) (metis fst_conv)
  have err: "(e = None \<longrightarrow> e2 = None) \<and>
      (e \<noteq> None \<longrightarrow> e2 = e \<or> (\<exists>t. snd (gl_CollectGarbage lib ctx t) = e))"
    using r by (auto split: option.splits datastore.splits) (metis snd_conv)+
  have all: "m = length keys \<Longrightarrow> contents s' = Map.empty"
    using c m(2) keys(3) by (auto simp: restrict_map_def fun_eq_iff domIff)
  show ?thesis
  proof (intro exI [of _ "take m keys"] conjI)
    show "e = None \<longrightarrow> sint todelete \<le> bytes_of (contents s) (take m keys) \<or> contents s' = Map.empty"
      using err m(4) all by auto
    show "e \<noteq> None \<longrightarrow> (\<exists>n. ctx_done n = e) \<or> (\<exists>t. snd (gl_CollectGarbage lib ctx t) = e)"
      using err m(4) by auto
  qed (use m c keys in \<open>auto dest: in_set_takeD\<close>)
qed

text \<open>A node over an in-memory store with three blocks, on a disk with 10 of 100 bytes free.\<close>

definition example_gc_lib :: "mem_state gc_lib" where
  "example_gc_lib = \<lparr>gl_ops = (\<lambda>_. mem_ops 0), gl_CollectGarbage = (\<lambda>ctx s. (s, None)),
     gl_disk_Usage = (\<lambda>p. Inr (100, 10)), gl_float_to_u64 = (\<lambda>_. 0)\<rparr>"

definition example_gc_node :: Node where
  "example_gc_node = zero_Node\<lparr>nd_blockstore := Some (RemoteBlockstore [])\<rparr>"

definition example_ctx :: ctx where
  "example_ctx = \<lparr>ctx_values = [], ctx_err = None\<rparr>"

definition example_blocks :: mem_state where
  "example_blocks = (\<lambda>_. [(''a'', ''12''), (''b'', ''345''), (''c'', ''6'')])"

lemma example_gc_facts:
  "nd_blockstore example_gc_node = Some (RemoteBlockstore [])"
  "blockstore (gl_ops example_gc_lib (RemoteBlockstore [])) ctx (mem_contents 0)"
  "\<forall>k d. mem_contents 0 example_blocks k = Some d \<longrightarrow> length d < 2 ^ 63"
  "\<forall>t. mem_contents 0 (fst (gl_CollectGarbage example_gc_lib ctx t)) = mem_contents 0 t"
  "mem_contents 0 example_blocks ''a'' = Some ''12''"
  "gl_disk_Usage example_gc_lib p = Inr (100, 10)"
  using mem.member
  by (auto simp: example_gc_node_def example_gc_lib_def mem_contents_def gomap_get_def
      example_blocks_def split: if_splits)

lemma example_gc_run:
  "gc_loop (mem_ops 0) example_ctx (\<lambda>_. None) 0 [''a'', ''b'', ''c''] 5 example_blocks =
     (\<lambda>r. if r = 0 then [(''c'', ''6'')] else example_blocks r, None)"
  by (simp add: gc_loop.simps mem_ops_def mem_contents_def gomap_get_def slt_def example_blocks_def
      fun_eq_iff)

lemma example_GC_run:
  "GC example_gc_lib example_gc_node example_ctx (\<lambda>_. None) 5 example_blocks =
     (\<lambda>r. if r = 0 then [(''c'', ''6'')] else example_blocks r, None)"
proof -
  have "bs_AllKeysChan (mem_ops 0) example_ctx example_blocks = (example_blocks, Inr [''a'', ''b'', ''c''])"
    by (simp add: mem_ops_def example_blocks_def)
  then show ?thesis
    using example_gc_run
    by (simp add: GC_def example_gc_node_def example_gc_lib_def zero_Node_def)
qed

lemma example_not_emptied:
  "mem_contents 0 (\<lambda>r. if r = 0 then [(''c'', ''6'')] else example_blocks r) \<noteq> Map.empty"
  by (auto simp: mem_contents_def gomap_get_def fun_eq_iff)

text \<open>C1: Garbage collection on a store that keeps the laws of a blockstore deletes a list of blocks
  that is just long enough: no shorter prefix of it would have reached the requested
  number of bytes, every other block stays as it was, and when it returns without an
  error the deleted blocks held at least that many bytes or the store is empty. An error
  is that of a cancelled context or of badger's own collector.\<close>

theorem gc_deletes_just_enough:
  assumes "nd_blockstore nd = Some b" and "blockstore (gl_ops lib b) ctx contents"
    and "\<forall>k d. contents s k = Some d \<longrightarrow> length d < 2 ^ 63"
    and "\<forall>t. contents (fst (gl_CollectGarbage lib ctx t)) = contents t"
    and "GC lib nd ctx ctx_done todelete s = (s', e)"
  shows "\<exists>deleted. distinct deleted \<and> set deleted \<subseteq> dom (contents s) \<and>
      contents s' = contents s |` (- set deleted) \<and>
      (\<forall>j < length deleted. bytes_of (contents s) (take j deleted) < sint todelete) \<and>
      (e = None \<longrightarrow> sint todelete \<le> bytes_of (contents s) deleted \<or> contents s' = Map.empty) \<and>
      (e \<noteq> None \<longrightarrow> (\<exists>n. ctx_done n = e) \<or> (\<exists>t. snd (gl_CollectGarbage lib ctx t) = e))"
  using assms by (rule GC_deletes_prefix)

theorem gc_deletes_just_enough_witness:
  "\<exists>deleted. distinct deleted \<and> 5 \<le> bytes_of (mem_contents 0 example_blocks) deleted \<and>
     (\<forall>j < length deleted. bytes_of (mem_contents 0 example_blocks) (take j deleted) < 5)"
proof -
  have "sint (5 :: i64) = 5" by simp
  from gc_deletes_just_enough [OF example_gc_facts(1-4) example_GC_run, unfolded this]
    example_not_emptied
  show ?thesis by blast
qed

text \<open>C14: The periodic check asks for exactly the missing bytes: a disk with enough free space, or
  one whose usage is unknown, leaves the store alone; otherwise, with \<open>minFreeBytes\<close> below
  2^63, the subtraction does not wrap and blocks are deleted until the deficit is covered
  or the store is empty.\<close>

theorem periodic_gc_covers_deficit:
  assumes "nd_blockstore nd = Some b" and "blockstore (gl_ops lib b) ctx contents"
    and "\<forall>k d. contents s k = Some d \<longrightarrow> length d < 2 ^ 63"
    and "\<forall>t. contents (fst (gl_CollectGarbage lib ctx t)) = contents t"
    and "gl_disk_Usage lib (nd_dataDir nd) = Inr (statTotal, statFree)"
    and "minFree = uint (u64_of_f64 (gl_float_to_u64 lib) (f64_of_int (uint statTotal) * threshold))"
    and "minFree < 2 ^ 63"
    and "periodicGC lib nd ctx (\<lambda>_. None) threshold s = (s', None)"
  shows "if minFree \<le> uint statFree then s' = s
    else \<exists>deleted. distinct deleted \<and> contents s' = contents s |` (- set deleted) \<and>
      (\<forall>j < length deleted. bytes_of (contents s) (take j deleted) < minFree - uint statFree) \<and>
      (minFree - uint statFree \<le> bytes_of (contents s) deleted \<or> contents s' = Map.empty)"
proof -
  let ?mf = "u64_of_f64 (gl_float_to_u64 lib) (f64_of_int (uint statTotal) * threshold)"
  show ?thesis
  proof (cases "minFree \<le> uint statFree")
    case True
    then have "?mf \<le> statFree" using assms(6) by (simp add: word_le_def)
    then have "?mf < statFree \<or> ?mf - statFree \<le> 0" by auto
    then show ?thesis
      using True assms(5,8) by (auto simp: periodicGC_def Let_def split: if_splits)
  next
    case False
    then have u: "uint (?mf - statFree) = minFree - uint statFree"
      using uint_minus_le [of statFree ?mf] assms(6) by simp
    then have "0 < uint (?mf - statFree)" using False by simp
    then have "\<not> ?mf - statFree \<le> 0" by auto
    moreover have "\<not> ?mf < statFree" using False assms(6) by (simp add: word_less_def)
    ultimately have gc: "GC lib nd ctx (\<lambda>_. None) (?mf - statFree) s = (s', None)"
      using assms(5,8) by (simp add: periodicGC_def Let_def)
    have "0 \<le> uint statFree" by (rule uint_ge_0)
    then have "minFree - uint statFree < 2 ^ 63" using assms(7) by linarith
    then have "sint (?mf - statFree) = minFree - uint statFree"
      using u by (subst sint_eq_uint_i64) simp_all
    with GC_deletes_prefix [OF assms(1-4) gc] False show ?thesis by auto
  qed
qed

theorem periodic_gc_covers_deficit_witness:
  "\<exists>deleted. distinct deleted \<and>
     (5 \<le> bytes_of (mem_contents 0 example_blocks) deleted) \<and>
     (\<forall>j < length deleted. bytes_of (mem_contents 0 example_blocks) (take j deleted) < 5)"
proof -
  let ?th = "F64 5404319552844595 (- 55)"
  have g: "u64_of_f64 (gl_float_to_u64 example_gc_lib) (f64_of_int (uint (100 :: u64)) * ?th) = 15"
    by (simp add: f64_eval)
  then have f: "15 =
      uint (u64_of_f64 (gl_float_to_u64 example_gc_lib) (f64_of_int (uint (100 :: u64)) * ?th))"
    by simp
  have r: "periodicGC example_gc_lib example_gc_node example_ctx (\<lambda>_. None) ?th example_blocks =
      (\<lambda>r. if r = 0 then [(''c'', ''6'')] else example_blocks r, None)"
    unfolding periodicGC_def example_gc_facts(6) sum.case prod.case Let_def g
    using example_GC_run by simp
  have n: "(15 :: int) < 2 ^ 63" "\<not> 15 \<le> uint (10 :: u64)" "15 - uint (10 :: u64) = 5" by simp_all
  have "sint (5 :: i64) = 5" by simp
  from periodic_gc_covers_deficit [OF example_gc_facts(1-4) example_gc_facts(6) f n(1) r]
    example_not_emptied
  show ?thesis unfolding n(3) if_not_P [OF n(2)] by blast
qed

end
