(* ===== verification/Setup.thy ===== *)
theory Setup
  imports Routing Bitswap Gc
begin

text \<open>
  Assembling a node (\<open>setup.go\<close>): denylists, the name system, peering, and the two set-up
  functions, with and without libp2p. A set-up returns, fails, panics, or (when the peer IDs
  of a seed are derived up to the largest \<open>int\<close>) never ends; \<open>run\<close> has a value for each.
\<close>

section \<open>Runs\<close>

datatype 'a run = Done "'a result" | Panicked | Diverges

definition of_outcome :: "'a result outcome \<Rightarrow> 'a run" where
  "of_outcome x = (case x of Ret r \<Rightarrow> Done r | Panic \<Rightarrow> Panicked)"

definition of_option :: "'a result option \<Rightarrow> 'a run" where
  "of_option x = (case x of Some r \<Rightarrow> Done r | None \<Rightarrow> Diverges)"

definition fail_if :: "error option \<Rightarrow> unit run" where
  "fail_if x = (case x of Some e \<Rightarrow> Done (Inl e) | None \<Rightarrow> Done (Inr ()))"

definition run_bind :: "'a run \<Rightarrow> ('a \<Rightarrow> 'b run) \<Rightarrow> 'b run" where
  "run_bind m f =
     (case m of
        Done (Inr x) \<Rightarrow> f x
      | Done (Inl e) \<Rightarrow> Done (Inl e)
      | Panicked \<Rightarrow> Panicked
      | Diverges \<Rightarrow> Diverges)"

lemma run_bind_simps [simp]:
  "run_bind (Done (Inr x)) f = f x"
  "run_bind (Done (Inl e)) f = Done (Inl e)"
  "run_bind Panicked f = Panicked"
  "run_bind Diverges f = Diverges"
  by (simp_all add: run_bind_def)

lemma run_bind_Inr [result_simps]:
  "run_bind m f = Done (Inr y) \<longleftrightarrow> (\<exists>x. m = Done (Inr x) \<and> f x = Done (Inr y))"
  by (auto simp: run_bind_def split: run.splits sum.splits)

lemma fail_if_Inr [result_simps]: "fail_if x = Done (Inr u) \<longleftrightarrow> x = None"
  by (simp add: fail_if_def split: option.split)

lemma of_option_Inr [result_simps]: "of_option x = Done (Inr y) \<longleftrightarrow> x = Some (Inr y)"
  by (auto simp: of_option_def split: option.split)

lemma of_outcome_Inr [result_simps]: "of_outcome x = Done (Inr y) \<longleftrightarrow> x = Ret (Inr y)"
  by (auto simp: of_outcome_def split: outcome.split)

section \<open>The libraries\<close>

record setup_lib =
  su_rcmgr :: rcmgr_lib
  su_routing :: routing_lib
  su_datastore :: datastore_lib
  su_bitswap :: bitswap_lib
  su_crypto :: crypto_lib
  su_getwd :: "string result"
  su_Mkdir :: "string \<Rightarrow> nat \<Rightarrow> error option"
  su_NewHTTPSubscriber_error :: "http_subscriber \<Rightarrow> error option"
  su_GetDenylistFilesInDir :: "string \<Rightarrow> string list result"
  su_NewBlocker_error :: "string list \<Rightarrow> error option"
  su_NewRemoteBlockstore_error :: "string list \<Rightarrow> error option"
  su_NewNameSystem_error :: "name_system \<Rightarrow> error option"
  su_NewConnManager_error :: "i64 \<Rightarrow> i64 \<Rightarrow> i64 \<Rightarrow> error option"
  su_NewMultiaddr :: "string \<Rightarrow> multiaddr result"
  su_PeeringStart_error :: "host \<Rightarrow> error option"
  su_New_returns_callback_host :: bool
    \<comment> \<open>whether \<open>libp2p.New\<close> returns the very object its routing callback was given\<close>

section \<open>Denylists and names\<close>

definition denylist_path :: "Config \<Rightarrow> string \<Rightarrow> string" where
  "denylist_path cfg dl = filepath_Join [DataDir cfg, ''denylists'', filepath_Base dl]"

definition new_subscriber :: "setup_lib \<Rightarrow> Config \<Rightarrow> string \<Rightarrow> http_subscriber result" where
  "new_subscriber lib cfg dl =
     (let s = HTTPSubscriber dl (denylist_path cfg dl) minute
      in case su_NewHTTPSubscriber_error lib s of Some err \<Rightarrow> Inl err | None \<Rightarrow> Inr s)"

definition setupDenylists :: "setup_lib \<Rightarrow> Config \<Rightarrow> (http_subscriber list \<times> blocker) result" where
  "setupDenylists lib cfg =
     (case (case su_Mkdir lib (filepath_Join [DataDir cfg, ''denylists'']) 493 of
              Some err \<Rightarrow> if \<not> errors_is_exist err then Some err else None
            | None \<Rightarrow> None) of
        Some err \<Rightarrow> Inl err
      | None \<Rightarrow>
          (case res_map (new_subscriber lib cfg) (DenylistSubs cfg) of
             Inl err \<Rightarrow> Inl err
           | Inr denylists \<Rightarrow>
               (case su_GetDenylistFilesInDir lib (filepath_Join [DataDir cfg, ''denylists'']) of
                  Inl err \<Rightarrow> Inl err
                | Inr files \<Rightarrow>
                    (case su_NewBlocker_error lib files of
                       Some err \<Rightarrow> Inl err
                     | None \<Rightarrow> Inr (denylists, Blocker files)))))"

definition setupNamesys ::
  "setup_lib \<Rightarrow> Config \<Rightarrow> router \<Rightarrow> blocker \<Rightarrow> dns_resolver option \<Rightarrow> name_system result" where
  "setupNamesys lib cfg vs blkr dnslinkResolver =
     (let ns = NameSystem vs dnslinkResolver
            (if slt 0 (IpnsMaxCacheTTL cfg) then Some (IpnsMaxCacheTTL cfg) else None)
      in case su_NewNameSystem_error lib ns of
           Some err \<Rightarrow> Inl err
         | None \<Rightarrow> Inr (WrapNameSystem ns blkr))"

section \<open>Peering\<close>

text \<open>The peering service of the host and the peers added to it, in order.\<close>

datatype peering = NoPeering | PeeringService host "AddrInfo list"

definition setupPeering :: "setup_lib \<Rightarrow> Config \<Rightarrow> host \<Rightarrow> peering run" where
  "setupPeering lib cfg h =
     (if Peering cfg = [] \<and> \<not> SeedPeering cfg then Done (Inr NoPeering)
      else run_bind (fail_if (su_PeeringStart_error lib h)) (\<lambda>_.
        if \<not> SeedPeering cfg then Done (Inr (PeeringService h (Peering cfg)))
        else if slt (SeedIndex cfg) 0 then
          Done (Inl (Err (''seed index must be equal or greater than 0, it is '' @
            dec_int (sint (SeedIndex cfg)))))
        else if slt (SeedPeeringMaxIndex cfg) 0 then
          Done (Inl (Err (''seed peering max index must be a positive number, it is '' @
            dec_int (sint (SeedPeeringMaxIndex cfg)))))
        else run_bind (of_option (derivePeerIDs (su_crypto lib) (Seed cfg) (SeedIndex cfg)
                 (SeedPeeringMaxIndex cfg))) (\<lambda>pids.
          Done (Inr (PeeringService h
            (Peering cfg @ map (\<lambda>pid. \<lparr>ai_ID = pid, ai_Addrs = []\<rparr>) pids))))))"

section \<open>Set-up without libp2p\<close>

definition SetupNoLibp2p :: "setup_lib \<Rightarrow> Config \<Rightarrow> Node result" where
  "SetupNoLibp2p lib cfg0 =
     (case filepath_Abs (su_getwd lib) (DataDir cfg0) of
        Inl err \<Rightarrow> Inl err
      | Inr dir \<Rightarrow>
          (let cfg = cfg0\<lparr>DataDir := dir\<rparr> in
           case setupDenylists lib cfg of
             Inl err \<Rightarrow> Inl err
           | Inr (denylists, blkr) \<Rightarrow>
               if RemoteBackends cfg = [] then
                 Inl (Err ''RAINBOW_REMOTE_BACKENDS must be set if RAINBOW_LIBP2P is disabled'')
               else
                 (case setupRoutingNoLibp2p (su_routing lib) cfg of
                    Inl err \<Rightarrow> Inl err
                  | Inr vs \<Rightarrow>
                      (case (if RemoteBackendMode cfg = RemoteBackendBlock then
                               (let blkst = RemoteBlockstore (RemoteBackends cfg) in
                                case su_NewRemoteBlockstore_error lib (RemoteBackends cfg) of
                                  Some err \<Rightarrow> Inl err
                                | None \<Rightarrow>
                                    Inr (Some (WrapBlockService
                                      (BlockService blkst (OfflineExchange blkst) False) blkr)))
                             else Inr None) of
                         Inl err \<Rightarrow> Inl err
                       | Inr bsrv \<Rightarrow>
                           (case setupNamesys lib cfg vs blkr (DNSLinkResolver cfg) of
                              Inl err \<Rightarrow> Inl err
                            | Inr ns \<Rightarrow>
                                Inr (zero_Node\<lparr>nd_vs := Some vs, nd_ns := Some ns,
                                  nd_dataDir := DataDir cfg, nd_denylistSubs := denylists,
                                  nd_bsrv := bsrv\<rparr>))))))"

section \<open>Set-up with libp2p\<close>

text \<open>The options of the main host, up to the listen addresses; the announced addresses.\<close>

definition main_host_opts :: "setup_lib \<Rightarrow> Config \<Rightarrow> priv_key \<Rightarrow> ResourceManager \<Rightarrow> libp2p_option list" where
  "main_host_opts lib cfg key bitswapRcMgr =
     [NATPortMap, ConnectionManager (ConnMgrLow cfg) (ConnMgrHi cfg) (ConnMgrGrace cfg),
      Identity key, UserAgent (''rainbow/'' @ rt_buildVersion (su_routing lib)), BandwidthReporter,
      DefaultTransports, DefaultMuxers, OptResourceManager (Some bitswapRcMgr), EnableHolePunching] @
     (if ListenAddrs cfg = [] then [DefaultListenAddrs] else [ListenAddrStrings (ListenAddrs cfg)])"

definition announce_opts :: "setup_lib \<Rightarrow> Config \<Rightarrow> libp2p_option list result" where
  "announce_opts lib cfg =
     (if AnnounceAddrs cfg \<noteq> [] then
        (case res_map (\<lambda>anna. case su_NewMultiaddr lib anna of
                 Inl err \<Rightarrow> Inl (Wrap ''failed to parse announce addr: '' err) | Inr a \<Rightarrow> Inr a)
               (AnnounceAddrs cfg) of
           Inl err \<Rightarrow> Inl err
         | Inr addrs \<Rightarrow> Inr [AddrsFactory addrs])
      else Inr [])"

text \<open>\<open>libp2p.New\<close> with the routing callback: the callback runs while the host is made, and its
  error is the error of \<open>New\<close>.\<close>

definition new_main_host ::
  "setup_lib \<Rightarrow> Config \<Rightarrow> libp2p_option list \<Rightarrow> datastore \<Rightarrow> ResourceManager option
    \<Rightarrow> (host \<times> router \<times> router \<times> router \<times> host option) result" where
  "new_main_host lib cfg opts ds dhtRcMgr =
     (let h = LibP2PHost MainSite (opts @ [RoutingCallback]) in
      case libp2p_New (su_routing lib) h of
        Inl err \<Rightarrow> Inl err
      | Inr _ \<Rightarrow>
          (case setupRouting (su_routing lib) cfg h ds dhtRcMgr of
             Inl err \<Rightarrow> Inl err
           | Inr (cr, pr, vs, dhtHost) \<Rightarrow> Inr (h, cr, pr, vs, dhtHost)))"

text \<open>The block service, with the local blockstore it uses if there is one. The source compares
  two hosts as pointers: equal descriptions are the same object only if the library returns
  the host its callback saw.\<close>

definition setup_block_service ::
  "setup_lib \<Rightarrow> Config \<Rightarrow> host \<Rightarrow> host option \<Rightarrow> router \<Rightarrow> datastore
    \<Rightarrow> (block_service \<times> blockstore_val option) run" where
  "setup_block_service lib cfg h dhtHost cr ds =
     (if Bitswap cfg then
        (let blkst = IdStore (SwitchingBlockstore (NewBlockstore ds True True) ''NoBlockcache'');
             dhtAddrs = (case dhtHost of
                None \<Rightarrow> None
              | Some dh \<Rightarrow> if dh \<noteq> h \<or> \<not> su_New_returns_callback_host lib then Some dh else None)
         in case setupBitswapExchange (su_bitswap lib) cfg h dhtAddrs cr blkst of
              Panic \<Rightarrow> Panicked
            | Ret ex \<Rightarrow> Done (Inr (BlockService blkst ex True, Some blkst)))
      else if RemoteBackends cfg = [] \<or> RemoteBackendMode cfg \<noteq> RemoteBackendBlock then
        Done (Inl (Err ''remote backends in block mode must be set when disabling bitswap''))
      else if PeeringSharedCache cfg then
        Done (Inl (Err ''disabling bitswap is incompatible with peering cache''))
      else
        (let blkst = RemoteBlockstore (RemoteBackends cfg) in
         run_bind (fail_if (su_NewRemoteBlockstore_error lib (RemoteBackends cfg))) (\<lambda>_.
           Done (Inr (BlockService blkst (OfflineExchange blkst) False, None)))))"

definition SetupWithLibp2p :: "setup_lib \<Rightarrow> Config \<Rightarrow> priv_key \<Rightarrow> (Node \<times> peering) run" where
  "SetupWithLibp2p lib cfg0 key =
     (if \<not> Bitswap cfg0 \<and> DHTRouting cfg0 = DHTOff then
        Done (Inl (Err ''libp2p is enabled, but not used: bitswap and dht are disabled''))
      else
      run_bind (Done (filepath_Abs (su_getwd lib) (DataDir cfg0))) (\<lambda>dir.
      let cfg = cfg0\<lparr>DataDir := dir\<rparr> in
      run_bind (Done (setupDenylists lib cfg)) (\<lambda>(denylists, blkr).
      let n = zero_Node\<lparr>nd_dataDir := DataDir cfg, nd_denylistSubs := denylists\<rparr> in
      run_bind (fail_if (su_NewConnManager_error lib (ConnMgrLow cfg) (ConnMgrHi cfg)
        (ConnMgrGrace cfg))) (\<lambda>_.
      run_bind (of_outcome (makeResourceMgrs (su_rcmgr lib) (MaxMemory cfg) (MaxFD cfg) (ConnMgrHi cfg)
        (\<not> DHTSharedHost cfg))) (\<lambda>(bitswapRcMgr, dhtRcMgr).
      run_bind (Done (announce_opts lib cfg)) (\<lambda>announce.
      run_bind (Done (setupDatastore (su_datastore lib) cfg)) (\<lambda>ds.
      run_bind (Done (new_main_host lib cfg (main_host_opts lib cfg key bitswapRcMgr @ announce)
        ds dhtRcMgr)) (\<lambda>(h, cr, pr, vs, dhtHost).
      run_bind (setupPeering lib cfg h) (\<lambda>ps.
      run_bind (setup_block_service lib cfg h dhtHost cr ds) (\<lambda>(bsrv0, blkst).
      let bsrv = WrapBlockService bsrv0 blkr;
          r = WrapResolver (BasicResolver bsrv) blkr;
          n = n\<lparr>nd_blockstore := blkst, nd_host := Some h, nd_datastore := Some ds,
                nd_bsrv := Some bsrv, nd_resolver := Some r\<rparr>
      in run_bind (Done (setupNamesys lib cfg vs blkr (DNSLinkResolver cfg))) (\<lambda>ns.
      Done (Inr (n\<lparr>nd_vs := Some vs, nd_ns := Some ns\<rparr>, ps)))))))))))))"

section \<open>Inversion of the set-up functions\<close>

lemma SetupWithLibp2p_parts:
  assumes "SetupWithLibp2p lib cfg0 key = Done (Inr (n, ps))"
  shows "\<exists>dir cfg denylists blkr bm dm opts ds h cr pr vs dhtHost bsrv0 blkst ns.
    cfg = cfg0\<lparr>DataDir := dir\<rparr> \<and> (Bitswap cfg0 \<or> DHTRouting cfg0 \<noteq> DHTOff) \<and>
    setupDenylists lib cfg = Inr (denylists, blkr) \<and>
    makeResourceMgrs (su_rcmgr lib) (MaxMemory cfg) (MaxFD cfg) (ConnMgrHi cfg) (\<not> DHTSharedHost cfg)
      = Ret (Inr (bm, dm)) \<and>
    setupDatastore (su_datastore lib) cfg = Inr ds \<and>
    new_main_host lib cfg opts ds dm = Inr (h, cr, pr, vs, dhtHost) \<and>
    setupPeering lib cfg h = Done (Inr ps) \<and>
    setup_block_service lib cfg h dhtHost cr ds = Done (Inr (bsrv0, blkst)) \<and>
    setupNamesys lib cfg vs blkr (DNSLinkResolver cfg) = Inr ns \<and>
    n = \<lparr>nd_ns = Some ns, nd_vs = Some vs, nd_dataDir = DataDir cfg,
      nd_bsrv = Some (WrapBlockService bsrv0 blkr), nd_denylistSubs = denylists, nd_host = Some h,
      nd_datastore = Some ds, nd_blockstore = blkst,
      nd_resolver = Some (WrapResolver (BasicResolver (WrapBlockService bsrv0 blkr)) blkr)\<rparr>"
  using assms unfolding SetupWithLibp2p_def Let_def
  by (auto simp: result_simps zero_Node_def split: if_splits prod.splits) blast+

lemma setupNamesys_Inr:
  assumes "setupNamesys lib cfg vs blkr dns = Inr ns"
  shows "ns = WrapNameSystem (NameSystem vs dns
    (if slt 0 (IpnsMaxCacheTTL cfg) then Some (IpnsMaxCacheTTL cfg) else None)) blkr"
  using assms by (auto simp: setupNamesys_def Let_def split: option.splits)

lemma SetupNoLibp2p_parts:
  assumes "SetupNoLibp2p lib cfg0 = Inr n"
  shows "\<exists>dir cfg denylists blkr vs ns. cfg = cfg0\<lparr>DataDir := dir\<rparr> \<and>
    setupDenylists lib cfg = Inr (denylists, blkr) \<and> RemoteBackends cfg \<noteq> [] \<and>
    setupRoutingNoLibp2p (su_routing lib) cfg = Inr vs \<and>
    setupNamesys lib cfg vs blkr (DNSLinkResolver cfg) = Inr ns \<and>
    n = zero_Node\<lparr>nd_vs := Some vs, nd_ns := Some ns, nd_dataDir := DataDir cfg,
      nd_denylistSubs := denylists,
      nd_bsrv := (if RemoteBackendMode cfg = RemoteBackendBlock
        then Some (WrapBlockService (BlockService (RemoteBlockstore (RemoteBackends cfg))
          (OfflineExchange (RemoteBlockstore (RemoteBackends cfg))) False) blkr) else None)\<rparr>"
  using assms unfolding SetupNoLibp2p_def Let_def
  by (auto split: sum.splits prod.splits if_splits option.splits) blast+

lemma setup_block_service_local:
  assumes "setup_block_service lib cfg h dhtHost cr ds = Done (Inr (bsrv, blkst))"
  shows "if Bitswap cfg then \<exists>ex.
      blkst = Some (IdStore (SwitchingBlockstore (NewBlockstore ds True True) ''NoBlockcache'')) \<and>
      bsrv = BlockService (IdStore (SwitchingBlockstore (NewBlockstore ds True True) ''NoBlockcache'')) ex True
    else blkst = None \<and> RemoteBackends cfg \<noteq> [] \<and> \<not> PeeringSharedCache cfg"
  using assms
  by (auto simp: setup_block_service_def Let_def result_simps split: if_splits outcome.splits)

lemma setupDenylists_subs:
  assumes "setupDenylists lib cfg = Inr (subs, blkr)"
  shows "subs = map (\<lambda>dl. HTTPSubscriber dl (denylist_path cfg dl) minute) (DenylistSubs cfg) \<and>
    (\<exists>files. su_GetDenylistFilesInDir lib (filepath_Join [DataDir cfg, ''denylists'']) = Inr files \<and>
      blkr = Blocker files)"
proof -
  have "map (new_subscriber lib cfg) (DenylistSubs cfg) = map Inr subs"
    using assms by (auto simp: setupDenylists_def result_simps split: option.splits sum.splits if_splits)
  then have "list_all2 (\<lambda>dl s. s = HTTPSubscriber dl (denylist_path cfg dl) minute) (DenylistSubs cfg) subs"
    by (rule map_Inr_list_all2) (auto simp: new_subscriber_def Let_def split: option.splits)
  then have "subs = map (\<lambda>dl. HTTPSubscriber dl (denylist_path cfg dl) minute) (DenylistSubs cfg)"
    by (induction rule: list_all2_induct) simp_all
  with assms show ?thesis
    by (auto simp: setupDenylists_def split: option.splits sum.splits if_splits)
qed

text \<open>Libraries in which every call succeeds, and two configurations.\<close>

definition example_setup_lib :: setup_lib where
  "example_setup_lib =
     \<lparr>su_rcmgr = example_rcmgr_lib, su_routing = example_routing_lib,
      su_datastore = example_datastore_lib, su_bitswap = example_bitswap_lib,
      su_crypto = example_crypto, su_getwd = Inr ''/'', su_Mkdir = (\<lambda>p m. None),
      su_NewHTTPSubscriber_error = (\<lambda>_. None), su_GetDenylistFilesInDir = (\<lambda>_. Inr []),
      su_NewBlocker_error = (\<lambda>_. None), su_NewRemoteBlockstore_error = (\<lambda>_. None),
      su_NewNameSystem_error = (\<lambda>_. None), su_NewConnManager_error = (\<lambda>_ _ _. None),
      su_NewMultiaddr = (\<lambda>s. Inr []), su_PeeringStart_error = (\<lambda>_. None),
      su_New_returns_callback_host = True\<rparr>"

definition example_libp2p_config :: Config where
  "example_libp2p_config = zero_Config\<lparr>DataDir := ''/data'', BlockstoreType := ''flatfs'',
     Bitswap := True, DHTRouting := ''off'', DHTSharedHost := True, MaxMemory := 1073741824,
     MaxFD := 512, DenylistSubs := [''https://a/x.deny'', ''https://b/x.deny'']\<rparr>"

definition example_remote_config :: Config where
  "example_remote_config = zero_Config\<lparr>DataDir := ''/data'', RemoteBackends := [''https://r''],
     RemoteBackendMode := ''block''\<rparr>"

lemma example_denylists: "\<exists>subs. setupDenylists example_setup_lib cfg = Inr (subs, Blocker [])"
proof -
  have "\<exists>subs. res_map (new_subscriber example_setup_lib cfg) dls = Inr subs" for dls
    by (induction dls) (auto simp: new_subscriber_def Let_def example_setup_lib_def)
  then obtain subs where "res_map (new_subscriber example_setup_lib cfg) (DenylistSubs cfg) = Inr subs"
    by blast
  then show ?thesis by (simp add: setupDenylists_def) (simp add: example_setup_lib_def)
qed

lemma example_resource_mgrs:
  "\<exists>bm. makeResourceMgrs example_rcmgr_lib 1073741824 512 hw False = Ret (Inr (bm, None))"
proof -
  obtain p where "makeResourceManagerConfig example_rcmgr_lib 1073741824 512 hw = Ret (BuildFromEmpty p)"
    using main_config_returns [of example_rcmgr_lib] example_rcmgr_lib_ok(2)
    unfolding documented_constants_def by blast
  then show ?thesis
    by (simp add: makeResourceMgrs_def NewResourceManager_def Let_def)
       (simp add: example_rcmgr_lib_def)
qed

lemma example_routing_off:
  assumes "DHTRouting cfg = DHTOff" and "\<not> SeedPeering cfg" and "RemoteBackends cfg = []"
  shows "\<exists>cr pr vs. setupRouting example_routing_lib cfg h ds mgr = Inr (cr, pr, vs, None)"
  using example_delegated [of cfg] assms
  by (auto simp: setupRouting_def setupDHTRouting_def Let_def)

lemma example_libp2p_node:
  "\<exists>n ps. SetupWithLibp2p example_setup_lib example_libp2p_config key = Done (Inr (n, ps))"
proof -
  let ?cfg = "example_libp2p_config\<lparr>DataDir := ''/data''\<rparr>"
  have dir: "filepath_Abs (Inr ''/'') ''/data'' = Inr ''/data''" by code_simp
  obtain subs where subs: "setupDenylists example_setup_lib ?cfg = Inr (subs, Blocker [])"
    using example_denylists by blast
  obtain bm where bm: "makeResourceMgrs example_rcmgr_lib 1073741824 512
      (ConnMgrHi example_libp2p_config) False =
      Ret (Inr (bm, None))" using example_resource_mgrs by blast
  obtain ds where ds: "setupDatastore example_datastore_lib ?cfg = Inr ds"
    by (simp add: setupDatastore_def example_libp2p_config_def example_datastore_lib_def)
  let ?h = "LibP2PHost MainSite ((main_host_opts example_setup_lib ?cfg key bm @ []) @ [RoutingCallback])"
  have off: "DHTRouting ?cfg = DHTOff" "\<not> SeedPeering ?cfg" "RemoteBackends ?cfg = []"
    by (simp_all add: example_libp2p_config_def zero_Config_def dht_routing_defs)
  obtain cr pr vs where r: "setupRouting example_routing_lib ?cfg ?h ds None = Inr (cr, pr, vs, None)"
    using example_routing_off [of ?cfg ?h ds None] off by blast
  have h: "new_main_host example_setup_lib ?cfg (main_host_opts example_setup_lib ?cfg key bm @ []) ds None
      = Inr (?h, cr, pr, vs, None)"
    using r by (simp add: new_main_host_def libp2p_New_def Let_def example_setup_lib_def
        example_routing_lib_def)
  have f: "Bitswap example_libp2p_config" "DataDir example_libp2p_config = ''/data''"
    "MaxMemory example_libp2p_config = 1073741824" "MaxFD example_libp2p_config = 512"
    "DHTSharedHost example_libp2p_config" "Peering example_libp2p_config = []"
    "\<not> SeedPeering example_libp2p_config" "AnnounceAddrs example_libp2p_config = []"
    by (simp_all add: example_libp2p_config_def zero_Config_def)
  have l: "su_getwd example_setup_lib = Inr ''/''" "su_NewConnManager_error example_setup_lib a b c = None"
    "su_rcmgr example_setup_lib = example_rcmgr_lib" "su_datastore example_setup_lib = example_datastore_lib"
    "su_NewNameSystem_error example_setup_lib ns = None" "bw_pqm_error (su_bitswap example_setup_lib) q = None"
    for a b c ns q
    by (simp_all add: example_setup_lib_def example_bitswap_lib_def)
  have a: "announce_opts example_setup_lib ?cfg = Inr []" by (simp add: announce_opts_def f)
  have pe: "setupPeering example_setup_lib ?cfg ?h = Done (Inr NoPeering)" by (simp add: setupPeering_def f)
  have "\<exists>b bs. setup_block_service example_setup_lib ?cfg ?h None cr ds = Done (Inr (b, bs))"
    by (auto simp: setup_block_service_def setupBitswapExchange_def f l Let_def)
  then obtain b bs where b: "setup_block_service example_setup_lib ?cfg ?h None cr ds = Done (Inr (b, bs))"
    by blast
  have "\<exists>ns. setupNamesys example_setup_lib ?cfg vs (Blocker []) dns = Inr ns" for dns
    by (simp add: setupNamesys_def l Let_def)
  then obtain ns where ns: "setupNamesys example_setup_lib ?cfg vs (Blocker [])
      (DNSLinkResolver example_libp2p_config) = Inr ns" by blast
  note steps = f l dir subs bm ds h a pe b ns
  show ?thesis
    unfolding SetupWithLibp2p_def Let_def
    by (simp add: steps fail_if_def of_outcome_def del: append_Nil2 append_assoc)
qed

lemma example_remote_start:
  assumes "RemoteBackends cfg \<noteq> []"
  shows "\<exists>n. SetupNoLibp2p example_setup_lib cfg = Inr n"
proof -
  obtain dir where dir: "filepath_Abs (Inr ''/'') (DataDir cfg) = Inr dir"
    by (cases "take 1 (DataDir cfg) = ''/''") (auto simp: filepath_Abs_def)
  let ?cfg = "cfg\<lparr>DataDir := dir\<rparr>"
  obtain subs where subs: "setupDenylists example_setup_lib ?cfg = Inr (subs, Blocker [])"
    using example_denylists by blast
  obtain rs where "setupDelegatedRouting example_routing_lib ?cfg = Inr rs" using example_delegated by blast
  moreover have "\<exists>v. remote_value_store example_routing_lib ?cfg = Inr v"
    by (simp add: remote_value_store_def example_routing_lib_def)
  ultimately obtain vs where vs: "setupRoutingNoLibp2p example_routing_lib ?cfg = Inr vs"
    by (cases "RemoteBackends cfg \<noteq> [] \<and> RemoteBackendsIPNS cfg") (auto simp: setupRoutingNoLibp2p_def)
  have lib: "su_getwd example_setup_lib = Inr ''/''" "su_routing example_setup_lib = example_routing_lib"
    "su_NewRemoteBlockstore_error example_setup_lib x = None"
    "su_NewNameSystem_error example_setup_lib y = None" for x y
    by (simp_all add: example_setup_lib_def)
  show ?thesis
    using assms by (simp add: SetupNoLibp2p_def dir subs vs lib setupNamesys_def Let_def)
qed

lemma example_remote_node: "\<exists>n. SetupNoLibp2p example_setup_lib example_remote_config = Inr n"
  by (rule example_remote_start) (simp add: example_remote_config_def)

section \<open>Properties\<close>

lemma libp2p_node_guarded:
  assumes "SetupWithLibp2p lib cfg key = Done (Inr (n, ps))"
  shows "\<exists>blkr bs vs dns ttl. nd_bsrv n = Some (WrapBlockService bs blkr) \<and>
    nd_resolver n = Some (WrapResolver (BasicResolver (WrapBlockService bs blkr)) blkr) \<and>
    nd_ns n = Some (WrapNameSystem (NameSystem vs dns ttl) blkr) \<and> nd_vs n = Some vs \<and>
    map sub_URL (nd_denylistSubs n) = DenylistSubs cfg"
proof -
  obtain dir cfg' denylists blkr vs bsrv0 ns where p: "cfg' = cfg\<lparr>DataDir := dir\<rparr>"
    "setupDenylists lib cfg' = Inr (denylists, blkr)"
    "setupNamesys lib cfg' vs blkr (DNSLinkResolver cfg') = Inr ns"
    "nd_ns n = Some ns" "nd_vs n = Some vs" "nd_bsrv n = Some (WrapBlockService bsrv0 blkr)"
    "nd_denylistSubs n = denylists"
    "nd_resolver n = Some (WrapResolver (BasicResolver (WrapBlockService bsrv0 blkr)) blkr)"
    using SetupWithLibp2p_parts [OF assms] by (elim exE conjE) simp
  with setupNamesys_Inr [OF p(3)] setupDenylists_subs [OF p(2)] show ?thesis
    by (simp add: comp_def)
qed

text \<open>C2: The denylists guard every way to content: in a node set up with libp2p, blocks, paths and
  names are all resolved through wrappers of one and the same blocker, path resolution
  fetches through the guarded block service, not around it, and there is one subscriber
  per configured list.\<close>

theorem libp2p_node_guarded_by_denylists:
  assumes "SetupWithLibp2p lib cfg key = Done (Inr (n, ps))"
  shows "\<exists>blkr bs vs dns ttl. nd_bsrv n = Some (WrapBlockService bs blkr) \<and>
    nd_resolver n = Some (WrapResolver (BasicResolver (WrapBlockService bs blkr)) blkr) \<and>
    nd_ns n = Some (WrapNameSystem (NameSystem vs dns ttl) blkr) \<and> nd_vs n = Some vs \<and>
    map sub_URL (nd_denylistSubs n) = DenylistSubs cfg"
  by (rule libp2p_node_guarded [OF assms])

theorem libp2p_node_guarded_by_denylists_witness:
  "\<exists>n ps. SetupWithLibp2p example_setup_lib example_libp2p_config ''k'' = Done (Inr (n, ps)) \<and>
     map sub_URL (nd_denylistSubs n) = [''https://a/x.deny'', ''https://b/x.deny'']"
proof -
  obtain n ps where n: "SetupWithLibp2p example_setup_lib example_libp2p_config ''k'' = Done (Inr (n, ps))"
    using example_libp2p_node by blast
  from libp2p_node_guarded_by_denylists [OF n] n show ?thesis
    by (auto simp: example_libp2p_config_def)
qed

text \<open>What a libp2p node stores blocks in: with Bitswap it has a local blockstore, over its
  datastore and switchable per request, and serves blocks from it; without Bitswap it has
  none, fetches from remote backends only, and garbage collection leaves everything alone.\<close>

lemma libp2p_node_blockstore:
  assumes "SetupWithLibp2p lib cfg key = Done (Inr (n, ps))"
  shows "if Bitswap cfg then \<exists>ds b ex blkr. nd_datastore n = Some ds \<and> nd_blockstore n = Some b \<and>
      b = IdStore (SwitchingBlockstore (NewBlockstore ds True True) ''NoBlockcache'') \<and>
      nd_bsrv n = Some (WrapBlockService (BlockService b ex True) blkr)
    else nd_blockstore n = None \<and> RemoteBackends cfg \<noteq> [] \<and>
      (\<forall>gc ctx ctx_done todelete (s :: 's). GC gc n ctx ctx_done todelete s = (s, None))"
proof -
  obtain dir cfg' ds h dhtHost cr bsrv0 blkst blkr where p: "cfg' = cfg\<lparr>DataDir := dir\<rparr>"
    "setup_block_service lib cfg' h dhtHost cr ds = Done (Inr (bsrv0, blkst))"
    "nd_datastore n = Some ds" "nd_blockstore n = blkst"
    "nd_bsrv n = Some (WrapBlockService bsrv0 blkr)"
    using SetupWithLibp2p_parts [OF assms] by (elim exE conjE) simp
  then have "Bitswap cfg' = Bitswap cfg" "RemoteBackends cfg' = RemoteBackends cfg" by simp_all
  with p(3-5) setup_block_service_local [OF p(2)] show ?thesis
    by (cases "Bitswap cfg") (auto simp: GC_def)
qed

lemma libp2p_node_blockstore_witness:
  "\<exists>n ps ds. SetupWithLibp2p example_setup_lib example_libp2p_config ''k'' = Done (Inr (n, ps)) \<and>
     nd_blockstore n = Some (IdStore (SwitchingBlockstore (NewBlockstore ds True True) ''NoBlockcache''))"
proof -
  obtain n ps where n: "SetupWithLibp2p example_setup_lib example_libp2p_config ''k'' = Done (Inr (n, ps))"
    using example_libp2p_node by blast
  have b: "Bitswap example_libp2p_config" by (simp add: example_libp2p_config_def)
  from libp2p_node_blockstore [OF n, where ?'s = unit, unfolded if_P [OF b]] n show ?thesis by blast
qed

text \<open>Without libp2p the node runs on remote backends alone: there has to be at least one, the
  node has no host, no datastore and no blockstore to collect garbage in, and its block
  service, present exactly in block mode, reads from the backends behind the denylists.\<close>

lemma no_libp2p_node_is_remote_only:
  assumes "SetupNoLibp2p lib cfg = Inr n"
  shows "RemoteBackends cfg \<noteq> [] \<and> nd_host n = None \<and> nd_datastore n = None \<and>
    nd_resolver n = None \<and>
    (\<forall>gc ctx ctx_done todelete (s :: 's). GC gc n ctx ctx_done todelete s = (s, None)) \<and>
    (\<exists>blkr vs dns ttl. nd_ns n = Some (WrapNameSystem (NameSystem vs dns ttl) blkr) \<and> nd_vs n = Some vs \<and>
      nd_bsrv n = (if RemoteBackendMode cfg = RemoteBackendBlock
        then Some (WrapBlockService (BlockService (RemoteBlockstore (RemoteBackends cfg))
          (OfflineExchange (RemoteBlockstore (RemoteBackends cfg))) False) blkr) else None))"
proof -
  obtain dir cfg' denylists blkr vs ns where p: "cfg' = cfg\<lparr>DataDir := dir\<rparr>"
    "RemoteBackends cfg' \<noteq> []"
    "setupNamesys lib cfg' vs blkr (DNSLinkResolver cfg') = Inr ns"
    "n = zero_Node\<lparr>nd_vs := Some vs, nd_ns := Some ns, nd_dataDir := DataDir cfg',
      nd_denylistSubs := denylists,
      nd_bsrv := (if RemoteBackendMode cfg' = RemoteBackendBlock
        then Some (WrapBlockService (BlockService (RemoteBlockstore (RemoteBackends cfg'))
          (OfflineExchange (RemoteBlockstore (RemoteBackends cfg'))) False) blkr) else None)\<rparr>"
    using SetupNoLibp2p_parts [OF assms] by blast
  with setupNamesys_Inr [OF p(3)] show ?thesis by (simp add: zero_Node_def GC_def)
qed

lemma no_libp2p_node_is_remote_only_witness:
  "\<exists>n. SetupNoLibp2p example_setup_lib example_remote_config = Inr n \<and> nd_host n = None \<and>
     nd_bsrv n \<noteq> None"
proof -
  obtain n where n: "SetupNoLibp2p example_setup_lib example_remote_config = Inr n"
    using example_remote_node by blast
  have m: "RemoteBackendMode example_remote_config = RemoteBackendBlock"
    by (simp add: example_remote_config_def backend_mode_defs)
  from no_libp2p_node_is_remote_only [OF n, where ?'s = unit, unfolded if_P [OF m]] n show ?thesis
    by auto
qed

lemma denylist_path_inject:
  assumes "plain_name (filepath_Base u)" and "plain_name (filepath_Base v)"
  shows "denylist_path cfg u = denylist_path cfg v \<longleftrightarrow> filepath_Base u = filepath_Base v"
proof -
  have two: "filepath_Join [d, ''denylists'', n] =
      filepath_Join [if d = [] then ''denylists'' else d @ ''/denylists'', n]" for d n
    by (simp add: filepath_Join_def)
  show ?thesis
  proof
    assume "denylist_path cfg u = denylist_path cfg v"
    then show "filepath_Base u = filepath_Base v"
      unfolding denylist_path_def two by (rule join_plain_inject [OF assms])
  qed (simp add: denylist_path_def)
qed

text \<open>C33: The file of a denylist subscription is named after the last component of its URL alone: two
  subscriptions are stored in the same file exactly when their URLs end in the same
  component, however different the rest of them is.\<close>

theorem denylist_file_shared_iff_same_basename:
  assumes "setupDenylists lib cfg = Inr (subs, blkr)"
    and "i < length (DenylistSubs cfg)" and "j < length (DenylistSubs cfg)"
    and "plain_name (filepath_Base (DenylistSubs cfg ! i))"
    and "plain_name (filepath_Base (DenylistSubs cfg ! j))"
  shows "length subs = length (DenylistSubs cfg) \<and> sub_URL (subs ! i) = DenylistSubs cfg ! i \<and>
    (sub_Path (subs ! i) = sub_Path (subs ! j) \<longleftrightarrow>
      filepath_Base (DenylistSubs cfg ! i) = filepath_Base (DenylistSubs cfg ! j))"
  using setupDenylists_subs [OF assms(1)] assms(2,3) denylist_path_inject [OF assms(4,5)]
  by simp

theorem denylist_file_shared_iff_same_basename_witness:
  "\<exists>subs blkr. setupDenylists example_setup_lib example_libp2p_config = Inr (subs, blkr) \<and>
     sub_URL (subs ! 0) = ''https://a/x.deny'' \<and> sub_Path (subs ! 0) = sub_Path (subs ! 1)"
proof -
  obtain subs where s: "setupDenylists example_setup_lib example_libp2p_config = Inr (subs, Blocker [])"
    using example_denylists by blast
  have d: "DenylistSubs example_libp2p_config = [''https://a/x.deny'', ''https://b/x.deny'']"
    by (simp add: example_libp2p_config_def)
  have b: "filepath_Base ''https://a/x.deny'' = ''x.deny''" "filepath_Base ''https://b/x.deny'' = ''x.deny''"
    by code_simp+
  have p: "plain_name ''x.deny''" by (simp add: plain_name_def)
  from denylist_file_shared_iff_same_basename [OF s, of 0 1] s b p show ?thesis by (simp add: d)
qed

text \<open>C22: Peering with the instances of a seed: with valid indexes the set-up of peering always ends;
  it peers with the configured peers and, after them, with the derived identity of every
  other index up to the bound, in order, or it fails because one of them cannot be derived.\<close>

theorem peering_adds_seed_instances:
  assumes "SeedPeering cfg" and "0 \<le> sint (SeedIndex cfg)"
    and "0 \<le> sint (SeedPeeringMaxIndex cfg)" and "sint (SeedPeeringMaxIndex cfg) < 2 ^ 63 - 1"
    and "su_PeeringStart_error lib h = None"
  shows "case setupPeering lib cfg h of
      Done (Inr (PeeringService h' peers)) \<Rightarrow> h' = h \<and>
        (\<exists>pids. peers = Peering cfg @ map (\<lambda>pid. \<lparr>ai_ID = pid, ai_Addrs = []\<rparr>) pids \<and>
          map (derivePeerID (su_crypto lib) (Seed cfg))
            (other_indexes (SeedIndex cfg) 0 (sint (SeedPeeringMaxIndex cfg))) = map Inr pids)
    | Done (Inl e) \<Rightarrow> \<exists>i \<in> set (other_indexes (SeedIndex cfg) 0 (sint (SeedPeeringMaxIndex cfg))).
        derivePeerID (su_crypto lib) (Seed cfg) i = Inl e
    | _ \<Rightarrow> False"
proof -
  let ?r = "res_map (derivePeerID (su_crypto lib) (Seed cfg))
      (other_indexes (SeedIndex cfg) 0 (sint (SeedPeeringMaxIndex cfg)))"
  have d: "derivePeerIDs (su_crypto lib) (Seed cfg) (SeedIndex cfg) (SeedPeeringMaxIndex cfg) = Some ?r"
    using derive_loop_eq [of 0 "SeedPeeringMaxIndex cfg" "su_crypto lib" "Seed cfg" "SeedIndex cfg" "[]"]
      assms(3,4) by (simp add: derivePeerIDs_def split: sum.splits)
  have "\<not> slt (SeedIndex cfg) 0" "\<not> slt (SeedPeeringMaxIndex cfg) 0"
    using assms(2,3) by (simp_all add: slt_def)
  then have e: "setupPeering lib cfg h = (case ?r of Inl e \<Rightarrow> Done (Inl e)
      | Inr pids \<Rightarrow> Done (Inr (PeeringService h
            (Peering cfg @ map (\<lambda>pid. \<lparr>ai_ID = pid, ai_Addrs = []\<rparr>) pids))))"
    using assms(1,5) by (simp add: setupPeering_def fail_if_def d of_option_def split: sum.split)
  show ?thesis
  proof (cases ?r)
    case (Inl err)
    then have "\<exists>i \<in> set (other_indexes (SeedIndex cfg) 0 (sint (SeedPeeringMaxIndex cfg))).
        derivePeerID (su_crypto lib) (Seed cfg) i = Inl err"
      unfolding res_map_Inl_iff by (meson nth_mem)
    then show ?thesis using e Inl by simp
  next
    case (Inr pids)
    then have "map (derivePeerID (su_crypto lib) (Seed cfg))
        (other_indexes (SeedIndex cfg) 0 (sint (SeedPeeringMaxIndex cfg))) = map Inr pids"
      unfolding res_map_Inr_iff .
    then show ?thesis using e Inr by simp
  qed
qed

theorem peering_adds_seed_instances_witness:
  "\<exists>pids. setupPeering example_setup_lib
     (zero_Config\<lparr>SeedPeering := True, SeedPeeringMaxIndex := 2, SeedIndex := 1, Seed := example_seed\<rparr>) (LibP2PHost MainSite []) =
       Done (Inr (PeeringService (LibP2PHost MainSite []) pids)) \<and> length pids = 2"
proof -
  let ?cfg = "zero_Config\<lparr>SeedPeering := True, SeedPeeringMaxIndex := 2, SeedIndex := 1, Seed := example_seed\<rparr>"
  have a: "SeedPeering ?cfg" "0 \<le> sint (SeedIndex ?cfg)" "0 \<le> sint (SeedPeeringMaxIndex ?cfg)"
    "sint (SeedPeeringMaxIndex ?cfg) < 2 ^ 63 - 1" "su_PeeringStart_error example_setup_lib (LibP2PHost MainSite []) = None"
    by (simp_all add: example_setup_lib_def)
  have f: "su_crypto example_setup_lib = example_crypto" "Seed ?cfg = example_seed"
    "SeedIndex ?cfg = 1" "sint (SeedPeeringMaxIndex ?cfg) = 2" "Peering ?cfg = []"
    by (simp_all add: example_setup_lib_def zero_Config_def)
  have o: "length (other_indexes 1 0 2) = 2" by (simp add: other_indexes_def upto_rec1)
  have l: "length pids = 2"
    if "map (derivePeerID example_crypto example_seed) (other_indexes 1 0 2) = map Inr pids" for pids
    using arg_cong [OF that, of length] o by simp
  from peering_adds_seed_instances [OF a, unfolded f] l show ?thesis
    by (auto simp: example_derivePeerID split: run.splits sum.splits peering.splits)
qed

end
