(* ===== verification/Http.thy ===== *)
theory Http
  imports Blockstore Go_Text Node_Config
begin

text \<open>
  HTTP as the handlers of the daemon see it (\<open>handlers.go\<close>): requests, responses, handlers over
  a state \<open>'s\<close>, \<open>http.ServeMux\<close>, and the middlewares \<open>withConnect\<close>, \<open>withRequestLogger\<close> and
  \<open>withTracingAndDebug\<close>. A handler that panics is \<open>Panic\<close>: the server catches it and drops the
  connection.
\<close>

section \<open>Requests and responses\<close>

text \<open>Header names are in canonical form, as \<open>net/http\<close> stores them.\<close>

type_synonym header = "(string, string list) gomap"

definition Header_Get :: "header \<Rightarrow> string \<Rightarrow> string" where
  "Header_Get h k = (case gomap_get h k of Some (v # vs) \<Rightarrow> v | _ \<Rightarrow> [])"

definition Header_Set :: "header \<Rightarrow> string \<Rightarrow> string \<Rightarrow> header" where
  "Header_Set h k v = gomap_set k [v] h"

definition Header_Add :: "header \<Rightarrow> string \<Rightarrow> string \<Rightarrow> header" where
  "Header_Add h k v =
     (case gomap_get h k of Some vs \<Rightarrow> gomap_set k (vs @ [v]) h | None \<Rightarrow> gomap_set k [v] h)"

lemma Header_Get_Set [simp]: "Header_Get (Header_Set h k v) k' = (if k' = k then v else Header_Get h k')"
  by (simp add: Header_Get_def Header_Set_def gm.lookup_store)

record request =
  rq_Method :: string
  rq_Host :: string
  rq_Path :: string
  rq_Query :: "(string \<times> string) list"
  rq_Header :: header
  rq_Body :: string
  rq_Context :: ctx

text \<open>\<open>url.Values.Get\<close>: the first value of a key, or the empty string.\<close>

definition Values_Get :: "(string \<times> string) list \<Rightarrow> string \<Rightarrow> string" where
  "Values_Get q k = (case map_of q k of Some v \<Rightarrow> v | None \<Rightarrow> [])"

text \<open>A part of a body: text, or the message of an error.\<close>

datatype body_part = Text string | ErrText error | PeersJSON int "string list option"

record response =
  rs_Status :: nat
  rs_Header :: header
  rs_Body :: "body_part list"

text \<open>A handler that writes nothing answers 200 with an empty body.\<close>

definition empty_response :: response where
  "empty_response = \<lparr>rs_Status = 200, rs_Header = gomap_empty, rs_Body = []\<rparr>"

definition http_Error :: "body_part \<Rightarrow> nat \<Rightarrow> response" where
  "http_Error msg code =
     \<lparr>rs_Status = code,
      rs_Header = Header_Set (Header_Set gomap_empty ''Content-Type'' ''text/plain; charset=utf-8'')
        ''X-Content-Type-Options'' ''nosniff'',
      rs_Body = [msg, Text [char_of (10 :: nat)]]\<rparr>"

type_synonym 's handler = "request \<Rightarrow> 's \<Rightarrow> 's \<times> response outcome"

section \<open>The contract of a guarding middleware\<close>

text \<open>
  A middleware answers some requests itself, without running the next handler, and passes
  every other one on, rewritten, to the next handler behind \<open>wrap\<close>.
\<close>

locale guard_middleware =
  fixes mw :: "'s handler \<Rightarrow> 's handler"
    and wrap :: "'s handler \<Rightarrow> 's handler"
    and answer :: "request \<Rightarrow> 's \<Rightarrow> ('s \<times> response outcome) option"
    and rewrite :: "request \<Rightarrow> 's \<Rightarrow> request \<times> 's"
  assumes answers: "answer r s = Some x \<Longrightarrow> mw next r s = x"
    and passes: "answer r s = None \<Longrightarrow> mw next r s = wrap next (fst (rewrite r s)) (snd (rewrite r s))"
begin

lemma answered_without_next: "answer r s \<noteq> None \<Longrightarrow> mw next r s = mw next' r s"
  using answers by (cases "answer r s") simp_all

lemma next_sees_rewritten:
  assumes "\<And>r s. wrap next r s = next r s"
  shows "mw next r s = (case answer r s of
    Some x \<Rightarrow> x | None \<Rightarrow> next (fst (rewrite r s)) (snd (rewrite r s)))"
  using answers passes assms by (cases "answer r s") auto

end

section \<open>CONNECT, logging\<close>

definition withConnect :: "'s handler \<Rightarrow> 's handler" where
  "withConnect next r s =
     (if rq_Method r = ''CONNECT'' then (s, Ret empty_response) else next r s)"

interpretation connect: guard_middleware withConnect "\<lambda>next. next"
  "\<lambda>r s. if rq_Method r = ''CONNECT'' then Some (s, Ret empty_response) else None" "\<lambda>r s. (r, s)"
  by unfold_locales (auto simp: withConnect_def split: if_splits)

text \<open>The log line is made from the request and the captured response, after the handler returned.\<close>

definition withRequestLogger ::
  "(request \<Rightarrow> response \<Rightarrow> 's \<Rightarrow> 's) \<Rightarrow> 's handler \<Rightarrow> 's handler" where
  "withRequestLogger log_line next r s =
     (case next r s of
        (s', Ret resp) \<Rightarrow> (log_line r resp s', Ret resp)
      | (s', Panic) \<Rightarrow> (s', Panic))"

section \<open>Authorized debugging\<close>

definition NoBlockcacheHeader :: string where
  "NoBlockcacheHeader = ''Rainbow-No-Blockcache''"

definition NoBlockcache :: string where
  "NoBlockcache = ''NoBlockcache''"

text \<open>The library: the OpenTelemetry wrapper of a handler, and a new in-memory blockstore.\<close>

record 's tracing_lib =
  tl_otelhttp :: "'s handler \<Rightarrow> 's handler"
  tl_leveldb_NewDatastore :: "'s \<Rightarrow> 's \<times> bs_ref result"

definition authorized :: "string \<Rightarrow> request \<Rightarrow> bool" where
  "authorized authToken r \<longleftrightarrow> authToken \<noteq> [] \<and> Header_Get (rq_Header r) ''Authorization'' = authToken"

definition has_debug_headers :: "request \<Rightarrow> bool" where
  "has_debug_headers r \<longleftrightarrow> Header_Get (rq_Header r) ''Traceparent'' \<noteq> [] \<or>
     Header_Get (rq_Header r) ''Tracestate'' \<noteq> [] \<or>
     Header_Get (rq_Header r) NoBlockcacheHeader \<noteq> []"

definition withTracingAndDebug :: "'s tracing_lib \<Rightarrow> 's handler \<Rightarrow> string \<Rightarrow> 's handler" where
  "withTracingAndDebug lib next0 authToken request s =
     (let next = tl_otelhttp lib next0 in
      if \<not> authorized authToken request \<and> has_debug_headers request then
        (s, Ret (http_Error
          (Text ''The request is not accompanied by a valid authorization header'') 401))
      else if Header_Get (rq_Header request) NoBlockcacheHeader = ''true'' then
        (case tl_leveldb_NewDatastore lib s of
           (s', Inl err) \<Rightarrow>
             (s', Ret \<lparr>rs_Status = 500, rs_Header = gomap_empty, rs_Body = [ErrText err]\<rparr>)
         | (s', Inr ds) \<Rightarrow>
             next (request\<lparr>rq_Context := ctx_WithValue (rq_Context request) NoBlockcache
                            (CtxBlockstore ds)\<rparr>) s')
      else next request s)"

text \<open>What it answers itself, and what the next handler sees.\<close>

definition debug_answer ::
  "'s tracing_lib \<Rightarrow> string \<Rightarrow> request \<Rightarrow> 's \<Rightarrow> ('s \<times> response outcome) option" where
  "debug_answer lib authToken r s =
     (if \<not> authorized authToken r \<and> has_debug_headers r then
        Some (s, Ret (http_Error
          (Text ''The request is not accompanied by a valid authorization header'') 401))
      else if Header_Get (rq_Header r) NoBlockcacheHeader = ''true'' then
        (case tl_leveldb_NewDatastore lib s of
           (s', Inl err) \<Rightarrow>
             Some (s', Ret \<lparr>rs_Status = 500, rs_Header = gomap_empty, rs_Body = [ErrText err]\<rparr>)
         | _ \<Rightarrow> None)
      else None)"

definition debug_rewrite :: "'s tracing_lib \<Rightarrow> request \<Rightarrow> 's \<Rightarrow> request \<times> 's" where
  "debug_rewrite lib r s =
     (if Header_Get (rq_Header r) NoBlockcacheHeader = ''true'' then
        (case tl_leveldb_NewDatastore lib s of
           (s', Inr ds) \<Rightarrow>
             (r\<lparr>rq_Context := ctx_WithValue (rq_Context r) NoBlockcache (CtxBlockstore ds)\<rparr>, s')
         | (s', Inl err) \<Rightarrow> (r, s'))
      else (r, s))"

interpretation debug: guard_middleware
  "\<lambda>next. withTracingAndDebug lib next authToken" "tl_otelhttp lib"
  "debug_answer lib authToken" "debug_rewrite lib"
  for lib :: "'s tracing_lib" and authToken
  by unfold_locales
     (auto simp: withTracingAndDebug_def debug_answer_def debug_rewrite_def Let_def
        split: if_splits prod.splits sum.splits)

section \<open>ServeMux\<close>

text \<open>
  \<open>http.ServeMux\<close> for the patterns of the program, a path or a subtree ending in a slash: the
  path is cleaned, the longest pattern that matches is chosen, a request whose path or
  subtree needs another path is redirected. The status of a redirect depends on the Go
  version and is left out.
\<close>

definition cleanPath :: "string \<Rightarrow> string" where
  "cleanPath p =
     (if p = [] then ''/''
      else let p1 = (if take 1 p = ''/'' then p else ''/'' @ p);
               np = filepath_Clean p1
           in if last p1 = CHR ''/'' \<and> np \<noteq> ''/'' then np @ ''/'' else np)"

definition pattern_matches :: "string \<Rightarrow> string \<Rightarrow> bool" where
  "pattern_matches pat p \<longleftrightarrow>
     (if has_suffix pat ''/'' then has_prefix p pat else p = pat)"

fun longest_match :: "(string \<times> 'h) list \<Rightarrow> string \<Rightarrow> (string \<times> 'h) option" where
  "longest_match [] p = None"
| "longest_match ((pat, h) # ms) p =
     (if pattern_matches pat p then
        (case longest_match ms p of
           Some (pat', h') \<Rightarrow> if length pat < length pat' then Some (pat', h') else Some (pat, h)
         | None \<Rightarrow> Some (pat, h))
      else longest_match ms p)"

datatype 'h route = ToHandler 'h | Redirect string | NotFound

definition mux_route :: "(string \<times> 'h) list \<Rightarrow> string \<Rightarrow> 'h route" where
  "mux_route mux p0 =
     (let p = cleanPath p0 in
      case longest_match mux p of
        Some (pat, h) \<Rightarrow>
          if pat \<noteq> p \<and> \<not> has_suffix p ''/'' \<and> p @ ''/'' \<in> set (map fst mux) then Redirect (p @ ''/'')
          else if p \<noteq> p0 then Redirect p
          else ToHandler h
      | None \<Rightarrow>
          if \<not> has_suffix p ''/'' \<and> p @ ''/'' \<in> set (map fst mux) then Redirect (p @ ''/'')
          else if p \<noteq> p0 then Redirect p
          else NotFound)"

text \<open>Serving a request with a mux of handlers; the answers of the mux itself are parameters.\<close>

definition mux_serve ::
  "(string \<Rightarrow> response) \<Rightarrow> (string \<times> 's handler) list \<Rightarrow> 's handler" where
  "mux_serve redirect_to mux r s =
     (case mux_route mux (rq_Path r) of
        ToHandler h \<Rightarrow> h r s
      | Redirect p \<Rightarrow> (s, Ret (redirect_to p))
      | NotFound \<Rightarrow> (s, Ret (http_Error (Text ''404 page not found'') 404)))"

section \<open>Properties\<close>

text \<open>C3: Skipping the cache needs the token and spares the cache: let the gateway behind the
  middleware touch only the store that the request's context selects. Then a request with a
  debugging header but without the token is answered with 401 and has no effect, one
  that asks to skip the cache never changes the node's own store, and one without the
  token never touches any other; without a configured token nothing is authorized.\<close>

theorem cache_skipping_needs_token:
  assumes "\<forall>r s x. x \<noteq> getBlockstore sb (rq_Context r) \<longrightarrow>
      contents x (fst (tl_otelhttp lib next r s)) = contents x s"
    and "\<forall>s. (\<forall>x. contents x (fst (tl_leveldb_NewDatastore lib s)) = contents x s) \<and>
      snd (tl_leveldb_NewDatastore lib s) \<noteq> Inr (baseBlockstore sb)"
    and "contextSwitchingKey sb = NoBlockcache"
    and "ctx_Value (rq_Context r) NoBlockcache = None"
  shows "(\<not> authorized authToken r \<and> has_debug_headers r \<longrightarrow>
      (\<exists>resp. rs_Status resp = 401 \<and> withTracingAndDebug lib next authToken r s = (s, Ret resp))) \<and>
    (Header_Get (rq_Header r) NoBlockcacheHeader = ''true'' \<longrightarrow>
      contents (baseBlockstore sb) (fst (withTracingAndDebug lib next authToken r s)) =
        contents (baseBlockstore sb) s) \<and>
    (\<not> authorized authToken r \<longrightarrow> (\<forall>x. x \<noteq> baseBlockstore sb \<longrightarrow>
      contents x (fst (withTracingAndDebug lib next authToken r s)) = contents x s)) \<and>
    (authToken = [] \<longrightarrow> \<not> authorized authToken r)"
proof (cases "debug_answer lib authToken r s")
  case (Some y)
  then have w: "withTracingAndDebug lib next authToken r s = y" by (rule debug.answers)
  obtain s' e where l: "tl_leveldb_NewDatastore lib s = (s', e)" by fastforce
  then have "contents x s' = contents x s" for x using assms(2) by (metis fst_conv)
  with Some l have "contents x (fst y) = contents x s" for x
    by (auto simp: debug_answer_def split: if_splits sum.splits)
  moreover have "\<not> authorized authToken r \<and> has_debug_headers r \<longrightarrow>
      (\<exists>resp. rs_Status resp = 401 \<and> y = (s, Ret resp))"
    using Some by (auto simp: debug_answer_def http_Error_def)
  ultimately show ?thesis using w by (simp add: authorized_def)
next
  case None
  let ?r = "fst (debug_rewrite lib r s)" and ?s = "snd (debug_rewrite lib r s)"
  from None have w: "withTracingAndDebug lib next authToken r s = tl_otelhttp lib next ?r ?s"
    by (rule debug.passes)
  have auth: "authorized authToken r \<or> \<not> has_debug_headers r"
    using None by (auto simp: debug_answer_def split: if_splits)
  obtain s' e where l: "tl_leveldb_NewDatastore lib s = (s', e)" by fastforce
  then have c: "contents x s' = contents x s" for x using assms(2) by (metis fst_conv)
  have fresh: "e \<noteq> Inr (baseBlockstore sb)" using l assms(2) by (metis snd_conv)
  show ?thesis
  proof (cases "Header_Get (rq_Header r) NoBlockcacheHeader = ''true''")
    case True
    then have "has_debug_headers r" by (simp add: has_debug_headers_def)
    obtain ds where ds: "e = Inr ds" "?s = s'"
      "?r = r\<lparr>rq_Context := ctx_WithValue (rq_Context r) NoBlockcache (CtxBlockstore ds)\<rparr>"
      using None True l by (auto simp: debug_answer_def debug_rewrite_def split: if_splits sum.splits)
    then have "getBlockstore sb (rq_Context ?r) = ds" by (simp add: assms(3))
    then have "contents (baseBlockstore sb) (fst (tl_otelhttp lib next ?r ?s)) =
        contents (baseBlockstore sb) s"
      using assms(1) c fresh ds by metis
    with w auth \<open>has_debug_headers r\<close> show ?thesis by (auto simp: authorized_def)
  next
    case False
    then have "?r = r" "?s = s" by (simp_all add: debug_rewrite_def)
    moreover have "getBlockstore sb (rq_Context r) = baseBlockstore sb"
      using assms(3,4) by simp
    ultimately show ?thesis
      using False w auth assms(1) by (auto simp: authorized_def)
  qed
qed

text \<open>An instance: in-memory stores, the node's store 0, new stores 1, and a gateway that writes
  one block through the switching store.\<close>

definition example_switching :: switchingBlockstore where
  "example_switching = \<lparr>baseBlockstore = 0, contextSwitchingKey = NoBlockcache\<rparr>"

definition example_tracing_lib :: "mem_state tracing_lib" where
  "example_tracing_lib = \<lparr>tl_otelhttp = (\<lambda>next. next), tl_leveldb_NewDatastore = (\<lambda>s. (s, Inr 1))\<rparr>"

definition example_gateway :: "mem_state handler" where
  "example_gateway r s =
     (fst (sw_Put mem_ops example_switching (rq_Context r) \<lparr>blk_Cid = ''c'', blk_Data = ''d''\<rparr> s),
      Ret empty_response)"

definition example_request :: request where
  "example_request = \<lparr>rq_Method = ''GET'', rq_Host = ''h'', rq_Path = ''/ipfs/c'', rq_Query = [],
     rq_Header = [(NoBlockcacheHeader, [''true'']), (''Authorization'', [''t''])], rq_Body = [],
     rq_Context = \<lparr>ctx_values = [], ctx_err = None\<rparr>\<rparr>"

theorem cache_skipping_needs_token_witness:
  "mem_contents 0 (fst (withTracingAndDebug example_tracing_lib example_gateway ''t'' example_request example_store)) =
     mem_contents 0 example_store \<and>
   (\<exists>resp. rs_Status resp = 401 \<and>
     withTracingAndDebug example_tracing_lib example_gateway ''u'' example_request example_store =
       (example_store, Ret resp))"
proof -
  have a: "\<forall>r s x. x \<noteq> getBlockstore example_switching (rq_Context r) \<longrightarrow>
      mem_contents x (fst (tl_otelhttp example_tracing_lib example_gateway r s)) = mem_contents x s"
    using sw_writes_elsewhere_unchanged(1) [OF mem.blockstore_pool_axioms]
    by (simp add: example_tracing_lib_def example_gateway_def)
  have b: "\<forall>s. (\<forall>x. mem_contents x (fst (tl_leveldb_NewDatastore example_tracing_lib s)) = mem_contents x s) \<and>
      snd (tl_leveldb_NewDatastore example_tracing_lib s) \<noteq> Inr (baseBlockstore example_switching)"
    by (simp add: example_tracing_lib_def example_switching_def)
  have c: "contextSwitchingKey example_switching = NoBlockcache"
    "ctx_Value (rq_Context example_request) NoBlockcache = None"
    by (simp_all add: example_switching_def example_request_def ctx_Value_def)
  have d: "Header_Get (rq_Header example_request) NoBlockcacheHeader = ''true''"
    "\<not> authorized ''u'' example_request"
    by (simp_all add: example_request_def Header_Get_def gomap_get_def authorized_def NoBlockcacheHeader_def)
  then have e: "has_debug_headers example_request" by (simp add: has_debug_headers_def)
  from cache_skipping_needs_token [OF a b c, of "''t''" example_store]
    cache_skipping_needs_token [OF a b c, of "''u''" example_store] d e
  show ?thesis by (simp add: example_switching_def)
qed

lemma longest_match_spec:
  "case longest_match mux p of
     Some (pat, h) \<Rightarrow> (pat, h) \<in> set mux \<and> pattern_matches pat p \<and>
       (\<forall>(pat', h') \<in> set mux. pattern_matches pat' p \<longrightarrow> length pat' \<le> length pat)
   | None \<Rightarrow> \<forall>(pat, h) \<in> set mux. \<not> pattern_matches pat p"
proof (induction mux p rule: longest_match.induct)
  case (2 pat h ms p)
  then show ?case by (force split: option.splits)
qed simp

end
