(* ===== verification/Metrics.thy ===== *)
theory Metrics
  imports Http Node_Config Go_Float64
begin

text \<open>
  The Prometheus metrics (\<open>metrics.go\<close>): the metrics of each gateway handler and the order in
  which they wrap it, the version gauge, and the collector that counts connected peers by
  transport. The registry is the list of the collectors registered in it; whether it
  accepts another one, how a metric observes a handler and the names of protocols are
  parameters.
\<close>

section \<open>Registering metrics\<close>

datatype metric_kind =
    Gauge
  | CounterVec "string list"
  | HistogramVec "f64 list" "string list"

record metric =
  mt_Kind :: metric_kind
  mt_Namespace :: string
  mt_Subsystem :: string
  mt_Name :: string
  mt_Help :: string
  mt_ConstLabels :: "(string \<times> string) list"

record metric_desc =
  md_fqName :: string
  md_Help :: string
  md_VariableLabels :: "string list"
  md_ConstLabels :: "(string \<times> string) list"

datatype collector = Metric metric | IpfsNodeCollector

datatype instrument =
    InFlight metric
  | Counter metric
  | Duration metric
  | RequestSize metric
  | ResponseSize metric

type_synonym registry = "collector list"

record 's prom_lib =
  pl_Register_error :: "registry \<Rightarrow> collector \<Rightarrow> error option"
  pl_instrument :: "instrument \<Rightarrow> 's handler \<Rightarrow> 's handler"
  pl_BuildFQName :: "string \<Rightarrow> string \<Rightarrow> string \<Rightarrow> string"
  pl_Protocol_Name :: "component \<Rightarrow> string"

text \<open>\<open>prometheus.MustRegister\<close> panics where \<open>Register\<close> fails.\<close>

definition MustRegister :: "'s prom_lib \<Rightarrow> collector \<Rightarrow> registry \<Rightarrow> registry outcome" where
  "MustRegister lib c reg =
     (case pl_Register_error lib reg c of None \<Rightarrow> Ret (reg @ [c]) | Some err \<Rightarrow> Panic)"

fun MustRegister_all :: "'s prom_lib \<Rightarrow> collector list \<Rightarrow> registry \<Rightarrow> registry outcome" where
  "MustRegister_all lib [] reg = Ret reg"
| "MustRegister_all lib (c # cs) reg =
     (case MustRegister lib c reg of Panic \<Rightarrow> Panic | Ret reg1 \<Rightarrow> MustRegister_all lib cs reg1)"

definition version_metric :: "string \<Rightarrow> metric" where
  "version_metric version =
     \<lparr>mt_Kind = Gauge, mt_Namespace = ''ipfs'', mt_Subsystem = ''rainbow'', mt_Name = ''info'',
      mt_Help = ''Information about rainbow instance.'', mt_ConstLabels = [(''version'', version)]\<rparr>"

definition registerVersionMetric :: "'s prom_lib \<Rightarrow> string \<Rightarrow> registry \<Rightarrow> registry outcome" where
  "registerVersionMetric lib version reg = MustRegister lib (Metric (version_metric version)) reg"

definition registerIpfsNodeCollector :: "'s prom_lib \<Rightarrow> registry \<Rightarrow> registry outcome" where
  "registerIpfsNodeCollector lib reg = MustRegister lib IpfsNodeCollector reg"

section \<open>The metrics of a handler\<close>

definition defaultDurationHistogramBuckets :: "f64 list" where
  "defaultDurationHistogramBuckets =
     [F64 3602879701896397 (- 56), F64 3602879701896397 (- 55), F64 1 (- 2), F64 1 (- 1), F64 1 0,
      F64 2 0, F64 5 0, F64 10 0, F64 30 0, F64 60 0, F64 120 0, F64 240 0, F64 480 0, F64 960 0,
      F64 1920 0]"

definition http_labels :: "string list" where
  "http_labels = [''method'', ''code'']"

definition http_metric :: "string \<Rightarrow> metric_kind \<Rightarrow> string \<Rightarrow> string \<Rightarrow> metric" where
  "http_metric handlerName kind name help =
     \<lparr>mt_Kind = kind, mt_Namespace = ''ipfs'', mt_Subsystem = ''http'', mt_Name = name, mt_Help = help,
      mt_ConstLabels = [(''handler'', handlerName)]\<rparr>"

definition reqWip :: "string \<Rightarrow> metric" where
  "reqWip handlerName = http_metric handlerName Gauge ''requests_inflight''
     ''Tracks the number of HTTP client requests currently in progress.''"

definition reqCnt :: "string \<Rightarrow> metric" where
  "reqCnt handlerName = http_metric handlerName (CounterVec http_labels) ''requests_total''
     ''Total number of HTTP requests made.''"

definition reqDurHist :: "string \<Rightarrow> metric" where
  "reqDurHist handlerName =
     http_metric handlerName (HistogramVec defaultDurationHistogramBuckets http_labels)
       ''request_duration_seconds'' ''The HTTP request latencies in seconds. ''"

definition reqSzHist :: "string \<Rightarrow> metric" where
  "reqSzHist handlerName =
     http_metric handlerName (HistogramVec defaultDurationHistogramBuckets http_labels)
       ''request_size_bytes'' ''The HTTP request sizes in bytes.''"

definition resSzHist :: "string \<Rightarrow> metric" where
  "resSzHist handlerName =
     http_metric handlerName (HistogramVec defaultDurationHistogramBuckets http_labels)
       ''response_size_bytes'' ''The HTTP response sizes in bytes.''"

definition http_metrics :: "string \<Rightarrow> collector list" where
  "http_metrics handlerName =
     map Metric [reqWip handlerName, reqCnt handlerName, reqDurHist handlerName,
       reqSzHist handlerName, resSzHist handlerName]"

definition instrumented :: "'s prom_lib \<Rightarrow> 's handler \<Rightarrow> string \<Rightarrow> 's handler" where
  "instrumented lib handler handlerName =
     (let handler = pl_instrument lib (InFlight (reqWip handlerName)) handler;
          handler = pl_instrument lib (Counter (reqCnt handlerName)) handler;
          handler = pl_instrument lib (Duration (reqDurHist handlerName)) handler;
          handler = pl_instrument lib (RequestSize (reqSzHist handlerName)) handler;
          handler = pl_instrument lib (ResponseSize (resSzHist handlerName)) handler
      in handler)"

definition withHTTPMetrics ::
  "'s prom_lib \<Rightarrow> 's handler \<Rightarrow> string \<Rightarrow> bool \<Rightarrow> registry \<Rightarrow> (registry \<times> 's handler) outcome" where
  "withHTTPMetrics lib handler handlerName metricsOff reg =
     (if metricsOff then Ret (reg, handler)
      else case MustRegister_all lib (http_metrics handlerName) reg of
             Panic \<Rightarrow> Panic
           | Ret reg1 \<Rightarrow> Ret (reg1, instrumented lib handler handlerName))"

section \<open>Connected peers\<close>

definition peersTotalMetric :: "'s prom_lib \<Rightarrow> metric_desc" where
  "peersTotalMetric lib =
     \<lparr>md_fqName = pl_BuildFQName lib ''ipfs'' ''p2p'' ''peers_total'',
      md_Help = ''Number of connected peers'', md_VariableLabels = [''transport''],
      md_ConstLabels = []\<rparr>"

text \<open>The network of the host: its peers and the remote addresses of the connections to each.\<close>

record net_view =
  nv_Peers :: "peer_id list"
  nv_ConnsToPeer :: "peer_id \<Rightarrow> multiaddr list"

definition transport_name :: "'s prom_lib \<Rightarrow> multiaddr \<Rightarrow> string" where
  "transport_name lib a = foldl (\<lambda>tr proto. tr @ ''/'' @ pl_Protocol_Name lib proto) [] a"

definition count_peer ::
  "'s prom_lib \<Rightarrow> net_view \<Rightarrow> peer_id \<Rightarrow> (string, f64) gomap \<Rightarrow> (string, f64) gomap" where
  "count_peer lib nv peerID vals =
     (case nv_ConnsToPeer nv peerID of
        [] \<Rightarrow> vals
      | c # conns \<Rightarrow>
          (let tr = transport_name lib c;
               old = (case gomap_get vals tr of Some v \<Rightarrow> v | None \<Rightarrow> F64 0 0)
           in gomap_set tr (old + F64 1 0) vals))"

definition PeersTotalValues :: "'s prom_lib \<Rightarrow> net_view option \<Rightarrow> (string, f64) gomap" where
  "PeersTotalValues lib p2pHost =
     (case p2pHost of
        None \<Rightarrow> gomap_empty
      | Some nv \<Rightarrow> fold (count_peer lib nv) (nv_Peers nv) gomap_empty)"

datatype const_metric = GaugeValue metric_desc f64 string

definition Describe :: "'s prom_lib \<Rightarrow> metric_desc list" where
  "Describe lib = [peersTotalMetric lib]"

definition Collect :: "'s prom_lib \<Rightarrow> net_view option \<Rightarrow> const_metric list" where
  "Collect lib p2pHost =
     map (\<lambda>(tr, val). GaugeValue (peersTotalMetric lib) val tr) (PeersTotalValues lib p2pHost)"

section \<open>Counting is exact\<close>

definition peers_on :: "'s prom_lib \<Rightarrow> net_view \<Rightarrow> string \<Rightarrow> peer_id list \<Rightarrow> nat" where
  "peers_on lib nv tr ps =
     length (filter (\<lambda>p. \<exists>c cs. nv_ConnsToPeer nv p = c # cs \<and> transport_name lib c = tr) ps)"

lemma peers_on_snoc:
  "peers_on lib nv tr (ps @ [p]) = peers_on lib nv tr ps +
     (if \<exists>c cs. nv_ConnsToPeer nv p = c # cs \<and> transport_name lib c = tr then 1 else 0)"
  by (simp add: peers_on_def)

lemma peers_on_le: "peers_on lib nv tr ps \<le> length ps"
  by (simp add: peers_on_def)

lemma count_peer_simps:
  "nv_ConnsToPeer nv p = [] \<Longrightarrow> count_peer lib nv p vals = vals"
  "nv_ConnsToPeer nv p = c # cs \<Longrightarrow> count_peer lib nv p vals =
     gomap_set (transport_name lib c)
       ((case gomap_get vals (transport_name lib c) of Some v \<Rightarrow> v | None \<Rightarrow> F64 0 0) + F64 1 0) vals"
  by (simp_all add: count_peer_def Let_def)

lemma count_peers:
  assumes "int (length ps) < 2 ^ 53"
  shows "gomap_get (fold (count_peer lib nv) ps gomap_empty) tr =
    (if peers_on lib nv tr ps = 0 then None else Some (F64 (int (peers_on lib nv tr ps)) 0))"
  using assms
proof (induction ps arbitrary: tr rule: rev_induct)
  case Nil
  then show ?case by (simp add: peers_on_def gm.lookup_mk)
next
  case (snoc p ps)
  then have IH: "gomap_get (fold (count_peer lib nv) ps gomap_empty) t =
    (if peers_on lib nv t ps = 0 then None else Some (F64 (int (peers_on lib nv t ps)) 0))" for t
    by simp
  have step: "F64 (int n) 0 + F64 1 0 = F64 (int n + 1) 0" if "n \<le> length ps" for n
    using that snoc.prems f64_count_up [of "int n"]
    by (simp add: f64_of_int_exact)
  show ?case
  proof (cases "nv_ConnsToPeer nv p")
    case Nil
    then show ?thesis by (simp add: count_peer_simps IH peers_on_snoc)
  next
    case (Cons c cs)
    show ?thesis
      using step [of 0] step [OF peers_on_le [of lib nv "transport_name lib c" ps]]
      by (auto simp: Cons count_peer_simps(2) [OF Cons] IH peers_on_snoc gm.lookup_store)
  qed
qed

text \<open>C38: The peer gauge counts peers, not connections: below \<open>2 ^ 53\<close> peers the value of a transport
  is exactly the number of peers whose first connection uses it, a transport nobody uses
  has no value, peers without a connection are not counted, and without libp2p there is
  no value at all.\<close>

theorem peers_total_counts_peers:
  assumes "int (length (nv_Peers nv)) < 2 ^ 53"
  shows "gomap_get (PeersTotalValues lib (Some nv)) tr =
      (if peers_on lib nv tr (nv_Peers nv) = 0 then None
       else Some (f64_of_int (int (peers_on lib nv tr (nv_Peers nv))))) \<and>
    PeersTotalValues lib None = gomap_empty \<and> Collect lib None = []"
proof -
  have "int (peers_on lib nv tr (nv_Peers nv)) < 2 ^ 53"
    using assms peers_on_le [of lib nv tr "nv_Peers nv"] by linarith
  then show ?thesis
    using count_peers [OF assms, of lib nv tr]
    by (simp add: PeersTotalValues_def Collect_def gomap_empty_def f64_of_int_exact)
qed

section \<open>The registry\<close>

text \<open>What Prometheus documents: a second metric with the same name and constant labels is refused;
  one that is new is accepted if the metrics of its name agree with it in help and labels.\<close>

definition metric_id :: "metric \<Rightarrow> string \<times> string \<times> string \<times> (string \<times> string) list" where
  "metric_id m = (mt_Namespace m, mt_Subsystem m, mt_Name m, mt_ConstLabels m)"

fun kind_labels :: "metric_kind \<Rightarrow> string list" where
  "kind_labels Gauge = []"
| "kind_labels (CounterVec ls) = ls"
| "kind_labels (HistogramVec bs ls) = ls"

definition metrics_agree :: "metric \<Rightarrow> metric \<Rightarrow> bool" where
  "metrics_agree m m' \<longleftrightarrow>
     (mt_Namespace m, mt_Subsystem m, mt_Name m) = (mt_Namespace m', mt_Subsystem m', mt_Name m') \<longrightarrow>
     mt_Help m = mt_Help m' \<and> kind_labels (mt_Kind m) = kind_labels (mt_Kind m') \<and>
     map fst (mt_ConstLabels m) = map fst (mt_ConstLabels m')"

definition registry_contract :: "'s prom_lib \<Rightarrow> bool" where
  "registry_contract lib \<longleftrightarrow>
     (\<forall>reg m. (\<exists>m'. Metric m' \<in> set reg \<and> metric_id m' = metric_id m) \<longrightarrow>
        pl_Register_error lib reg (Metric m) \<noteq> None) \<and>
     (\<forall>reg m. (\<forall>m'. Metric m' \<in> set reg \<longrightarrow> metric_id m' \<noteq> metric_id m \<and> metrics_agree m' m) \<longrightarrow>
        pl_Register_error lib reg (Metric m) = None)"

lemma MustRegister_new:
  assumes "registry_contract lib"
    and "\<And>m'. Metric m' \<in> set reg \<Longrightarrow> metric_id m' \<noteq> metric_id m \<and> metrics_agree m' m"
  shows "MustRegister lib (Metric m) reg = Ret (reg @ [Metric m])"
proof -
  have "pl_Register_error lib reg (Metric m) = None"
    using assms unfolding registry_contract_def by blast
  then show ?thesis by (simp add: MustRegister_def)
qed

lemma MustRegister_again:
  assumes "registry_contract lib" and "Metric m \<in> set reg"
  shows "MustRegister lib (Metric m) reg = Panic"
proof -
  have "pl_Register_error lib reg (Metric m) \<noteq> None"
    using assms unfolding registry_contract_def by blast
  then show ?thesis by (auto simp: MustRegister_def split: option.split)
qed

text \<open>A list of metrics with different identities, none of them in the registry, is accepted.\<close>

lemma MustRegister_all_new:
  assumes "registry_contract lib" and "distinct (map metric_id ms)"
    and "\<And>m m'. m \<in> set ms \<Longrightarrow> m' \<in> set ms \<Longrightarrow> metrics_agree m' m"
    and "\<And>m m'. m \<in> set ms \<Longrightarrow> Metric m' \<in> set reg \<Longrightarrow> metric_id m' \<noteq> metric_id m \<and> metrics_agree m' m"
  shows "MustRegister_all lib (map Metric ms) reg = Ret (reg @ map Metric ms)"
  using assms(2-)
proof (induction ms arbitrary: reg)
  case (Cons m ms)
  have "MustRegister lib (Metric m) reg = Ret (reg @ [Metric m])"
    by (rule MustRegister_new [OF assms(1)]) (use Cons.prems(3) in auto)
  moreover have "MustRegister_all lib (map Metric ms) (reg @ [Metric m]) =
      Ret ((reg @ [Metric m]) @ map Metric ms)"
    by (rule Cons.IH) (use Cons.prems in \<open>auto simp: image_iff dest: sym\<close>)
  ultimately show ?case by simp
qed simp

definition http_metric_list :: "string \<Rightarrow> metric list" where
  "http_metric_list n = [reqWip n, reqCnt n, reqDurHist n, reqSzHist n, resSzHist n]"

lemmas http_metric_defs =
  reqWip_def reqCnt_def reqDurHist_def reqSzHist_def resSzHist_def http_metric_def

lemma http_metric_ids: "distinct (map metric_id (http_metric_list n))"
  by (simp add: http_metric_list_def http_metric_defs metric_id_def)

lemma http_metrics_agree:
  "m \<in> set (http_metric_list n) \<Longrightarrow> m' \<in> set (http_metric_list n') \<Longrightarrow> metrics_agree m m'"
  by (auto simp: http_metric_list_def http_metric_defs metrics_agree_def)

lemma http_metric_ids_of_handler:
  "m \<in> set (http_metric_list n) \<Longrightarrow> m' \<in> set (http_metric_list n') \<Longrightarrow> n \<noteq> n' \<Longrightarrow>
   metric_id m \<noteq> metric_id m'"
  by (auto simp: http_metric_list_def http_metric_defs metric_id_def)

lemma http_metrics_list: "http_metrics n = map Metric (http_metric_list n)"
  by (simp add: http_metrics_def http_metric_list_def)

text \<open>The registry has no metric with a name of the HTTP metrics.\<close>

definition no_http_metrics :: "registry \<Rightarrow> bool" where
  "no_http_metrics reg \<longleftrightarrow>
     (\<forall>m. Metric m \<in> set reg \<longrightarrow> (mt_Namespace m, mt_Subsystem m) \<noteq> (''ipfs'', ''http''))"

lemma no_http_metrics_new:
  assumes "no_http_metrics reg" and "Metric m' \<in> set reg" and "m \<in> set (http_metric_list n)"
  shows "metric_id m' \<noteq> metric_id m \<and> metrics_agree m' m"
proof -
  have "mt_Namespace m = ''ipfs''" "mt_Subsystem m = ''http''"
    using assms(3) by (auto simp: http_metric_list_def http_metric_defs)
  moreover have "(mt_Namespace m', mt_Subsystem m') \<noteq> (''ipfs'', ''http'')"
    using assms(1,2) by (simp add: no_http_metrics_def)
  ultimately show ?thesis by (auto simp: metric_id_def metrics_agree_def)
qed

lemma withHTTPMetrics_first:
  assumes "registry_contract lib" and "no_http_metrics reg"
  shows "withHTTPMetrics lib h n False reg =
    Ret (reg @ http_metrics n, instrumented lib h n)"
  using MustRegister_all_new [OF assms(1) http_metric_ids [of n], of reg]
    http_metrics_agree [of _ n _ n] no_http_metrics_new [OF assms(2)]
  by (simp add: withHTTPMetrics_def http_metrics_list)

lemma withHTTPMetrics_second:
  assumes "registry_contract lib" and "no_http_metrics reg" and "n \<noteq> n'"
  shows "withHTTPMetrics lib h n' False (reg @ http_metrics n) =
    Ret (reg @ http_metrics n @ http_metrics n', instrumented lib h n')"
proof -
  have "metric_id m' \<noteq> metric_id m \<and> metrics_agree m' m"
    if "m \<in> set (http_metric_list n')" "Metric m' \<in> set (reg @ http_metrics n)" for m m'
    using that assms(3) http_metric_ids_of_handler [of m' n m n'] http_metrics_agree [of m' n m n']
      no_http_metrics_new [OF assms(2), of m' m n']
    by (auto simp: http_metrics_list)
  with MustRegister_all_new [OF assms(1) http_metric_ids [of n'], of "reg @ http_metrics n"]
    http_metrics_agree [of _ n' _ n']
  show ?thesis by (simp add: withHTTPMetrics_def http_metrics_list)
qed

lemma withHTTPMetrics_again:
  assumes "registry_contract lib" and "set (http_metrics n) \<subseteq> set reg"
  shows "withHTTPMetrics lib h n False reg = Panic"
  using assms(2) MustRegister_again [OF assms(1), of "reqWip n" reg]
  by (simp add: withHTTPMetrics_def http_metrics_def)

text \<open>A registry that keeps the contract.\<close>

definition example_prom_lib :: "'s prom_lib" where
  "example_prom_lib =
     \<lparr>pl_Register_error = (\<lambda>reg c. case c of
          Metric m \<Rightarrow> if \<exists>c' \<in> set reg. (case c' of
                Metric m' \<Rightarrow> metric_id m' = metric_id m \<or> \<not> metrics_agree m' m | IpfsNodeCollector \<Rightarrow> False)
              then Some (Err ''duplicate metrics collector registration attempted'') else None
        | IpfsNodeCollector \<Rightarrow> if IpfsNodeCollector \<in> set reg then Some (Err ''duplicate'') else None),
      pl_instrument = (\<lambda>i h. h), pl_BuildFQName = (\<lambda>a b c. a @ ''_'' @ b @ ''_'' @ c),
      pl_Protocol_Name = (\<lambda>c. case comp_proto c of
         P_IP4 \<Rightarrow> ''ip4'' | P_OTHER s \<Rightarrow> s | _ \<Rightarrow> ''other'')\<rparr>"

lemma example_registry_contract: "registry_contract example_prom_lib"
  unfolding registry_contract_def example_prom_lib_def
  by (auto split: collector.splits) (metis collector.exhaust)+

theorem peers_total_counts_peers_witness:
  "gomap_get (PeersTotalValues (example_prom_lib :: unit prom_lib)
     (Some \<lparr>nv_Peers = [''a'', ''b'', ''c''],
        nv_ConnsToPeer = (\<lambda>p. if p = ''c'' then [] else
          [[\<lparr>comp_proto = P_IP4, comp_value = p\<rparr>, \<lparr>comp_proto = P_OTHER ''tcp'', comp_value = []\<rparr>]])\<rparr>))
     ''/ip4/tcp'' = Some (f64_of_int 2)"
proof -
  let ?nv = "\<lparr>nv_Peers = [''a'', ''b'', ''c''], nv_ConnsToPeer = (\<lambda>p. if p = ''c'' then [] else
    [[\<lparr>comp_proto = P_IP4, comp_value = p\<rparr>, \<lparr>comp_proto = P_OTHER ''tcp'', comp_value = []\<rparr>]])\<rparr>"
  have "int (length (nv_Peers ?nv)) < 2 ^ 53" by simp
  from peers_total_counts_peers [OF this, of "example_prom_lib :: unit prom_lib" "''/ip4/tcp''"]
  show ?thesis
    by (simp add: peers_on_def transport_name_def) (simp add: example_prom_lib_def)
qed

end
