(* ===== verification/Gateway.thy ===== *)
theory Gateway
  imports Metrics Node
begin

text \<open>
  The gateway handler (\<open>setupGatewayHandler\<close> of \<open>handlers.go\<close>):
  the backend, the table of public gateways with its DNSLink policy, the
  routes, and the order of the middlewares. boxo's gateway handlers, CORS and server timing
  are parameters.
\<close>

section \<open>Public gateways\<close>

record PublicGateway =
  pg_Paths :: "string list"
  pg_NoDNSLink :: bool
  pg_InlineDNSLink :: bool
  pg_DeserializedResponses :: bool
  pg_UseSubdomains :: bool

definition isDNSLinkAllowedForDomain :: "Config \<Rightarrow> string \<Rightarrow> bool" where
  "isDNSLinkAllowedForDomain cfg domain =
     (if length (DNSLinkGatewayDomains cfg) = 0 then True
      else \<exists>allowed \<in> set (DNSLinkGatewayDomains cfg).
        domain = allowed \<or> has_suffix domain (''.'' @ allowed))"

definition gateway_paths :: "string list" where
  "gateway_paths = [''/ipfs'', ''/ipns'', ''/version'']"

definition localhost_gateway :: "Config \<Rightarrow> PublicGateway" where
  "localhost_gateway cfg =
     \<lparr>pg_Paths = gateway_paths, pg_NoDNSLink = (0 < length (DNSLinkGatewayDomains cfg)),
      pg_InlineDNSLink = False, pg_DeserializedResponses = True, pg_UseSubdomains = True\<rparr>"

definition path_gateway :: "Config \<Rightarrow> string \<Rightarrow> PublicGateway" where
  "path_gateway cfg domain =
     \<lparr>pg_Paths = gateway_paths, pg_NoDNSLink = (\<not> isDNSLinkAllowedForDomain cfg domain),
      pg_InlineDNSLink = True, pg_DeserializedResponses = True, pg_UseSubdomains = False\<rparr>"

definition subdomain_gateway :: "Config \<Rightarrow> string \<Rightarrow> PublicGateway" where
  "subdomain_gateway cfg domain =
     \<lparr>pg_Paths = gateway_paths, pg_NoDNSLink = (\<not> isDNSLinkAllowedForDomain cfg domain),
      pg_InlineDNSLink = True, pg_DeserializedResponses = True, pg_UseSubdomains = True\<rparr>"

definition trustless_gateway :: "Config \<Rightarrow> string \<Rightarrow> PublicGateway" where
  "trustless_gateway cfg domain =
     \<lparr>pg_Paths = gateway_paths, pg_NoDNSLink = True, pg_InlineDNSLink = True,
      pg_DeserializedResponses = False,
      pg_UseSubdomains = (domain \<in> set (SubdomainGatewayDomains cfg))\<rparr>"

definition dnslink_gateway :: PublicGateway where
  "dnslink_gateway =
     \<lparr>pg_Paths = gateway_paths, pg_NoDNSLink = False, pg_InlineDNSLink = True,
      pg_DeserializedResponses = True, pg_UseSubdomains = False\<rparr>"

type_synonym gateway_table = "(string, PublicGateway) gomap"

text \<open>The entries of the conformance tests; the localhost entry exists, it was made first.\<close>

definition conformance_gateways :: "Config \<Rightarrow> gateway_table \<Rightarrow> gateway_table" where
  "conformance_gateways cfg m =
     (let m1 = gomap_set ''example.com''
            \<lparr>pg_Paths = [''/ipfs'', ''/ipns''],
             pg_NoDNSLink = (\<not> isDNSLinkAllowedForDomain cfg ''example.com''),
             pg_InlineDNSLink = True, pg_DeserializedResponses = True, pg_UseSubdomains = True\<rparr> m
      in case gomap_get m1 ''localhost'' of
           Some g \<Rightarrow> gomap_set ''localhost'' (g\<lparr>pg_InlineDNSLink := True\<rparr>) m1
         | None \<Rightarrow> m1)"

text \<open>Adding a DNSLink-only domain, unless the domain is configured already.\<close>

definition add_dnslink_domain :: "string \<Rightarrow> gateway_table \<Rightarrow> gateway_table" where
  "add_dnslink_domain domain m =
     (case gomap_get m domain of None \<Rightarrow> gomap_set domain dnslink_gateway m | Some _ \<Rightarrow> m)"

definition publicGateways :: "bool \<Rightarrow> Config \<Rightarrow> gateway_table" where
  "publicGateways conformance cfg =
     (let m = gomap_set ''localhost'' (localhost_gateway cfg) gomap_empty;
          m = fold (\<lambda>domain. gomap_set domain (path_gateway cfg domain)) (GatewayDomains cfg) m;
          m = fold (\<lambda>domain. gomap_set domain (subdomain_gateway cfg domain))
                (SubdomainGatewayDomains cfg) m;
          m = fold (\<lambda>domain. gomap_set domain (trustless_gateway cfg domain))
                (TrustlessGatewayDomains cfg) m;
          m = (if conformance then conformance_gateways cfg m else m)
      in fold add_dnslink_domain (DNSLinkGatewayDomains cfg) m)"

record gateway_config =
  gc_DeserializedResponses :: bool
  gc_PublicGateways :: gateway_table
  gc_NoDNSLink :: bool
  gc_MaxConcurrentRequests :: i64
  gc_RetrievalTimeout :: i64
  gc_MaxRequestDuration :: i64
  gc_MaxRangeRequestFileSize :: i64
  gc_MaxDeserializedResponseSize :: i64
  gc_MaxUnixFSDAGResponseSize :: i64
  gc_DiagnosticServiceURL :: string

definition gwConf :: "bool \<Rightarrow> Config \<Rightarrow> gateway_config" where
  "gwConf conformance cfg =
     \<lparr>gc_DeserializedResponses = True, gc_PublicGateways = publicGateways conformance cfg,
      gc_NoDNSLink = (0 < length (DNSLinkGatewayDomains cfg)),
      gc_MaxConcurrentRequests = MaxConcurrentRequests cfg,
      gc_RetrievalTimeout = RetrievalTimeout cfg, gc_MaxRequestDuration = MaxRequestDuration cfg,
      gc_MaxRangeRequestFileSize = MaxRangeRequestFileSize cfg,
      gc_MaxDeserializedResponseSize = MaxDeserializedResponseSize cfg,
      gc_MaxUnixFSDAGResponseSize = MaxUnixFSDAGResponseSize cfg,
      gc_DiagnosticServiceURL = DiagnosticServiceURL cfg\<rparr>"

section \<open>The handler\<close>

record backend_options =
  be_ValueStore :: "router option"
  be_NameSystem :: "name_system option"
  be_Resolver :: "resolver option"

datatype backend =
    CarBackend "string list" backend_options
  | BlocksBackend "block_service option" backend_options

record 's gateway_lib =
  gl_NewRemoteCarFetcher_error :: "string list \<Rightarrow> error option"
  gl_NewBackend_error :: "backend \<Rightarrow> error option"
  gl_Getenv :: "string \<Rightarrow> string"
  gl_NewHandler :: "gateway_config \<Rightarrow> backend \<Rightarrow> 's handler"
  gl_NewHostnameHandler :: "gateway_config \<Rightarrow> backend \<Rightarrow> 's handler \<Rightarrow> 's handler"
  gl_Cors_Wrap :: "'s handler \<Rightarrow> 's handler"
  gl_servertiming :: "'s handler \<Rightarrow> 's handler"
  gl_prom :: "'s prom_lib"
  gl_log_line :: "request \<Rightarrow> response \<Rightarrow> 's \<Rightarrow> 's"
  gl_tracing :: "'s tracing_lib"
  gl_redirect_to :: "string \<Rightarrow> response"
  gl_indexHTML :: string
  gl_version :: string

definition setup_backend :: "'s gateway_lib \<Rightarrow> Config \<Rightarrow> Node \<Rightarrow> backend result" where
  "setup_backend lib cfg nd =
     (let opts = \<lparr>be_ValueStore = nd_vs nd, be_NameSystem = nd_ns nd, be_Resolver = nd_resolver nd\<rparr>
      in case (if RemoteBackends cfg \<noteq> [] \<and> RemoteBackendMode cfg = RemoteBackendCAR then
                 (case gl_NewRemoteCarFetcher_error lib (RemoteBackends cfg) of
                    Some err \<Rightarrow> Inl err
                  | None \<Rightarrow> Inr (CarBackend (RemoteBackends cfg) opts))
               else Inr (BlocksBackend (nd_bsrv nd) opts)) of
           Inl err \<Rightarrow> Inl err
         | Inr backend \<Rightarrow>
             (case gl_NewBackend_error lib backend of Some err \<Rightarrow> Inl err | None \<Rightarrow> Inr backend))"

definition versionHandler :: "'s gateway_lib \<Rightarrow> 's handler" where
  "versionHandler lib r s =
     (s, Ret (empty_response\<lparr>rs_Body :=
       [Text (''Client: rainbow'' @ [char_of (10 :: nat)]),
        Text (''Version: '' @ gl_version lib @ [char_of (10 :: nat)])]\<rparr>))"

definition apiHandler :: "'s handler" where
  "apiHandler r s =
     (s, Ret \<lparr>rs_Status = 501, rs_Header = gomap_empty, rs_Body = [Text (concat
       [''The /api/v0 Kubo RPC is not part of IPFS Gateway Specs (https://specs.ipfs.tech/http-gateways/). '',
        ''Consider refactoring your app. If you still need this Kubo endpoint, please self-host a Kubo instance '',
        ''yourself: https://docs.ipfs.tech/install/command-line/ with proper auth '',
        ''https://github.com/ipfs/kubo/blob/master/docs/config.md#apiauthorizations''])]\<rparr>)"

definition indexHandler :: "'s gateway_lib \<Rightarrow> 's handler" where
  "indexHandler lib r s = (s, Ret (empty_response\<lparr>rs_Body := [Text (gl_indexHTML lib)]\<rparr>))"

text \<open>The routes, over whatever their handlers are.\<close>

definition topMux :: "'h \<Rightarrow> 'h \<Rightarrow> 'h \<Rightarrow> 'h \<Rightarrow> 'h \<Rightarrow> (string \<times> 'h) list" where
  "topMux ipfsHandler ipnsHandler version api index =
     [(''/ipfs/'', ipfsHandler), (''/ipns/'', ipnsHandler), (''/version'', version),
      (''/api/v0/'', api), (''/'', index)]"

text \<open>Everything around the two content handlers, from the mux outwards.\<close>

definition wrapped_mux ::
  "'s gateway_lib \<Rightarrow> Config \<Rightarrow> gateway_config \<Rightarrow> backend \<Rightarrow> 's handler \<Rightarrow> 's handler \<Rightarrow> 's handler" where
  "wrapped_mux lib cfg conf backend ipfsHandler ipnsHandler =
     (let mux = topMux ipfsHandler ipnsHandler (versionHandler lib) apiHandler (indexHandler lib);
          handler = withConnect (mux_serve (gl_redirect_to lib) mux);
          handler = gl_NewHostnameHandler lib conf backend handler;
          handler = gl_Cors_Wrap lib handler;
          handler = gl_servertiming lib handler;
          handler = withRequestLogger (gl_log_line lib) handler;
          handler = withTracingAndDebug (gl_tracing lib) handler (TracingAuthToken cfg)
      in handler)"

definition setupGatewayHandler ::
  "'s gateway_lib \<Rightarrow> Config \<Rightarrow> Node \<Rightarrow> registry \<Rightarrow> (registry \<times> 's handler) result outcome" where
  "setupGatewayHandler lib cfg nd reg =
     (case setup_backend lib cfg nd of
        Inl err \<Rightarrow> Ret (Inl err)
      | Inr backend \<Rightarrow>
          (let conf = gwConf (gl_Getenv lib ''GATEWAY_CONFORMANCE_TEST'' = ''true'') cfg;
               gwHandler = gl_NewHandler lib conf backend
           in case withHTTPMetrics (gl_prom lib) gwHandler ''ipfs'' (disableMetrics cfg) reg of
                Panic \<Rightarrow> Panic
              | Ret (reg1, ipfsHandler) \<Rightarrow>
                  (case withHTTPMetrics (gl_prom lib) gwHandler ''ipns'' (disableMetrics cfg) reg1 of
                     Panic \<Rightarrow> Panic
                   | Ret (reg2, ipnsHandler) \<Rightarrow>
                       Ret (Inr (reg2, wrapped_mux lib cfg conf backend ipfsHandler ipnsHandler)))))"

section \<open>The table of public gateways\<close>

lemma fold_by_key:
  "gomap_get (fold (\<lambda>d. gomap_set d (f d)) ds m) k = (if k \<in> set ds then Some (f k) else gomap_get m k)"
proof (cases "k \<in> set ds")
  case True
  then show ?thesis using gm.lookup_fold_store_in [of k "\<lambda>d. d" ds f m] by auto
next
  case False
  then show ?thesis using gm.lookup_fold_store_notin [of k "\<lambda>d. d" ds f m] by auto
qed

lemma fold_add_dnslink:
  "gomap_get (fold add_dnslink_domain ds m) k =
     (case gomap_get m k of
        Some g \<Rightarrow> Some g
      | None \<Rightarrow> if k \<in> set ds then Some dnslink_gateway else None)"
proof (induction ds arbitrary: m)
  case (Cons d ds)
  have "gomap_get (add_dnslink_domain d m) k = (case gomap_get m k of
      Some g \<Rightarrow> Some g | None \<Rightarrow> if k = d then Some dnslink_gateway else None)"
    by (auto simp: add_dnslink_domain_def gm.lookup_store split: option.split)
  with Cons.IH show ?case by (simp split: option.split)
qed (simp split: option.split)

lemma publicGateways_get:
  "gomap_get (publicGateways False cfg) d =
     (if d \<in> set (TrustlessGatewayDomains cfg) then Some (trustless_gateway cfg d)
      else if d \<in> set (SubdomainGatewayDomains cfg) then Some (subdomain_gateway cfg d)
      else if d \<in> set (GatewayDomains cfg) then Some (path_gateway cfg d)
      else if d = ''localhost'' then Some (localhost_gateway cfg)
      else if d \<in> set (DNSLinkGatewayDomains cfg) then Some dnslink_gateway
      else None)"
  by (simp add: publicGateways_def Let_def fold_add_dnslink fold_by_key gm.lookup_store gm.lookup_mk)

text \<open>C6: The table of public gateways: a domain in several lists is what its strictest list says,
  trustless before subdomain before path gateway; localhost is a subdomain gateway unless
  it is configured, a domain that is only a DNSLink domain becomes a path gateway, and no
  other host has an entry. A conformance build puts its own subdomain gateway at
  example.com, in place of the configured one, inlines DNSLink at localhost and leaves
  every other entry as it is.\<close>

theorem public_gateway_table:
  "gomap_get (publicGateways False cfg) d =
     (if d \<in> set (TrustlessGatewayDomains cfg) then Some (trustless_gateway cfg d)
      else if d \<in> set (SubdomainGatewayDomains cfg) then Some (subdomain_gateway cfg d)
      else if d \<in> set (GatewayDomains cfg) then Some (path_gateway cfg d)
      else if d = ''localhost'' then Some (localhost_gateway cfg)
      else if d \<in> set (DNSLinkGatewayDomains cfg) then Some dnslink_gateway
      else None) \<and>
   gomap_get (publicGateways True cfg) d =
     (if d = ''localhost'' then
        map_option (\<lambda>g. g\<lparr>pg_InlineDNSLink := True\<rparr>) (gomap_get (publicGateways False cfg) d)
      else if d = ''example.com'' then
        Some \<lparr>pg_Paths = [''/ipfs'', ''/ipns''],
          pg_NoDNSLink = (\<not> isDNSLinkAllowedForDomain cfg d),
          pg_InlineDNSLink = True, pg_DeserializedResponses = True, pg_UseSubdomains = True\<rparr>
      else gomap_get (publicGateways False cfg) d)"
  by (simp add: publicGateways_get)
     (auto simp: publicGateways_def conformance_gateways_def Let_def fold_add_dnslink fold_by_key
        gm.lookup_store gm.lookup_mk)


text \<open>C34: The DNSLink list does not reach unconfigured subdomains: when it is not empty, DNSLink is
  switched off for every host without an entry, and a subdomain of a listed domain that is
  in no list itself has no entry, although the check of the code would allow it.\<close>

theorem dnslink_list_omits_unlisted_subdomains:
  assumes "a \<in> set (DNSLinkGatewayDomains cfg)" and "d = sub @ ''.'' @ a" and "d \<noteq> ''localhost''"
    and "d \<notin> set (GatewayDomains cfg @ SubdomainGatewayDomains cfg @ TrustlessGatewayDomains cfg @
        DNSLinkGatewayDomains cfg)"
  shows "gomap_get (gc_PublicGateways (gwConf False cfg)) d = None \<and> gc_NoDNSLink (gwConf False cfg) \<and>
    isDNSLinkAllowedForDomain cfg d"
proof -
  have "isDNSLinkAllowedForDomain cfg d"
    using assms(1,2) by (auto simp: isDNSLinkAllowedForDomain_def has_suffix_iff)
  with assms show ?thesis by (auto simp: gwConf_def publicGateways_get)
qed

theorem dnslink_list_omits_unlisted_subdomains_witness:
  "gomap_get (gc_PublicGateways (gwConf False
      (zero_Config\<lparr>DNSLinkGatewayDomains := [''example.com'']\<rparr>))) ''sub.example.com'' = None"
  using dnslink_list_omits_unlisted_subdomains [of "''example.com''"
      "zero_Config\<lparr>DNSLinkGatewayDomains := [''example.com'']\<rparr>" "''sub.example.com''" "''sub''"]
  by (simp add: zero_Config_def)

section \<open>The routes\<close>

lemma clean_rooted: "take 1 p = ''/'' \<Longrightarrow> \<exists>t. filepath_Clean p = ''/'' @ t"
  by (simp add: filepath_Clean_def Let_def)

lemma clean_starts_with_slash:
  assumes "cleanPath p = p"
  shows "\<exists>t. p = ''/'' @ t"
proof (cases "p = []")
  case True
  then show ?thesis using assms by (simp add: cleanPath_def)
next
  case False
  let ?p1 = "if take 1 p = ''/'' then p else ''/'' @ p"
  have "take 1 ?p1 = ''/''" by simp
  then obtain t where "filepath_Clean ?p1 = ''/'' @ t" using clean_rooted by blast
  then show ?thesis using assms False by (auto simp: cleanPath_def Let_def split: if_splits)
qed

lemma slash_added:
  "p @ ''/'' = ''/ipfs/'' \<longleftrightarrow> p = ''/ipfs''" "p @ ''/'' = ''/ipns/'' \<longleftrightarrow> p = ''/ipns''"
  "p @ ''/'' = ''/api/v0/'' \<longleftrightarrow> p = ''/api/v0''" "p @ ''/'' = ''/'' \<longleftrightarrow> p = []"
  "p @ ''/'' \<noteq> ''/version''"
  using append_same_eq [of p "''/''" "''/ipfs''"] append_same_eq [of p "''/''" "''/ipns''"]
    append_same_eq [of p "''/''" "''/api/v0''"]
  by (auto simp: append_eq_Cons_conv)

lemma top_matches:
  "longest_match (topMux a b c d e) p =
    (if has_prefix p ''/ipfs/'' then Some (''/ipfs/'', a)
     else if has_prefix p ''/ipns/'' then Some (''/ipns/'', b)
     else if p = ''/version'' then Some (''/version'', c)
     else if has_prefix p ''/api/v0/'' then Some (''/api/v0/'', d)
     else if has_prefix p ''/'' then Some (''/'', e) else None)"
proof -
  have suf: "has_suffix ''/ipfs/'' ''/''" "has_suffix ''/ipns/'' ''/''" "\<not> has_suffix ''/version'' ''/''"
    "has_suffix ''/api/v0/'' ''/''" "has_suffix ''/'' ''/''"
    by (simp_all add: has_suffix_def)
  have v: "has_prefix ''/version'' ''/ipfs/'' = False" "has_prefix ''/version'' ''/ipns/'' = False"
    "has_prefix ''/version'' ''/api/v0/'' = False" by code_simp+
  have ex: "has_prefix p ''/ipfs/'' \<Longrightarrow> \<not> has_prefix p ''/ipns/'' \<and> \<not> has_prefix p ''/api/v0/'' \<and> p \<noteq> ''/version''"
    "has_prefix p ''/ipns/'' \<Longrightarrow> \<not> has_prefix p ''/api/v0/'' \<and> p \<noteq> ''/version''"
    "has_prefix p ''/api/v0/'' \<Longrightarrow> p \<noteq> ''/version''"
    by (auto simp: has_prefix_iff)
  show ?thesis
    by (cases "has_prefix p ''/ipfs/''"; cases "has_prefix p ''/ipns/''";
        cases "has_prefix p ''/api/v0/''"; cases "p = ''/version''"; cases "has_prefix p ''/''")
       (simp_all add: topMux_def pattern_matches_def suf ex v)
qed

text \<open>C27: Every clean path has one handler: content paths go to their gateway handler, the version and
  the API have theirs, the three subtrees are reached from their names without a slash by
  a redirect, and everything else, also below the version, is the index page.\<close>

theorem gateway_routes:
  assumes "cleanPath p = p"
  shows "mux_route (topMux ipfsH ipnsH versionH apiH indexH) p =
    (if has_prefix p ''/ipfs/'' then ToHandler ipfsH
     else if has_prefix p ''/ipns/'' then ToHandler ipnsH
     else if p = ''/version'' then ToHandler versionH
     else if has_prefix p ''/api/v0/'' then ToHandler apiH
     else if p \<in> {''/ipfs'', ''/ipns'', ''/api/v0''} then Redirect (p @ ''/'')
     else ToHandler indexH)"
proof -
  obtain t where t: "p = ''/'' @ t" using clean_starts_with_slash [OF assms] by blast
  then have slash: "has_prefix p ''/''" by (simp add: has_prefix_def)
  have keys: "set (map fst (topMux ipfsH ipnsH versionH apiH indexH)) =
      {''/ipfs/'', ''/ipns/'', ''/version'', ''/api/v0/'', ''/''}" by (simp add: topMux_def)
  have redirect: "p @ ''/'' \<in> {''/ipfs/'', ''/ipns/'', ''/version'', ''/api/v0/'', ''/''} \<longleftrightarrow>
      p \<in> {''/ipfs'', ''/ipns'', ''/api/v0''}"
    using t by (auto simp: slash_added)
  show ?thesis
  proof (cases "p \<in> {''/ipfs'', ''/ipns'', ''/api/v0''}")
    case True
    then consider "p = ''/ipfs''" | "p = ''/ipns''" | "p = ''/api/v0''" by blast
    moreover have "has_prefix c pat = False"
      if "c \<in> {''/ipfs'', ''/ipns'', ''/api/v0''}" "pat \<in> {''/ipfs/'', ''/ipns/'', ''/api/v0/''}" for c pat
    proof -
      have "\<forall>c \<in> {''/ipfs'', ''/ipns'', ''/api/v0''}. \<forall>pat \<in> {''/ipfs/'', ''/ipns/'', ''/api/v0/''}.
          has_prefix c pat = False" by code_simp
      with that show ?thesis by blast
    qed
    moreover have "has_suffix ''/ipfs'' ''/'' = False" "has_suffix ''/ipns'' ''/'' = False"
      "has_suffix ''/api/v0'' ''/'' = False" by code_simp+
    ultimately show ?thesis
      unfolding mux_route_def Let_def assms keys redirect top_matches using slash
      by cases simp_all
  next
    case False
    then show ?thesis
      unfolding mux_route_def Let_def assms keys redirect top_matches by (simp add: slash)
  qed
qed

theorem gateway_routes_witness:
  "mux_route (topMux (1 :: nat) 2 3 4 5) ''/ipfs/Qm'' = ToHandler 1 \<and>
   mux_route (topMux (1 :: nat) 2 3 4 5) ''/ipns'' = Redirect ''/ipns/'' \<and>
   mux_route (topMux (1 :: nat) 2 3 4 5) ''/version/x'' = ToHandler 5"
proof -
  have "cleanPath ''/ipfs/Qm'' = ''/ipfs/Qm''" "cleanPath ''/ipns'' = ''/ipns''"
    "cleanPath ''/version/x'' = ''/version/x''"
    by code_simp+
  from this [THEN gateway_routes, of "1 :: nat" 2 3 4 5] show ?thesis by (simp add: has_prefix_def)
qed

section \<open>Metrics of the gateway\<close>

text \<open>A process can set up one gateway with metrics: the first set-up registers the ten metrics of the
  two content handlers, every later one with metrics panics on the first of them, whatever
  its configuration, and one with metrics disabled succeeds and registers nothing.\<close>

lemma one_metered_gateway_per_process:
  assumes "registry_contract (gl_prom lib)" and "no_http_metrics reg"
    and "setup_backend lib cfg nd = Inr backend" and "\<not> disableMetrics cfg"
    and "setup_backend lib cfg' nd' = Inr backend'"
  shows "\<exists>h. setupGatewayHandler lib cfg nd reg =
      Ret (Inr (reg @ http_metrics ''ipfs'' @ http_metrics ''ipns'', h)) \<and>
    (if disableMetrics cfg'
     then \<exists>h'. setupGatewayHandler lib cfg' nd' (reg @ http_metrics ''ipfs'' @ http_metrics ''ipns'') =
       Ret (Inr (reg @ http_metrics ''ipfs'' @ http_metrics ''ipns'', h'))
     else setupGatewayHandler lib cfg' nd' (reg @ http_metrics ''ipfs'' @ http_metrics ''ipns'') = Panic)"
proof -
  have ne: "''ipfs'' \<noteq> ''ipns''" by simp
  note first = withHTTPMetrics_first [OF assms(1,2), of _ "''ipfs''"]
    and second = withHTTPMetrics_second [OF assms(1,2) ne]
  have again: "withHTTPMetrics (gl_prom lib) h ''ipfs'' False
      (reg @ http_metrics ''ipfs'' @ http_metrics ''ipns'') = Panic" for h
    by (rule withHTTPMetrics_again [OF assms(1)]) auto
  have off: "withHTTPMetrics (gl_prom lib) h n True r = Ret (r, h)" for h n r
    by (simp add: withHTTPMetrics_def)
  show ?thesis
    using assms(3-5)
    by (cases "disableMetrics cfg'") (simp_all add: setupGatewayHandler_def Let_def first second again off)
qed

definition example_gateway_lib :: "mem_state gateway_lib" where
  "example_gateway_lib =
     \<lparr>gl_NewRemoteCarFetcher_error = (\<lambda>_. None), gl_NewBackend_error = (\<lambda>_. None),
      gl_Getenv = (\<lambda>_. []), gl_NewHandler = (\<lambda>conf b r s. (s, Ret empty_response)),
      gl_NewHostnameHandler = (\<lambda>conf b h. h), gl_Cors_Wrap = (\<lambda>h. h), gl_servertiming = (\<lambda>h. h),
      gl_prom = example_prom_lib, gl_log_line = (\<lambda>r resp s. s), gl_tracing = example_tracing_lib,
      gl_redirect_to = (\<lambda>p. empty_response), gl_indexHTML = ''<html>'', gl_version = ''v1''\<rparr>"

lemma example_backend: "\<exists>b. setup_backend example_gateway_lib cfg nd = Inr b"
  by (simp add: setup_backend_def example_gateway_lib_def Let_def)

lemma one_metered_gateway_per_process_witness:
  "\<exists>h. setupGatewayHandler example_gateway_lib zero_Config zero_Node [IpfsNodeCollector] =
      Ret (Inr ([IpfsNodeCollector] @ http_metrics ''ipfs'' @ http_metrics ''ipns'', h)) \<and>
   setupGatewayHandler example_gateway_lib zero_Config zero_Node
      ([IpfsNodeCollector] @ http_metrics ''ipfs'' @ http_metrics ''ipns'') = Panic"
proof -
  have c: "registry_contract (gl_prom example_gateway_lib)"
    by (simp add: example_gateway_lib_def example_registry_contract)
  have n: "no_http_metrics [IpfsNodeCollector]" by (simp add: no_http_metrics_def)
  have off: "\<not> disableMetrics zero_Config" by (simp add: zero_Config_def)
  obtain b where b: "setup_backend example_gateway_lib zero_Config zero_Node = Inr b"
    using example_backend by blast
  from one_metered_gateway_per_process [OF c n b off b] off show ?thesis by (simp only: if_False)
qed

end
