(* ===== verification/Ctl_Handlers.thy ===== *)
theory Ctl_Handlers
  imports Http Gc
begin

text \<open>
  The handlers of the control endpoint (\<open>handlers.go\<close> lines 33-206 and 447-496, and
  \<open>writeAllGoroutineStacks\<close> of \<open>main.go\<close>): log levels, garbage collection, purging and listing
  peers, the profiling options, and the goroutine dump. The libp2p host, the log package,
  the runtime and JSON are parameters; a nil host is \<open>None\<close>, and calling it panics.
\<close>

section \<open>Purging connections\<close>

record 's host_ops =
  hp_Peers :: "'s \<Rightarrow> peer_id list"
  hp_HasPeerstore :: bool
  hp_RemovePeer :: "peer_id \<Rightarrow> 's \<Rightarrow> 's"
  hp_ClearAddrs :: "peer_id \<Rightarrow> 's \<Rightarrow> 's"
  hp_ClosePeer :: "peer_id \<Rightarrow> 's \<Rightarrow> 's \<times> error option"

definition forget_peer :: "'s host_ops \<Rightarrow> peer_id \<Rightarrow> 's \<Rightarrow> 's" where
  "forget_peer ops peerID s = hp_ClearAddrs ops peerID (hp_RemovePeer ops peerID s)"

definition purgeConnection ::
  "'s host_ops option \<Rightarrow> peer_id \<Rightarrow> 's \<Rightarrow> 's \<times> error option outcome" where
  "purgeConnection p2pHost peerID s =
     (case p2pHost of
        None \<Rightarrow> (s, Panic)
      | Some ops \<Rightarrow>
          (let s1 = (if hp_HasPeerstore ops then forget_peer ops peerID s else s)
           in case hp_ClosePeer ops peerID s1 of (s2, e) \<Rightarrow> (s2, Ret e)))"

fun close_loop ::
  "'s host_ops \<Rightarrow> peer_id list \<Rightarrow> nat \<Rightarrow> nat \<Rightarrow> 's \<Rightarrow> 's \<times> nat \<times> nat" where
  "close_loop ops [] errCount purgeCount s = (s, errCount, purgeCount)"
| "close_loop ops (peerID # ps) errCount purgeCount s =
     (case hp_ClosePeer ops peerID s of
        (s1, Some err) \<Rightarrow> close_loop ops ps (errCount + 1) purgeCount s1
      | (s1, None) \<Rightarrow> close_loop ops ps errCount (purgeCount + 1) s1)"

definition purgeAllConnections :: "'s host_ops option \<Rightarrow> 's \<Rightarrow> 's \<times> nat result outcome" where
  "purgeAllConnections p2pHost s =
     (case p2pHost of
        None \<Rightarrow> (s, Panic)
      | Some ops \<Rightarrow>
          (let peers = hp_Peers ops s;
               s1 = (if hp_HasPeerstore ops then fold (forget_peer ops) peers s else s)
           in case close_loop ops peers 0 0 s1 of
                (s2, errCount, purgeCount) \<Rightarrow>
                  if errCount \<noteq> 0 then
                    (s2, Ret (Inl (Err (''error closing connections to '' @ dec_nat errCount @ '' peers''))))
                  else (s2, Ret (Inr purgeCount))))"

record 's ctl_lib =
  ct_Decode :: "string \<Rightarrow> peer_id result"
  ct_ID_String :: "peer_id \<Rightarrow> string"
  ct_SetLogLevel :: "string \<Rightarrow> string \<Rightarrow> 's \<Rightarrow> 's \<times> error option"
  ct_GetSubsystems :: "'s \<Rightarrow> string list"
  ct_json_BytesToFree :: "string \<Rightarrow> i64 result"
  ct_json_Encode_error :: "error option"
  ct_ParseForm :: "request \<Rightarrow> (string \<times> string) list result"
  ct_SetMutexProfileFraction :: "i64 \<Rightarrow> 's \<Rightarrow> 's"
  ct_SetBlockProfileRate :: "i64 \<Rightarrow> 's \<Rightarrow> 's"

definition newline :: string where
  "newline = [char_of (10 :: nat)]"

definition plain_ok :: "body_part list \<Rightarrow> response" where
  "plain_ok body = \<lparr>rs_Status = 200,
     rs_Header = Header_Set gomap_empty ''Content-Type'' ''text/plain; charset=utf-8'', rs_Body = body\<rparr>"

definition purgePeerHandler :: "'s ctl_lib \<Rightarrow> 's host_ops option \<Rightarrow> 's handler" where
  "purgePeerHandler lib p2pHost r s =
     (let peerIDStr = Values_Get (rq_Query r) ''peer'' in
      if peerIDStr = [] then (s, Ret (http_Error (Text ''missing peer id'') 400))
      else if peerIDStr = ''all'' then
        (case purgeAllConnections p2pHost s of
           (s1, Panic) \<Rightarrow> (s1, Panic)
         | (s1, Ret (Inl err)) \<Rightarrow> (s1, Ret (http_Error (Text ''error closing connections'') 500))
         | (s1, Ret (Inr purgeCount)) \<Rightarrow>
             (s1, Ret (plain_ok [Text (''Peer connections purged: '' @ dec_nat purgeCount @ newline)])))
      else
        (case ct_Decode lib peerIDStr of
           Inl err \<Rightarrow> (s, Ret (http_Error (ErrText err) 400))
         | Inr peerID \<Rightarrow>
             (case purgeConnection p2pHost peerID s of
                (s1, Panic) \<Rightarrow> (s1, Panic)
              | (s1, Ret (Some err)) \<Rightarrow> (s1, Ret (http_Error (Text ''error closing connection'') 500))
              | (s1, Ret None) \<Rightarrow>
                  (s1, Ret (plain_ok
                    [Text (''Purged connection to peer '' @ ct_ID_String lib peerID @ newline)])))))"

definition showPeersHandler :: "'s ctl_lib \<Rightarrow> 's host_ops option \<Rightarrow> 's handler" where
  "showPeersHandler lib p2pHost r s =
     (case p2pHost of
        None \<Rightarrow> (s, Panic)
      | Some ops \<Rightarrow>
          (let peers = hp_Peers ops s;
               body = PeersJSON (int (length peers))
                 (if length peers \<noteq> 0 then Some (map (ct_ID_String lib) peers) else None)
           in case ct_json_Encode_error lib of
                Some err \<Rightarrow> (s, Ret (http_Error (Text []) 500))
              | None \<Rightarrow> (s, Ret \<lparr>rs_Status = 200,
                  rs_Header = Header_Set gomap_empty ''Content-Type'' ''application/json; charset=utf-8'',
                  rs_Body = [body]\<rparr>)))"

section \<open>Log levels and garbage collection\<close>

definition logLevelHandler :: "'s ctl_lib \<Rightarrow> 's handler" where
  "logLevelHandler lib r s =
     (let subsystem = Values_Get (rq_Query r) ''subsystem'';
          level = Values_Get (rq_Query r) ''level''
      in if subsystem = [] \<or> level = [] then
           (s, Ret (http_Error (Text ''both subsystem and level must be passed'') 400))
         else (case ct_SetLogLevel lib subsystem level s of
                 (s1, Some err) \<Rightarrow> (s1, Ret (http_Error (ErrText err) 500))
               | (s1, None) \<Rightarrow> (s1, Ret empty_response)))"

definition logLsHandler :: "'s ctl_lib \<Rightarrow> 's handler" where
  "logLsHandler lib r s =
     (s, Ret (empty_response\<lparr>rs_Body := [Text (join_with '','' (ct_GetSubsystems lib s))]\<rparr>))"

definition addLogHandlers :: "'s ctl_lib \<Rightarrow> (string \<times> 's handler) list \<Rightarrow> (string \<times> 's handler) list" where
  "addLogHandlers lib mux =
     mux @ [(''/mgr/log/level'', logLevelHandler lib), (''/mgr/log/ls'', logLsHandler lib)]"

definition gcHandler ::
  "'s ctl_lib \<Rightarrow> 's gc_lib \<Rightarrow> Node \<Rightarrow> (nat \<Rightarrow> error option) \<Rightarrow> 's handler" where
  "gcHandler lib gc gnd ctx_done r s =
     (case ct_json_BytesToFree lib (rq_Body r) of
        Inl err \<Rightarrow> (s, Ret (http_Error (ErrText err) 500))
      | Inr bytesToFree \<Rightarrow>
          (case GC gc gnd (rq_Context r) ctx_done bytesToFree s of
             (s1, Some err) \<Rightarrow> (s1, Ret (http_Error (ErrText err) 500))
           | (s1, None) \<Rightarrow> (s1, Ret empty_response)))"

section \<open>Profiling options\<close>

definition MutexFractionOption :: "'s ctl_lib \<Rightarrow> 's handler" where
  "MutexFractionOption lib r s =
     (if rq_Method r \<noteq> ''POST'' then (s, Ret (http_Error (Text ''only POST allowed'') 405))
      else case ct_ParseForm lib r of
        Inl err \<Rightarrow> (s, Ret (http_Error (ErrText err) 400))
      | Inr form \<Rightarrow>
          (let asfr = Values_Get form ''fraction'' in
           if length asfr = 0 then
             (s, Ret (http_Error (Text (concat [''parameter '', [CHR 0x27], ''fraction'', [CHR 0x27],
               '' must be set''])) 400))
           else case strconv_Atoi asfr of
             Inl err \<Rightarrow> (s, Ret (http_Error (ErrText err) 400))
           | Inr fr \<Rightarrow> (ct_SetMutexProfileFraction lib fr s, Ret empty_response)))"

definition BlockProfileRateOption :: "'s ctl_lib \<Rightarrow> 's handler" where
  "BlockProfileRateOption lib r s =
     (if rq_Method r \<noteq> ''POST'' then (s, Ret (http_Error (Text ''only POST allowed'') 405))
      else case ct_ParseForm lib r of
        Inl err \<Rightarrow> (s, Ret (http_Error (ErrText err) 400))
      | Inr form \<Rightarrow>
          (let rateStr = Values_Get form ''rate'' in
           if length rateStr = 0 then
             (s, Ret (http_Error (Text (concat [''parameter '', [CHR 0x27], ''rate'', [CHR 0x27],
               '' must be set''])) 400))
           else case strconv_Atoi rateStr of
             Inl err \<Rightarrow> (s, Ret (http_Error (ErrText err) 400))
           | Inr rate \<Rightarrow> (ct_SetBlockProfileRate lib rate s, Ret empty_response)))"

text \<open>What both promise: one parameter, read from a POST form as a decimal \<open>int\<close>, is set.\<close>

locale int_option =
  fixes handle :: "'s handler"
    and form_of :: "request \<Rightarrow> (string \<times> string) list result"
    and param :: string
    and set_value :: "i64 \<Rightarrow> 's \<Rightarrow> 's"
  assumes sets: "rq_Method r = ''POST'' \<Longrightarrow> form_of r = Inr form \<Longrightarrow>
      Values_Get form param \<noteq> [] \<Longrightarrow> strconv_Atoi (Values_Get form param) = Inr n \<Longrightarrow>
      handle r s = (set_value n s, Ret empty_response)"
    and refuses: "\<nexists>form n. rq_Method r = ''POST'' \<and> form_of r = Inr form \<and>
        Values_Get form param \<noteq> [] \<and> strconv_Atoi (Values_Get form param) = Inr n \<Longrightarrow>
      \<exists>resp. handle r s = (s, Ret resp) \<and> rs_Status resp = (if rq_Method r \<noteq> ''POST'' then 405 else 400)"
begin

lemma decimal_is_set:
  assumes "rq_Method r = ''POST''" and "form_of r = Inr form"
    and "Values_Get form param = dec_int n" and "- (2 ^ 63) \<le> n" and "n < 2 ^ 63"
  shows "handle r s = (set_value (word_of_int n) s, Ret empty_response)"
proof (rule sets [OF assms(1,2)])
  show "strconv_Atoi (Values_Get form param) = Inr (word_of_int n)"
    using assms(3-5) by (simp add: Atoi_dec_int)
  then show "Values_Get form param \<noteq> []" by (auto simp: strconv_Atoi_def)
qed

lemma changed_only_by_post:
  assumes "handle r s = (s', out)" and "s' \<noteq> s"
  shows "rq_Method r = ''POST'' \<and> out = Ret empty_response \<and> (\<exists>n. s' = set_value n s)"
proof -
  obtain form n where "rq_Method r = ''POST''" "form_of r = Inr form"
    "Values_Get form param \<noteq> []" "strconv_Atoi (Values_Get form param) = Inr n"
    using refuses [of r s] assms by (metis prod.inject)
  with sets assms(1) show ?thesis by (metis prod.inject)
qed

end

interpretation mutex_opt: int_option
  "MutexFractionOption lib" "ct_ParseForm lib" "''fraction''" "ct_SetMutexProfileFraction lib"
  for lib :: "'s ctl_lib"
  by unfold_locales (auto simp: MutexFractionOption_def http_Error_def Let_def split: sum.split)

interpretation block_opt: int_option
  "BlockProfileRateOption lib" "ct_ParseForm lib" "''rate''" "ct_SetBlockProfileRate lib"
  for lib :: "'s ctl_lib"
  by unfold_locales (auto simp: BlockProfileRateOption_def http_Error_def Let_def split: sum.split)

section \<open>The goroutine dump\<close>

text \<open>
  \<open>stack i\<close> is the whole dump at the \<open>i\<close>-th attempt; \<open>runtime.Stack\<close> writes as much of it as fits
  into the buffer of \<open>bufLen\<close> bytes. The loop has no bound in the source: \<open>None\<close> is a loop that
  does not end.
\<close>

partial_function (option) stack_loop :: "(nat \<Rightarrow> string) \<Rightarrow> nat \<Rightarrow> nat \<Rightarrow> string option" where
  "stack_loop stack i bufLen =
     (let n = min (length (stack i)) bufLen in
      if n < bufLen then Some (take n (stack i))
      else if 2 ^ 30 \<le> bufLen then Some (take bufLen (stack i))
      else stack_loop stack (i + 1) (2 * bufLen))"

definition writeAllGoroutineStacks ::
  "(nat \<Rightarrow> string) \<Rightarrow> (string \<Rightarrow> 's \<Rightarrow> 's \<times> error option) \<Rightarrow> 's \<Rightarrow> ('s \<times> error option) option" where
  "writeAllGoroutineStacks stack wr s =
     (case stack_loop stack 0 (push_bit 20 64) of
        Some buf \<Rightarrow> Some (wr buf s)
      | None \<Rightarrow> None)"

section \<open>Properties\<close>

lemma stack_loop_bounded:
  assumes "i \<le> 4"
  shows "\<exists>buf j. stack_loop stack i (2 ^ (26 + i)) = Some buf \<and> i \<le> j \<and> j \<le> 4 \<and>
    (buf = stack j \<and> length buf < 2 ^ (26 + j) \<or>
     j = 4 \<and> buf = take (2 ^ 30) (stack j) \<and> 2 ^ 30 \<le> length (stack j))"
  using assms
proof (induction "4 - i" arbitrary: i)
  case 0
  then have "i = 4" by simp
  moreover have "stack_loop stack 4 (2 ^ 30) = Some (if length (stack 4) < 2 ^ 30 then stack 4
      else take (2 ^ 30) (stack 4))"
    by (subst stack_loop.simps) (simp add: Let_def min_def)
  ultimately show ?case by (intro exI [of _ 4] exI conjI) (auto split: if_splits)
next
  case (Suc n)
  show ?case
  proof (cases "length (stack i) < 2 ^ (26 + i)")
    case True
    then show ?thesis using Suc.prems
      by (subst stack_loop.simps) (auto simp: Let_def min_def intro!: exI [of _ i])
  next
    case False
    have "26 + i < 30" using Suc.hyps(2) by simp
    then have "(2 :: nat) ^ (26 + i) < 2 ^ 30" by (rule power_strict_increasing) simp
    then have e: "stack_loop stack i (2 ^ (26 + i)) = stack_loop stack (Suc i) (2 ^ (26 + Suc i))"
      using False by (subst stack_loop.simps) (simp add: Let_def min_def power_add)
    have "n = 4 - Suc i" "Suc i \<le> 4" using Suc.hyps(2) by simp_all
    from Suc.hyps(1) [OF this] obtain buf j where
      "stack_loop stack (Suc i) (2 ^ (26 + Suc i)) = Some buf" "Suc i \<le> j" "j \<le> 4"
      "buf = stack j \<and> length buf < 2 ^ (26 + j) \<or>
       j = 4 \<and> buf = take (2 ^ 30) (stack j) \<and> 2 ^ 30 \<le> length (stack j)" by blast
    then show ?thesis unfolding e by (intro exI [of _ buf] exI [of _ j]) simp
  qed
qed

text \<open>C24: The goroutine dump always ends, after five attempts at most, whatever the goroutines do
  meanwhile: what is written is the complete dump of one attempt, or, when even the last
  one does not fit, the first GiB of it; it never exceeds one GiB.\<close>

theorem goroutine_dump_terminates:
  "\<exists>buf j. writeAllGoroutineStacks stack wr s = Some (wr buf s) \<and> j \<le> 4 \<and> length buf \<le> 2 ^ 30 \<and>
     (buf = stack j \<or> j = 4 \<and> buf = take (2 ^ 30) (stack 4))"
proof -
  obtain buf j where b: "stack_loop stack 0 (2 ^ 26) = Some buf" "j \<le> 4"
    "buf = stack j \<and> length buf < 2 ^ (26 + j) \<or>
     j = 4 \<and> buf = take (2 ^ 30) (stack j) \<and> 2 ^ 30 \<le> length (stack j)"
    using stack_loop_bounded [of 0 stack] by auto
  have "(2 :: nat) ^ (26 + j) \<le> 2 ^ 30" using b(2) by (intro power_increasing) simp_all
  with b(3) have "length buf \<le> 2 ^ 30" by auto
  moreover have "push_bit 20 64 = (2 :: nat) ^ 26" by (simp add: push_bit_eq_mult)
  ultimately show ?thesis using b by (auto simp: writeAllGoroutineStacks_def)
qed

text \<open>What a purge relies on: closing a peer that succeeds disconnects it, forgetting it removes it
  from the peerstore, and neither touches other peers.\<close>

locale peer_network =
  fixes ops :: "'s host_ops"
    and conns :: "'s \<Rightarrow> peer_id set"
    and known :: "'s \<Rightarrow> peer_id set"
  assumes peers_law: "set (hp_Peers ops s) = conns s"
    and close_law: "\<And>s' e. hp_ClosePeer ops p s = (s', e) \<Longrightarrow> known s' = known s \<and>
      conns s' \<subseteq> conns s \<and> (e = None \<longrightarrow> conns s' = conns s - {p})"
    and remove_law: "known (hp_RemovePeer ops p s) = known s - {p}"
      "conns (hp_RemovePeer ops p s) = conns s"
    and clear_law: "known (hp_ClearAddrs ops p s) \<subseteq> known s"
      "conns (hp_ClearAddrs ops p s) = conns s"
begin

lemma forget_all:
  "conns (fold (forget_peer ops) ps s) = conns s \<and>
   known (fold (forget_peer ops) ps s) \<subseteq> known s - set ps"
proof (induction ps arbitrary: s)
  case (Cons p ps)
  have "conns (forget_peer ops p s) = conns s" "known (forget_peer ops p s) \<subseteq> known s - {p}"
    using clear_law [of p "hp_RemovePeer ops p s"] remove_law [of p s]
    by (simp_all add: forget_peer_def)
  with Cons.IH [of "forget_peer ops p s"] show ?case by auto
qed simp

lemma close_all:
  assumes "close_loop ops ps ec pc s = (s', ec', pc')"
  shows "known s' = known s \<and> conns s' \<subseteq> conns s \<and> ec \<le> ec' \<and>
    ec' + pc' = ec + pc + length ps \<and> (ec' = ec \<longrightarrow> conns s' = conns s - set ps)"
  using assms
proof (induction ps arbitrary: ec pc s)
  case (Cons p ps)
  obtain s1 e where c: "hp_ClosePeer ops p s = (s1, e)" by fastforce
  note law = close_law [OF c]
  show ?case
  proof (cases e)
    case None
    with Cons.prems c have "close_loop ops ps ec (pc + 1) s1 = (s', ec', pc')" by simp
    from Cons.IH [OF this] law None show ?thesis by auto
  next
    case (Some err)
    with Cons.prems c have "close_loop ops ps (ec + 1) pc s1 = (s', ec', pc')" by simp
    from Cons.IH [OF this] law Some show ?thesis by auto
  qed
qed simp

end

text \<open>A network as the sets of its connected and known peers; one peer refuses to be closed.\<close>

record net_state =
  ns_connected :: "peer_id list"
  ns_known :: "peer_id list"

definition example_host_ops :: "peer_id \<Rightarrow> net_state host_ops" where
  "example_host_ops stubborn =
     \<lparr>hp_Peers = ns_connected, hp_HasPeerstore = True,
      hp_RemovePeer = (\<lambda>p s. s\<lparr>ns_known := filter (\<lambda>q. q \<noteq> p) (ns_known s)\<rparr>),
      hp_ClearAddrs = (\<lambda>p s. s),
      hp_ClosePeer = (\<lambda>p s. if p = stubborn then (s, Some (Err ''stream reset''))
        else (s\<lparr>ns_connected := filter (\<lambda>q. q \<noteq> p) (ns_connected s)\<rparr>, None))\<rparr>"

interpretation net: peer_network "example_host_ops stubborn" "\<lambda>s. set (ns_connected s)"
  "\<lambda>s. set (ns_known s)" for stubborn
  by unfold_locales (auto simp: example_host_ops_def split: if_splits)



text \<open>The purge and peer list handlers need a libp2p host: without one, as in a node set up
  without libp2p, listing peers panics, and so does every purge request that names
  \<open>all\<close> or a valid peer; with a host none of them panics, and every answer is 200, 400 for a
  missing or malformed peer, or 500.\<close>

lemma peer_handlers_need_host:
  "snd (showPeersHandler lib None r s) = Panic \<and>
   (snd (purgePeerHandler lib None r s) = Panic \<longleftrightarrow> Values_Get (rq_Query r) ''peer'' \<noteq> [] \<and>
      (Values_Get (rq_Query r) ''peer'' = ''all'' \<or>
       (\<exists>p. ct_Decode lib (Values_Get (rq_Query r) ''peer'') = Inr p))) \<and>
   (\<exists>resp. snd (showPeersHandler lib (Some ops) r s) = Ret resp \<and> rs_Status resp \<in> {200, 500}) \<and>
   (\<exists>resp. snd (purgePeerHandler lib (Some ops) r s) = Ret resp \<and> rs_Status resp \<in> {200, 400, 500} \<and>
      (rs_Status resp = 400 \<longleftrightarrow> Values_Get (rq_Query r) ''peer'' = [] \<or>
        Values_Get (rq_Query r) ''peer'' \<noteq> ''all'' \<and>
        (\<exists>e. ct_Decode lib (Values_Get (rq_Query r) ''peer'') = Inl e)))"
proof (intro conjI)
  show "snd (showPeersHandler lib None r s) = Panic" by (simp add: showPeersHandler_def)
  show "snd (purgePeerHandler lib None r s) = Panic \<longleftrightarrow> Values_Get (rq_Query r) ''peer'' \<noteq> [] \<and>
      (Values_Get (rq_Query r) ''peer'' = ''all'' \<or>
       (\<exists>p. ct_Decode lib (Values_Get (rq_Query r) ''peer'') = Inr p))"
    by (auto simp: purgePeerHandler_def purgeAllConnections_def purgeConnection_def Let_def
        split: sum.split)
  show "\<exists>resp. snd (showPeersHandler lib (Some ops) r s) = Ret resp \<and> rs_Status resp \<in> {200, 500}"
    by (simp add: showPeersHandler_def http_Error_def Let_def split: option.split)
next
  have "\<exists>s' x. purgeAllConnections (Some ops) s = (s', Ret x)"
    by (simp add: purgeAllConnections_def Let_def split: prod.split)
  then obtain s1 x where a: "purgeAllConnections (Some ops) s = (s1, Ret x)" by blast
  have "\<exists>x. y = Ret x" if "purgeConnection (Some ops) p s = (s', y)" for p s' y
    using that by (auto simp: purgeConnection_def Let_def split: prod.splits)
  note one = this
  show "\<exists>resp. snd (purgePeerHandler lib (Some ops) r s) = Ret resp \<and>
      rs_Status resp \<in> {200, 400, 500} \<and>
      (rs_Status resp = 400 \<longleftrightarrow> Values_Get (rq_Query r) ''peer'' = [] \<or>
        Values_Get (rq_Query r) ''peer'' \<noteq> ''all'' \<and>
        (\<exists>e. ct_Decode lib (Values_Get (rq_Query r) ''peer'') = Inl e))"
    using a by (auto simp: purgePeerHandler_def http_Error_def plain_ok_def Let_def
        split: sum.split prod.split option.split outcome.split dest: one)
qed

text \<open>The profiling options are set by a POST with a decimal \<open>int\<close> and by nothing else: a form
  value that is the decimal notation of a 64-bit integer sets exactly that integer, and a
  request that is not such a POST leaves the runtime alone.\<close>

lemma profiling_options_set_by_post_only:
  assumes "ct_ParseForm lib r = Inr form" and "rq_Method r = ''POST''"
    and "- (2 ^ 63) \<le> n" and "n < 2 ^ 63"
  shows "(Values_Get form ''fraction'' = dec_int n \<longrightarrow>
      MutexFractionOption lib r s = (ct_SetMutexProfileFraction lib (word_of_int n) s, Ret empty_response)) \<and>
    (Values_Get form ''rate'' = dec_int n \<longrightarrow>
      BlockProfileRateOption lib r s = (ct_SetBlockProfileRate lib (word_of_int n) s, Ret empty_response)) \<and>
    (\<forall>r'. rq_Method r' \<noteq> ''POST'' \<longrightarrow>
      fst (MutexFractionOption lib r' s) = s \<and> fst (BlockProfileRateOption lib r' s) = s)"
proof (intro conjI impI allI)
  show "MutexFractionOption lib r s = (ct_SetMutexProfileFraction lib (word_of_int n) s, Ret empty_response)"
    if "Values_Get form ''fraction'' = dec_int n"
    using mutex_opt.decimal_is_set [OF assms(2,1) that assms(3,4)] .
  show "BlockProfileRateOption lib r s = (ct_SetBlockProfileRate lib (word_of_int n) s, Ret empty_response)"
    if "Values_Get form ''rate'' = dec_int n"
    using block_opt.decimal_is_set [OF assms(2,1) that assms(3,4)] .
next
  fix r' :: request
  assume "rq_Method r' \<noteq> ''POST''"
  then show "fst (MutexFractionOption lib r' s) = s" "fst (BlockProfileRateOption lib r' s) = s"
    using mutex_opt.changed_only_by_post [of lib r' s] block_opt.changed_only_by_post [of lib r' s]
    by (metis prod.collapse)+
qed

definition example_ctl_lib :: "i64 ctl_lib" where
  "example_ctl_lib =
     \<lparr>ct_Decode = Inr, ct_ID_String = id, ct_SetLogLevel = (\<lambda>a b s. (s, None)),
      ct_GetSubsystems = (\<lambda>s. []), ct_json_BytesToFree = (\<lambda>b. Inr 5), ct_json_Encode_error = None,
      ct_ParseForm = (\<lambda>r. Inr (rq_Query r)), ct_SetMutexProfileFraction = (\<lambda>n s. n),
      ct_SetBlockProfileRate = (\<lambda>n s. n)\<rparr>"

lemma profiling_options_set_by_post_only_witness:
  "BlockProfileRateOption example_ctl_lib
     (example_request\<lparr>rq_Method := ''POST'', rq_Query := [(''rate'', dec_int (- 7))]\<rparr>) 0 =
   (- 7, Ret empty_response)"
  using profiling_options_set_by_post_only [of example_ctl_lib
      "example_request\<lparr>rq_Method := ''POST'', rq_Query := [(''rate'', dec_int (- 7))]\<rparr>"
      "[(''rate'', dec_int (- 7))]" "- 7" 0]
  by (simp add: example_ctl_lib_def Values_Get_def)


definition example_ctl_gc :: "mem_state ctl_lib" where
  "example_ctl_gc =
     \<lparr>ct_Decode = Inr, ct_ID_String = id, ct_SetLogLevel = (\<lambda>a b s. (s, None)),
      ct_GetSubsystems = (\<lambda>s. []), ct_json_BytesToFree = (\<lambda>b. Inr 5), ct_json_Encode_error = None,
      ct_ParseForm = (\<lambda>r. Inr []), ct_SetMutexProfileFraction = (\<lambda>n s. s),
      ct_SetBlockProfileRate = (\<lambda>n s. s)\<rparr>"


end
