(* ===== verification/Tracing.thy ===== *)
theory Tracing
  imports Go_Text Go_Float64
begin

text \<open>
  The version string (\<open>version.go\<close>) and the tracer provider with its samplers
  (\<open>tracing.go\<close>). The build information, the date of a time stamp, the exporters, the
  ratio sampler and the parent-based sampler are parameters.
\<close>

section \<open>The version\<close>

record version_lib =
  vl_verMap :: "(string \<times> string) list"  \<comment> \<open>the embedded \<open>version.json\<close>, as far as it could be read\<close>
  vl_ReadBuildInfo :: "(string \<times> string) list option"  \<comment> \<open>the settings, if there is build information\<close>
  vl_day :: "string \<Rightarrow> string"  \<comment> \<open>the UTC date of an RFC 3339 time, of the zero time if it is none\<close>

fun settings_loop ::
  "version_lib \<Rightarrow> string \<Rightarrow> string \<Rightarrow> bool \<Rightarrow> (string \<times> string) list \<Rightarrow> (string \<times> string \<times> bool) outcome" where
  "settings_loop lib revision day dirty [] = Ret (revision, day, dirty)"
| "settings_loop lib revision day dirty ((key, value) # kvs) =
     (if key = ''vcs.revision'' then
        (if length value < 7 then Panic else settings_loop lib (take 7 value) day dirty kvs)
      else if key = ''vcs.time'' then settings_loop lib revision (vl_day lib value) dirty kvs
      else if key = ''vcs.modified'' then settings_loop lib revision day (value = ''true'') kvs
      else settings_loop lib revision day dirty kvs)"

definition version_string :: "string \<Rightarrow> string \<Rightarrow> string \<Rightarrow> bool \<Rightarrow> string" where
  "version_string release revision day dirty =
     (let revision = (if dirty then revision @ ''-dirty'' else revision)
      in if revision \<noteq> [] then release @ '' '' @ day @ ''-'' @ revision
         else release @ '' dev-build'')"

definition buildVersion :: "version_lib \<Rightarrow> string outcome" where
  "buildVersion lib =
     (let release = (case map_of (vl_verMap lib) ''version'' of Some v \<Rightarrow> v | None \<Rightarrow> [])
      in case vl_ReadBuildInfo lib of
           None \<Rightarrow> Ret (release @ '' dev-build'')
         | Some settings \<Rightarrow>
             (case settings_loop lib [] [] False settings of
                Panic \<Rightarrow> Panic
              | Ret (revision, day, dirty) \<Rightarrow> Ret (version_string release revision day dirty)))"

definition program_name :: string where
  "program_name = ''rainbow''"

definition userAgent :: "string \<Rightarrow> string" where
  "userAgent version = program_name @ ''/'' @ version"

text \<open>The reference: the last setting of each key counts.\<close>

definition last_setting :: "(string \<times> string) list \<Rightarrow> string \<Rightarrow> string option" where
  "last_setting kvs key = map_of (rev kvs) key"

lemma last_setting_snoc:
  "last_setting (kvs @ [(k, v)]) key = (if key = k then Some v else last_setting kvs key)"
  by (simp add: last_setting_def)

lemma settings_loop_append:
  "settings_loop lib r d b (xs @ ys) =
     (case settings_loop lib r d b xs of
        Panic \<Rightarrow> Panic | Ret (r', d', b') \<Rightarrow> settings_loop lib r' d' b' ys)"
  by (induction lib r d b xs rule: settings_loop.induct) auto

definition short_revision :: "(string \<times> string) list \<Rightarrow> bool" where
  "short_revision kvs \<longleftrightarrow> (\<exists>v. (''vcs.revision'', v) \<in> set kvs \<and> length v < 7)"

lemma settings_loop_last:
  "settings_loop lib [] [] False kvs =
    (if short_revision kvs then Panic
     else Ret (case last_setting kvs ''vcs.revision'' of Some v \<Rightarrow> take 7 v | None \<Rightarrow> [],
               case last_setting kvs ''vcs.time'' of Some v \<Rightarrow> vl_day lib v | None \<Rightarrow> [],
               last_setting kvs ''vcs.modified'' = Some ''true''))"
proof (induction kvs rule: rev_induct)
  case Nil
  then show ?case by (simp add: last_setting_def short_revision_def)
next
  case (snoc kv kvs)
  obtain k v where kv: "kv = (k, v)" by (cases kv)
  have short: "short_revision (kvs @ [(k, v)]) \<longleftrightarrow>
      short_revision kvs \<or> k = ''vcs.revision'' \<and> length v < 7"
    by (auto simp: short_revision_def)
  consider "k = ''vcs.revision''" | "k = ''vcs.time''" | "k = ''vcs.modified''"
    | "k \<noteq> ''vcs.revision''" "k \<noteq> ''vcs.time''" "k \<noteq> ''vcs.modified''" by blast
  then show ?case
    unfolding kv settings_loop_append snoc.IH short last_setting_snoc
    by cases simp_all
qed

text \<open>The version string: without build information it is the release with "dev-build"; with it the
  last setting of each key counts, the revision is cut to seven characters, and reading it
  panics exactly if some revision is shorter than that.\<close>

lemma build_version_reads_last_settings:
  "buildVersion lib =
    (let release = (case map_of (vl_verMap lib) ''version'' of Some v \<Rightarrow> v | None \<Rightarrow> [])
     in case vl_ReadBuildInfo lib of
          None \<Rightarrow> Ret (release @ '' dev-build'')
        | Some kvs \<Rightarrow>
            if \<exists>v. (''vcs.revision'', v) \<in> set kvs \<and> length v < 7 then Panic
            else Ret (version_string release
              (case last_setting kvs ''vcs.revision'' of Some v \<Rightarrow> take 7 v | None \<Rightarrow> [])
              (case last_setting kvs ''vcs.time'' of Some v \<Rightarrow> vl_day lib v | None \<Rightarrow> [])
              (last_setting kvs ''vcs.modified'' = Some ''true'')))"
  unfolding buildVersion_def settings_loop_last short_revision_def [symmetric] Let_def
  by (simp split: option.split)

section \<open>Samplers\<close>

datatype sampling_decision = Drop | RecordOnly | RecordAndSample

record sampling_result =
  sr_Decision :: sampling_decision
  sr_Tracestate :: string

text \<open>A span context, and the parameters of a sampling decision.\<close>

record span_context =
  sc_IsValid :: bool
  sc_IsSampled :: bool
  sc_TraceState :: string

record sampling_parameters =
  sp_ParentContext :: span_context
  sp_TraceID :: nat
  sp_Name :: string

record sampler =
  sa_ShouldSample :: "sampling_parameters \<Rightarrow> sampling_result"
  sa_Description :: string

definition CascadingSamplerFunc ::
  "(sampling_parameters \<Rightarrow> bool) \<Rightarrow> string \<Rightarrow> sampler \<Rightarrow> sampler" where
  "CascadingSamplerFunc shouldSample description next =
     \<lparr>sa_ShouldSample = (\<lambda>parameters.
        if shouldSample parameters then sa_ShouldSample next parameters
        else \<lparr>sr_Decision = Drop, sr_Tracestate = sc_TraceState (sp_ParentContext parameters)\<rparr>),
      sa_Description = description\<rparr>"

record tracer_resource =
  tr_ServiceName :: string
  tr_ServiceVersion :: string

datatype tracer_option =
    WithBatcher string
  | WithResource tracer_resource
  | WithSampler sampler

datatype tracer_provider = NoopTracerProvider | TracerProvider "tracer_option list"

record tracing_provider_lib =
  tp_NewSpanExporters :: "string list result"
  tp_resource_Merge_error :: "tracer_resource \<Rightarrow> error option"
  tp_NeverSample :: sampler
  tp_TraceIDRatioBased :: "f64 \<Rightarrow> sampler"
  tp_ParentBased :: "sampler \<Rightarrow> sampler"

definition f64_is_zero :: "f64 \<Rightarrow> bool" where
  "f64_is_zero x = (case x of F64 m e \<Rightarrow> m = 0 | NonFinite \<Rightarrow> False)"

definition base_sampler :: "tracing_provider_lib \<Rightarrow> f64 \<Rightarrow> sampler" where
  "base_sampler lib traceFraction =
     (if f64_is_zero traceFraction then tp_NeverSample lib
      else tp_TraceIDRatioBased lib traceFraction)"

definition root_sampler :: "sampler \<Rightarrow> sampler" where
  "root_sampler baseSampler =
     CascadingSamplerFunc (\<lambda>parameters. \<not> sc_IsValid (sp_ParentContext parameters)) ''root sampler''
       (CascadingSamplerFunc (\<lambda>parameters. has_prefix (sp_Name parameters) ''Gateway'')
         ''gateway request sampler'' baseSampler)"

definition node_sampler :: "tracing_provider_lib \<Rightarrow> f64 \<Rightarrow> sampler" where
  "node_sampler lib traceFraction =
     tp_ParentBased lib (root_sampler (base_sampler lib traceFraction))"

text \<open>The result: the provider, an error, or the panic of \<open>buildVersion\<close>.\<close>

definition newTracerProvider ::
  "tracing_provider_lib \<Rightarrow> version_lib \<Rightarrow> f64 \<Rightarrow> tracer_provider result outcome" where
  "newTracerProvider lib vlib traceFraction =
     (case tp_NewSpanExporters lib of
        Inl err \<Rightarrow> Ret (Inl err)
      | Inr exporters \<Rightarrow>
          if exporters = [] then Ret (Inr NoopTracerProvider)
          else
            (case buildVersion vlib of
               Panic \<Rightarrow> Panic
             | Ret v \<Rightarrow>
                 (let r = \<lparr>tr_ServiceName = ''Rainbow'', tr_ServiceVersion = v\<rparr>
                  in case tp_resource_Merge_error lib r of
                       Some err \<Rightarrow> Ret (Inl err)
                     | None \<Rightarrow> Ret (Inr (TracerProvider (map WithBatcher exporters @
                         [WithResource r, WithSampler (node_sampler lib traceFraction)]))))))"

text \<open>The parent-based sampler as its documentation states it: a span without a valid parent is
  decided by the root sampler, any other like its parent.\<close>

definition parent_based_contract :: "tracing_provider_lib \<Rightarrow> bool" where
  "parent_based_contract lib \<longleftrightarrow> (\<forall>root p.
     sr_Decision (sa_ShouldSample (tp_ParentBased lib root) p) =
       (if sc_IsValid (sp_ParentContext p)
        then (if sc_IsSampled (sp_ParentContext p) then RecordAndSample else Drop)
        else sr_Decision (sa_ShouldSample root p)))"

definition never_sample_contract :: "tracing_provider_lib \<Rightarrow> bool" where
  "never_sample_contract lib \<longleftrightarrow>
     (\<forall>p. sr_Decision (sa_ShouldSample (tp_NeverSample lib) p) = Drop)"

lemma cascade_decision:
  "sr_Decision (sa_ShouldSample (CascadingSamplerFunc cond d next) p) =
     (if cond p then sr_Decision (sa_ShouldSample next p) else Drop)"
  by (simp add: CascadingSamplerFunc_def)

text \<open>C39: Traces follow the caller and start at the gateway: a span with a parent is sampled exactly if
  its parent is; a root span exactly if it is a gateway request and the ratio sampler takes
  it; with a fraction of zero no trace ever starts here.\<close>

theorem traces_start_at_gateway_requests:
  assumes "parent_based_contract lib" and "never_sample_contract lib"
  shows "sr_Decision (sa_ShouldSample (node_sampler lib traceFraction) p) = RecordAndSample \<longleftrightarrow>
    (if sc_IsValid (sp_ParentContext p) then sc_IsSampled (sp_ParentContext p)
     else has_prefix (sp_Name p) ''Gateway'' \<and> \<not> f64_is_zero traceFraction \<and>
       sr_Decision (sa_ShouldSample (tp_TraceIDRatioBased lib traceFraction) p) = RecordAndSample)"
proof -
  note parent = assms(1) [unfolded parent_based_contract_def, rule_format]
  note never = assms(2) [unfolded never_sample_contract_def, rule_format]
  show ?thesis
    by (simp add: node_sampler_def parent root_sampler_def cascade_decision base_sampler_def never)
qed

definition constant_sampler :: "sampling_decision \<Rightarrow> sampler" where
  "constant_sampler d =
     \<lparr>sa_ShouldSample = (\<lambda>p. \<lparr>sr_Decision = d, sr_Tracestate = sc_TraceState (sp_ParentContext p)\<rparr>),
      sa_Description = ''constant''\<rparr>"

definition example_tracing_provider_lib :: tracing_provider_lib where
  "example_tracing_provider_lib =
     \<lparr>tp_NewSpanExporters = Inr [''otlp''], tp_resource_Merge_error = (\<lambda>_. None),
      tp_NeverSample = constant_sampler Drop,
      tp_TraceIDRatioBased = (\<lambda>x. constant_sampler RecordAndSample),
      tp_ParentBased = (\<lambda>root. root\<lparr>sa_ShouldSample := (\<lambda>p.
        if sc_IsValid (sp_ParentContext p)
        then \<lparr>sr_Decision = (if sc_IsSampled (sp_ParentContext p) then RecordAndSample else Drop),
              sr_Tracestate = sc_TraceState (sp_ParentContext p)\<rparr>
        else sa_ShouldSample root p)\<rparr>)\<rparr>"

theorem traces_start_at_gateway_requests_witness:
  "sr_Decision (sa_ShouldSample (node_sampler example_tracing_provider_lib (F64 1 (- 1)))
     \<lparr>sp_ParentContext = \<lparr>sc_IsValid = False, sc_IsSampled = False, sc_TraceState = []\<rparr>,
      sp_TraceID = 7, sp_Name = ''Gateway.Get''\<rparr>) = RecordAndSample"
proof -
  have p: "parent_based_contract example_tracing_provider_lib"
    by (simp add: parent_based_contract_def example_tracing_provider_lib_def)
  have n: "never_sample_contract example_tracing_provider_lib"
    by (simp add: never_sample_contract_def example_tracing_provider_lib_def constant_sampler_def)
  show ?thesis
    by (simp only: traces_start_at_gateway_requests [OF p n])
       (simp add: has_prefix_def f64_is_zero_def example_tracing_provider_lib_def constant_sampler_def)
qed

end
