(* ===== verification/Clients.thy ===== *)
theory Clients
  imports Http Tracing Node_Config
begin

text \<open>
  The outgoing clients: the round tripper that authenticates requests and names the program
  (\<open>http_client.go\<close>) and the DNS cache with its dialer (\<open>dns_cache.go\<close>). The resolver, the
  network and the splitting of addresses are parameters.
\<close>

section \<open>The round tripper\<close>

record 's customTransport =
  ct_RoundTripper :: "request \<Rightarrow> 's \<Rightarrow> 's \<times> response result"
  ct_AuthorizationBearerToken :: string

definition outgoing :: "string \<Rightarrow> string \<Rightarrow> request \<Rightarrow> request" where
  "outgoing version token req =
     (let h = (if token \<noteq> [] then Header_Set (rq_Header req) ''Authorization'' (''Bearer '' @ token)
               else rq_Header req)
      in req\<lparr>rq_Header := Header_Add h ''User-Agent'' (userAgent version)\<rparr>)"

definition RoundTrip ::
  "string \<Rightarrow> 's customTransport \<Rightarrow> request \<Rightarrow> 's \<Rightarrow> 's \<times> response result" where
  "RoundTrip version adt req s =
     ct_RoundTripper adt (outgoing version (ct_AuthorizationBearerToken adt) req) s"

section \<open>The DNS cache\<close>

definition dnsCacheRefreshInterval :: i64 where
  "dnsCacheRefreshInterval = 5 * minute"

record refresh_options =
  ro_ClearUnused :: bool
  ro_PersistOnFailure :: bool

text \<open>The resolver's state is \<open>'r\<close>, the state of the network \<open>'n\<close>.\<close>

record ('r, 'n) dns_lib =
  dl_Resolver :: 'r  \<comment> \<open>the empty resolver\<close>
  dl_LookupHost :: "string \<Rightarrow> 'r \<Rightarrow> 'r \<times> string list result"
  dl_RefreshWithOptions :: "refresh_options \<Rightarrow> 'r \<Rightarrow> 'r"
  dl_SplitHostPort :: "string \<Rightarrow> (string \<times> string) result"
  dl_JoinHostPort :: "string \<Rightarrow> string \<Rightarrow> string"
  dl_DialContext :: "string \<Rightarrow> string \<Rightarrow> 'n \<Rightarrow> 'n \<times> string option \<times> error option"
    \<comment> \<open>network and address; the connection and the error\<close>

record 'r cachedDNS =
  cd_resolver :: 'r
  cd_refreshing :: bool  \<comment> \<open>the ticker runs\<close>

definition refresh_opts :: refresh_options where
  "refresh_opts = \<lparr>ro_ClearUnused = False, ro_PersistOnFailure = True\<rparr>"

definition newCachedDNS :: "('r, 'n) dns_lib \<Rightarrow> 'r cachedDNS" where
  "newCachedDNS lib = \<lparr>cd_resolver = dl_Resolver lib, cd_refreshing = True\<rparr>"

text \<open>One turn of the goroutine that \<open>newCachedDNS\<close> starts: a tick of a running ticker.\<close>

definition refresh_tick :: "('r, 'n) dns_lib \<Rightarrow> 'r cachedDNS \<Rightarrow> 'r cachedDNS" where
  "refresh_tick lib cdns =
     (if cd_refreshing cdns
      then cdns\<lparr>cd_resolver := dl_RefreshWithOptions lib refresh_opts (cd_resolver cdns)\<rparr> else cdns)"

definition cdns_Close :: "'r cachedDNS \<Rightarrow> 'r cachedDNS" where
  "cdns_Close cdns = cdns\<lparr>cd_refreshing := False\<rparr>"

text \<open>The loop over the addresses; \<open>conn\<close> and \<open>err\<close> are the named results.\<close>

fun dial_loop ::
  "('r, 'n) dns_lib \<Rightarrow> string \<Rightarrow> string \<Rightarrow> string option \<times> error option \<Rightarrow> string list \<Rightarrow> 'n
    \<Rightarrow> 'n \<times> string option \<times> error option" where
  "dial_loop lib network port res [] s = (s, res)"
| "dial_loop lib network port res (ip # ips) s =
     (case dl_DialContext lib network (dl_JoinHostPort lib ip port) s of
        (s1, conn, None) \<Rightarrow> (s1, conn, None)
      | (s1, conn, Some err) \<Rightarrow> dial_loop lib network port (conn, Some err) ips s1)"

definition dialWithCachedDNS ::
  "('r, 'n) dns_lib \<Rightarrow> 'r cachedDNS \<Rightarrow> string \<Rightarrow> string \<Rightarrow> 'n
    \<Rightarrow> 'r cachedDNS \<times> 'n \<times> string option \<times> error option" where
  "dialWithCachedDNS lib cdns network addr s =
     (case dl_SplitHostPort lib addr of
        Inl err \<Rightarrow> (cdns, s, None, Some err)
      | Inr (host, port) \<Rightarrow>
          (case dl_LookupHost lib host (cd_resolver cdns) of
             (r, Inl err) \<Rightarrow> (cdns\<lparr>cd_resolver := r\<rparr>, s, None, Some err)
           | (r, Inr ips) \<Rightarrow>
               (cdns\<lparr>cd_resolver := r\<rparr>, dial_loop lib network port (None, None) ips s)))"

section \<open>Properties\<close>

lemma outgoing_headers:
  "Header_Get (rq_Header (outgoing v token req)) ''Authorization'' =
     (if token \<noteq> [] then ''Bearer '' @ token else Header_Get (rq_Header req) ''Authorization'')"
  by (simp add: outgoing_def Let_def Header_Get_def Header_Set_def Header_Add_def gm.lookup_store
      split: option.split)

text \<open>The attempts in order: those before the first success fail, those after it are not made.\<close>

fun dial_all ::
  "('r, 'n) dns_lib \<Rightarrow> string \<Rightarrow> string \<Rightarrow> string list \<Rightarrow> 'n \<Rightarrow> ('n \<times> string option \<times> error option) list" where
  "dial_all lib network port [] s = []"
| "dial_all lib network port (ip # ips) s =
     (let a = dl_DialContext lib network (dl_JoinHostPort lib ip port) s
      in a # dial_all lib network port ips (fst a))"

lemma dial_loop_attempts:
  "dial_loop lib network port res ips s =
     (let as = dial_all lib network port ips s
      in case find (\<lambda>(s', conn, err). err = None) as of
           Some a \<Rightarrow> a
         | None \<Rightarrow> if ips = [] then (s, res) else last as)"
proof (induction ips arbitrary: res s)
  case (Cons ip ips)
  obtain s1 conn err where a: "dl_DialContext lib network (dl_JoinHostPort lib ip port) s = (s1, conn, err)"
    by (metis surj_pair)
  have "dial_all lib network port ips s1 = [] \<longleftrightarrow> ips = []" by (cases ips) (simp_all add: Let_def)
  then show ?case using a by (cases err) (auto simp: Cons.IH Let_def split: option.splits)
qed simp

text \<open>C40: Dialling tries the addresses of a host in the order the cache gives them and stops at the first
  that answers; if none does, the error is that of the last one; a host with no address at
  all yields neither a connection nor an error.\<close>

theorem dial_first_answering_address:
  assumes "dl_SplitHostPort lib addr = Inr (host, port)"
    and "dl_LookupHost lib host (cd_resolver cdns) = (r, Inr ips)"
  shows "snd (dialWithCachedDNS lib cdns network addr s) =
    (let as = dial_all lib network port ips s
     in case find (\<lambda>(s', conn, err). err = None) as of
          Some a \<Rightarrow> a
        | None \<Rightarrow> if ips = [] then (s, None, None) else last as)"
  using assms by (simp add: dialWithCachedDNS_def dial_loop_attempts)

text \<open>An example: two addresses, of which only the second answers; attempts are recorded.\<close>

definition example_dns_lib :: "(unit, string list) dns_lib" where
  "example_dns_lib =
     \<lparr>dl_Resolver = (), dl_LookupHost = (\<lambda>h r. (r, Inr [''10.0.0.1'', ''10.0.0.2'', ''10.0.0.3''])),
      dl_RefreshWithOptions = (\<lambda>opt r. r), dl_SplitHostPort = (\<lambda>a. Inr (a, ''443'')),
      dl_JoinHostPort = (\<lambda>h p. h @ '':'' @ p),
      dl_DialContext = (\<lambda>network a s.
        if a = ''10.0.0.1:443'' then (s @ [a], None, Some (Err ''refused'')) else (s @ [a], Some a, None))\<rparr>"

theorem dial_first_answering_address_witness:
  "snd (dialWithCachedDNS example_dns_lib (newCachedDNS example_dns_lib) ''tcp'' ''h'' []) =
     ([''10.0.0.1:443'', ''10.0.0.2:443''], Some ''10.0.0.2:443'', None)"
proof -
  have a: "dl_SplitHostPort example_dns_lib ''h'' = Inr (''h'', ''443'')"
    "dl_LookupHost example_dns_lib ''h'' (cd_resolver (newCachedDNS example_dns_lib)) =
       ((), Inr [''10.0.0.1'', ''10.0.0.2'', ''10.0.0.3''])"
    by (simp_all add: example_dns_lib_def)
  show ?thesis
    by (simp only: dial_first_answering_address [OF a]) (simp add: example_dns_lib_def Let_def)
qed

end
