(* ===== verification/Daemon.thy ===== *)
theory Daemon
  imports Cli Autoconf Setup Gateway Ctl_Handlers Clients
begin

text \<open>
  The start of the daemon (\<open>main.go\<close> lines 786-933 and 1024-1096,
  \<open>makeMetricsAndDebuggingHandler\<close> of \<open>handlers.go\<close>): the autoconf phase, the checks on the
  configuration, the node, the two HTTP servers and the lines printed about the
  configuration. What runs after that is the theory \<open>Lifecycle\<close>.
\<close>

section \<open>The control endpoint\<close>

text \<open>The handlers of other packages, and the goroutine stacks that each dump sees.\<close>

record 's debug_lib =
  dg_promhttp :: "'s handler"
  dg_DefaultServeMux :: "'s handler"
  dg_stacks :: "'s \<Rightarrow> nat \<Rightarrow> string"

text \<open>The stack handler writes the dump to the response; the loop always ends (lemma
  \<open>stack_loop_bounded\<close>), so the last case does not occur.\<close>

definition stackHandler :: "'s debug_lib \<Rightarrow> 's handler" where
  "stackHandler lib r s =
     (case writeAllGoroutineStacks (dg_stacks lib s) (\<lambda>buf body. (body @ [Text buf], None)) [] of
        Some (body, err) \<Rightarrow> (s, Ret (empty_response\<lparr>rs_Body := body\<rparr>))
      | None \<Rightarrow> (s, Panic))"

definition makeMetricsAndDebuggingHandler ::
  "'s debug_lib \<Rightarrow> 's ctl_lib \<Rightarrow> (string \<times> 's handler) list" where
  "makeMetricsAndDebuggingHandler lib ctl =
     [(''/debug/metrics/prometheus'', dg_promhttp lib), (''/debug/vars'', dg_DefaultServeMux lib),
      (''/debug/pprof/'', dg_DefaultServeMux lib), (''/debug/stack'', stackHandler lib),
      (''/debug/pprof-mutex/'', MutexFractionOption ctl),
      (''/debug/pprof-block/'', BlockProfileRateOption ctl)]"

definition apiMux ::
  "'s debug_lib \<Rightarrow> 's ctl_lib \<Rightarrow> 's gc_lib \<Rightarrow> (host \<Rightarrow> 's host_ops) \<Rightarrow> (nat \<Rightarrow> error option) \<Rightarrow> Node
    \<Rightarrow> (string \<times> 's handler) list" where
  "apiMux lib ctl gc ops ctx_done gnd =
     addLogHandlers ctl
       (makeMetricsAndDebuggingHandler lib ctl @
        [(''/mgr/gc'', gcHandler ctl gc gnd ctx_done),
         (''/mgr/purge'', purgePeerHandler ctl (map_option ops (nd_host gnd))),
         (''/mgr/peers'', showPeersHandler ctl (map_option ops (nd_host gnd)))])"

section \<open>The autoconf phase\<close>

record ('d, 's) daemon_lib =
  da_main :: main_lib
  da_autoconf :: "'d autoconf_lib"
  da_client_Start :: "autoconf_client \<Rightarrow> 'd option \<times> error option"
  da_NewDNSResolver_error :: "(string, string) gomap \<Rightarrow> error option"
  da_setup :: setup_lib
  da_gateway :: "'s gateway_lib"
  da_tracer :: tracing_provider_lib
  da_version_lib :: version_lib
  da_version :: string  \<comment> \<open>the variable \<open>version\<close>\<close>
  da_debug :: "'s debug_lib"
  da_ctl :: "'s ctl_lib"
  da_gc :: "'s gc_lib"
  da_host_ops :: "host \<Rightarrow> 's host_ops"
  da_ctx_done :: "nat \<Rightarrow> error option"

definition parseDNSResolversMap ::
  "('d, 's) daemon_lib \<Rightarrow> (string, string) gomap \<Rightarrow> dns_resolver option result" where
  "parseDNSResolversMap lib customDNSResolverMap =
     (if length customDNSResolverMap = 0 then Inr None
      else case da_NewDNSResolver_error lib customDNSResolverMap of
             Some err \<Rightarrow> Inl err
           | None \<Rightarrow> Inr (Some (CustomResolver customDNSResolverMap)))"

text \<open>The autoconf data: nil if autoconf is off or the client cannot be made; errors are logged.\<close>

definition load_autoconf :: "('d, 's) daemon_lib \<Rightarrow> Config \<Rightarrow> 'd option" where
  "load_autoconf lib cfg =
     (if ac_Enabled (AutoConf cfg) \<and> ac_URL (AutoConf cfg) \<noteq> [] then
        (case createAutoConfClient (da_autoconf lib) (da_version lib) (AutoConf cfg) of
           Inl err \<Rightarrow> None
         | Inr client \<Rightarrow> fst (da_client_Start lib client))
      else None)"

text \<open>The three expansions; the second component is the list of resolvers for display.\<close>

definition expand_config ::
  "('d, 's) daemon_lib \<Rightarrow> Config \<Rightarrow> string list \<Rightarrow> (Config \<times> string list) result" where
  "expand_config lib cfg customDNSResolvers =
     (let autoConfData = load_autoconf lib cfg in
      case expandAutoBootstrap (da_autoconf lib) (hd (Bootstrap cfg)) cfg autoConfData of
        Inl err \<Rightarrow> Inl err
      | Inr bootstrapPeers \<Rightarrow>
          (let cfg = cfg\<lparr>Bootstrap := bootstrapPeers\<rparr> in
           case expandAutoHTTPRouters (da_autoconf lib) (RoutingV1Endpoints cfg) cfg autoConfData of
             Inl err \<Rightarrow> Inl err
           | Inr httpRouters \<Rightarrow>
               (let cfg = cfg\<lparr>RoutingV1Endpoints := httpRouters\<rparr> in
                case expandAutoDNSResolvers (da_autoconf lib) customDNSResolvers cfg autoConfData of
                  Inl err \<Rightarrow> Inl err
                | Inr expandedDNS \<Rightarrow>
                    (case parseDNSResolversMap lib expandedDNS of
                       Inl err \<Rightarrow> Inl err
                     | Inr dns \<Rightarrow>
                         Inr (cfg\<lparr>DNSLinkResolver :=
                                Some (case dns of None \<Rightarrow> DefaultResolver | Some d \<Rightarrow> d)\<rparr>,
                              map (\<lambda>(domain, resolver). domain @ '' : '' @ resolver) expandedDNS)))))"

definition check_bootstrap :: "('d, 's) daemon_lib \<Rightarrow> modes \<Rightarrow> Config \<Rightarrow> error option" where
  "check_bootstrap lib m cfg =
     (if DHTRouting cfg \<noteq> DHTOff \<and> md_libp2p m then
        (if \<not> (\<exists>p \<in> set (Bootstrap cfg). p \<noteq> [] \<and> p \<noteq> AutoPlaceholder (da_autoconf lib)) then
           Some (Err ''no valid bootstrap peers configured - provide bootstrap peers with --bootstrap or enable autoconf'')
         else None)
      else None)"

definition prepare_config ::
  "('d, 's) daemon_lib \<Rightarrow> cli_ctx \<Rightarrow> fs_state \<Rightarrow> fs_state \<times> (modes \<times> identity \<times> Config \<times> string list) result" where
  "prepare_config lib cctx fs =
     (case read_config (da_main lib) cctx fs of
        (fs1, Inl err) \<Rightarrow> (fs1, Inl err)
      | (fs1, Inr (m, ident, cfg0)) \<Rightarrow>
          (case expand_config lib cfg0 (c_StringSlice cctx ''dnslink-resolvers'') of
             Inl err \<Rightarrow> (fs1, Inl err)
           | Inr (cfg, shownDNS) \<Rightarrow>
               (case check_bootstrap lib m cfg of
                  Some err \<Rightarrow> (fs1, Inl err)
                | None \<Rightarrow> (fs1, Inr (m, ident, cfg, shownDNS)))))"

section \<open>The node and the servers\<close>

text \<open>A nil key is the empty string.\<close>

definition setup_node :: "('d, 's) daemon_lib \<Rightarrow> modes \<Rightarrow> identity \<Rightarrow> Config \<Rightarrow> Node run" where
  "setup_node lib m ident cfg =
     (if md_libp2p m then
        run_bind (SetupWithLibp2p (da_setup lib) cfg (case id_priv ident of Some k \<Rightarrow> k | None \<Rightarrow> []))
          (\<lambda>(gnd, ps). Done (Inr gnd))
      else Done (SetupNoLibp2p (da_setup lib) cfg))"

record 's server =
  srv_Addr :: string
  srv_Handler :: "'s handler"

text \<open>What the start hands over to the running daemon.\<close>

record 's started =
  st_Config :: Config
  st_Node :: Node
  st_PeerID :: "peer_id option"
  st_Registry :: registry
  st_TracerProvider :: tracer_provider
  st_gatewaySrv :: "'s server"
  st_apiSrv :: "'s server"

definition printed_peer_id :: "('d, 's) daemon_lib \<Rightarrow> identity \<Rightarrow> peer_id option result" where
  "printed_peer_id lib ident =
     (case id_priv ident of
        None \<Rightarrow> Inr None
      | Some priv \<Rightarrow>
          (case IDFromPublicKey_of (ml_crypto (da_main lib)) priv of
             Inl err \<Rightarrow> Inl err
           | Inr pid \<Rightarrow> Inr (Some pid)))"

definition of_panic :: "'a outcome \<Rightarrow> 'a run" where
  "of_panic x = (case x of Ret r \<Rightarrow> Done (Inr r) | Panic \<Rightarrow> Panicked)"

definition serve ::
  "('d, 's) daemon_lib \<Rightarrow> cli_ctx \<Rightarrow> registry \<Rightarrow> modes \<Rightarrow> identity \<Rightarrow> Config \<Rightarrow> 's started run" where
  "serve lib cctx reg m ident cfg =
     run_bind (setup_node lib m ident cfg) (\<lambda>gnd.
     run_bind (of_outcome (setupGatewayHandler (da_gateway lib) cfg gnd reg)) (\<lambda>(reg1, handler).
     run_bind (Done (printed_peer_id lib ident)) (\<lambda>pid.
     run_bind (of_panic (registerVersionMetric (gl_prom (da_gateway lib)) (da_version lib) reg1)) (\<lambda>reg2.
     run_bind (of_panic (registerIpfsNodeCollector (gl_prom (da_gateway lib)) reg2)) (\<lambda>reg3.
     run_bind (of_outcome (newTracerProvider (da_tracer lib) (da_version_lib lib)
       (c_Float64 cctx ''sampling-fraction''))) (\<lambda>tp.
     Done (Inr \<lparr>st_Config = cfg, st_Node = gnd, st_PeerID = pid, st_Registry = reg3,
       st_TracerProvider = tp,
       st_gatewaySrv = \<lparr>srv_Addr = c_String cctx ''gateway-listen-address'', srv_Handler = handler\<rparr>,
       st_apiSrv = \<lparr>srv_Addr = c_String cctx ''ctl-listen-address'',
         srv_Handler = mux_serve (gl_redirect_to (da_gateway lib))
           (apiMux (da_debug lib) (da_ctl lib) (da_gc lib) (da_host_ops lib) (da_ctx_done lib) gnd)\<rparr>\<rparr>)))))))"

definition start_daemon ::
  "('d, 's) daemon_lib \<Rightarrow> cli_ctx \<Rightarrow> registry \<Rightarrow> fs_state \<Rightarrow> fs_state \<times> 's started run" where
  "start_daemon lib cctx reg fs =
     (case flag_actions cctx of
        Some err \<Rightarrow> (fs, Done (Inl err))
      | None \<Rightarrow>
          (case prepare_config lib cctx fs of
             (fs1, Inl err) \<Rightarrow> (fs1, Done (Inl err))
           | (fs1, Inr (m, ident, cfg, shownDNS)) \<Rightarrow> (fs1, serve lib cctx reg m ident cfg)))"

section \<open>The lines about the configuration\<close>

text \<open>\<open>%-40s\<close> and \<open>%*s\<close>: padding to a width; a negative width pads on the right.\<close>

definition pad_right :: "nat \<Rightarrow> string \<Rightarrow> string" where
  "pad_right w s = s @ replicate (w - length s) (CHR '' '')"

definition pad_left :: "int \<Rightarrow> string \<Rightarrow> string" where
  "pad_left w s =
     (if 0 \<le> w then replicate (nat w - length s) (CHR '' '') @ s else pad_right (nat (- w)) s)"

definition printIfListConfigured :: "string \<Rightarrow> string list \<Rightarrow> string list" where
  "printIfListConfigured message xs =
     (if length xs > 0 then [message @ join_with '', '' xs @ newline] else [])"

definition printAutoconfAwareConfig ::
  "string \<Rightarrow> string \<Rightarrow> string list \<Rightarrow> string list \<Rightarrow> bool \<Rightarrow> string list" where
  "printAutoconfAwareConfig placeholder nm original resolved autoconfEnabled =
     (if autoconfEnabled \<and> length original > 0 \<and> placeholder \<in> set original then
        (let nameLen = int (length nm);
             totalWidth = 40;
             paddingOriginal = totalWidth - nameLen - 1;
             paddingAutoconf = totalWidth - nameLen - 1
         in printIfListConfigured
              (''  '' @ nm @ '' '' @ pad_left paddingOriginal ''(original)'' @ '' = '') original @
            (if length resolved > 0
             then printIfListConfigured
                    (''  '' @ nm @ '' '' @ pad_left paddingAutoconf ''(autoconf)'' @ '' = '') resolved
             else [''  '' @ nm @ '' '' @ pad_left paddingAutoconf ''(autoconf)'' @ '' = '' @ newline]))
      else printIfListConfigured (''  '' @ pad_right 40 nm @ '' = '') resolved)"

definition config_lines ::
  "('d, 's) daemon_lib \<Rightarrow> Config \<Rightarrow> string list \<Rightarrow> Config \<Rightarrow> string list \<Rightarrow> string list" where
  "config_lines lib cfg0 originalDNSResolvers cfg customDNSResolvers =
     (let auto = printAutoconfAwareConfig (AutoPlaceholder (da_autoconf lib));
          on = ac_Enabled (AutoConf cfg)
      in printIfListConfigured (''  '' @ pad_right 40 ''RAINBOW_GATEWAY_DOMAINS'' @ '' = '') (GatewayDomains cfg) @
         printIfListConfigured (''  '' @ pad_right 40 ''RAINBOW_SUBDOMAIN_GATEWAY_DOMAINS'' @ '' = '')
           (SubdomainGatewayDomains cfg) @
         printIfListConfigured (''  '' @ pad_right 40 ''RAINBOW_TRUSTLESS_GATEWAY_DOMAINS'' @ '' = '')
           (TrustlessGatewayDomains cfg) @
         (if on then [''  '' @ pad_right 40 ''RAINBOW_AUTOCONF_URL'' @ '' = '' @ ac_URL (AutoConf cfg) @ newline]
          else [''  '' @ pad_right 40 ''RAINBOW_AUTOCONF'' @ '' = false'' @ newline]) @
         auto ''RAINBOW_HTTP_ROUTERS'' (RoutingV1Endpoints cfg0) (RoutingV1Endpoints cfg) on @
         auto ''RAINBOW_DNSLINK_RESOLVERS'' originalDNSResolvers customDNSResolvers on @
         printIfListConfigured (''  '' @ pad_right 40 ''RAINBOW_DNSLINK_GATEWAY_DOMAINS'' @ '' = '')
           (DNSLinkGatewayDomains cfg) @
         printIfListConfigured (''  '' @ pad_right 40 ''RAINBOW_REMOTE_BACKENDS'' @ '' = '') (RemoteBackends cfg) @
         auto ''RAINBOW_BOOTSTRAP'' (Bootstrap cfg0) (Bootstrap cfg) on)"

section \<open>What a start went through\<close>

lemma prepare_config_parts:
  assumes "prepare_config lib cctx fs = (fs', Inr (m, ident, cfg, shown))"
  shows "\<exists>cfg0. read_config (da_main lib) cctx fs = (fs', Inr (m, ident, cfg0)) \<and>
    expand_config lib cfg0 (c_StringSlice cctx ''dnslink-resolvers'') = Inr (cfg, shown) \<and>
    check_bootstrap lib m cfg = None"
  using assms by (auto simp: prepare_config_def split: prod.splits sum.splits option.splits)

lemma read_config_parts:
  assumes "read_config lib cctx fs = (fs', Inr (m, ident, cfg))"
  shows "\<exists>ignored. m = read_modes cctx \<and> load_identity lib cctx m fs = (fs', Inr ident) \<and>
    cfg = build_config cctx m ident ignored"
  using assms by (auto simp: read_config_def Let_def split: prod.splits sum.splits)

lemma expand_config_parts:
  assumes "expand_config lib cfg0 rs = Inr (cfg, shown)"
  shows "\<exists>boot routers dns res d. d = load_autoconf lib cfg0 \<and>
    expandAutoBootstrap (da_autoconf lib) (hd (Bootstrap cfg0)) cfg0 d = Inr boot \<and>
    expandAutoHTTPRouters (da_autoconf lib) (RoutingV1Endpoints cfg0) (cfg0\<lparr>Bootstrap := boot\<rparr>) d = Inr routers \<and>
    expandAutoDNSResolvers (da_autoconf lib) rs (cfg0\<lparr>Bootstrap := boot, RoutingV1Endpoints := routers\<rparr>) d = Inr dns \<and>
    parseDNSResolversMap lib dns = Inr res \<and>
    cfg = cfg0\<lparr>Bootstrap := boot, RoutingV1Endpoints := routers,
      DNSLinkResolver := Some (case res of None \<Rightarrow> DefaultResolver | Some r \<Rightarrow> r)\<rparr>"
  using assms by (auto simp: expand_config_def Let_def split: sum.splits)

lemma expand_config_frame:
  assumes "expand_config lib cfg0 rs = Inr (cfg, shown)"
  shows "RemoteBackends cfg = RemoteBackends cfg0" "RemoteBackendMode cfg = RemoteBackendMode cfg0"
    "AutoConf cfg = AutoConf cfg0" "DHTRouting cfg = DHTRouting cfg0" "Bitswap cfg = Bitswap cfg0"
  using expand_config_parts [OF assms] by auto

lemma parseDNSResolversMap_Inr:
  "parseDNSResolversMap lib m = Inr res \<Longrightarrow> res = (if m = [] then None else Some (CustomResolver m))"
  by (auto simp: parseDNSResolversMap_def split: if_splits option.splits)

text \<open>C12: Nothing starts with a placeholder when autoconf is off: the bootstrap peers, the HTTP routers
  and the DNS resolvers of the configuration hold no \<open>auto\<close>, and if the DHT is used there is
  at least one non-empty bootstrap entry.\<close>

theorem started_config_has_no_placeholder:
  assumes "prepare_config lib cctx fs = (fs', Inr (m, ident, cfg, shown))"
    and "\<not> ac_Enabled (AutoConf cfg)"
  shows "AutoPlaceholder (da_autoconf lib) \<notin> set (Bootstrap cfg) \<and>
    AutoPlaceholder (da_autoconf lib) \<notin> set (RoutingV1Endpoints cfg) \<and>
    (\<exists>res. DNSLinkResolver cfg = Some res \<and>
      (case res of DefaultResolver \<Rightarrow> True
         | CustomResolver rs \<Rightarrow> rs \<noteq> [] \<and> AutoPlaceholder (da_autoconf lib) \<notin> set (map snd rs))) \<and>
    (md_libp2p m \<and> DHTRouting cfg \<noteq> DHTOff \<longrightarrow> (\<exists>p \<in> set (Bootstrap cfg). p \<noteq> []))"
proof -
  obtain cfg0 where e: "expand_config lib cfg0 (c_StringSlice cctx ''dnslink-resolvers'') = Inr (cfg, shown)"
    and cb: "check_bootstrap lib m cfg = None"
    using prepare_config_parts [OF assms(1)] by blast
  obtain boot routers dns res d where p:
    "expandAutoBootstrap (da_autoconf lib) (hd (Bootstrap cfg0)) cfg0 d = Inr boot"
    "expandAutoHTTPRouters (da_autoconf lib) (RoutingV1Endpoints cfg0) (cfg0\<lparr>Bootstrap := boot\<rparr>) d = Inr routers"
    "expandAutoDNSResolvers (da_autoconf lib) (c_StringSlice cctx ''dnslink-resolvers'')
       (cfg0\<lparr>Bootstrap := boot, RoutingV1Endpoints := routers\<rparr>) d = Inr dns"
    "parseDNSResolversMap lib dns = Inr res"
    and cfg: "cfg = cfg0\<lparr>Bootstrap := boot, RoutingV1Endpoints := routers,
      DNSLinkResolver := Some (case res of None \<Rightarrow> DefaultResolver | Some r \<Rightarrow> r)\<rparr>"
    using expand_config_parts [OF e] by blast
  have off: "\<not> ac_Enabled (AutoConf cfg0)" "\<not> ac_Enabled (AutoConf (cfg0\<lparr>Bootstrap := boot\<rparr>))"
    "\<not> ac_Enabled (AutoConf (cfg0\<lparr>Bootstrap := boot, RoutingV1Endpoints := routers\<rparr>))"
    using assms(2) by (simp_all add: cfg)
  note bs = boot.no_placeholder_left(2) [OF off(1) p(1)]
    and rs = rtr.no_placeholder_left(2) [OF off(2) p(2)]
    and ds = dns.no_placeholder_left(2) [OF off(3) p(3)]
  have "case res of None \<Rightarrow> True | Some r \<Rightarrow> r = CustomResolver dns \<and> dns \<noteq> []"
    using parseDNSResolversMap_Inr [OF p(4)] by simp
  moreover have "md_libp2p m \<and> DHTRouting cfg \<noteq> DHTOff \<longrightarrow> (\<exists>p \<in> set (Bootstrap cfg). p \<noteq> [])"
    using cb by (auto simp: check_bootstrap_def split: if_splits)
  ultimately show ?thesis using bs rs ds by (auto simp: cfg split: option.splits)
qed

lemma start_daemon_parts:
  assumes "start_daemon lib cctx reg fs = (fs', Done (Inr st))"
  shows "\<exists>m ident cfg shown gnd reg1 h. flag_actions cctx = None \<and>
    prepare_config lib cctx fs = (fs', Inr (m, ident, cfg, shown)) \<and>
    setup_node lib m ident cfg = Done (Inr gnd) \<and>
    setupGatewayHandler (da_gateway lib) cfg gnd reg = Ret (Inr (reg1, h)) \<and>
    printed_peer_id lib ident = Inr (st_PeerID st) \<and>
    st_Config st = cfg \<and> st_Node st = gnd \<and>
    srv_Handler (st_apiSrv st) = mux_serve (gl_redirect_to (da_gateway lib))
      (apiMux (da_debug lib) (da_ctl lib) (da_gc lib) (da_host_ops lib) (da_ctx_done lib) gnd)"
  using assms
  by (auto simp: start_daemon_def serve_def result_simps split: option.splits prod.splits sum.splits)

lemma read_modes_remote:
  "md_remoteBackends (read_modes cctx) = c_StringSlice cctx ''remote-backends''"
  "c_StringSlice cctx ''remote-backends'' \<noteq> [] \<Longrightarrow>
     \<not> md_libp2p (read_modes cctx) \<and> \<not> md_bitswap (read_modes cctx) \<and> md_dhtRouting (read_modes cctx) = DHTOff"
  by (simp_all add: read_modes_def Let_def)

section \<open>The control endpoint without a host\<close>

lemma apiMux_paths:
  "map fst (apiMux lib ctl gc ops cd gnd) =
    [''/debug/metrics/prometheus'', ''/debug/vars'', ''/debug/pprof/'', ''/debug/stack'',
     ''/debug/pprof-mutex/'', ''/debug/pprof-block/'', ''/mgr/gc'', ''/mgr/purge'', ''/mgr/peers'',
     ''/mgr/log/level'', ''/mgr/log/ls'']"
  by (simp add: apiMux_def addLogHandlers_def makeMetricsAndDebuggingHandler_def)

text \<open>In a mux in which only one entry matches a clean path, that entry is the route.\<close>

lemma longest_match_only:
  assumes "list_all2 (\<lambda>(pat, h) b. pattern_matches pat p = b) mux bs"
    and "i < length mux" and "bs = replicate i False @ True # replicate (length mux - i - 1) False"
  shows "longest_match mux p = Some (mux ! i)"
  using assms
proof (induction mux arbitrary: i bs)
  case (Cons e mux)
  have none: "list_all2 (\<lambda>(pat, h) b. pattern_matches pat p = b) mux (replicate n False) \<Longrightarrow>
      longest_match mux p = None" for n
  proof (induction mux arbitrary: n)
    case (Cons e mux)
    then show ?case by (cases e; cases n) auto
  qed simp
  obtain pat h where e: "e = (pat, h)" by (cases e)
  show ?case
  proof (cases i)
    case 0
    with Cons.prems e none [of "length mux"] show ?thesis by (auto split: option.split)
  next
    case (Suc j)
    with Cons.prems e Cons.IH [of "replicate j False @ True # replicate (length mux - j - 1) False" j]
    show ?thesis by auto
  qed
qed simp

definition api_matches :: "string \<Rightarrow> bool list" where
  "api_matches p = map (\<lambda>pat. pattern_matches pat p)
    [''/debug/metrics/prometheus'', ''/debug/vars'', ''/debug/pprof/'', ''/debug/stack'',
     ''/debug/pprof-mutex/'', ''/debug/pprof-block/'', ''/mgr/gc'', ''/mgr/purge'', ''/mgr/peers'',
     ''/mgr/log/level'', ''/mgr/log/ls'']"

lemma api_matches_all2:
  "list_all2 (\<lambda>(pat, h) b. pattern_matches pat p = b) (apiMux lib ctl gc ops cd gnd) (api_matches p)"
  by (simp add: apiMux_def addLogHandlers_def makeMetricsAndDebuggingHandler_def api_matches_def)

lemma api_route:
  assumes "api_matches p = replicate i False @ True # replicate (10 - i) False" and "i < 11"
    and "cleanPath p = p" and "fst (apiMux lib ctl gc ops cd gnd ! i) = p"
  shows "mux_route (apiMux lib ctl gc ops cd gnd) p = ToHandler (snd (apiMux lib ctl gc ops cd gnd ! i))"
proof -
  have len: "length (apiMux lib ctl gc ops cd gnd) = 11"
    by (simp add: apiMux_def addLogHandlers_def makeMetricsAndDebuggingHandler_def)
  have "longest_match (apiMux lib ctl gc ops cd gnd) p = Some (apiMux lib ctl gc ops cd gnd ! i)"
    by (rule longest_match_only [OF api_matches_all2]) (use assms(1,2) len in simp_all)
  then show ?thesis
    using assms(3,4) by (cases "apiMux lib ctl gc ops cd gnd ! i") (simp add: mux_route_def Let_def)
qed

lemma api_route_purge:
  "mux_route (apiMux lib ctl gc ops cd gnd) ''/mgr/purge'' =
     ToHandler (purgePeerHandler ctl (map_option ops (nd_host gnd)))"
proof -
  have "api_matches ''/mgr/purge'' = replicate 7 False @ True # replicate (10 - 7) False" by code_simp
  moreover have "cleanPath ''/mgr/purge'' = ''/mgr/purge''" by code_simp
  ultimately show ?thesis
    using api_route [of "''/mgr/purge''" 7 lib ctl gc ops cd gnd]
    by (simp add: apiMux_def addLogHandlers_def makeMetricsAndDebuggingHandler_def)
qed

lemma api_route_peers:
  "mux_route (apiMux lib ctl gc ops cd gnd) ''/mgr/peers'' =
     ToHandler (showPeersHandler ctl (map_option ops (nd_host gnd)))"
proof -
  have "api_matches ''/mgr/peers'' = replicate 8 False @ True # replicate (10 - 8) False" by code_simp
  moreover have "cleanPath ''/mgr/peers'' = ''/mgr/peers''" by code_simp
  ultimately show ?thesis
    using api_route [of "''/mgr/peers''" 8 lib ctl gc ops cd gnd]
    by (simp add: apiMux_def addLogHandlers_def makeMetricsAndDebuggingHandler_def)
qed

section \<open>Starting on remote backends\<close>

text \<open>C16: A daemon on remote backends has no libp2p at all: whatever the other flags say, a successful
  start reads and writes no secrets, prints no peer ID and has no host; on its control
  endpoint every request for the peer list and every purge of all peers then panics in the
  handler, while the garbage collection endpoint leaves all blocks alone.\<close>

theorem remote_backends_daemon_has_no_host:
  assumes "start_daemon lib cctx reg fs = (fs', Done (Inr st))"
    and "c_StringSlice cctx ''remote-backends'' \<noteq> []"
  shows "fs' = fs \<and> st_PeerID st = None \<and> nd_host (st_Node st) = None \<and>
    (rq_Path r = ''/mgr/peers'' \<longrightarrow> snd (srv_Handler (st_apiSrv st) r s) = Panic) \<and>
    (rq_Path r = ''/mgr/purge'' \<and> Values_Get (rq_Query r) ''peer'' = ''all'' \<longrightarrow>
      snd (srv_Handler (st_apiSrv st) r s) = Panic) \<and>
    (\<forall>gc ctx cd n (b :: 'b). GC gc (st_Node st) ctx cd n b = (b, None))"
proof -
  obtain m ident cfg shown reg1 h where p:
    "prepare_config lib cctx fs = (fs', Inr (m, ident, cfg, shown))"
    "setup_node lib m ident cfg = Done (Inr (st_Node st))"
    "printed_peer_id lib ident = Inr (st_PeerID st)"
    "srv_Handler (st_apiSrv st) = mux_serve (gl_redirect_to (da_gateway lib))
      (apiMux (da_debug lib) (da_ctl lib) (da_gc lib) (da_host_ops lib) (da_ctx_done lib) (st_Node st))"
    using start_daemon_parts [OF assms(1)] by blast
  obtain cfg0 where "read_config (da_main lib) cctx fs = (fs', Inr (m, ident, cfg0))"
    using prepare_config_parts [OF p(1)] by blast
  then have m: "m = read_modes cctx" and id: "load_identity (da_main lib) cctx m fs = (fs', Inr ident)"
    using read_config_parts by blast+
  have off: "\<not> md_libp2p m" using read_modes_remote(2) [OF assms(2)] m by simp
  with id have ident: "fs' = fs" "id_priv ident = None" by (auto simp: load_identity_def)
  have "SetupNoLibp2p (da_setup lib) cfg = Inr (st_Node st)" using p(2) off by (simp add: setup_node_def)
  note node = no_libp2p_node_is_remote_only [OF this, where ?'s = 'b]
  then have nil: "nd_host (st_Node st) = None" by blast
  have "st_PeerID st = None" using p(3) ident(2) by (simp add: printed_peer_id_def)
  moreover have "snd (srv_Handler (st_apiSrv st) r s) = Panic" if "rq_Path r = ''/mgr/peers''"
    using peer_handlers_need_host [of "da_ctl lib" r s]
    by (simp add: p(4) mux_serve_def that api_route_peers nil)
  moreover have "snd (srv_Handler (st_apiSrv st) r s) = Panic"
    if "rq_Path r = ''/mgr/purge''" "Values_Get (rq_Query r) ''peer'' = ''all''"
    using peer_handlers_need_host [of "da_ctl lib" r s] that(2)
    by (simp add: p(4) mux_serve_def that(1) api_route_purge nil)
  ultimately show ?thesis using ident(1) nil node by blast
qed


section \<open>A concrete start\<close>

definition example_version_lib :: version_lib where
  "example_version_lib = \<lparr>vl_verMap = [(''version'', ''v1'')], vl_ReadBuildInfo = None, vl_day = id\<rparr>"

definition example_host_calls :: "mem_state host_ops" where
  "example_host_calls = \<lparr>hp_Peers = (\<lambda>s. []), hp_HasPeerstore = True, hp_RemovePeer = (\<lambda>p s. s),
     hp_ClearAddrs = (\<lambda>p s. s), hp_ClosePeer = (\<lambda>p s. (s, None))\<rparr>"

definition example_daemon_lib :: "(unit, mem_state) daemon_lib" where
  "example_daemon_lib =
     \<lparr>da_main = example_main_lib, da_autoconf = example_autoconf_lib,
      da_client_Start = (\<lambda>c. (None, None)), da_NewDNSResolver_error = (\<lambda>m. None),
      da_setup = example_setup_lib, da_gateway = example_gateway_lib,
      da_tracer = example_tracing_provider_lib, da_version_lib = example_version_lib,
      da_version = ''v1'',
      da_debug = \<lparr>dg_promhttp = (\<lambda>r s. (s, Ret empty_response)),
        dg_DefaultServeMux = (\<lambda>r s. (s, Ret empty_response)), dg_stacks = (\<lambda>s n. [])\<rparr>,
      da_ctl = example_ctl_gc, da_gc = example_gc_lib, da_host_ops = (\<lambda>h. example_host_calls),
      da_ctx_done = (\<lambda>n. None)\<rparr>"

text \<open>Remote backends, nothing else: autoconf off, no routers, the default resolver.\<close>

definition example_remote_cctx :: cli_ctx where
  "example_remote_cctx =
     \<lparr>c_String = (\<lambda>name. if name = ''remote-backends-mode'' then ''block''
        else if name = ''ctl-listen-address'' then ''127.0.0.1:8091'' else []),
      c_Bool = (\<lambda>name. False), c_Int = (\<lambda>name. 0), c_Int64 = (\<lambda>name. 0), c_Uint64 = (\<lambda>name. 0),
      c_Float64 = (\<lambda>name. F64 0 0), c_Duration = (\<lambda>name. 0),
      c_StringSlice = (\<lambda>name. if name = ''remote-backends'' then [''https://r''] else []),
      c_IsSet = (\<lambda>name. name = ''remote-backends'')\<rparr>"

lemma example_cctx_facts:
  "c_StringSlice example_remote_cctx ''remote-backends'' = [''https://r'']"
  "c_StringSlice example_remote_cctx ''dnslink-resolvers'' = []"
  "c_StringSlice example_remote_cctx ''routing-ignore-providers'' = []"
  "c_StringSlice example_remote_cctx ''http-routers'' = []"
  "c_String example_remote_cctx ''bootstrap'' = []"
  "c_String example_remote_cctx ''remote-backends-mode'' = RemoteBackendBlock"
  "flag_actions example_remote_cctx = None"
  by (simp_all add: example_remote_cctx_def flag_actions_def backend_mode_defs)

lemma example_prepare:
  "\<exists>cfg ident. prepare_config example_daemon_lib example_remote_cctx fs =
       (fs, Inr (read_modes example_remote_cctx, ident, cfg, [])) \<and> id_priv ident = None \<and>
     RemoteBackends cfg = [''https://r''] \<and> \<not> ac_Enabled (AutoConf cfg) \<and> \<not> disableMetrics cfg"
proof -
  let ?m = "read_modes example_remote_cctx"
    and ?id = "\<lparr>id_seed = [], id_index = 0, id_priv = None, id_peering = []\<rparr>"
  let ?cfg = "build_config example_remote_cctx ?m ?id []"
  have off: "\<not> md_libp2p ?m" and rb: "md_remoteBackends ?m = [''https://r'']"
    using read_modes_remote [of example_remote_cctx] by (simp_all add: example_cctx_facts)
  have "load_identity example_main_lib example_remote_cctx ?m fs = (fs, Inr ?id)"
    using off by (simp add: load_identity_def)
  then have rc: "read_config example_main_lib example_remote_cctx fs = (fs, Inr (?m, ?id, ?cfg))"
    by (simp add: read_config_def Let_def ignored_providers_def example_cctx_facts)
  have auto: "\<not> ac_Enabled (AutoConf ?cfg)" by (simp add: build_config_fields example_remote_cctx_def)
  have routers: "RoutingV1Endpoints ?cfg = []" "disableMetrics ?cfg = False"
    by (simp_all add: build_config_def Let_def example_cctx_facts) (simp add: zero_Config_def)
  have "\<exists>cfg. expand_config example_daemon_lib ?cfg [] = Inr (cfg, []) \<and> RemoteBackends cfg = RemoteBackends ?cfg \<and>
      AutoConf cfg = AutoConf ?cfg \<and> disableMetrics cfg = disableMetrics ?cfg"
    by (simp add: expand_config_def Let_def expandAutoBootstrap_def expandAutoHTTPRouters_def
        expandAutoDNSResolvers_def resolvers_map_def gomap_empty_def auto routers build_config_fields(7)
        example_cctx_facts parseDNSResolversMap_def)
  then obtain cfg where "expand_config example_daemon_lib ?cfg [] = Inr (cfg, [])"
    "RemoteBackends cfg = RemoteBackends ?cfg" "AutoConf cfg = AutoConf ?cfg"
    "disableMetrics cfg = disableMetrics ?cfg" by blast
  moreover have "da_main example_daemon_lib = example_main_lib" by (simp add: example_daemon_lib_def)
  ultimately show ?thesis
    using rc auto routers off rb
    by (simp add: prepare_config_def example_cctx_facts check_bootstrap_def build_config_fields(3))
qed

lemma MustRegister_example:
  "\<forall>m. Metric m \<in> set reg \<longrightarrow> mt_Subsystem m \<noteq> ''rainbow'' \<Longrightarrow>
     registerVersionMetric example_prom_lib v reg = Ret (reg @ [Metric (version_metric v)])"
  "IpfsNodeCollector \<notin> set reg \<Longrightarrow>
     registerIpfsNodeCollector example_prom_lib reg = Ret (reg @ [IpfsNodeCollector])"
  by (auto simp: registerVersionMetric_def registerIpfsNodeCollector_def MustRegister_def example_prom_lib_def
      version_metric_def metric_id_def metrics_agree_def split: collector.splits)

lemma example_start:
  "\<exists>st. start_daemon example_daemon_lib example_remote_cctx [] empty_fs = (empty_fs, Done (Inr st))"
proof -
  obtain cfg ident where p: "prepare_config example_daemon_lib example_remote_cctx empty_fs =
       (empty_fs, Inr (read_modes example_remote_cctx, ident, cfg, []))" "id_priv ident = None"
     "RemoteBackends cfg = [''https://r'']" "\<not> disableMetrics cfg"
    using example_prepare by blast
  have off: "\<not> md_libp2p (read_modes example_remote_cctx)"
    using read_modes_remote(2) by (simp add: example_cctx_facts)
  obtain n where n: "SetupNoLibp2p example_setup_lib cfg = Inr n"
    using example_remote_start [of cfg] p(3) by auto
  let ?reg = "http_metrics ''ipfs'' @ http_metrics ''ipns''"
  obtain b where b: "setup_backend example_gateway_lib cfg n = Inr b" using example_backend by blast
  have c: "registry_contract (gl_prom example_gateway_lib)" and none: "no_http_metrics []"
    by (simp_all add: example_gateway_lib_def example_registry_contract no_http_metrics_def)
  have first: "withHTTPMetrics (gl_prom example_gateway_lib) g ''ipfs'' False [] =
      Ret (http_metrics ''ipfs'', instrumented (gl_prom example_gateway_lib) g ''ipfs'')" for g
    using withHTTPMetrics_first [OF c none, of g "''ipfs''"] by simp
  have ne: "''ipfs'' \<noteq> ''ipns''" by simp
  have second: "withHTTPMetrics (gl_prom example_gateway_lib) g ''ipns'' False (http_metrics ''ipfs'') =
      Ret (?reg, instrumented (gl_prom example_gateway_lib) g ''ipns'')" for g
    using withHTTPMetrics_second [OF c none ne, of g] by simp
  obtain h where h: "setupGatewayHandler example_gateway_lib cfg n [] = Ret (Inr (?reg, h))"
    using b p(4) by (auto simp: setupGatewayHandler_def Let_def first second)
  have reg: "registerVersionMetric (example_prom_lib :: mem_state prom_lib) v ?reg = Ret (?reg @ [Metric (version_metric v)])"
    "registerIpfsNodeCollector (example_prom_lib :: mem_state prom_lib) (?reg @ [Metric (version_metric v)]) =
       Ret ((?reg @ [Metric (version_metric v)]) @ [IpfsNodeCollector])" for v
    by (rule MustRegister_example; auto simp: http_metrics_def http_metric_defs)+
  have tp: "\<exists>tp. newTracerProvider example_tracing_provider_lib example_version_lib x = Ret (Inr tp)" for x
    by (simp add: newTracerProvider_def example_tracing_provider_lib_def example_version_lib_def
        buildVersion_def Let_def)
  have lib: "da_setup example_daemon_lib = example_setup_lib" "da_gateway example_daemon_lib = example_gateway_lib"
    "gl_prom example_gateway_lib = example_prom_lib" "da_tracer example_daemon_lib = example_tracing_provider_lib"
    "da_version_lib example_daemon_lib = example_version_lib"
    by (simp_all add: example_daemon_lib_def example_gateway_lib_def)
  obtain tp where "newTracerProvider example_tracing_provider_lib example_version_lib
    (c_Float64 example_remote_cctx ''sampling-fraction'') = Ret (Inr tp)" using tp by blast
  then show ?thesis
    using p(2) off n h reg
    by (simp add: start_daemon_def p(1) serve_def setup_node_def lib of_outcome_def of_panic_def
        printed_peer_id_def example_cctx_facts del: append_assoc)
qed

theorem remote_backends_daemon_has_no_host_witness:
  "\<exists>st. start_daemon example_daemon_lib example_remote_cctx [] empty_fs = (empty_fs, Done (Inr st)) \<and>
     nd_host (st_Node st) = None \<and>
     snd (srv_Handler (st_apiSrv st) (example_request\<lparr>rq_Path := ''/mgr/peers''\<rparr>) example_blocks) = Panic"
proof -
  obtain st where st: "start_daemon example_daemon_lib example_remote_cctx [] empty_fs = (empty_fs, Done (Inr st))"
    using example_start by blast
  have "c_StringSlice example_remote_cctx ''remote-backends'' \<noteq> []" by (simp add: example_cctx_facts)
  from remote_backends_daemon_has_no_host [OF st this, where ?'b = unit] st show ?thesis by auto
qed


theorem started_config_has_no_placeholder_witness:
  "\<exists>cfg m ident. prepare_config example_daemon_lib example_remote_cctx empty_fs =
       (empty_fs, Inr (m, ident, cfg, [])) \<and> ''auto'' \<notin> set (RoutingV1Endpoints cfg)"
proof -
  obtain cfg ident where p: "prepare_config example_daemon_lib example_remote_cctx empty_fs =
       (empty_fs, Inr (read_modes example_remote_cctx, ident, cfg, []))" "\<not> ac_Enabled (AutoConf cfg)"
    using example_prepare by blast
  have "AutoPlaceholder (da_autoconf example_daemon_lib) = ''auto''"
    by (simp add: example_daemon_lib_def example_autoconf_lib_def)
  with started_config_has_no_placeholder [OF p] p(1) show ?thesis by auto
qed

end
