(* ===== verification/Lifecycle.thy ===== *)
theory Lifecycle
  imports Node Node_Config
begin

text \<open>
  The running daemon (\<open>main.go\<close> lines 901-987): the main goroutine, the two server goroutines,
  the garbage collection goroutine and the goroutines that close the servers, with the
  channel \<open>quit\<close> (three places), the channel \<open>gcTickerDone\<close> (none) and the wait group. A step
  is one of them moving; which one moves is not determined. Signals and the timer belong
  to the environment.
\<close>

section \<open>The state\<close>

text \<open>The program points of the main goroutine, in the order of the source.\<close>

datatype main_pc =
    StartGateway | StartupGC | StartApi | StartTicker | NotifyReady | AwaitQuit | NotifyStopping
  | CloseGateway | CloseApi | StopTicker | SendDone | StopSubs | WaitGroup | Returned

fun stage :: "main_pc \<Rightarrow> nat" where
  "stage StartGateway = 0"
| "stage StartupGC = 1"
| "stage StartApi = 2"
| "stage StartTicker = 3"
| "stage NotifyReady = 4"
| "stage AwaitQuit = 5"
| "stage NotifyStopping = 6"
| "stage CloseGateway = 7"
| "stage CloseApi = 8"
| "stage StopTicker = 9"
| "stage SendDone = 10"
| "stage StopSubs = 11"
| "stage WaitGroup = 12"
| "stage Returned = 13"

text \<open>A server goroutine: in \<open>ListenAndServe\<close>, at the send on \<open>quit\<close>, or finished. The goroutine of
  \<open>go srv.Close()\<close>: not spawned, spawned, or done.\<close>

datatype srv_pc = NotStarted | Serving | Sending | Exited

datatype close_pc = NoClose | ClosePending | Closed

text \<open>The garbage collection goroutine: at its \<open>select\<close>, or in \<open>periodicGC\<close>.\<close>

datatype gc_pc = GcNone | Selecting | Collecting | GcEnded

datatype timer = Idle | Armed | Fired

datatype sd_state = SdNotifyReady | SdNotifyStopping

record daemon =
  dm_main :: main_pc
  dm_gateway :: srv_pc
  dm_api :: srv_pc
  dm_gateway_close :: close_pc
  dm_api_close :: close_pc
  dm_gc :: gc_pc
  dm_timer :: timer
  dm_quit :: nat
  dm_subs :: "http_subscriber list"
  dm_GCInterval :: i64
  dm_sd :: "sd_state list"

definition quit_capacity :: nat where
  "quit_capacity = 3"

definition launch :: "Config \<Rightarrow> Node \<Rightarrow> daemon" where
  "launch cfg gnd =
     \<lparr>dm_main = StartGateway, dm_gateway = NotStarted, dm_api = NotStarted,
      dm_gateway_close = NoClose, dm_api_close = NoClose, dm_gc = GcNone, dm_timer = Idle,
      dm_quit = 0, dm_subs = nd_denylistSubs gnd, dm_GCInterval = GCInterval cfg, dm_sd = []\<rparr>"

abbreviation has_ticker :: "daemon \<Rightarrow> bool" where
  "has_ticker d \<equiv> slt 0 (dm_GCInterval d)"

text \<open>What a server goroutine does with the result of \<open>ListenAndServe\<close>.\<close>

definition after_serve :: "error option \<Rightarrow> srv_pc" where
  "after_serve err =
     (case err of
        Some e \<Rightarrow> if \<not> errors_is_server_closed e then Sending else Exited
      | None \<Rightarrow> Exited)"

section \<open>The steps\<close>

text \<open>The steps of the program. \<open>ListenAndServe\<close> returns \<open>ErrServerClosed\<close> once the server is closed; a
  server that fails with another error is a step of its own.\<close>

inductive prog_step :: "daemon \<Rightarrow> daemon \<Rightarrow> bool" where
  start_gateway: "dm_main d = StartGateway \<Longrightarrow>
    prog_step d (d\<lparr>dm_main := StartupGC, dm_gateway := Serving\<rparr>)"
| startup_gc: "dm_main d = StartupGC \<Longrightarrow> prog_step d (d\<lparr>dm_main := StartApi\<rparr>)"
| start_api: "dm_main d = StartApi \<Longrightarrow> prog_step d (d\<lparr>dm_main := StartTicker, dm_api := Serving\<rparr>)"
| start_ticker: "dm_main d = StartTicker \<Longrightarrow> has_ticker d \<Longrightarrow>
    prog_step d (d\<lparr>dm_main := NotifyReady, dm_gc := Selecting, dm_timer := Armed\<rparr>)"
| no_ticker: "dm_main d = StartTicker \<Longrightarrow> \<not> has_ticker d \<Longrightarrow> prog_step d (d\<lparr>dm_main := NotifyReady\<rparr>)"
| notify_ready: "dm_main d = NotifyReady \<Longrightarrow>
    prog_step d (d\<lparr>dm_main := AwaitQuit, dm_sd := dm_sd d @ [SdNotifyReady]\<rparr>)"
| receive_quit: "dm_main d = AwaitQuit \<Longrightarrow> 0 < dm_quit d \<Longrightarrow>
    prog_step d (d\<lparr>dm_main := NotifyStopping, dm_quit := dm_quit d - 1\<rparr>)"
| notify_stopping: "dm_main d = NotifyStopping \<Longrightarrow>
    prog_step d (d\<lparr>dm_main := CloseGateway, dm_sd := dm_sd d @ [SdNotifyStopping]\<rparr>)"
| spawn_gateway_close: "dm_main d = CloseGateway \<Longrightarrow>
    prog_step d (d\<lparr>dm_main := CloseApi, dm_gateway_close := ClosePending\<rparr>)"
| spawn_api_close: "dm_main d = CloseApi \<Longrightarrow>
    prog_step d (d\<lparr>dm_main := StopTicker, dm_api_close := ClosePending\<rparr>)"
| stop_ticker: "dm_main d = StopTicker \<Longrightarrow> has_ticker d \<Longrightarrow>
    prog_step d (d\<lparr>dm_main := SendDone, dm_timer := Idle\<rparr>)"
| skip_ticker: "dm_main d = StopTicker \<Longrightarrow> \<not> has_ticker d \<Longrightarrow> prog_step d (d\<lparr>dm_main := StopSubs\<rparr>)"
| send_done: "dm_main d = SendDone \<Longrightarrow> dm_gc d = Selecting \<Longrightarrow>
    prog_step d (d\<lparr>dm_main := StopSubs, dm_gc := GcEnded\<rparr>)"
| stop_sub: "dm_main d = StopSubs \<Longrightarrow> dm_subs d = sub # subs \<Longrightarrow> prog_step d (d\<lparr>dm_subs := subs\<rparr>)"
| subs_stopped: "dm_main d = StopSubs \<Longrightarrow> dm_subs d = [] \<Longrightarrow> prog_step d (d\<lparr>dm_main := WaitGroup\<rparr>)"
| wait_done: "dm_main d = WaitGroup \<Longrightarrow> dm_gateway d \<notin> {Serving, Sending} \<Longrightarrow>
    dm_api d \<notin> {Serving, Sending} \<Longrightarrow> dm_gc d \<notin> {Selecting, Collecting} \<Longrightarrow>
    prog_step d (d\<lparr>dm_main := Returned\<rparr>)"
| gateway_closed: "dm_gateway_close d = ClosePending \<Longrightarrow> prog_step d (d\<lparr>dm_gateway_close := Closed\<rparr>)"
| api_closed: "dm_api_close d = ClosePending \<Longrightarrow> prog_step d (d\<lparr>dm_api_close := Closed\<rparr>)"
| gateway_returns: "dm_gateway d = Serving \<Longrightarrow> dm_gateway_close d = Closed \<Longrightarrow> errors_is_server_closed err \<Longrightarrow>
    prog_step d (d\<lparr>dm_gateway := after_serve (Some err)\<rparr>)"
| api_returns: "dm_api d = Serving \<Longrightarrow> dm_api_close d = Closed \<Longrightarrow> errors_is_server_closed err \<Longrightarrow>
    prog_step d (d\<lparr>dm_api := after_serve (Some err)\<rparr>)"
| gateway_sends: "dm_gateway d = Sending \<Longrightarrow> dm_quit d < quit_capacity \<Longrightarrow>
    prog_step d (d\<lparr>dm_gateway := Exited, dm_quit := dm_quit d + 1\<rparr>)"
| api_sends: "dm_api d = Sending \<Longrightarrow> dm_quit d < quit_capacity \<Longrightarrow>
    prog_step d (d\<lparr>dm_api := Exited, dm_quit := dm_quit d + 1\<rparr>)"
| gc_tick: "dm_gc d = Selecting \<Longrightarrow> dm_timer d = Fired \<Longrightarrow>
    prog_step d (d\<lparr>dm_gc := Collecting, dm_timer := Idle\<rparr>)"
| gc_collected: "dm_gc d = Collecting \<Longrightarrow> prog_step d (d\<lparr>dm_gc := Selecting, dm_timer := Armed\<rparr>)"

inductive fail_step :: "daemon \<Rightarrow> daemon \<Rightarrow> bool" where
  gateway_fails: "dm_gateway d = Serving \<Longrightarrow> \<not> errors_is_server_closed err \<Longrightarrow>
    fail_step d (d\<lparr>dm_gateway := after_serve (Some err)\<rparr>)"
| api_fails: "dm_api d = Serving \<Longrightarrow> \<not> errors_is_server_closed err \<Longrightarrow>
    fail_step d (d\<lparr>dm_api := after_serve (Some err)\<rparr>)"

definition own_step :: "daemon \<Rightarrow> daemon \<Rightarrow> bool" where
  "own_step d d' \<longleftrightarrow> prog_step d d' \<or> fail_step d d'"

text \<open>The environment: a signal is dropped when the channel is full, and a running timer fires.\<close>

inductive env_step :: "daemon \<Rightarrow> daemon \<Rightarrow> bool" where
  signal: "dm_quit d < quit_capacity \<Longrightarrow> env_step d (d\<lparr>dm_quit := dm_quit d + 1\<rparr>)"
| timer_fires: "dm_timer d = Armed \<Longrightarrow> env_step d (d\<lparr>dm_timer := Fired\<rparr>)"

definition daemon_step :: "daemon \<Rightarrow> daemon \<Rightarrow> bool" where
  "daemon_step d d' \<longleftrightarrow> own_step d d' \<or> env_step d d'"

inductive reachable :: "daemon \<Rightarrow> daemon \<Rightarrow> bool" for d0 where
  start: "reachable d0 d0"
| step: "reachable d0 d \<Longrightarrow> daemon_step d d' \<Longrightarrow> reachable d0 d'"

lemma own_stepE:
  assumes "own_step d d'"
  obtains (prog) "prog_step d d'" | (fails) "fail_step d d'"
  using assms by (auto simp: own_step_def)

section \<open>Every run of the program ends\<close>

text \<open>A bound on the steps the program can still make without a signal or a timer.\<close>

fun srv_left :: "srv_pc \<Rightarrow> nat" where
  "srv_left NotStarted = 3"
| "srv_left Serving = 2"
| "srv_left Sending = 1"
| "srv_left Exited = 0"

fun close_left :: "close_pc \<Rightarrow> nat" where
  "close_left NoClose = 2"
| "close_left ClosePending = 1"
| "close_left Closed = 0"

fun gc_left :: "gc_pc \<Rightarrow> timer \<Rightarrow> nat" where
  "gc_left GcNone t = 4"
| "gc_left Selecting t = (if t = Fired then 3 else 1)"
| "gc_left Collecting t = 2"
| "gc_left GcEnded t = 0"

definition steps_left :: "daemon \<Rightarrow> nat" where
  "steps_left d = (13 - stage (dm_main d)) + length (dm_subs d) + srv_left (dm_gateway d) +
     srv_left (dm_api d) + close_left (dm_gateway_close d) + close_left (dm_api_close d) +
     gc_left (dm_gc d) (dm_timer d)"

lemma after_serve_less: "srv_left (after_serve e) < 2"
  by (simp add: after_serve_def split: option.split)

section \<open>The invariant\<close>

text \<open>How the goroutines agree: each has been started, and is told to end, at its place in the main
  goroutine.\<close>

definition daemon_inv :: "daemon \<Rightarrow> bool" where
  "daemon_inv d \<longleftrightarrow>
     dm_quit d \<le> quit_capacity \<and>
     (dm_gateway d = NotStarted \<longleftrightarrow> stage (dm_main d) \<le> 0) \<and>
     (dm_api d = NotStarted \<longleftrightarrow> stage (dm_main d) \<le> 2) \<and>
     (dm_gateway_close d = NoClose \<longleftrightarrow> stage (dm_main d) \<le> 7) \<and>
     (dm_api_close d = NoClose \<longleftrightarrow> stage (dm_main d) \<le> 8) \<and>
     (dm_gc d = GcNone \<longleftrightarrow> \<not> has_ticker d \<or> stage (dm_main d) \<le> 3) \<and>
     (dm_gc d = GcEnded \<longleftrightarrow> has_ticker d \<and> 11 \<le> stage (dm_main d)) \<and>
     (dm_main d = SendDone \<longrightarrow> has_ticker d) \<and>
     (12 \<le> stage (dm_main d) \<longrightarrow> dm_subs d = []) \<and>
     (dm_main d = Returned \<longrightarrow> dm_gateway d = Exited \<and> dm_api d = Exited) \<and>
     dm_sd d = (if stage (dm_main d) \<le> 4 then []
       else if stage (dm_main d) \<le> 6 then [SdNotifyReady] else [SdNotifyReady, SdNotifyStopping])"

lemma launch_inv: "daemon_inv (launch cfg gnd)"
  by (simp add: daemon_inv_def launch_def quit_capacity_def)

lemma srv_pc_rest: "x \<noteq> NotStarted \<Longrightarrow> x \<notin> {Serving, Sending} \<Longrightarrow> x = Exited"
  by (cases x) auto

lemma after_serve_started: "after_serve e \<noteq> NotStarted" "after_serve e \<noteq> Serving"
  by (simp_all add: after_serve_def split: option.split)

lemma gc_pc_rest: "x \<notin> {Selecting, Collecting} \<Longrightarrow> x \<noteq> GcNone \<Longrightarrow> x = GcEnded"
  by (cases x) auto

lemma prog_step_inv: "prog_step d d' \<Longrightarrow> daemon_inv d \<Longrightarrow> daemon_inv d'"
proof (induction rule: prog_step.induct)
  case (wait_done d)
  then show ?case by (cases "dm_gateway d"; cases "dm_api d") (simp_all add: daemon_inv_def)
next
  case (send_done d)
  then show ?case by (simp add: daemon_inv_def)
next
  case (gateway_returns d err)
  then show ?case using after_serve_started by (cases "dm_main d") (simp_all add: daemon_inv_def)
next
  case (api_returns d err)
  then show ?case using after_serve_started by (cases "dm_main d") (simp_all add: daemon_inv_def)
qed (simp_all add: daemon_inv_def, auto)

lemma fail_step_inv: "fail_step d d' \<Longrightarrow> daemon_inv d \<Longrightarrow> daemon_inv d'"
  by (induction rule: fail_step.induct)
     (use after_serve_started in \<open>auto simp: daemon_inv_def\<close>)

lemma own_step_inv: "own_step d d' \<Longrightarrow> daemon_inv d \<Longrightarrow> daemon_inv d'"
  by (auto elim!: own_stepE intro: prog_step_inv fail_step_inv)

lemma env_step_inv: "env_step d d' \<Longrightarrow> daemon_inv d \<Longrightarrow> daemon_inv d'"
  by (induction rule: env_step.induct) (simp_all add: daemon_inv_def)

lemma reachable_inv: "reachable (launch cfg gnd) d \<Longrightarrow> daemon_inv d"
  by (induction rule: reachable.induct)
     (auto simp: daemon_step_def launch_inv intro: own_step_inv env_step_inv)

lemma prog_step_decreases: "prog_step d d' \<Longrightarrow> daemon_inv d \<Longrightarrow> steps_left d' < steps_left d"
proof (induction rule: prog_step.induct)
  case (gateway_returns d err)
  with after_serve_less [of "Some err"] show ?case by (simp add: steps_left_def)
next
  case (api_returns d err)
  with after_serve_less [of "Some err"] show ?case by (simp add: steps_left_def)
next
  case (start_ticker d)
  then have "dm_gc d = GcNone" by (simp add: daemon_inv_def)
  with start_ticker show ?case by (simp add: steps_left_def)
next
  case (stop_ticker d)
  then show ?case by (cases "dm_gc d") (simp_all add: steps_left_def)
qed (simp_all add: steps_left_def daemon_inv_def)

lemma own_step_decreases:
  assumes "own_step d d'" and "daemon_inv d"
  shows "steps_left d' < steps_left d"
  using assms(1)
proof (cases rule: own_stepE)
  case fails
  then show ?thesis
  proof cases
    case (gateway_fails err)
    with after_serve_less [of "Some err"] show ?thesis by (simp add: steps_left_def)
  next
    case (api_fails err)
    with after_serve_less [of "Some err"] show ?thesis by (simp add: steps_left_def)
  qed
qed (simp add: prog_step_decreases assms(2))

lemma own_runs:
  assumes "(own_step ^^ n) d d'" and "daemon_inv d"
  shows "daemon_inv d' \<and> n + steps_left d' \<le> steps_left d"
  using assms
proof (induction n arbitrary: d')
  case (Suc n)
  then obtain e where e: "(own_step ^^ n) d e" "own_step e d'" by auto
  with Suc have "daemon_inv e" "n + steps_left e \<le> steps_left d" by blast+
  with own_step_inv [OF e(2)] own_step_decreases [OF e(2)] show ?case by simp
qed simp

section \<open>Shutting down\<close>

text \<open>Servers that may still send on \<open>quit\<close>, and the room for them.\<close>

definition may_send :: "srv_pc \<Rightarrow> nat" where
  "may_send x = (if x = Exited then 0 else 1)"

definition quit_room :: "daemon \<Rightarrow> bool" where
  "quit_room d \<longleftrightarrow> dm_quit d + may_send (dm_gateway d) + may_send (dm_api d) \<le> quit_capacity"

lemma prog_step_room: "prog_step d d' \<Longrightarrow> quit_room d \<Longrightarrow> daemon_inv d \<Longrightarrow> quit_room d'"
proof (induction rule: prog_step.induct)
  case (start_gateway d)
  then show ?case by (simp add: quit_room_def may_send_def daemon_inv_def)
next
  case (start_api d)
  then show ?case by (simp add: quit_room_def may_send_def daemon_inv_def)
qed (auto simp: quit_room_def may_send_def split: if_splits)

lemma prog_step_stage: "prog_step d d' \<Longrightarrow> stage (dm_main d) \<le> stage (dm_main d')"
  by (induction rule: prog_step.induct) simp_all

lemma fail_step_frame:
  "fail_step d d' \<Longrightarrow> dm_main d' = dm_main d \<and> (quit_room d \<longrightarrow> quit_room d')"
  by (induction rule: fail_step.induct) (simp_all add: quit_room_def may_send_def)

lemma server_can_move:
  "dm_gateway d = Serving \<Longrightarrow> dm_gateway_close d \<noteq> NoClose \<Longrightarrow> \<exists>d'. prog_step d d'"
  "dm_api d = Serving \<Longrightarrow> dm_api_close d \<noteq> NoClose \<Longrightarrow> \<exists>d'. prog_step d d'"
  "dm_gateway d = Sending \<Longrightarrow> quit_room d \<Longrightarrow> \<exists>d'. prog_step d d'"
  "dm_api d = Sending \<Longrightarrow> quit_room d \<Longrightarrow> \<exists>d'. prog_step d d'"
proof -
  have closed: "errors_is_server_closed HttpServerClosed" by simp
  show "dm_gateway d = Serving \<Longrightarrow> dm_gateway_close d \<noteq> NoClose \<Longrightarrow> \<exists>d'. prog_step d d'"
    using closed by (cases "dm_gateway_close d") (blast intro: prog_step.intros)+
  show "dm_api d = Serving \<Longrightarrow> dm_api_close d \<noteq> NoClose \<Longrightarrow> \<exists>d'. prog_step d d'"
    using closed by (cases "dm_api_close d") (blast intro: prog_step.intros)+
  have room: "dm_gateway d = Sending \<or> dm_api d = Sending \<Longrightarrow> quit_room d \<Longrightarrow> dm_quit d < quit_capacity"
    by (auto simp: quit_room_def may_send_def)
  show "dm_gateway d = Sending \<Longrightarrow> quit_room d \<Longrightarrow> \<exists>d'. prog_step d d'"
    using room by (blast intro: prog_step.intros)
  show "dm_api d = Sending \<Longrightarrow> quit_room d \<Longrightarrow> \<exists>d'. prog_step d d'"
    using room by (blast intro: prog_step.intros)
qed

lemma shutdown_progress:
  assumes "daemon_inv d" and "quit_room d" and "6 \<le> stage (dm_main d)" and "dm_main d \<noteq> Returned"
  shows "\<exists>d'. prog_step d d'"
proof (cases "dm_main d")
  case StopTicker
  then show ?thesis by (cases "has_ticker d") (auto intro: prog_step.intros)
next
  case SendDone
  then have "dm_gc d \<noteq> GcNone" "dm_gc d \<noteq> GcEnded" using assms(1) by (auto simp: daemon_inv_def)
  then show ?thesis using SendDone by (cases "dm_gc d") (auto intro: prog_step.intros)
next
  case StopSubs
  then show ?thesis by (cases "dm_subs d") (auto intro: prog_step.intros)
next
  case WaitGroup
  show ?thesis
  proof (cases "dm_gateway d \<in> {Serving, Sending} \<or> dm_api d \<in> {Serving, Sending}")
    case True
    have "dm_gateway_close d \<noteq> NoClose" "dm_api_close d \<noteq> NoClose"
      using WaitGroup assms(1) by (simp_all add: daemon_inv_def)
    then show ?thesis using True server_can_move [of d] assms(2) by blast
  next
    case False
    have "dm_gc d \<notin> {Selecting, Collecting}" using WaitGroup assms(1) by (cases "has_ticker d") (auto simp: daemon_inv_def)
    with False WaitGroup show ?thesis by (blast intro: wait_done)
  qed
qed (use assms in \<open>auto intro: prog_step.intros\<close>)


lemma shutdown_kept:
  assumes "(own_step ^^ n) d e" and "daemon_inv d" "quit_room d" "6 \<le> stage (dm_main d)"
  shows "daemon_inv e \<and> quit_room e \<and> 6 \<le> stage (dm_main e)"
  using assms(1)
proof (induction n arbitrary: e)
  case (Suc n)
  then obtain f where "(own_step ^^ n) d f" and f: "own_step f e" by auto
  with Suc.IH have IH: "daemon_inv f" "quit_room f" "6 \<le> stage (dm_main f)" by blast+
  from f show ?case
  proof (cases rule: own_stepE)
    case prog
    with IH prog_step_inv prog_step_room prog_step_stage show ?thesis using order_trans by blast
  next
    case fails
    with IH fail_step_inv fail_step_frame show ?thesis by (metis)
  qed
qed (use assms in simp)

text \<open>C4: Shutting down ends: once the main goroutine has taken a value from \<open>quit\<close>, and as long as the
  channel has room for the servers that could still report a failure, the daemon on its own
  makes only a bounded number of steps, whichever goroutine moves first and whether the
  servers fail or close, and at each point before the main function has returned some
  goroutine can move without waiting for a failure, a signal or the timer.\<close>

theorem shutdown_completes:
  assumes "reachable (launch cfg gnd) d" and "6 \<le> stage (dm_main d)" and "quit_room d"
    and "(own_step ^^ n) d d'"
  shows "n \<le> steps_left d \<and> ((\<exists>d''. prog_step d' d'') \<or> dm_main d' = Returned)"
  using own_runs [OF assms(4) reachable_inv [OF assms(1)]]
    shutdown_kept [OF assms(4) reachable_inv [OF assms(1)] assms(3,2)] shutdown_progress
  by auto

section \<open>Concrete runs\<close>

lemma reach_prog: "reachable d0 d \<Longrightarrow> prog_step d e \<Longrightarrow> reachable d0 e"
  by (rule reachable.step) (auto simp: daemon_step_def own_step_def)

lemma reach_fail: "reachable d0 d \<Longrightarrow> fail_step d e \<Longrightarrow> reachable d0 e"
  by (rule reachable.step) (auto simp: daemon_step_def own_step_def)

lemma reach_env: "reachable d0 d \<Longrightarrow> env_step d e \<Longrightarrow> reachable d0 e"
  by (rule reachable.step) (auto simp: daemon_step_def)

text \<open>A daemon without denylists and without periodic collection.\<close>

definition quiet ::
  "main_pc \<Rightarrow> srv_pc \<Rightarrow> srv_pc \<Rightarrow> close_pc \<Rightarrow> close_pc \<Rightarrow> nat \<Rightarrow> sd_state list \<Rightarrow> daemon" where
  "quiet m g a gcl acl q sd =
     \<lparr>dm_main = m, dm_gateway = g, dm_api = a, dm_gateway_close = gcl, dm_api_close = acl,
      dm_gc = GcNone, dm_timer = Idle, dm_quit = q, dm_subs = [], dm_GCInterval = 0, dm_sd = sd\<rparr>"

lemma quiet_simps [simp]:
  "dm_main (quiet m g a gcl acl q sd) = m" "dm_gateway (quiet m g a gcl acl q sd) = g"
  "dm_api (quiet m g a gcl acl q sd) = a" "dm_gateway_close (quiet m g a gcl acl q sd) = gcl"
  "dm_api_close (quiet m g a gcl acl q sd) = acl" "dm_quit (quiet m g a gcl acl q sd) = q"
  "dm_subs (quiet m g a gcl acl q sd) = []" "\<not> has_ticker (quiet m g a gcl acl q sd)"
  "dm_gc (quiet m g a gcl acl q sd) = GcNone" "dm_sd (quiet m g a gcl acl q sd) = sd"
  "quiet m g a gcl acl q sd\<lparr>dm_main := m'\<rparr> = quiet m' g a gcl acl q sd"
  "quiet m g a gcl acl q sd\<lparr>dm_gateway := g'\<rparr> = quiet m g' a gcl acl q sd"
  "quiet m g a gcl acl q sd\<lparr>dm_api := a'\<rparr> = quiet m g a' gcl acl q sd"
  "quiet m g a gcl acl q sd\<lparr>dm_gateway_close := gcl'\<rparr> = quiet m g a gcl' acl q sd"
  "quiet m g a gcl acl q sd\<lparr>dm_api_close := acl'\<rparr> = quiet m g a gcl acl' q sd"
  "quiet m g a gcl acl q sd\<lparr>dm_quit := q'\<rparr> = quiet m g a gcl acl q' sd"
  "quiet m g a gcl acl q sd\<lparr>dm_sd := sd'\<rparr> = quiet m g a gcl acl q sd'"
  by (simp_all add: quiet_def slt_def)

lemma quiet_launch:
  "launch zero_Config zero_Node = quiet StartGateway NotStarted NotStarted NoClose NoClose 0 []"
  by (simp add: launch_def quiet_def zero_Node_def) (simp add: zero_Config_def)

lemma quiet_serving:
  "reachable (launch zero_Config zero_Node) (quiet AwaitQuit Serving Serving NoClose NoClose 0 [SdNotifyReady])"
proof -
  have "reachable (launch zero_Config zero_Node) (quiet StartGateway NotStarted NotStarted NoClose NoClose 0 [])"
    unfolding quiet_launch by (rule reachable.start)
  from reach_prog [OF this start_gateway]
  have "reachable (launch zero_Config zero_Node) (quiet StartupGC Serving NotStarted NoClose NoClose 0 [])" by simp
  from reach_prog [OF this startup_gc]
  have "reachable (launch zero_Config zero_Node) (quiet StartApi Serving NotStarted NoClose NoClose 0 [])" by simp
  from reach_prog [OF this start_api]
  have "reachable (launch zero_Config zero_Node) (quiet StartTicker Serving Serving NoClose NoClose 0 [])" by simp
  from reach_prog [OF this no_ticker]
  have "reachable (launch zero_Config zero_Node) (quiet NotifyReady Serving Serving NoClose NoClose 0 [])" by simp
  from reach_prog [OF this notify_ready] show ?thesis by simp
qed

lemma quiet_signals:
  "n \<le> 3 \<Longrightarrow> reachable d0 (quiet m g a gcl acl 0 sd) \<Longrightarrow> reachable d0 (quiet m g a gcl acl n sd)"
proof (induction n)
  case (Suc n)
  from reach_env [OF Suc.IH signal] Suc.prems show ?case by (simp add: quit_capacity_def)
qed simp

lemma quiet_quit:
  assumes "0 < n" and "n \<le> 3"
  shows "reachable (launch zero_Config zero_Node)
    (quiet NotifyStopping Serving Serving NoClose NoClose (n - 1) [SdNotifyReady])"
  using reach_prog [OF quiet_signals [OF assms(2) quiet_serving] receive_quit] assms(1) by simp


theorem shutdown_completes_witness:
  "\<exists>d. reachable (launch zero_Config zero_Node) d \<and> dm_main d = NotifyStopping \<and>
     (\<exists>d'. prog_step d d')"
proof -
  let ?d = "quiet NotifyStopping Serving Serving NoClose NoClose 0 [SdNotifyReady]"
  from quiet_quit [of 1] have r: "reachable (launch zero_Config zero_Node) ?d" by simp
  have q: "quit_room ?d" by (simp add: quit_room_def may_send_def quit_capacity_def)
  have "6 \<le> stage (dm_main ?d)" "(own_step ^^ 0) ?d ?d" by simp_all
  from shutdown_completes [OF r this(1) q this(2)] r show ?thesis by (intro exI [of _ ?d]) auto
qed

text \<open>The main goroutine waits for a server that waits for room in the channel, which nobody reads.\<close>

lemma blocked_step:
  assumes "daemon_step d d'" and "dm_main d = WaitGroup" "dm_gateway d = Sending" "dm_quit d = quit_capacity"
  shows "dm_main d' = WaitGroup \<and> dm_gateway d' = Sending \<and> dm_quit d' = quit_capacity"
proof -
  have ?thesis if "prog_step d d'"
    using that assms(2-) by (cases rule: prog_step.cases) simp_all
  moreover have ?thesis if "fail_step d d'"
    using that assms(2-) by (cases rule: fail_step.cases) simp_all
  moreover have ?thesis if "env_step d d'"
    using that assms(2-) by (cases rule: env_step.cases) simp_all
  ultimately show ?thesis using assms(1) by (auto simp: daemon_step_def own_step_def)
qed

lemma blocked_forever:
  assumes "daemon_step\<^sup>*\<^sup>* d d'" and "dm_main d = WaitGroup" "dm_gateway d = Sending" "dm_quit d = quit_capacity"
  shows "dm_main d' = WaitGroup \<and> dm_gateway d' = Sending \<and> dm_quit d' = quit_capacity"
  using assms(1)
proof induction
  case (step d1 d2)
  then show ?case using blocked_step by blast
qed (use assms in simp)

text \<open>C31: Without that room shutting down can block for good: four signals, three of them before the main
  goroutine reads one, and a gateway server that fails before it is closed, lead to a
  state in which the main goroutine waits for the gateway goroutine, that goroutine waits to
  send on a full channel nobody reads any more, and no later event ever lets main return.\<close>

theorem shutdown_can_block:
  "\<exists>d. reachable (launch zero_Config zero_Node) d \<and> dm_main d = WaitGroup \<and> dm_gateway d = Sending \<and>
     (\<nexists>d'. daemon_step\<^sup>*\<^sup>* d d' \<and> dm_main d' = Returned)"
proof -
  let ?R = "reachable (launch zero_Config zero_Node)" and ?up = "[SdNotifyReady, SdNotifyStopping]"
  have "?R (quiet NotifyStopping Serving Serving NoClose NoClose 2 [SdNotifyReady])" using quiet_quit [of 3] by simp
  from reach_prog [OF this notify_stopping]
  have "?R (quiet CloseGateway Serving Serving NoClose NoClose 2 ?up)" by simp
  from reach_env [OF this signal]
  have "?R (quiet CloseGateway Serving Serving NoClose NoClose 3 ?up)" by (simp add: quit_capacity_def)
  from reach_fail [OF this gateway_fails [of _ "Err ''accept''"]]
  have "?R (quiet CloseGateway Sending Serving NoClose NoClose 3 ?up)" by (simp add: after_serve_def)
  from reach_prog [OF this spawn_gateway_close]
  have "?R (quiet CloseApi Sending Serving ClosePending NoClose 3 ?up)" by simp
  from reach_prog [OF this spawn_api_close]
  have "?R (quiet StopTicker Sending Serving ClosePending ClosePending 3 ?up)" by simp
  from reach_prog [OF this skip_ticker]
  have "?R (quiet StopSubs Sending Serving ClosePending ClosePending 3 ?up)" by simp
  from reach_prog [OF this subs_stopped]
  have "?R (quiet WaitGroup Sending Serving ClosePending ClosePending 3 ?up)" by simp
  then show ?thesis
    using blocked_forever [where d = "quiet WaitGroup Sending Serving ClosePending ClosePending 3 ?up"]
    by (intro exI [of _ "quiet WaitGroup Sending Serving ClosePending ClosePending 3 ?up"])
       (auto simp: quit_capacity_def)
qed

end
