(* ===== verification/Spec2Isabelle.thy ===== *)
theory Spec2Isabelle
  imports Daemon Lifecycle
begin

text \<open>
  A model of rainbow, the IPFS HTTP gateway daemon, with the theorems that make it correct.

  \<^bold>\<open>The program.\<close> \<open>main\<close> (\<open>src/main.go\<close>) reads its flags, the identity and the peers, expands the
  \<open>auto\<close> placeholders (\<open>autoconf.go\<close>), assembles a node with or without libp2p (\<open>setup.go\<close>,
  \<open>setup_routing.go\<close>, \<open>setup_bitswap.go\<close>, \<open>rcmgr.go\<close>, \<open>keys.go\<close>), builds the gateway handler and
  the control endpoint (\<open>handlers.go\<close>, \<open>metrics.go\<close>, \<open>tracing.go\<close>, \<open>version.go\<close>), and then runs two
  servers and a periodic garbage collection (\<open>gc.go\<close>) until a signal or a failing server ends
  it. The outgoing HTTP clients share \<open>http_client.go\<close> and \<open>dns_cache.go\<close>.

  \<^bold>\<open>Theories.\<close> Each component has one theory; names of definitions are those of the source where
  they exist there, and the other definitions are parts of a function of the source.
  \<^item> \<open>Rainbow_Prelude\<close>, \<open>Go_Text\<close>, \<open>Go_Float64\<close>: what the model needs of Go: errors (a datatype, with
    \<open>errors.Is\<close>), results (\<open>error + 'a\<close>), panics (\<open>outcome\<close>), 64-bit words read signed or unsigned,
    \<open>float64\<close> with rounding, maps (a locale with its implementation), strings, paths, decimals
    and quoting.
  \<^item> \<open>Node_Config\<close>, \<open>Node\<close>: the \<open>Config\<close> and \<open>Node\<close> structs. Objects made by libraries (hosts, routers,
    block services, resolvers) are descriptions: a datatype with the constructor call and its
    arguments, so that the theorems can say what a node is made of.
  \<^item> \<open>Cli\<close>: flag table, flag actions, \<open>gen-seed\<close>, modes, identity, \<open>Config\<close> (\<open>main.go\<close> 79-784).
  \<^item> \<open>Keys\<close>, \<open>Rcmgr\<close>, \<open>Datastore\<close>, \<open>Blockstore\<close>, \<open>Gc\<close>, \<open>Autoconf\<close>, \<open>Routing\<close>, \<open>Bitswap\<close>: the parts of a node.
  \<^item> \<open>Setup\<close>: \<open>SetupWithLibp2p\<close> and \<open>SetupNoLibp2p\<close>; a set-up returns, fails, panics or diverges (\<open>run\<close>).
  \<^item> \<open>Http\<close>, \<open>Metrics\<close>, \<open>Gateway\<close>, \<open>Ctl_Handlers\<close>: handlers as functions from a request and a state
    to a state and a response or a panic; \<open>http.ServeMux\<close>; the two muxes.
  \<^item> \<open>Tracing\<close>, \<open>Clients\<close>: version, samplers, round tripper, DNS cache and dialler.
  \<^item> \<open>Daemon\<close>: the start as one function, from the flags to the servers (\<open>main.go\<close> 786-933).
  \<^item> \<open>Lifecycle\<close>: the running daemon as a step relation on the goroutines' program points, the
    channel \<open>quit\<close>, the ticker and the wait group (\<open>main.go\<close> 901-997).

  \<^bold>\<open>Interfaces.\<close> The locales \<open>go_map\<close> (maps), \<open>blockstore\<close> and its extensions (what a store does with
  the blocks it is asked for), \<open>auto_expansion\<close> (the three placeholder expansions),
  \<open>dht_client\<close> and \<open>dht_bundle\<close> (the routing contract), \<open>addr_book\<close>, \<open>guard_middleware\<close>, \<open>int_option\<close> and
  \<open>peer_network\<close> state the contracts between components, and each is interpreted on the model's
  definitions.

  \<^bold>\<open>What the lemmas show.\<close>
  \<^item> Content safety: denylists guard every way to blocks, paths and names (\<open>Setup\<close>, \<open>Daemon\<close>), only
    peered nodes are served blocks (\<open>Bitswap\<close>), skipping the cache needs the token and never
    touches the node's own store (\<open>Http\<close>, over the switching blockstore of \<open>Blockstore\<close>).
  \<^item> Resources: shares and limits of the resource managers add up without wrap-around (\<open>Rcmgr\<close>);
    garbage collection deletes a minimal list of blocks that covers the deficit (\<open>Gc\<close>).
  \<^item> Identity: derived keys, the loop over the seed's other instances with its termination, the
    key file's round trip (\<open>Keys\<close>), where identity comes from (\<open>Cli\<close>).
  \<^item> Configuration: placeholders are refused or expanded on every path (\<open>Autoconf\<close>, \<open>Daemon\<close>), the
    table of gateways and the DNSLink policy (\<open>Gateway\<close>), datastores follow the flags.
  \<^item> Routing: capabilities, composition, the DHT of seed peering, and the bundled DHT as a
    refinement of the contract of its clients (\<open>Routing\<close>).
  \<^item> Shutdown: an invariant of all interleavings, termination and progress of the shutdown as
    long as \<open>quit\<close> has room, and a run that blocks for good when it has none (\<open>Lifecycle\<close>).

  \<^bold>\<open>Bounds and loops.\<close> Loops over data are structural recursion. Two loops of the source may not end:
  \<open>derive_loop\<close> (its counter wraps around at the largest \<open>int\<close>) and \<open>stack_loop\<close>; both are partial
  functions, and the theorems say for which inputs they return. No fuel is used. Runs of the
  daemon are bounded by \<open>steps_left\<close>, a number computed from the state. \<open>int\<close>, \<open>int64\<close> and durations
  are 64-bit words. A Go map is iterated in no fixed order; the model iterates in the order of its
  association list, and no property depends on that order.

  \<^bold>\<open>Parameters.\<close> Every library the program calls is a record of functions (\<open>crypto_lib\<close>, \<open>rcmgr_lib\<close>,
  \<open>routing_lib\<close>, \<open>setup_lib\<close>, \<open>gateway_lib\<close>, \<open>gc_lib\<close>, \<open>ctl_lib\<close>, \<open>prom_lib\<close>, \<open>dns_lib\<close> and others); what a
  theorem needs of one is a hypothesis or a named contract, with an instance that satisfies it.

  \<^bold>\<open>Not modelled.\<close> The three \<open>init\<close> functions (registrations with other packages), log lines, the usage
  texts of the flags, the cancellation of contexts outside garbage collection, the deferred
  shutdown of the tracer, the byte content of the index page, and timing: durations are
  values, and only the ticker of the collection is an event. Concurrent requests are not
  interleaved: a handler is one step on the state.
\<close>

end
